(* ===== verification/Prelude.thy ===== *)
theory Prelude
  imports Main "HOL-Library.AList"
begin

text \<open>
  Shared vocabulary of the development. A Python \<open>dict\<close> keeps its keys in insertion
  order, \<open>d[k] = v\<close> overwrites an existing key in place and appends a new one, and
  \<open>del d[k]\<close> removes the key. An association list with distinct keys under
  \<^const>\<open>AList.update\<close> and \<^const>\<open>AList.delete\<close> behaves exactly so, which is why every
  dict of the program is a \<open>('k, 'v) dict\<close> below: iteration order (the order of the
  viewer lists the hub broadcasts) is part of the model. This theory holds the dict
  vocabulary, the well-formedness predicate \<open>dict_ok\<close> (distinct keys) and the lemmas
  on it that the component theories share, collected in \<open>dict_simps\<close>.
\<close>

named_theorems dict_simps "facts on Python dicts as association lists"

type_synonym ('k, 'v) dict = "('k \<times> 'v) list"

abbreviation dict_keys :: "('k, 'v) dict \<Rightarrow> 'k list" where
  "dict_keys d \<equiv> map fst d"

abbreviation dict_has :: "('k, 'v) dict \<Rightarrow> 'k \<Rightarrow> bool" where
  "dict_has d k \<equiv> k \<in> set (map fst d)"

text \<open>The length constraints of pydantic's \<open>Field\<close> on a string,
  \<open>Field(min_length=lo, max_length=hi)\<close>, and on an optional string with
  \<open>Field(default=None, max_length=n)\<close>, where \<open>None\<close> passes.\<close>

definition len_between :: "nat \<Rightarrow> nat \<Rightarrow> string \<Rightarrow> bool" where
  "len_between lo hi s \<longleftrightarrow> lo \<le> length s \<and> length s \<le> hi"

definition max_len_opt :: "nat \<Rightarrow> string option \<Rightarrow> bool" where
  "max_len_opt n v = (case v of None \<Rightarrow> True | Some s \<Rightarrow> length s \<le> n)"

definition dict_ok :: "('k, 'v) dict \<Rightarrow> bool" where
  "dict_ok d \<longleftrightarrow> distinct (map fst d)"

lemma dict_ok_Nil [simp, dict_simps]: "dict_ok []"
  by (simp add: dict_ok_def)

lemma dict_ok_update [dict_simps]: "dict_ok d \<Longrightarrow> dict_ok (AList.update k v d)"
  by (simp add: dict_ok_def distinct_update)

lemma dict_ok_delete [dict_simps]: "dict_ok d \<Longrightarrow> dict_ok (AList.delete k d)"
  by (simp add: dict_ok_def distinct_delete)

lemma dict_has_map_of: "dict_has d k \<longleftrightarrow> map_of d k \<noteq> None"
  by (simp add: map_of_eq_None_iff)

lemma keys_update [simp, dict_simps]: "fst ` set (AList.update k v d) = insert k (fst ` set d)"
  by (simp add: dom_update)

lemma keys_delete [simp, dict_simps]: "fst ` set (AList.delete k d) = fst ` set d - {k}"
  by (metis delete_keys set_map set_removeAll)

lemma in_set_dict_ok: "dict_ok d \<Longrightarrow> (k, v) \<in> set d \<longleftrightarrow> map_of d k = Some v"
  by (simp add: dict_ok_def)

lemma map_of_update_same [simp, dict_simps]: "map_of (AList.update k v d) k = Some v"
  by (simp add: update_conv')

lemma map_of_update_other [simp, dict_simps]: "k' \<noteq> k \<Longrightarrow> map_of (AList.update k v d) k' = map_of d k'"
  by (simp add: update_conv')

lemma map_of_delete_same [simp, dict_simps]: "map_of (AList.delete k d) k = None"
  by (simp add: delete_conv')

lemma set_delete [dict_simps]: "set (AList.delete k d) = {p \<in> set d. fst p \<noteq> k}"
  by (auto simp add: AList.delete_eq)

lemma filter_key_dict_ok:
  "dict_ok d \<Longrightarrow> map_of d k = Some v \<Longrightarrow> [p \<leftarrow> d. fst p = k] = [(k, v)]"
proof (induction d)
  case Nil
  then show ?case by simp
next
  case (Cons p d)
  obtain a b where p: "p = (a, b)" by (cases p)
  show ?case
  proof (cases "a = k")
    case True
    with Cons.prems p have "k \<notin> set (map fst d)" and "b = v"
      by (auto simp add: dict_ok_def)
    then have "[q \<leftarrow> d. fst q = k] = []"
      by (auto simp add: filter_empty_conv)
    with True p \<open>b = v\<close> show ?thesis by simp
  next
    case False
    with Cons.prems p have "dict_ok d" and "map_of d k = Some v"
      by (auto simp add: dict_ok_def)
    with False p Cons.IH show ?thesis by simp
  qed
qed

lemma update_new_key [dict_simps]: "\<not> dict_has d k \<Longrightarrow> AList.update k v d = d @ [(k, v)]"
  by (induction d) auto

lemma dict_ok_map_ran [dict_simps]: "dict_ok (AList.map_ran f d) \<longleftrightarrow> dict_ok d"
  by (simp add: dict_ok_def)

lemma in_set_map_ran: "(k, v') \<in> set (AList.map_ran f d) \<longleftrightarrow> (\<exists>v. (k, v) \<in> set d \<and> v' = f k v)"
  by (auto simp add: AList.map_ran_def)

lemma set_update_subset: "set (AList.update k v d) \<subseteq> insert (k, v) (set d)"
  by (induction d) auto

lemma set_update_dict_ok:
  "dict_ok d \<Longrightarrow> set (AList.update k v d) = insert (k, v) {p \<in> set d. fst p \<noteq> k}"
proof (induction d)
  case Nil
  then show ?case by simp
next
  case (Cons p d)
  then show ?case by (cases p) (auto simp add: dict_ok_def)
qed

lemma sum_count_list_filter:
  "finite A \<Longrightarrow> set xs \<subseteq> A \<Longrightarrow> (\<Sum>e\<in>A. if P e then count_list xs e else 0) = length (filter P xs)"
proof (induction xs)
  case Nil
  then show ?case by simp
next
  case (Cons x xs)
  have "(\<Sum>e\<in>A. if P e then count_list (x # xs) e else 0)
        = (\<Sum>e\<in>A. if P e then count_list xs e else 0) + (\<Sum>e\<in>A. if P e \<and> x = e then 1 else 0)"
    unfolding sum.distrib [symmetric] by (rule sum.cong) auto
  also have "(\<Sum>e\<in>A. if P e \<and> x = e then 1 else 0) = (\<Sum>e\<in>A. if x = e then (if P x then 1 else 0) else (0::nat))"
    by (rule sum.cong) auto
  also have "\<dots> = (if P x then 1 else 0)"
    using Cons.prems by (simp add: sum.delta)
  finally show ?case using Cons by simp
qed

lemma update_existing_map:
  "dict_ok (res :: ('k, nat) dict) \<Longrightarrow> map_of res key = Some c \<Longrightarrow>
   AList.update key (c + n) res = map (\<lambda>(k, v). (k, v + (if k = key then n else 0))) res"
proof (induction res)
  case Nil
  then show ?case by simp
next
  case (Cons kv res)
  obtain k v where kv: "kv = (k, v)" by (cases kv)
  show ?case
  proof (cases "k = key")
    case True
    with Cons.prems kv have "key \<notin> fst ` set res" and "v = c" by (auto simp add: dict_ok_def)
    then have "map (\<lambda>(k, v). (k, v + (if k = key then n else 0))) res = res"
      by (induction res) auto
    with True kv \<open>v = c\<close> show ?thesis by simp
  next
  case False
    with Cons kv show ?thesis by (simp add: dict_ok_def)
  qed
qed


text \<open>The keys of the entries whose value satisfies a test, as the comprehension
  \<open>[k for k, v in d.items() if ...]\<close> collects them, and a nested loop over two lists.\<close>

lemma keys_with_eq: "[k. (k, m) \<leftarrow> vs, P m] = map fst (filter (\<lambda>p. P (snd p)) vs)"
  by (induction vs) auto

lemma distinct_concat_map_pairs:
  "distinct ys \<Longrightarrow> distinct xs \<Longrightarrow> (\<And>x x'. f x = f x' \<Longrightarrow> x = x') \<Longrightarrow>
   distinct (concat (map (\<lambda>x. map (\<lambda>y. (y, f x)) ys) xs))"
  by (induction xs) (auto simp add: distinct_map inj_on_def)

lemma set_concat_map_pairs:
  "set (concat (map (\<lambda>x. map (\<lambda>y. (y, f x)) ys) xs)) = {(y, f x) | y x. x \<in> set xs \<and> y \<in> set ys}"
  by auto

end
