(* ===== verification/PyValue.thy ===== *)
theory PyValue
  imports Prelude
begin

text \<open>
  The Python values the hub handles: what \<open>json.loads\<close> returns for a client frame and
  what \<open>json.dumps\<close> serialises for a broadcast. JSON numbers are integers here (the
  protocol sends integer ids); objects are dicts with string keys. On top of the value
  type, the three builtins the hub applies to client data, with the exceptions they
  raise as \<open>Inl\<close> values: \<open>dict.get\<close> (\<open>AttributeError\<close> on a non-dict),
  \<open>int()\<close> (\<open>TypeError\<close> on \<open>None\<close>, lists and dicts, \<open>ValueError\<close> on a string
  that is no decimal literal) and truthiness. These are Python semantics, not code of
  the repository; they are stated once here so that every handler uses the same ones.
\<close>

datatype pyval =
    PNone
  | PBool bool
  | PInt int
  | PStr string
  | PList "pyval list"
  | PDict "(string, pyval) dict"

datatype py_error = AttributeError | TypeError | ValueError

text \<open>\<open>x.get(key, default)\<close>: only a dict has a \<open>get\<close> method.\<close>

fun py_get :: "pyval \<Rightarrow> string \<Rightarrow> pyval \<Rightarrow> py_error + pyval" where
  "py_get (PDict kv) k dflt = Inr (case map_of kv k of None \<Rightarrow> dflt | Some v \<Rightarrow> v)"
| "py_get _ k dflt = Inl AttributeError"

text \<open>
  \<open>int(s)\<close> for a string: surrounding whitespace is stripped, an optional sign follows,
  then decimal digits where single underscores may separate two digits.
\<close>

definition py_isspace :: "char \<Rightarrow> bool" where
  "py_isspace c \<longleftrightarrow> of_char c \<in> ({9, 10, 11, 12, 13, 28, 29, 30, 31, 32} :: nat set)"

definition py_strip :: "string \<Rightarrow> string" where
  "py_strip s = rev (dropWhile py_isspace (rev (dropWhile py_isspace s)))"

definition is_digit :: "char \<Rightarrow> bool" where
  "is_digit c \<longleftrightarrow> 48 \<le> (of_char c :: nat) \<and> (of_char c :: nat) \<le> 57"

definition digit_val :: "char \<Rightarrow> int" where
  "digit_val c = int (of_char c) - 48"

fun dec_digits :: "int \<Rightarrow> string \<Rightarrow> int option" where
  "dec_digits acc [] = Some acc"
| "dec_digits acc (c # cs) =
     (if is_digit c then dec_digits (10 * acc + digit_val c) cs
      else if c = CHR ''_'' then
        (case cs of
          d # ds \<Rightarrow> (if is_digit d then dec_digits (10 * acc + digit_val d) ds else None)
        | [] \<Rightarrow> None)
      else None)"

fun parse_decimal :: "string \<Rightarrow> int option" where
  "parse_decimal [] = None"
| "parse_decimal (c # cs) = (if is_digit c then dec_digits (digit_val c) cs else None)"

fun parse_int_literal :: "string \<Rightarrow> int option" where
  "parse_int_literal (c # cs) =
     (if c = CHR ''-'' then map_option uminus (parse_decimal cs)
      else if c = CHR ''+'' then parse_decimal cs
      else parse_decimal (c # cs))"
| "parse_int_literal [] = None"

fun py_int :: "pyval \<Rightarrow> py_error + int" where
  "py_int (PInt i) = Inr i"
| "py_int (PBool b) = Inr (if b then 1 else 0)"
| "py_int (PStr s) = (case parse_int_literal (py_strip s) of None \<Rightarrow> Inl ValueError | Some i \<Rightarrow> Inr i)"
| "py_int PNone = Inl TypeError"
| "py_int (PList _) = Inl TypeError"
| "py_int (PDict _) = Inl TypeError"

text \<open>\<open>int(x.get(key, default))\<close>, the hub's way of reading an id from a payload.\<close>

definition py_get_int :: "pyval \<Rightarrow> string \<Rightarrow> int \<Rightarrow> py_error + int" where
  "py_get_int v k dflt = (case py_get v k (PInt dflt) of Inl e \<Rightarrow> Inl e | Inr x \<Rightarrow> py_int x)"

fun py_truthy :: "pyval \<Rightarrow> bool" where
  "py_truthy PNone = False"
| "py_truthy (PBool b) = b"
| "py_truthy (PInt i) = (i \<noteq> 0)"
| "py_truthy (PStr s) = (s \<noteq> [])"
| "py_truthy (PList xs) = (xs \<noteq> [])"
| "py_truthy (PDict kv) = (kv \<noteq> [])"

text \<open>\<open>s.lower()\<close> on ASCII letters.\<close>

definition py_lower :: "string \<Rightarrow> string" where
  "py_lower s = map (\<lambda>c. if 65 \<le> (of_char c :: nat) \<and> (of_char c :: nat) \<le> 90 then char_of (of_char c + (32 :: nat)) else c) s"

text \<open>\<open>str(i)\<close> for an int: the decimal literal, with a minus sign when negative.\<close>

fun nat_digits :: "nat \<Rightarrow> string" where
  "nat_digits n = (if n < 10 then [char_of (48 + n)] else nat_digits (n div 10) @ [char_of (48 + n mod 10)])"

definition py_str_int :: "int \<Rightarrow> string" where
  "py_str_int i = (if i < 0 then CHR ''-'' # nat_digits (nat (- i)) else nat_digits (nat i))"

declare nat_digits.simps [simp del]

lemma py_get_Inr_dict: "py_get v k dflt = Inr r \<Longrightarrow> \<exists>kv. v = PDict kv"
  by (cases v) auto

lemma strip_end_keeps_start:
  assumes "dropWhile P xs = xs"
  shows "dropWhile P (rev (dropWhile P (rev xs))) = rev (dropWhile P (rev xs))"
proof (cases "rev (dropWhile P (rev xs)) = []")
  case False
  have split: "xs = rev (dropWhile P (rev xs)) @ rev (takeWhile P (rev xs))"
    using takeWhile_dropWhile_id [of P "rev xs"] by (metis rev_append rev_rev_ident)
  then have "hd xs = hd (rev (dropWhile P (rev xs)))" using False by (metis hd_append2)
  moreover have "\<not> P (hd xs)"
    using assms False split by (metis append_is_Nil_conv dropWhile_eq_self_iff)
  ultimately show ?thesis by (simp add: dropWhile_eq_self_iff)
next
  case True
  then show ?thesis by (simp only: True dropWhile.simps(1))
qed

lemma py_strip_idem: "py_strip (py_strip s) = py_strip s"
proof -
  have "dropWhile py_isspace (py_strip s) = py_strip s"
    unfolding py_strip_def by (rule strip_end_keeps_start) simp
  then show ?thesis unfolding py_strip_def by simp
qed

lemma length_py_strip: "length (py_strip s) \<le> length s"
  unfolding py_strip_def by (metis length_dropWhile_le length_rev order_trans)

lemma dropWhile_none: "\<forall>c\<in>set s. \<not> P c \<Longrightarrow> dropWhile P s = s"
  by (induction s) auto

lemma py_strip_no_space: "\<forall>c\<in>set s. \<not> py_isspace c \<Longrightarrow> py_strip s = s"
  by (simp add: py_strip_def dropWhile_none)

lemma digit_char: "k < 10 \<Longrightarrow> is_digit (char_of (48 + k)) \<and> digit_val (char_of (48 + k)) = int k"
  by (simp add: is_digit_def digit_val_def of_char_of)

lemma nat_digits_digits: "\<forall>c\<in>set (nat_digits n). is_digit c"
proof (induction n rule: nat_digits.induct)
  case (1 n)
  then show ?case by (subst nat_digits.simps) (auto simp add: digit_char)
qed

lemma nat_digits_ne: "nat_digits n \<noteq> []"
  by (subst nat_digits.simps) simp

lemma dec_digits_all:
  "\<forall>c\<in>set ds. is_digit c \<Longrightarrow> dec_digits acc ds = Some (foldl (\<lambda>a c. 10 * a + digit_val c) acc ds)"
  by (induction acc ds rule: dec_digits.induct) auto

lemma parse_decimal_all:
  "ds \<noteq> [] \<Longrightarrow> \<forall>c\<in>set ds. is_digit c \<Longrightarrow> parse_decimal ds = Some (foldl (\<lambda>a c. 10 * a + digit_val c) 0 ds)"
  by (cases ds) (simp_all add: dec_digits_all)

lemma foldl_nat_digits: "foldl (\<lambda>a c. 10 * a + digit_val c) 0 (nat_digits n) = int n"
proof (induction n rule: nat_digits.induct)
  case (1 n)
  show ?case
  proof (cases "n < 10")
    case True
    then show ?thesis by (subst nat_digits.simps) (simp add: digit_char)
  next
    case False
    then have "foldl (\<lambda>a c. 10 * a + digit_val c) 0 (nat_digits n)
               = 10 * int (n div 10) + int (n mod 10)"
      using "1.IH" by (subst nat_digits.simps) (simp add: digit_char)
    also have "\<dots> = int (10 * (n div 10) + n mod 10)" by (simp only: of_nat_add of_nat_mult of_nat_numeral)
    also have "\<dots> = int n" by simp
    finally show ?thesis .
  qed
qed

lemma parse_nat_digits: "parse_decimal (nat_digits n) = Some (int n)"
  using parse_decimal_all [OF nat_digits_ne nat_digits_digits] foldl_nat_digits by simp

lemma py_int_str_roundtrip: "py_int (PStr (py_str_int i)) = Inr i"
proof -
  have sp: "\<forall>c\<in>set (py_str_int i). \<not> py_isspace c"
    using nat_digits_digits [of "nat (- i)"] nat_digits_digits [of "nat i"]
    by (auto simp add: py_str_int_def py_isspace_def is_digit_def)
  show ?thesis
  proof (cases "i < 0")
    case True
    then show ?thesis using sp by (simp add: py_strip_no_space py_str_int_def parse_nat_digits)
  next
    case False
    obtain c cs where cs: "nat_digits (nat i) = c # cs" using nat_digits_ne by (metis neq_Nil_conv)
    then have "is_digit c" using nat_digits_digits [of "nat i"] by simp
    then have "c \<noteq> CHR ''-'' \<and> c \<noteq> CHR ''+''" by (auto simp add: is_digit_def)
    with False cs sp show ?thesis
      using parse_nat_digits [of "nat i"] by (simp add: py_strip_no_space py_str_int_def)
  qed
qed

lemma py_str_int_inj: "py_str_int a = py_str_int b \<Longrightarrow> a = b"
  by (metis py_int_str_roundtrip sum.inject(2))

end
