(* ===== verification/Auth.thy ===== *)
theory Auth
  imports PyValue
begin

text \<open>
  The authentication guards: the token functions of \<open>src/Api/utils/jwt_manager.py\<close>,
  the \<open>JWTBearer\<close> dependency of \<open>src/Api/middlewares/jwt_bearer.py\<close>,
  \<open>admin_required\<close> of \<open>src/Api/utils/authz.py\<close>, and the two API-key guards of
  \<open>src/Api/utils/api_key.py\<close>. A guard returns what the dependency returns, or
  \<open>Inl\<close> of the \<open>HTTPException\<close> it raises. PyJWT is a library the code only calls: a
  token is modelled as the payload it carries with the key that signed it (HS256 with
  a secret key is unforgeable in this model), or as a string that is no token; decoding
  checks the key and the \<open>exp\<close> claim. Of \<open>jwt.decode\<close>'s other default checks,
  the refusal of an \<open>aud\<close> claim and of an \<open>nbf\<close> or \<open>iat\<close> in the future is not
  modelled; no token \<open>create_token\<close> makes has such a claim.
  Times are integer seconds. FastAPI's \<open>HTTPBearer\<close> is modelled from its source: it
  splits the \<open>Authorization\<close> header at the first space and refuses with 403 a missing
  header, an empty scheme or credentials, or a scheme other than \<open>bearer\<close>.
\<close>

datatype auth_error =
    NotAuthenticated
  | InvalidAuthCredentials
  | TokenInvalido
  | SoloAdministradores
  | ApiKeyNotConfigured
  | InvalidApiCredentials
  | InvalidApiKey

definition auth_status :: "auth_error \<Rightarrow> nat" where
  "auth_status e = (case e of NotAuthenticated \<Rightarrow> 403 | InvalidAuthCredentials \<Rightarrow> 403 | TokenInvalido \<Rightarrow> 401
     | SoloAdministradores \<Rightarrow> 403 | ApiKeyNotConfigured \<Rightarrow> 500 | InvalidApiCredentials \<Rightarrow> 401 | InvalidApiKey \<Rightarrow> 401)"

text \<open>The module-level settings of \<open>jwt_manager.py\<close>.\<close>

record jwt_cfg =
  secret_key :: string
  expire_minutes :: int

definition load_jwt_cfg :: "string option \<Rightarrow> string option \<Rightarrow> py_error + jwt_cfg" where
  "load_jwt_cfg sk exp =
     (case py_int (PStr (case exp of None \<Rightarrow> ''120'' | Some s \<Rightarrow> s)) of
       Inl e \<Rightarrow> Inl e
     | Inr n \<Rightarrow> Inr \<lparr>secret_key = (case sk of None \<Rightarrow> ''change_me'' | Some s \<Rightarrow> s), expire_minutes = n\<rparr>)"

datatype token = Signed "(string, pyval) dict" string | NoToken string

text \<open>\<open>jwt.decode(token, key=..., algorithms=["HS256"])\<close>: the signature must be the
  key's, and an \<open>exp\<close> claim must be an integer later than now.\<close>

fun jwt_decode :: "token \<Rightarrow> string \<Rightarrow> int \<Rightarrow> string + (string, pyval) dict" where
  "jwt_decode (NoToken s) key now = Inl ''Not enough segments''"
| "jwt_decode (Signed p k) key now =
     (if k \<noteq> key then Inl ''Signature verification failed''
      else (case map_of p ''exp'' of
              None \<Rightarrow> Inr p
            | Some (PInt e) \<Rightarrow> if e \<le> now then Inl ''Signature has expired'' else Inr p
            | Some _ \<Rightarrow> Inl ''Expiration Time claim (exp) must be an integer.''))"

text \<open>\<open>create_token\<close>: the claims \<open>sub\<close>, \<open>iat\<close>, \<open>exp\<close>, then \<open>payload.update(extra)\<close>,
  signed with \<open>SECRET_KEY\<close>.\<close>

definition token_payload :: "jwt_cfg \<Rightarrow> int \<Rightarrow> string \<Rightarrow> (string, pyval) dict \<Rightarrow> (string, pyval) dict" where
  "token_payload cfg now sub extra =
     foldl (\<lambda>p (k, v). AList.update k v p)
       [(''sub'', PStr sub), (''iat'', PInt now), (''exp'', PInt (now + 60 * expire_minutes cfg))] extra"

definition create_token :: "jwt_cfg \<Rightarrow> int \<Rightarrow> string \<Rightarrow> (string, pyval) dict \<Rightarrow> token" where
  "create_token cfg now sub extra = Signed (token_payload cfg now sub extra) (secret_key cfg)"

definition validate_token :: "jwt_cfg \<Rightarrow> int \<Rightarrow> token \<Rightarrow> py_error + (string, pyval) dict" where
  "validate_token cfg now t = (case jwt_decode t (secret_key cfg) now of Inl _ \<Rightarrow> Inl ValueError | Inr p \<Rightarrow> Inr p)"

text \<open>The \<open>Authorization\<close> header: absent, or its scheme (the text before the first
  space) and its credentials (the token after it, \<open>None\<close> when empty).\<close>

type_synonym auth_header = "(string \<times> token option) option"

definition http_bearer :: "auth_header \<Rightarrow> auth_error + token" where
  "http_bearer h =
     (case h of
       None \<Rightarrow> Inl NotAuthenticated
     | Some (scheme, None) \<Rightarrow> Inl NotAuthenticated
     | Some (scheme, Some t) \<Rightarrow>
         if scheme = [] then Inl NotAuthenticated
         else if py_lower scheme \<noteq> ''bearer'' then Inl InvalidAuthCredentials else Inr t)"

definition jwt_bearer :: "jwt_cfg \<Rightarrow> int \<Rightarrow> auth_header \<Rightarrow> auth_error + (string, pyval) dict" where
  "jwt_bearer cfg now h =
     (case http_bearer h of
       Inl e \<Rightarrow> Inl e
     | Inr t \<Rightarrow> (case validate_token cfg now t of Inl _ \<Rightarrow> Inl TokenInvalido | Inr p \<Rightarrow> Inr p))"

definition admin_required :: "jwt_cfg \<Rightarrow> int \<Rightarrow> auth_header \<Rightarrow> auth_error + (string, pyval) dict" where
  "admin_required cfg now h =
     (case jwt_bearer cfg now h of
       Inl e \<Rightarrow> Inl e
     | Inr p \<Rightarrow> if map_of p ''role'' \<noteq> Some (PStr ''Admin'') then Inl SoloAdministradores else Inr p)"

text \<open>\<open>api_key.py\<close>: the Basic/X-API-Key guard with its settings, and the public key guard.
  \<open>secrets.compare_digest\<close> is string equality (its constant time is not modelled).\<close>

record api_env =
  basic_api_key :: string
  basic_api_user :: string

definition get_env_key_user :: "string option \<Rightarrow> string option \<Rightarrow> api_env" where
  "get_env_key_user k u =
     \<lparr>basic_api_key = py_strip (case k of None \<Rightarrow> '''' | Some s \<Rightarrow> s),
      basic_api_user = py_strip (case u of None \<Rightarrow> ''apikey'' | Some s \<Rightarrow> s)\<rparr>"

record basic_credentials =
  cred_username :: string
  cred_password :: string

datatype api_auth = ApiHeader | ApiBasic string

definition require_basic_or_api_key ::
  "api_env \<Rightarrow> basic_credentials option \<Rightarrow> string option \<Rightarrow> auth_error + api_auth" where
  "require_basic_or_api_key env credentials api_key =
     (if basic_api_key env = [] then Inl ApiKeyNotConfigured
      else if api_key \<noteq> None \<and> api_key \<noteq> Some [] \<and> api_key = Some (basic_api_key env) then Inr ApiHeader
      else (case credentials of
              Some c \<Rightarrow> if cred_username c = basic_api_user env \<and> cred_password c = basic_api_key env
                        then Inr (ApiBasic (cred_username c)) else Inl InvalidApiCredentials
            | None \<Rightarrow> Inl InvalidApiCredentials))"

definition require_public_api_key :: "string option \<Rightarrow> auth_error + string" where
  "require_public_api_key api_key =
     (if api_key \<noteq> Some ''Donemilio@2026'' then Inl InvalidApiKey else Inr ''Donemilio@2026'')"

lemma map_of_foldl_update_other:
  "k \<notin> fst ` set extra \<Longrightarrow> map_of (foldl (\<lambda>p (k, v). AList.update k v p) p0 extra) k = map_of p0 k"
  by (induction extra arbitrary: p0) (auto simp add: update_conv')

lemma token_payload_exp:
  "''exp'' \<notin> fst ` set extra \<Longrightarrow> map_of (token_payload cfg now sub extra) ''exp'' = Some (PInt (now + 60 * expire_minutes cfg))"
  unfolding token_payload_def by (simp add: map_of_foldl_update_other)

lemma validate_create_token:
  "''exp'' \<notin> fst ` set extra \<Longrightarrow>
   validate_token cfg t (create_token cfg now sub extra)
     = (if t < now + 60 * expire_minutes cfg then Inr (token_payload cfg now sub extra) else Inl ValueError)"
  by (simp add: validate_token_def create_token_def token_payload_exp)

text \<open>
  C33. A token issued by \<open>create_token\<close> (with no \<open>exp\<close> among the extra claims, as at
  login) is accepted by \<open>validate_token\<close> with exactly the payload it was issued with,
  until \<open>ACCESS_TOKEN_EXPIRE_MINUTES\<close> after its issue, and refused from then on.
\<close>

theorem token_roundtrip:
  "''exp'' \<notin> fst ` set extra \<Longrightarrow>
   validate_token cfg t (create_token cfg now sub extra)
     = (if t < now + 60 * expire_minutes cfg then Inr (token_payload cfg now sub extra) else Inl ValueError)"
  by (rule validate_create_token)

theorem token_roundtrip_witness:
  "validate_token \<lparr>secret_key = ''s3cret'', expire_minutes = 120\<rparr> 1000
      (create_token \<lparr>secret_key = ''s3cret'', expire_minutes = 120\<rparr> 0 ''ana@x.org'' [(''uid'', PInt 1), (''role'', PStr ''Admin'')])
     = Inr [(''sub'', PStr ''ana@x.org''), (''iat'', PInt 0), (''exp'', PInt 7200), (''uid'', PInt 1), (''role'', PStr ''Admin'')]
   \<and> validate_token \<lparr>secret_key = ''s3cret'', expire_minutes = 120\<rparr> 7200
      (create_token \<lparr>secret_key = ''s3cret'', expire_minutes = 120\<rparr> 0 ''ana@x.org'' [(''uid'', PInt 1), (''role'', PStr ''Admin'')])
     = Inl ValueError"
  using token_roundtrip [of "[(''uid'', PInt 1), (''role'', PStr ''Admin'')]" "\<lparr>secret_key = ''s3cret'', expire_minutes = 120\<rparr>"]
  by (simp add: token_payload_def)

lemma py_lower_ne: "py_lower s = [] \<longleftrightarrow> s = []"
  by (simp add: py_lower_def)

lemma py_lower_Nil: "py_lower [] = []"
  by (simp add: py_lower_def)

lemma jwt_decode_Inr:
  "jwt_decode t key now = Inr p \<longleftrightarrow>
   t = Signed p key \<and> (case map_of p ''exp'' of None \<Rightarrow> True | Some (PInt e) \<Rightarrow> now < e | Some _ \<Rightarrow> False)"
  by (cases t) (auto split: option.splits pyval.splits)

lemma jwt_bearer_Inr:
  "jwt_bearer cfg now h = Inr p \<longleftrightarrow>
   (\<exists>scheme t. py_lower scheme = ''bearer'' \<and> h = Some (scheme, Some t) \<and> jwt_decode t (secret_key cfg) now = Inr p)"
  unfolding jwt_bearer_def validate_token_def http_bearer_def
  by (auto simp add: py_lower_ne py_lower_Nil simp del: jwt_decode.simps split: option.splits sum.splits if_splits prod.splits)

lemma admin_required_iff:
  "admin_required cfg now h = Inr p \<longleftrightarrow>
     (\<exists>scheme. py_lower scheme = ''bearer'' \<and> h = Some (scheme, Some (Signed p (secret_key cfg))))
     \<and> (case map_of p ''exp'' of None \<Rightarrow> True | Some (PInt e) \<Rightarrow> now < e | Some _ \<Rightarrow> False)
     \<and> map_of p ''role'' = Some (PStr ''Admin'')" (is "?l \<longleftrightarrow> ?h \<and> ?e \<and> ?r")
proof
  assume ?l
  then have jb: "jwt_bearer cfg now h = Inr p" and ?r
    by (auto simp add: admin_required_def split: sum.splits if_splits)
  from jb obtain scheme t where "py_lower scheme = ''bearer''" "h = Some (scheme, Some t)"
    "jwt_decode t (secret_key cfg) now = Inr p" unfolding jwt_bearer_Inr by blast
  with \<open>?r\<close> show "?h \<and> ?e \<and> ?r" unfolding jwt_decode_Inr by blast
next
  assume r: "?h \<and> ?e \<and> ?r"
  then have "jwt_bearer cfg now h = Inr p" unfolding jwt_bearer_Inr jwt_decode_Inr by blast
  with r show ?l by (simp add: admin_required_def)
qed

lemma py_lower_Bearer: "py_lower ''Bearer'' = ''bearer''"
  by code_simp

text \<open>
  C34. \<open>admin_required\<close> accepts a request exactly when its \<open>Authorization\<close> header has
  the scheme \<open>bearer\<close> (any case) and a token signed with \<open>SECRET_KEY\<close> whose payload
  is not expired and has the role \<open>Admin\<close>; it then returns that payload.
\<close>

theorem admin_required_accepts:
  "admin_required cfg now h = Inr p \<longleftrightarrow>
     (\<exists>scheme. py_lower scheme = ''bearer'' \<and> h = Some (scheme, Some (Signed p (secret_key cfg))))
     \<and> (case map_of p ''exp'' of None \<Rightarrow> True | Some (PInt e) \<Rightarrow> now < e | Some _ \<Rightarrow> False)
     \<and> map_of p ''role'' = Some (PStr ''Admin'')"
  by (rule admin_required_iff)

theorem admin_required_accepts_witness:
  "admin_required \<lparr>secret_key = ''s3cret'', expire_minutes = 120\<rparr> 1000
      (Some (''Bearer'', Some (Signed [(''exp'', PInt 7200), (''role'', PStr ''Admin'')] ''s3cret'')))
     = Inr [(''exp'', PInt 7200), (''role'', PStr ''Admin'')]
   \<and> admin_required \<lparr>secret_key = ''s3cret'', expire_minutes = 120\<rparr> 1000
      (Some (''Bearer'', Some (Signed [(''exp'', PInt 7200), (''role'', PStr ''Admin'')] ''guess''))) \<noteq> Inr [(''exp'', PInt 7200), (''role'', PStr ''Admin'')]"
  using admin_required_accepts [of "\<lparr>secret_key = ''s3cret'', expire_minutes = 120\<rparr>" 1000
      "Some (''Bearer'', Some (Signed [(''exp'', PInt 7200), (''role'', PStr ''Admin'')] ''s3cret''))"
      "[(''exp'', PInt 7200), (''role'', PStr ''Admin'')]"]
    admin_required_accepts [of "\<lparr>secret_key = ''s3cret'', expire_minutes = 120\<rparr>" 1000
      "Some (''Bearer'', Some (Signed [(''exp'', PInt 7200), (''role'', PStr ''Admin'')] ''guess''))"
      "[(''exp'', PInt 7200), (''role'', PStr ''Admin'')]"]
  by (simp add: py_lower_Bearer)

text \<open>
  \<open>require_basic_or_api_key\<close> accepts exactly when \<open>BASIC_API_KEY\<close> is configured
  (non-empty after stripping) and either the \<open>X-API-Key\<close> header is that key or the
  Basic credentials are \<open>BASIC_API_USER\<close> with that key as password; with no key
  configured every request is refused (500).
\<close>

theorem api_key_guard_accepts:
  "(\<exists>m. require_basic_or_api_key env credentials api_key = Inr m) \<longleftrightarrow>
     basic_api_key env \<noteq> []
     \<and> (api_key = Some (basic_api_key env)
        \<or> (\<exists>c. credentials = Some c \<and> cred_username c = basic_api_user env \<and> cred_password c = basic_api_key env))"
  by (auto simp add: require_basic_or_api_key_def split: option.splits)

theorem api_key_guard_accepts_witness:
  "require_basic_or_api_key (get_env_key_user (Some '' k3y '') None) None (Some ''k3y'') = Inr ApiHeader
   \<and> require_basic_or_api_key (get_env_key_user None None) None (Some ''k3y'') = Inl ApiKeyNotConfigured
   \<and> (\<exists>m. require_basic_or_api_key (get_env_key_user (Some '' k3y '') None)
          (Some \<lparr>cred_username = ''apikey'', cred_password = ''k3y''\<rparr>) None = Inr m)"
proof -
  have e: "get_env_key_user (Some '' k3y '') None = \<lparr>basic_api_key = ''k3y'', basic_api_user = ''apikey''\<rparr>"
    by (simp add: get_env_key_user_def py_strip_def py_isspace_def)
  have "\<exists>m. require_basic_or_api_key \<lparr>basic_api_key = ''k3y'', basic_api_user = ''apikey''\<rparr>
          (Some \<lparr>cred_username = ''apikey'', cred_password = ''k3y''\<rparr>) None = Inr m"
    using api_key_guard_accepts [of "\<lparr>basic_api_key = ''k3y'', basic_api_user = ''apikey''\<rparr>"
        "Some \<lparr>cred_username = ''apikey'', cred_password = ''k3y''\<rparr>" None] by simp
  then show ?thesis using e
    by (simp add: require_basic_or_api_key_def get_env_key_user_def py_strip_def)
qed

end
