(* ===== verification/Usuarios.thy ===== *)
theory Usuarios
  imports Auth
begin

text \<open>
  User management: the table of \<open>src/Api/models/usuarios.py\<close>, the service
  \<open>UsuariosService\<close> of \<open>src/Api/services/usuarios.py\<close>, the schemas of
  \<open>src/Api/schemas/usuarios.py\<close>, and the handlers of \<open>src/Api/routers/usuarios.py\<close>,
  which issue tokens at login and accept any valid token for the rest. All columns are
  NOT NULL and \<open>correo\<close> is UNIQUE: a commit that breaks either raises
  \<open>IntegrityError\<close>, which no handler catches (500). bcrypt (passlib) is a library:
  \<open>hash_password\<close> is modelled as an injective map into strings carrying the bcrypt
  marker, and \<open>verify_password\<close> raises \<open>ValueError\<close> on a stored value without it, as
  passlib does for a hash it cannot identify; salting is not modelled.
\<close>

record usuario =
  u_id :: int
  u_apellido :: string
  u_nombre :: string
  u_correo :: string
  u_password :: string
  u_role :: string

record udb =
  usuarios :: "(int, usuario) dict"
  u_next_pk :: int

text \<open>\<open>UsuarioCreate\<close> after validation (\<open>role\<close> defaults to \<open>user\<close>), and the fields of
  \<open>UsuarioUpdate\<close> the client set, \<open>None\<close> included.\<close>

record usuario_create =
  uc_apellido :: string
  uc_nombre :: string
  uc_correo :: string
  uc_role :: string
  uc_password :: string

datatype usuario_update =
    UApellido "string option"
  | UNombre "string option"
  | UCorreo "string option"
  | URole "string option"
  | UPassword "string option"

definition hash_password :: "string \<Rightarrow> string" where
  "hash_password p = ''$2b$'' @ p"

definition verify_password :: "string \<Rightarrow> string \<Rightarrow> py_error + bool" where
  "verify_password plain hashed =
     (if take 4 hashed = ''$2b$'' then Inr (hashed = hash_password plain) else Inl ValueError)"

text \<open>The service.\<close>

definition u_get :: "udb \<Rightarrow> int \<Rightarrow> usuario option" where
  "u_get d i = map_of (usuarios d) i"

definition u_list :: "udb \<Rightarrow> usuario list" where
  "u_list d = map snd (usuarios d)"

definition get_by_email :: "udb \<Rightarrow> string \<Rightarrow> usuario option" where
  "get_by_email d e = map_option snd (find (\<lambda>(k, u). u_correo u = e) (usuarios d))"

definition u_create :: "udb \<Rightarrow> usuario_create \<Rightarrow> string \<Rightarrow> udb \<times> usuario" where
  "u_create d data password_hash =
     (let obj = \<lparr>u_id = u_next_pk d, u_apellido = uc_apellido data, u_nombre = uc_nombre data,
                 u_correo = uc_correo data, u_password = password_hash,
                 u_role = (if uc_role data = [] then ''user'' else uc_role data)\<rparr>
      in (d\<lparr>usuarios := usuarios d @ [(u_next_pk d, obj)], u_next_pk := u_next_pk d + 1\<rparr>, obj))"

fun u_set_field :: "usuario \<Rightarrow> usuario_update \<Rightarrow> usuario option" where
  "u_set_field obj (UApellido v) = map_option (\<lambda>x. obj\<lparr>u_apellido := x\<rparr>) v"
| "u_set_field obj (UNombre v) = map_option (\<lambda>x. obj\<lparr>u_nombre := x\<rparr>) v"
| "u_set_field obj (UCorreo v) = map_option (\<lambda>x. obj\<lparr>u_correo := x\<rparr>) v"
| "u_set_field obj (URole v) = map_option (\<lambda>x. obj\<lparr>u_role := x\<rparr>) v"
| "u_set_field obj (UPassword v) = map_option (\<lambda>x. obj\<lparr>u_password := x\<rparr>) v"

fun u_set_fields :: "usuario \<Rightarrow> usuario_update list \<Rightarrow> usuario option" where
  "u_set_fields obj [] = Some obj"
| "u_set_fields obj (f # fs) = (case u_set_field obj f of None \<Rightarrow> None | Some obj' \<Rightarrow> u_set_fields obj' fs)"

datatype u_db_error = UIntegrityError

text \<open>\<open>update\<close>: the \<open>setattr\<close> loop, then the commit, which fails on a NULL or on a
  \<open>correo\<close> another user has.\<close>

definition u_update :: "int \<Rightarrow> usuario_update list \<Rightarrow> udb \<Rightarrow> u_db_error + udb \<times> usuario option" where
  "u_update i payload d =
     (case u_get d i of
       None \<Rightarrow> Inr (d, None)
     | Some obj \<Rightarrow>
         (case u_set_fields obj payload of
           None \<Rightarrow> Inl UIntegrityError
         | Some obj' \<Rightarrow>
             if (\<exists>(k, u) \<in> set (usuarios d). k \<noteq> i \<and> u_correo u = u_correo obj') then Inl UIntegrityError
             else Inr (d\<lparr>usuarios := AList.update i obj' (usuarios d)\<rparr>, Some obj')))"

definition u_delete :: "int \<Rightarrow> udb \<Rightarrow> udb \<times> bool" where
  "u_delete i d =
     (case u_get d i of
       None \<Rightarrow> (d, False)
     | Some obj \<Rightarrow> (d\<lparr>usuarios := AList.delete i (usuarios d)\<rparr>, True))"

text \<open>The handlers. A response is the \<open>HTTPException\<close> (status and detail) or the value
  returned; every handler but \<open>login\<close> first runs \<open>JWTBearer\<close>.\<close>

datatype user_detail = AuthDetail auth_error | CorreoYaExiste | UNoEncontrado | CredencialesInvalidas
  | UNoAutenticado | UServerError

definition user_status :: "user_detail \<Rightarrow> nat" where
  "user_status e = (case e of AuthDetail a \<Rightarrow> auth_status a | CorreoYaExiste \<Rightarrow> 409 | UNoEncontrado \<Rightarrow> 404
     | CredencialesInvalidas \<Rightarrow> 401 | UNoAutenticado \<Rightarrow> 401 | UServerError \<Rightarrow> 500)"

type_synonym 'a uresponse = "user_detail + 'a"

definition create_usuario :: "jwt_cfg \<Rightarrow> int \<Rightarrow> auth_header \<Rightarrow> usuario_create \<Rightarrow> udb \<Rightarrow> udb \<times> usuario uresponse" where
  "create_usuario cfg now h payload d =
     (case jwt_bearer cfg now h of
       Inl e \<Rightarrow> (d, Inl (AuthDetail e))
     | Inr _ \<Rightarrow>
         if get_by_email d (uc_correo payload) \<noteq> None then (d, Inl CorreoYaExiste)
         else (let (d', user) = u_create d payload (hash_password (uc_password payload)) in (d', Inr user)))"

definition list_usuarios :: "jwt_cfg \<Rightarrow> int \<Rightarrow> auth_header \<Rightarrow> udb \<Rightarrow> usuario list uresponse" where
  "list_usuarios cfg now h d = (case jwt_bearer cfg now h of Inl e \<Rightarrow> Inl (AuthDetail e) | Inr _ \<Rightarrow> Inr (u_list d))"

definition get_usuario :: "jwt_cfg \<Rightarrow> int \<Rightarrow> auth_header \<Rightarrow> int \<Rightarrow> udb \<Rightarrow> usuario uresponse" where
  "get_usuario cfg now h user_id d =
     (case jwt_bearer cfg now h of
       Inl e \<Rightarrow> Inl (AuthDetail e)
     | Inr _ \<Rightarrow> (case u_get d user_id of None \<Rightarrow> Inl UNoEncontrado | Some user \<Rightarrow> Inr user))"

definition hash_update :: "usuario_update \<Rightarrow> usuario_update" where
  "hash_update f = (case f of UPassword (Some p) \<Rightarrow> if p = [] then f else UPassword (Some (hash_password p)) | _ \<Rightarrow> f)"

definition update_usuario ::
  "jwt_cfg \<Rightarrow> int \<Rightarrow> auth_header \<Rightarrow> int \<Rightarrow> usuario_update list \<Rightarrow> udb \<Rightarrow> udb \<times> usuario uresponse" where
  "update_usuario cfg now h user_id payload d =
     (case jwt_bearer cfg now h of
       Inl e \<Rightarrow> (d, Inl (AuthDetail e))
     | Inr _ \<Rightarrow>
         (case u_update user_id (map hash_update payload) d of
           Inl UIntegrityError \<Rightarrow> (d, Inl UServerError)
         | Inr (d', None) \<Rightarrow> (d', Inl UNoEncontrado)
         | Inr (d', Some user) \<Rightarrow> (d', Inr user)))"

definition delete_usuario :: "jwt_cfg \<Rightarrow> int \<Rightarrow> auth_header \<Rightarrow> int \<Rightarrow> udb \<Rightarrow> udb \<times> unit uresponse" where
  "delete_usuario cfg now h user_id d =
     (case jwt_bearer cfg now h of
       Inl e \<Rightarrow> (d, Inl (AuthDetail e))
     | Inr _ \<Rightarrow> (let (d', ok) = u_delete user_id d in if \<not> ok then (d', Inl UNoEncontrado) else (d', Inr ())))"

text \<open>\<open>login\<close>: the token, the user and \<open>expires_in\<close> in seconds.\<close>

definition login :: "jwt_cfg \<Rightarrow> int \<Rightarrow> string \<Rightarrow> string \<Rightarrow> udb \<Rightarrow> (token \<times> usuario \<times> int) uresponse" where
  "login cfg now email password d =
     (case get_by_email d email of
       None \<Rightarrow> Inl CredencialesInvalidas
     | Some user \<Rightarrow>
         (case verify_password password (u_password user) of
           Inl _ \<Rightarrow> Inl UServerError
         | Inr False \<Rightarrow> Inl CredencialesInvalidas
         | Inr True \<Rightarrow>
             Inr (create_token cfg now (u_correo user) [(''uid'', PInt (u_id user)), (''role'', PStr (u_role user))],
                  user, expire_minutes cfg * 60)))"

definition me :: "jwt_cfg \<Rightarrow> int \<Rightarrow> auth_header \<Rightarrow> udb \<Rightarrow> usuario uresponse" where
  "me cfg now h d =
     (case jwt_bearer cfg now h of
       Inl e \<Rightarrow> Inl (AuthDetail e)
     | Inr p \<Rightarrow>
         (case map_of p ''uid'' of
           None \<Rightarrow> Inl UNoAutenticado
         | Some uid \<Rightarrow>
             if \<not> py_truthy uid then Inl UNoAutenticado
             else (case py_int uid of
                     Inl _ \<Rightarrow> Inl UServerError
                   | Inr i \<Rightarrow> (case u_get d i of None \<Rightarrow> Inl UNoEncontrado | Some user \<Rightarrow> Inr user))))"

text \<open>Sample data for the witnesses: an administrator and a plain user, and the token
  settings.\<close>

definition demo_users :: udb where
  "demo_users = \<lparr>usuarios =
     [(1, \<lparr>u_id = 1, u_apellido = ''Diaz'', u_nombre = ''Ana'', u_correo = ''ana@x.org'',
           u_password = hash_password ''secreto1'', u_role = ''Admin''\<rparr>),
      (2, \<lparr>u_id = 2, u_apellido = ''Paz'', u_nombre = ''Beto'', u_correo = ''beto@x.org'',
           u_password = hash_password ''beto1234'', u_role = ''user''\<rparr>)], u_next_pk = 3\<rparr>"

definition demo_jwt :: jwt_cfg where
  "demo_jwt = \<lparr>secret_key = ''s3cret'', expire_minutes = 120\<rparr>"

text \<open>The table invariant: distinct keys, each row stores its key, keys below the next
  autoincrement value, and no two users share a \<open>correo\<close> (the UNIQUE constraint).\<close>

definition users_ok :: "udb \<Rightarrow> bool" where
  "users_ok d \<longleftrightarrow> dict_ok (usuarios d) \<and> distinct (map (u_correo \<circ> snd) (usuarios d))
     \<and> (\<forall>(k, u) \<in> set (usuarios d). u_id u = k \<and> k < u_next_pk d)"

lemma users_ok_iff:
  "users_ok d \<longleftrightarrow> dict_ok (usuarios d) \<and> distinct (map (u_correo \<circ> snd) (usuarios d))
     \<and> (\<forall>k u. (k, u) \<in> set (usuarios d) \<longrightarrow> u_id u = k \<and> k < u_next_pk d)"
  unfolding users_ok_def by fast

lemma correo_unique:
  "distinct (map (u_correo \<circ> snd) xs) \<Longrightarrow> (k, u) \<in> set xs \<Longrightarrow> (k', u') \<in> set xs \<Longrightarrow> u_correo u = u_correo u'
   \<Longrightarrow> k = k' \<and> u = u'"
  using inj_on_eq_iff [OF distinct_map [THEN iffD1, THEN conjunct2]] by fastforce

lemma get_by_email_Some:
  "users_ok d \<Longrightarrow> (k, u) \<in> set (usuarios d) \<Longrightarrow> get_by_email d (u_correo u) = Some u"
proof -
  assume ok: "users_ok d" and m: "(k, u) \<in> set (usuarios d)"
  then obtain x where f: "find (\<lambda>(k, u'). u_correo u' = u_correo u) (usuarios d) = Some x"
    by (metis (mono_tags, lifting) case_prod_conv find_None_iff2 not_None_eq)
  then have "x \<in> set (usuarios d)" "u_correo (snd x) = u_correo u"
    by (auto simp add: find_Some_iff case_prod_beta dest: nth_mem)
  with ok m have "x = (k, u)" using correo_unique [of "usuarios d" k u "fst x" "snd x"]
    by (auto simp add: users_ok_iff)
  with f show ?thesis by (simp add: get_by_email_def)
qed

lemma get_by_email_None:
  "get_by_email d e = None \<longleftrightarrow> e \<notin> u_correo ` snd ` set (usuarios d)"
  by (auto simp add: get_by_email_def find_None_iff case_prod_beta image_iff) (metis snd_conv)

lemma u_get_Some: "users_ok d \<Longrightarrow> (k, u) \<in> set (usuarios d) \<Longrightarrow> u_get d k = Some u"
  by (simp add: u_get_def users_ok_iff dict_ok_def)

lemma u_set_field_id: "u_set_field obj f = Some obj' \<Longrightarrow> u_id obj' = u_id obj"
  by (cases f) auto

lemma u_set_fields_id: "u_set_fields obj fs = Some obj' \<Longrightarrow> u_id obj' = u_id obj"
  by (induction obj fs rule: u_set_fields.induct) (auto split: option.splits dest: u_set_field_id)

lemma u_create_ok:
  assumes ok: "users_ok d" and fresh: "get_by_email d (uc_correo p) = None"
  shows "users_ok (fst (u_create d p h))"
proof -
  have "u_next_pk d \<notin> fst ` set (usuarios d)" using ok by (force simp add: users_ok_iff)
  moreover have "k < u_next_pk d + 1" if "(k, u) \<in> set (usuarios d)" for k u
    using ok that by (fastforce simp add: users_ok_iff)
  moreover have "uc_correo p \<notin> set (map (u_correo \<circ> snd) (usuarios d))"
    using fresh by (simp add: get_by_email_None image_image)
  ultimately show ?thesis using ok by (auto simp add: u_create_def Let_def users_ok_iff dict_ok_def)
qed

lemma distinct_map_update:
  "dict_ok xs \<Longrightarrow> distinct (map (f \<circ> snd) xs) \<Longrightarrow> (\<forall>(k, u) \<in> set xs. k \<noteq> i \<longrightarrow> f u \<noteq> f v)
   \<Longrightarrow> distinct (map (f \<circ> snd) (AList.update i v xs))"
proof (induction xs)
  case Nil
  then show ?case by simp
next
  case (Cons a xs)
  obtain k u where a: "a = (k, u)" by (cases a)
  show ?case
  proof (cases "k = i")
    case True
    with Cons.prems a have ni: "i \<notin> fst ` set xs" by (simp add: dict_ok_def)
    have "f v \<notin> (f \<circ> snd) ` set xs"
    proof
      assume "f v \<in> (f \<circ> snd) ` set xs"
      then obtain x where x: "x \<in> set xs" "f v = f (snd x)" by auto
      moreover have "fst x \<noteq> i" using ni x(1) by force
      moreover have "x \<in> set (a # xs)" using x(1) by simp
      then have "fst x \<noteq> i \<longrightarrow> f (snd x) \<noteq> f v" using Cons.prems(3) by (auto simp add: case_prod_beta)
      ultimately show False by simp
    qed
    with Cons.prems a True show ?thesis by (simp add: dict_ok_def)
  next
    case False
    with Cons.prems a have ih: "distinct (map (f \<circ> snd) (AList.update i v xs))"
      by (intro Cons.IH) (auto simp add: dict_ok_def)
    have "f u \<noteq> f (snd x)" if "x \<in> set (AList.update i v xs)" for x
    proof -
      have "dict_ok xs" using Cons.prems(1) by (simp add: dict_ok_def)
      with that have "x = (i, v) \<or> x \<in> set xs" by (auto simp add: set_update_dict_ok)
      then show ?thesis using Cons.prems a False by (auto simp add: dict_ok_def)
    qed
    with ih False a show ?thesis by (auto simp add: comp_def)
  qed
qed

lemma u_update_ok:
  assumes ok: "users_ok d" and run: "u_update i fs d = Inr (d', r)"
  shows "users_ok d'"
proof (cases "u_get d i")
  case None
  then show ?thesis using ok run by (simp add: u_update_def)
next
  case (Some obj)
  then obtain obj' where sf: "u_set_fields obj fs = Some obj'"
    and nc: "\<not> (\<exists>(k, u) \<in> set (usuarios d). k \<noteq> i \<and> u_correo u = u_correo obj')"
    and d': "d' = d\<lparr>usuarios := AList.update i obj' (usuarios d)\<rparr>"
    using run by (auto simp add: u_update_def split: option.splits if_splits)
  have mem: "(i, obj) \<in> set (usuarios d)" using Some by (simp add: u_get_def map_of_SomeD)
  then have "u_id obj = i" "i < u_next_pk d" using ok by (auto simp add: users_ok_iff)
  then have ids: "u_id obj' = i" using u_set_fields_id [OF sf] by simp
  have "distinct (map (u_correo \<circ> snd) (AList.update i obj' (usuarios d)))"
    using ok nc by (intro distinct_map_update) (auto simp add: users_ok_iff)
  moreover have "dict_ok (AList.update i obj' (usuarios d))" using ok by (simp add: users_ok_iff dict_ok_update)
  moreover have "u_id u = k \<and> k < u_next_pk d" if "(k, u) \<in> set (AList.update i obj' (usuarios d))" for k u
    using that ok ids \<open>i < u_next_pk d\<close> by (auto simp add: users_ok_iff set_update_dict_ok)
  ultimately show ?thesis using d' by (simp add: users_ok_iff)
qed

lemma u_delete_ok: "users_ok d \<Longrightarrow> users_ok (fst (u_delete i d))"
proof -
  assume ok: "users_ok d"
  have "distinct (map (u_correo \<circ> snd) (AList.delete i (usuarios d)))"
    using ok by (simp add: users_ok_iff AList.delete_eq distinct_map_filter)
  then show ?thesis using ok
    by (auto simp add: u_delete_def users_ok_iff dict_ok_delete set_delete split: option.splits)
qed

text \<open>
  C36. Every handler that writes the users table keeps its invariant: distinct keys,
  each row's own key below the next autoincrement value, and no two users with the same
  \<open>correo\<close> (\<open>create_usuario\<close> checks the e-mail first; an update that would repeat one
  fails on the UNIQUE constraint and changes nothing).
\<close>

theorem user_handlers_preserve_users_ok:
  "users_ok d \<Longrightarrow>
   users_ok (fst (create_usuario cfg now h p d)) \<and> users_ok (fst (update_usuario cfg now h i fs d))
   \<and> users_ok (fst (delete_usuario cfg now h i d))"
proof -
  assume ok: "users_ok d"
  have "users_ok (fst (create_usuario cfg now h p d))"
    using ok u_create_ok [OF ok] by (simp add: create_usuario_def case_prod_beta split: sum.split)
  moreover have "users_ok (fst (update_usuario cfg now h i fs d))"
    using ok u_update_ok [OF ok] by (simp add: update_usuario_def split: sum.split u_db_error.split option.split prod.split)
  moreover have "users_ok (fst (delete_usuario cfg now h i d))"
    using ok u_delete_ok [OF ok, of i] by (simp add: delete_usuario_def Let_def case_prod_beta split: sum.split)
  ultimately show ?thesis by blast
qed

lemma bearer_accepts_login_token:
  "jwt_bearer cfg t (Some (''Bearer'', Some (create_token cfg now (u_correo u) [(''uid'', PInt i), (''role'', PStr r)])))
     = (if t < now + 60 * expire_minutes cfg
        then Inr (token_payload cfg now (u_correo u) [(''uid'', PInt i), (''role'', PStr r)]) else Inl TokenInvalido)"
  using validate_create_token [of "[(''uid'', PInt i), (''role'', PStr r)]" cfg t now "u_correo u"]
  by (simp add: jwt_bearer_def http_bearer_def py_lower_Bearer)

lemma login_token_payload:
  "map_of (token_payload cfg now s [(''uid'', PInt i), (''role'', PStr r)]) ''role'' = Some (PStr r)
   \<and> map_of (token_payload cfg now s [(''uid'', PInt i), (''role'', PStr r)]) ''uid'' = Some (PInt i)
   \<and> map_of (token_payload cfg now s [(''uid'', PInt i), (''role'', PStr r)]) ''exp'' = Some (PInt (now + 60 * expire_minutes cfg))"
  by (simp add: token_payload_def)

lemma verify_hash: "verify_password pw (hash_password pw) = Inr True"
  by (simp add: verify_password_def hash_password_def)

lemma login_found:
  "users_ok d \<Longrightarrow> (i, u) \<in> set (usuarios d) \<Longrightarrow> u_password u = hash_password pw \<Longrightarrow>
   login cfg now (u_correo u) pw d
     = Inr (create_token cfg now (u_correo u) [(''uid'', PInt i), (''role'', PStr (u_role u))], u, expire_minutes cfg * 60)"
  by (auto simp add: login_def get_by_email_Some verify_hash users_ok_iff)

text \<open>
  C37. Privilege escalation. Any user who holds the token \<open>login\<close> gave them, while it
  is valid, can make themselves an administrator: \<open>PATCH /usuarios/{own id}\<close> with
  \<open>{"role": "Admin"}\<close> needs only a valid token (\<open>JWTBearer\<close>, not
  \<open>admin_required\<close>) and \<open>UsuarioUpdate\<close> accepts \<open>role\<close>; logging in again then yields
  a token that \<open>admin_required\<close> accepts, which opens every administrator route.
\<close>

theorem self_promotion_to_admin:
  assumes ok: "users_ok d" and u: "(i, u) \<in> set (usuarios d)" and pw: "u_password u = hash_password pw"
    and exp: "0 < expire_minutes cfg" and valid: "t < now + 60 * expire_minutes cfg"
  shows "\<exists>d' u'. update_usuario cfg t (Some (''Bearer'', Some (create_token cfg now (u_correo u)
                    [(''uid'', PInt i), (''role'', PStr (u_role u))]))) i [URole (Some ''Admin'')] d = (d', Inr u')
           \<and> u_role u' = ''Admin''
           \<and> (\<exists>tok p. login cfg t (u_correo u) pw d' = Inr (tok, u', expire_minutes cfg * 60)
                     \<and> admin_required cfg t (Some (''Bearer'', Some tok)) = Inr p)"
proof -
  let ?u' = "u\<lparr>u_role := ''Admin''\<rparr>"
  let ?d' = "d\<lparr>usuarios := AList.update i ?u' (usuarios d)\<rparr>"
  have g: "u_get d i = Some u" by (rule u_get_Some [OF ok u])
  have dist: "distinct (map (u_correo \<circ> snd) (usuarios d))" using ok by (simp add: users_ok_iff)
  have nc: "\<not> (\<exists>(k, v) \<in> set (usuarios d). k \<noteq> i \<and> u_correo v = u_correo ?u')"
  proof
    assume "\<exists>(k, v) \<in> set (usuarios d). k \<noteq> i \<and> u_correo v = u_correo ?u'"
    then obtain k v where kv: "(k, v) \<in> set (usuarios d)" "k \<noteq> i" "u_correo v = u_correo u" by auto
    have "k = i" using correo_unique [OF dist kv(1) u] kv(3) by simp
    with kv(2) show False by simp
  qed
  have upd: "u_update i [URole (Some ''Admin'')] d = Inr (?d', Some ?u')"
    using g nc by (simp add: u_update_def)
  have run: "update_usuario cfg t (Some (''Bearer'', Some (create_token cfg now (u_correo u)
                [(''uid'', PInt i), (''role'', PStr (u_role u))]))) i [URole (Some ''Admin'')] d = (?d', Inr ?u')"
    using upd valid by (simp add: update_usuario_def bearer_accepts_login_token hash_update_def)
  have ok': "users_ok ?d'" by (rule u_update_ok [OF ok upd])
  have mem': "(i, ?u') \<in> set (usuarios ?d')"
    using ok by (simp add: users_ok_iff set_update_dict_ok)
  have lg: "login cfg t (u_correo u) pw ?d'
     = Inr (create_token cfg t (u_correo u) [(''uid'', PInt i), (''role'', PStr ''Admin'')], ?u', expire_minutes cfg * 60)"
    using login_found [OF ok' mem'] pw by simp
  have "admin_required cfg t (Some (''Bearer'', Some (create_token cfg t (u_correo u) [(''uid'', PInt i), (''role'', PStr ''Admin'')])))
        = Inr (token_payload cfg t (u_correo u) [(''uid'', PInt i), (''role'', PStr ''Admin'')])"
    using exp bearer_accepts_login_token [of cfg t t "u\<lparr>u_correo := u_correo u\<rparr>" i "''Admin''"] login_token_payload
    by (simp add: admin_required_def)
  with run lg show ?thesis by auto
qed

lemma login_Inr:
  "login cfg now e pw d = Inr (tok, u, n) \<Longrightarrow>
   get_by_email d e = Some u \<and> u_password u = hash_password pw
   \<and> tok = create_token cfg now (u_correo u) [(''uid'', PInt (u_id u)), (''role'', PStr (u_role u))]"
  by (auto simp add: login_def verify_password_def split: option.splits sum.splits bool.splits if_splits)

text \<open>
  C38. The token \<open>login\<close> returns belongs to the user whose e-mail and password were
  given: until it expires, \<open>JWTBearer\<close> accepts it with that user's id as \<open>uid\<close>, and
  \<open>admin_required\<close> accepts it exactly when the user's stored role was \<open>Admin\<close> at login.
\<close>

theorem login_token_grants:
  assumes run: "login cfg now e pw d = Inr (tok, u, n)" and valid: "t < now + 60 * expire_minutes cfg"
  shows "get_by_email d e = Some u \<and> u_password u = hash_password pw
         \<and> (\<exists>p. jwt_bearer cfg t (Some (''Bearer'', Some tok)) = Inr p \<and> map_of p ''uid'' = Some (PInt (u_id u)))
         \<and> ((\<exists>p. admin_required cfg t (Some (''Bearer'', Some tok)) = Inr p) \<longleftrightarrow> u_role u = ''Admin'')"
proof -
  note l = login_Inr [OF run]
  have jb: "jwt_bearer cfg t (Some (''Bearer'', Some tok))
            = Inr (token_payload cfg now (u_correo u) [(''uid'', PInt (u_id u)), (''role'', PStr (u_role u))])"
    using l valid bearer_accepts_login_token [of cfg t now u "u_id u" "u_role u"] by simp
  show ?thesis using l jb login_token_payload by (simp add: admin_required_def)
qed

lemma users_ok_demo: "users_ok demo_users"
  by (simp add: users_ok_def demo_users_def dict_ok_def)

theorem user_handlers_preserve_users_ok_witness:
  "users_ok (fst (create_usuario demo_jwt 0 None
       \<lparr>uc_apellido = ''Ruiz'', uc_nombre = ''Carla'', uc_correo = ''carla@x.org'', uc_role = '''', uc_password = ''carla1234''\<rparr>
       demo_users))
   \<and> users_ok (fst (update_usuario demo_jwt 0 None 2 [UCorreo (Some ''ana@x.org'')] demo_users))
   \<and> users_ok (fst (delete_usuario demo_jwt 0 None 2 demo_users))"
  using user_handlers_preserve_users_ok [OF users_ok_demo, where cfg = demo_jwt and now = 0 and h = None
      and p = "\<lparr>uc_apellido = ''Ruiz'', uc_nombre = ''Carla'', uc_correo = ''carla@x.org'', uc_role = '''', uc_password = ''carla1234''\<rparr>"
      and i = 2 and fs = "[UCorreo (Some ''ana@x.org'')]"]
  by blast

theorem self_promotion_to_admin_witness:
  "(\<nexists>p. admin_required demo_jwt 100
       (Some (''Bearer'', Some (create_token demo_jwt 0 ''beto@x.org'' [(''uid'', PInt 2), (''role'', PStr ''user'')]))) = Inr p)
   \<and> (\<exists>d' u'. update_usuario demo_jwt 100
         (Some (''Bearer'', Some (create_token demo_jwt 0 ''beto@x.org'' [(''uid'', PInt 2), (''role'', PStr ''user'')])))
         2 [URole (Some ''Admin'')] demo_users = (d', Inr u')
       \<and> u_role u' = ''Admin''
       \<and> (\<exists>tok p. login demo_jwt 100 ''beto@x.org'' ''beto1234'' d' = Inr (tok, u', 7200)
                 \<and> admin_required demo_jwt 100 (Some (''Bearer'', Some tok)) = Inr p))"
proof -
  have mem: "(2, \<lparr>u_id = 2, u_apellido = ''Paz'', u_nombre = ''Beto'', u_correo = ''beto@x.org'',
           u_password = hash_password ''beto1234'', u_role = ''user''\<rparr>) \<in> set (usuarios demo_users)"
    by (simp add: demo_users_def)
  have before: "\<nexists>p. admin_required demo_jwt 100
       (Some (''Bearer'', Some (create_token demo_jwt 0 ''beto@x.org'' [(''uid'', PInt 2), (''role'', PStr ''user'')]))) = Inr p"
    using bearer_accepts_login_token [of demo_jwt 100 0 "\<lparr>u_id = 2, u_apellido = ''Paz'', u_nombre = ''Beto'',
        u_correo = ''beto@x.org'', u_password = hash_password ''beto1234'', u_role = ''user''\<rparr>" 2 "''user''"]
      login_token_payload
    by (simp add: admin_required_def demo_jwt_def)
  show ?thesis
    using before self_promotion_to_admin [OF users_ok_demo mem, of "''beto1234''" demo_jwt 100 0]
    by (simp add: demo_jwt_def)
qed

theorem login_token_grants_witness:
  "login demo_jwt 0 ''beto@x.org'' ''beto1234'' demo_users
     = Inr (create_token demo_jwt 0 ''beto@x.org'' [(''uid'', PInt 2), (''role'', PStr ''user'')],
            snd (hd (tl (usuarios demo_users))), 7200)
   \<and> (\<exists>p. jwt_bearer demo_jwt 100 (Some (''Bearer'', Some (create_token demo_jwt 0 ''beto@x.org''
            [(''uid'', PInt 2), (''role'', PStr ''user'')]))) = Inr p \<and> map_of p ''uid'' = Some (PInt 2))"
proof -
  have run: "login demo_jwt 0 ''beto@x.org'' ''beto1234'' demo_users
     = Inr (create_token demo_jwt 0 ''beto@x.org'' [(''uid'', PInt 2), (''role'', PStr ''user'')],
            snd (hd (tl (usuarios demo_users))), 7200)"
    by (simp add: login_def get_by_email_def demo_users_def verify_hash demo_jwt_def)
  have "(0::int) + 100 < 0 + 60 * expire_minutes demo_jwt" by (simp add: demo_jwt_def)
  then show ?thesis using login_token_grants [OF run, of 100] run by (simp add: demo_users_def)
qed

end
