(* ===== verification/Catalogo.thy ===== *)
theory Catalogo
  imports Auth "HOL-Library.List_Lexorder" "HOL-Library.Char_ord" "HOL-Library.Multiset"
begin

text \<open>
  The catalogue of business units and positions: the tables of
  \<open>src/Api/models/unidades_negocio.py\<close> and \<open>src/Api/models/puestos.py\<close>, the services
  \<open>UnidadesNegocioService\<close> and \<open>PuestosService\<close>, and the handlers of
  \<open>src/Api/routers/unidades_negocio.py\<close> and \<open>src/Api/routers/puestos.py\<close>. The two
  listings are public behind \<open>require_public_api_key\<close>; every write is behind
  \<open>admin_required\<close>. Both tables live in one state, because a position's \<open>unidad_id\<close> is a
  foreign key into the units with \<open>ON DELETE CASCADE\<close>. The database checks its
  constraints at the commit (\<open>cat_commit\<close>): a unit name is UNIQUE, a position's
  (\<open>nombre\<close>, \<open>unidad_id\<close>) is UNIQUE, the foreign key must resolve, and a NOT NULL
  column set to \<open>None\<close> fails; a failed commit raises \<open>IntegrityError\<close>, which no
  handler catches (500), and the transaction is rolled back. \<open>ORDER BY nombre\<close> is
  modelled as a stable sort on the code points (a binary collation).
\<close>

record unidad =
  un_id :: int
  un_nombre :: string
  un_descripcion :: "string option"
  un_activo :: bool

record puesto =
  pu_id :: int
  pu_nombre :: string
  pu_descripcion :: "string option"
  pu_activo :: bool
  pu_unidad_id :: int

record cdb =
  unidades :: "(int, unidad) dict"
  puestos :: "(int, puesto) dict"
  un_next_pk :: int
  pu_next_pk :: int

text \<open>The validated bodies: \<open>UnidadNegocioCreate\<close>, \<open>PuestoCreate\<close>, and the fields of
  \<open>UnidadNegocioUpdate\<close> and \<open>PuestoUpdate\<close> the client set, \<open>None\<close> included.\<close>

record unidad_create =
  unc_nombre :: string
  unc_descripcion :: "string option"
  unc_activo :: bool

record puesto_create =
  puc_nombre :: string
  puc_descripcion :: "string option"
  puc_activo :: bool
  puc_unidad_id :: int

datatype unidad_update = UnNombre "string option" | UnDescripcion "string option" | UnActivo "bool option"

datatype puesto_update =
    PuNombre "string option" | PuDescripcion "string option" | PuActivo "bool option" | PuUnidadId "int option"

datatype cat_db_error = CIntegrityError

text \<open>The constraints the database enforces at every commit.\<close>

definition cat_constraints :: "cdb \<Rightarrow> bool" where
  "cat_constraints d \<longleftrightarrow>
     distinct (map (un_nombre \<circ> snd) (unidades d))
     \<and> distinct (map ((\<lambda>p. (pu_nombre p, pu_unidad_id p)) \<circ> snd) (puestos d))
     \<and> (\<forall>(k, p) \<in> set (puestos d). pu_unidad_id p \<in> set (map fst (unidades d)))"

definition cat_commit :: "cdb \<Rightarrow> cat_db_error + cdb" where
  "cat_commit d' = (if cat_constraints d' then Inr d' else Inl CIntegrityError)"

text \<open>\<open>PuestosService\<close>.\<close>

definition pu_list :: "bool \<Rightarrow> cdb \<Rightarrow> puesto list" where
  "pu_list include_inactive d =
     sort_key pu_nombre (filter (\<lambda>p. include_inactive \<or> pu_activo p) (map snd (puestos d)))"

definition pu_get :: "cdb \<Rightarrow> int \<Rightarrow> puesto option" where
  "pu_get d i = map_of (puestos d) i"

definition pu_create :: "cdb \<Rightarrow> puesto_create \<Rightarrow> cat_db_error + cdb \<times> puesto" where
  "pu_create d data =
     (let obj = \<lparr>pu_id = pu_next_pk d, pu_nombre = puc_nombre data, pu_descripcion = puc_descripcion data,
                 pu_activo = puc_activo data, pu_unidad_id = puc_unidad_id data\<rparr>
      in case cat_commit (d\<lparr>puestos := puestos d @ [(pu_next_pk d, obj)], pu_next_pk := pu_next_pk d + 1\<rparr>) of
           Inl e \<Rightarrow> Inl e
         | Inr d' \<Rightarrow> Inr (d', obj))"

fun pu_set_field :: "puesto \<Rightarrow> puesto_update \<Rightarrow> puesto option" where
  "pu_set_field obj (PuNombre v) = map_option (\<lambda>x. obj\<lparr>pu_nombre := x\<rparr>) v"
| "pu_set_field obj (PuDescripcion v) = Some (obj\<lparr>pu_descripcion := v\<rparr>)"
| "pu_set_field obj (PuActivo v) = map_option (\<lambda>x. obj\<lparr>pu_activo := x\<rparr>) v"
| "pu_set_field obj (PuUnidadId v) = map_option (\<lambda>x. obj\<lparr>pu_unidad_id := x\<rparr>) v"

fun pu_set_fields :: "puesto \<Rightarrow> puesto_update list \<Rightarrow> puesto option" where
  "pu_set_fields obj [] = Some obj"
| "pu_set_fields obj (f # fs) = (case pu_set_field obj f of None \<Rightarrow> None | Some obj' \<Rightarrow> pu_set_fields obj' fs)"

definition pu_update :: "int \<Rightarrow> puesto_update list \<Rightarrow> cdb \<Rightarrow> cat_db_error + cdb \<times> puesto option" where
  "pu_update i payload d =
     (case pu_get d i of
       None \<Rightarrow> Inr (d, None)
     | Some obj \<Rightarrow>
         (case pu_set_fields obj payload of
           None \<Rightarrow> Inl CIntegrityError
         | Some obj' \<Rightarrow>
             (case cat_commit (d\<lparr>puestos := AList.update i obj' (puestos d)\<rparr>) of
               Inl e \<Rightarrow> Inl e
             | Inr d' \<Rightarrow> Inr (d', Some obj'))))"

definition pu_delete :: "int \<Rightarrow> cdb \<Rightarrow> cdb \<times> bool" where
  "pu_delete i d =
     (case pu_get d i of
       None \<Rightarrow> (d, False)
     | Some obj \<Rightarrow> (d\<lparr>puestos := AList.delete i (puestos d)\<rparr>, True))"

text \<open>\<open>UnidadesNegocioService\<close>. The \<open>_full\<close> variants load the unit's positions through
  the relationship (\<open>selectinload\<close>): all of them, active or not, in table order.\<close>

definition puestos_of :: "cdb \<Rightarrow> int \<Rightarrow> puesto list" where
  "puestos_of d i = filter (\<lambda>p. pu_unidad_id p = i) (map snd (puestos d))"

definition un_list :: "bool \<Rightarrow> cdb \<Rightarrow> unidad list" where
  "un_list include_inactive d =
     sort_key un_nombre (filter (\<lambda>u. include_inactive \<or> un_activo u) (map snd (unidades d)))"

definition un_list_full :: "bool \<Rightarrow> cdb \<Rightarrow> (unidad \<times> puesto list) list" where
  "un_list_full include_inactive d = map (\<lambda>u. (u, puestos_of d (un_id u))) (un_list include_inactive d)"

definition un_get :: "cdb \<Rightarrow> int \<Rightarrow> unidad option" where
  "un_get d i = map_of (unidades d) i"

definition un_get_full :: "cdb \<Rightarrow> int \<Rightarrow> (unidad \<times> puesto list) option" where
  "un_get_full d i = map_option (\<lambda>u. (u, puestos_of d i)) (un_get d i)"

definition un_create :: "cdb \<Rightarrow> unidad_create \<Rightarrow> cat_db_error + cdb \<times> unidad" where
  "un_create d data =
     (let obj = \<lparr>un_id = un_next_pk d, un_nombre = unc_nombre data, un_descripcion = unc_descripcion data,
                 un_activo = unc_activo data\<rparr>
      in case cat_commit (d\<lparr>unidades := unidades d @ [(un_next_pk d, obj)], un_next_pk := un_next_pk d + 1\<rparr>) of
           Inl e \<Rightarrow> Inl e
         | Inr d' \<Rightarrow> Inr (d', obj))"

fun un_set_field :: "unidad \<Rightarrow> unidad_update \<Rightarrow> unidad option" where
  "un_set_field obj (UnNombre v) = map_option (\<lambda>x. obj\<lparr>un_nombre := x\<rparr>) v"
| "un_set_field obj (UnDescripcion v) = Some (obj\<lparr>un_descripcion := v\<rparr>)"
| "un_set_field obj (UnActivo v) = map_option (\<lambda>x. obj\<lparr>un_activo := x\<rparr>) v"

fun un_set_fields :: "unidad \<Rightarrow> unidad_update list \<Rightarrow> unidad option" where
  "un_set_fields obj [] = Some obj"
| "un_set_fields obj (f # fs) = (case un_set_field obj f of None \<Rightarrow> None | Some obj' \<Rightarrow> un_set_fields obj' fs)"

definition un_update :: "int \<Rightarrow> unidad_update list \<Rightarrow> cdb \<Rightarrow> cat_db_error + cdb \<times> unidad option" where
  "un_update i payload d =
     (case un_get d i of
       None \<Rightarrow> Inr (d, None)
     | Some obj \<Rightarrow>
         (case un_set_fields obj payload of
           None \<Rightarrow> Inl CIntegrityError
         | Some obj' \<Rightarrow>
             (case cat_commit (d\<lparr>unidades := AList.update i obj' (unidades d)\<rparr>) of
               Inl e \<Rightarrow> Inl e
             | Inr d' \<Rightarrow> Inr (d', Some obj'))))"

text \<open>\<open>delete\<close>: the database removes the unit's positions with it (\<open>ON DELETE CASCADE\<close>;
  the relationship has \<open>passive_deletes=True\<close>, so the ORM leaves this to the database).\<close>

definition un_delete :: "int \<Rightarrow> cdb \<Rightarrow> cdb \<times> bool" where
  "un_delete i d =
     (case un_get d i of
       None \<Rightarrow> (d, False)
     | Some obj \<Rightarrow> (d\<lparr>unidades := AList.delete i (unidades d),
                      puestos := filter (\<lambda>(k, p). pu_unidad_id p \<noteq> i) (puestos d)\<rparr>, True))"

text \<open>The handlers of both routers. A response is the \<open>HTTPException\<close> or the value returned.\<close>

datatype cat_detail = CAuth auth_error | CNoEncontrado | CServerError

definition cat_status :: "cat_detail \<Rightarrow> nat" where
  "cat_status e = (case e of CAuth a \<Rightarrow> auth_status a | CNoEncontrado \<Rightarrow> 404 | CServerError \<Rightarrow> 500)"

type_synonym 'a cresponse = "cat_detail + 'a"

definition list_puestos :: "string option \<Rightarrow> bool \<Rightarrow> cdb \<Rightarrow> puesto list cresponse" where
  "list_puestos api_key include_inactive d =
     (case require_public_api_key api_key of Inl e \<Rightarrow> Inl (CAuth e) | Inr _ \<Rightarrow> Inr (pu_list include_inactive d))"

definition create_puesto :: "jwt_cfg \<Rightarrow> int \<Rightarrow> auth_header \<Rightarrow> puesto_create \<Rightarrow> cdb \<Rightarrow> cdb \<times> puesto cresponse" where
  "create_puesto cfg now h payload d =
     (case admin_required cfg now h of
       Inl e \<Rightarrow> (d, Inl (CAuth e))
     | Inr _ \<Rightarrow> (case pu_create d payload of Inl _ \<Rightarrow> (d, Inl CServerError) | Inr (d', obj) \<Rightarrow> (d', Inr obj)))"

definition update_puesto ::
  "jwt_cfg \<Rightarrow> int \<Rightarrow> auth_header \<Rightarrow> int \<Rightarrow> puesto_update list \<Rightarrow> cdb \<Rightarrow> cdb \<times> puesto cresponse" where
  "update_puesto cfg now h pid payload d =
     (case admin_required cfg now h of
       Inl e \<Rightarrow> (d, Inl (CAuth e))
     | Inr _ \<Rightarrow>
         (case pu_update pid payload d of
           Inl _ \<Rightarrow> (d, Inl CServerError)
         | Inr (d', None) \<Rightarrow> (d', Inl CNoEncontrado)
         | Inr (d', Some obj) \<Rightarrow> (d', Inr obj)))"

definition delete_puesto :: "jwt_cfg \<Rightarrow> int \<Rightarrow> auth_header \<Rightarrow> int \<Rightarrow> cdb \<Rightarrow> cdb \<times> unit cresponse" where
  "delete_puesto cfg now h pid d =
     (case admin_required cfg now h of
       Inl e \<Rightarrow> (d, Inl (CAuth e))
     | Inr _ \<Rightarrow> (let (d', ok) = pu_delete pid d in if \<not> ok then (d', Inl CNoEncontrado) else (d', Inr ())))"

definition list_unidades :: "string option \<Rightarrow> bool \<Rightarrow> cdb \<Rightarrow> (unidad \<times> puesto list) list cresponse" where
  "list_unidades api_key include_inactive d =
     (case require_public_api_key api_key of Inl e \<Rightarrow> Inl (CAuth e) | Inr _ \<Rightarrow> Inr (un_list_full include_inactive d))"

definition get_unidad :: "string option \<Rightarrow> int \<Rightarrow> cdb \<Rightarrow> (unidad \<times> puesto list) cresponse" where
  "get_unidad api_key uid d =
     (case require_public_api_key api_key of
       Inl e \<Rightarrow> Inl (CAuth e)
     | Inr _ \<Rightarrow> (case un_get_full d uid of None \<Rightarrow> Inl CNoEncontrado | Some r \<Rightarrow> Inr r))"

text \<open>\<open>create_unidad\<close> returns \<open>get_full\<close> of the new id; a \<open>None\<close> there fails the response
  model (500).\<close>

definition create_unidad :: "jwt_cfg \<Rightarrow> int \<Rightarrow> auth_header \<Rightarrow> unidad_create \<Rightarrow> cdb \<Rightarrow> cdb \<times> (unidad \<times> puesto list) cresponse" where
  "create_unidad cfg now h payload d =
     (case admin_required cfg now h of
       Inl e \<Rightarrow> (d, Inl (CAuth e))
     | Inr _ \<Rightarrow>
         (case un_create d payload of
           Inl _ \<Rightarrow> (d, Inl CServerError)
         | Inr (d', obj) \<Rightarrow> (case un_get_full d' (un_id obj) of None \<Rightarrow> (d', Inl CServerError) | Some r \<Rightarrow> (d', Inr r))))"

definition update_unidad ::
  "jwt_cfg \<Rightarrow> int \<Rightarrow> auth_header \<Rightarrow> int \<Rightarrow> unidad_update list \<Rightarrow> cdb \<Rightarrow> cdb \<times> (unidad \<times> puesto list) cresponse" where
  "update_unidad cfg now h uid payload d =
     (case admin_required cfg now h of
       Inl e \<Rightarrow> (d, Inl (CAuth e))
     | Inr _ \<Rightarrow>
         (case un_update uid payload d of
           Inl _ \<Rightarrow> (d, Inl CServerError)
         | Inr (d', None) \<Rightarrow> (d', Inl CNoEncontrado)
         | Inr (d', Some obj) \<Rightarrow> (case un_get_full d' uid of None \<Rightarrow> (d', Inl CServerError) | Some r \<Rightarrow> (d', Inr r))))"

definition delete_unidad :: "jwt_cfg \<Rightarrow> int \<Rightarrow> auth_header \<Rightarrow> int \<Rightarrow> cdb \<Rightarrow> cdb \<times> unit cresponse" where
  "delete_unidad cfg now h uid d =
     (case admin_required cfg now h of
       Inl e \<Rightarrow> (d, Inl (CAuth e))
     | Inr _ \<Rightarrow> (let (d', ok) = un_delete uid d in if \<not> ok then (d', Inl CNoEncontrado) else (d', Inr ())))"

text \<open>The table invariant: each table's keys distinct, each row stores its key, keys below
  the next autoincrement value, and the database constraints.\<close>

definition cat_ok :: "cdb \<Rightarrow> bool" where
  "cat_ok d \<longleftrightarrow> dict_ok (unidades d) \<and> dict_ok (puestos d)
     \<and> (\<forall>(k, u) \<in> set (unidades d). un_id u = k \<and> k < un_next_pk d)
     \<and> (\<forall>(k, p) \<in> set (puestos d). pu_id p = k \<and> k < pu_next_pk d)
     \<and> cat_constraints d"

text \<open>Sample data for the witnesses: an active and an inactive unit, and two positions
  of the first, one of them inactive.\<close>

definition demo_cat :: cdb where
  "demo_cat = \<lparr>unidades =
     [(1, \<lparr>un_id = 1, un_nombre = ''Ventas'', un_descripcion = None, un_activo = True\<rparr>),
      (2, \<lparr>un_id = 2, un_nombre = ''Archivo'', un_descripcion = None, un_activo = False\<rparr>)],
     puestos =
     [(1, \<lparr>pu_id = 1, pu_nombre = ''Vendedor'', pu_descripcion = None, pu_activo = True, pu_unidad_id = 1\<rparr>),
      (2, \<lparr>pu_id = 2, pu_nombre = ''Cajero'', pu_descripcion = Some ''turno noche'', pu_activo = False, pu_unidad_id = 1\<rparr>)],
     un_next_pk = 3, pu_next_pk = 3\<rparr>"

lemma keyed_rows_update:
  "dict_ok xs \<Longrightarrow> \<forall>(k, u) \<in> set xs. f u = k \<and> k < n \<Longrightarrow> f v = i \<Longrightarrow> i < n
   \<Longrightarrow> \<forall>(k, u) \<in> set (AList.update i v xs). f u = k \<and> k < n"
  by (auto simp add: set_update_dict_ok)

lemma keyed_rows_filter:
  "\<forall>(k, u) \<in> set xs. f u = k \<and> k < n \<Longrightarrow> \<forall>(k, u) \<in> set (filter P xs). f u = k \<and> k < n"
  by auto

lemma keyed_rows_append:
  "\<forall>(k, u) \<in> set xs. f u = k \<and> k < n \<Longrightarrow> f v = n
   \<Longrightarrow> \<forall>(k, u) \<in> set (xs @ [(n, v)]). f u = k \<and> k < (n::int) + 1"
  by fastforce

lemma keyed_rows_fresh:
  "\<forall>(k, u) \<in> set xs. f u = k \<and> k < (n::int) \<Longrightarrow> n \<notin> set (map fst xs)"
  by force

lemma keyed_rows_get:
  "\<forall>(k, u) \<in> set xs. f u = k \<and> k < (n::int) \<Longrightarrow> map_of xs i = Some u \<Longrightarrow> f u = i \<and> i < n"
  by (auto dest: map_of_SomeD)

lemma cat_commit_Inr: "cat_commit d' = Inr d'' \<Longrightarrow> d'' = d' \<and> cat_constraints d'"
  by (simp add: cat_commit_def split: if_splits)

lemma pu_set_field_id: "pu_set_field obj f = Some obj' \<Longrightarrow> pu_id obj' = pu_id obj"
  by (cases f) auto

lemma pu_set_fields_id: "pu_set_fields obj fs = Some obj' \<Longrightarrow> pu_id obj' = pu_id obj"
  by (induction obj fs rule: pu_set_fields.induct) (auto split: option.splits dest: pu_set_field_id)

lemma un_set_field_id: "un_set_field obj f = Some obj' \<Longrightarrow> un_id obj' = un_id obj"
  by (cases f) auto

lemma un_set_fields_id: "un_set_fields obj fs = Some obj' \<Longrightarrow> un_id obj' = un_id obj"
  by (induction obj fs rule: un_set_fields.induct) (auto split: option.splits dest: un_set_field_id)

lemma pu_create_ok:
  assumes ok: "cat_ok d" and run: "pu_create d p = Inr (d', obj)"
  shows "cat_ok d' \<and> pu_get d' (pu_id obj) = Some obj"
proof -
  let ?d1 = "d\<lparr>puestos := puestos d @ [(pu_next_pk d, obj)], pu_next_pk := pu_next_pk d + 1\<rparr>"
  have c: "cat_commit ?d1 = Inr d'" and o: "pu_id obj = pu_next_pk d"
    using run by (auto simp add: pu_create_def Let_def split: sum.splits)
  have fresh: "pu_next_pk d \<notin> set (map fst (puestos d))"
    using ok by (intro keyed_rows_fresh [of _ pu_id]) (simp add: cat_ok_def)
  have "cat_ok ?d1"
    using ok cat_commit_Inr [OF c] o fresh keyed_rows_append [of "puestos d" pu_id "pu_next_pk d" obj]
    by (simp add: cat_ok_def dict_ok_def)
  moreover have "map_of (puestos d) (pu_next_pk d) = None"
    using fresh by (simp add: map_of_eq_None_iff)
  ultimately show ?thesis using cat_commit_Inr [OF c] o
    by (simp add: pu_get_def map_add_def)
qed

lemma un_create_ok:
  assumes ok: "cat_ok d" and run: "un_create d p = Inr (d', obj)"
  shows "cat_ok d' \<and> un_get d' (un_id obj) = Some obj"
proof -
  let ?d1 = "d\<lparr>unidades := unidades d @ [(un_next_pk d, obj)], un_next_pk := un_next_pk d + 1\<rparr>"
  have c: "cat_commit ?d1 = Inr d'" and o: "un_id obj = un_next_pk d"
    using run by (auto simp add: un_create_def Let_def split: sum.splits)
  have fresh: "un_next_pk d \<notin> set (map fst (unidades d))"
    using ok by (intro keyed_rows_fresh [of _ un_id]) (simp add: cat_ok_def)
  have "cat_ok ?d1"
    using ok cat_commit_Inr [OF c] o fresh keyed_rows_append [of "unidades d" un_id "un_next_pk d" obj]
    by (simp add: cat_ok_def dict_ok_def)
  moreover have "map_of (unidades d) (un_next_pk d) = None"
    using fresh by (simp add: map_of_eq_None_iff)
  ultimately show ?thesis using cat_commit_Inr [OF c] o
    by (simp add: un_get_def map_add_def)
qed

lemma pu_update_ok:
  assumes ok: "cat_ok d" and run: "pu_update i fs d = Inr (d', r)"
  shows "cat_ok d'"
proof (cases "pu_get d i")
  case None
  then show ?thesis using ok run by (simp add: pu_update_def)
next
  case (Some obj)
  then obtain obj' where s: "pu_set_fields obj fs = Some obj'"
    and c: "cat_commit (d\<lparr>puestos := AList.update i obj' (puestos d)\<rparr>) = Inr d'"
    using run by (auto simp add: pu_update_def split: option.splits sum.splits)
  have "pu_id obj = i \<and> i < pu_next_pk d"
    using ok Some by (intro keyed_rows_get [of "puestos d"]) (simp_all add: cat_ok_def pu_get_def)
  then have "\<forall>(k, u) \<in> set (AList.update i obj' (puestos d)). pu_id u = k \<and> k < pu_next_pk d"
    using ok pu_set_fields_id [OF s] by (intro keyed_rows_update) (simp_all add: cat_ok_def)
  then show ?thesis using ok cat_commit_Inr [OF c] by (simp add: cat_ok_def dict_ok_update)
qed

lemma un_update_ok:
  assumes ok: "cat_ok d" and run: "un_update i fs d = Inr (d', r)"
  shows "cat_ok d'"
proof (cases "un_get d i")
  case None
  then show ?thesis using ok run by (simp add: un_update_def)
next
  case (Some obj)
  then obtain obj' where s: "un_set_fields obj fs = Some obj'"
    and c: "cat_commit (d\<lparr>unidades := AList.update i obj' (unidades d)\<rparr>) = Inr d'"
    using run by (auto simp add: un_update_def split: option.splits sum.splits)
  have "un_id obj = i \<and> i < un_next_pk d"
    using ok Some by (intro keyed_rows_get [of "unidades d"]) (simp_all add: cat_ok_def un_get_def)
  then have "\<forall>(k, u) \<in> set (AList.update i obj' (unidades d)). un_id u = k \<and> k < un_next_pk d"
    using ok un_set_fields_id [OF s] by (intro keyed_rows_update) (simp_all add: cat_ok_def)
  then show ?thesis using ok cat_commit_Inr [OF c] by (simp add: cat_ok_def dict_ok_update)
qed

lemma pu_delete_ok: "cat_ok d \<Longrightarrow> cat_ok (fst (pu_delete i d))"
  by (auto simp add: pu_delete_def cat_ok_def cat_constraints_def dict_ok_def AList.delete_eq
      distinct_map_filter split: option.splits)

lemma un_delete_ok: "cat_ok d \<Longrightarrow> cat_ok (fst (un_delete i d))"
proof -
  assume ok: "cat_ok d"
  let ?ps = "filter (\<lambda>(k, p). pu_unidad_id p \<noteq> i) (puestos d)"
  have fk: "\<forall>(k, p) \<in> set ?ps. pu_unidad_id p \<in> fst ` set (AList.delete i (unidades d))"
    using ok by (auto simp add: cat_ok_def cat_constraints_def)
  have "distinct (map fst (AList.delete i (unidades d))) \<and> distinct (map fst ?ps)
        \<and> distinct (map (un_nombre \<circ> snd) (AList.delete i (unidades d)))
        \<and> distinct (map ((\<lambda>p. (pu_nombre p, pu_unidad_id p)) \<circ> snd) ?ps)"
    using ok by (simp add: cat_ok_def cat_constraints_def dict_ok_def AList.delete_eq distinct_map_filter)
  then show ?thesis using ok fk
    by (auto simp add: un_delete_def cat_ok_def cat_constraints_def dict_ok_def set_delete split: option.splits)
qed

lemma cat_ok_demo: "cat_ok demo_cat"
  by (simp add: cat_ok_def demo_cat_def cat_constraints_def dict_ok_def)

lemma create_unidad_no_puestos:
  assumes ok: "cat_ok d" and run: "un_create d p = Inr (d', obj)"
  shows "puestos_of d' (un_id obj) = []"
proof -
  have c: "cat_commit (d\<lparr>unidades := unidades d @ [(un_next_pk d, obj)], un_next_pk := un_next_pk d + 1\<rparr>) = Inr d'"
    and o: "un_id obj = un_next_pk d"
    using run by (auto simp add: un_create_def Let_def split: sum.splits)
  have fresh: "un_next_pk d \<notin> set (map fst (unidades d))"
    using ok by (intro keyed_rows_fresh [of _ un_id]) (simp add: cat_ok_def)
  have "\<forall>(k, q) \<in> set (puestos d). pu_unidad_id q \<in> set (map fst (unidades d))"
    using ok by (simp add: cat_ok_def cat_constraints_def)
  then show ?thesis using cat_commit_Inr [OF c] o fresh
    by (force simp add: puestos_of_def filter_empty_conv)
qed

lemma un_delete_cascade:
  assumes "un_get d uid = Some u"
  shows "snd (un_delete uid d) \<and> un_get (fst (un_delete uid d)) uid = None
         \<and> puestos_of (fst (un_delete uid d)) uid = []
         \<and> (\<forall>j. j \<noteq> uid \<longrightarrow> un_get (fst (un_delete uid d)) j = un_get d j
                            \<and> puestos_of (fst (un_delete uid d)) j = puestos_of d j)"
proof -
  have "puestos_of (fst (un_delete uid d)) j = filter (\<lambda>p. pu_unidad_id p = j \<and> pu_unidad_id p \<noteq> uid) (map snd (puestos d))"
    for j using assms by (simp add: un_delete_def un_get_def puestos_of_def filter_map filter_filter comp_def
      case_prod_beta conj_commute)
  then show ?thesis using assms
    by (auto simp add: un_delete_def un_get_def puestos_of_def delete_conv' intro: filter_cong)
qed

lemma admin_required_rejection_status:
  "admin_required cfg now h = Inl e \<Longrightarrow> auth_status e \<in> {401, 403}"
  by (auto simp add: admin_required_def jwt_bearer_def http_bearer_def auth_status_def
      split: option.splits sum.splits if_splits prod.splits)

text \<open>
  C39. Only an administrator writes the catalogue: a request whose \<open>Authorization\<close>
  header does not carry the scheme \<open>bearer\<close> with an unexpired token signed with
  \<open>SECRET_KEY\<close> whose role is \<open>Admin\<close> is refused by every write handler of
  positions and units (create, update, delete) with the guard's 401 or 403, and leaves
  the catalogue unchanged.
\<close>

theorem catalogue_writes_need_admin:
  assumes "\<not> (\<exists>scheme p. py_lower scheme = ''bearer'' \<and> h = Some (scheme, Some (Signed p (secret_key cfg)))
              \<and> (case map_of p ''exp'' of None \<Rightarrow> True | Some (PInt e) \<Rightarrow> now < e | Some _ \<Rightarrow> False)
              \<and> map_of p ''role'' = Some (PStr ''Admin''))"
  shows "\<exists>e. auth_status e \<in> {401, 403}
           \<and> create_puesto cfg now h pc d = (d, Inl (CAuth e)) \<and> update_puesto cfg now h i pfs d = (d, Inl (CAuth e))
           \<and> delete_puesto cfg now h i d = (d, Inl (CAuth e)) \<and> create_unidad cfg now h uc d = (d, Inl (CAuth e))
           \<and> update_unidad cfg now h i ufs d = (d, Inl (CAuth e)) \<and> delete_unidad cfg now h i d = (d, Inl (CAuth e))"
proof (cases "admin_required cfg now h")
  case (Inl e)
  with admin_required_rejection_status [OF Inl] show ?thesis
    by (simp add: create_puesto_def update_puesto_def delete_puesto_def
        create_unidad_def update_unidad_def delete_unidad_def)
next
  case (Inr p)
  with assms show ?thesis unfolding admin_required_iff by blast
qed

theorem catalogue_writes_need_admin_witness:
  "\<exists>e. auth_status e \<in> {401, 403}
     \<and> create_puesto \<lparr>secret_key = ''s3cret'', expire_minutes = 120\<rparr> 0
         (Some (''Bearer'', Some (Signed [(''role'', PStr ''User'')] ''s3cret'')))
         \<lparr>puc_nombre = ''Vendedor'', puc_descripcion = None, puc_activo = True, puc_unidad_id = 1\<rparr> demo_cat
       = (demo_cat, Inl (CAuth e))
     \<and> update_puesto \<lparr>secret_key = ''s3cret'', expire_minutes = 120\<rparr> 0
         (Some (''Bearer'', Some (Signed [(''role'', PStr ''User'')] ''s3cret''))) 1 [PuActivo (Some False)] demo_cat
       = (demo_cat, Inl (CAuth e))
     \<and> delete_puesto \<lparr>secret_key = ''s3cret'', expire_minutes = 120\<rparr> 0
         (Some (''Bearer'', Some (Signed [(''role'', PStr ''User'')] ''s3cret''))) 1 demo_cat
       = (demo_cat, Inl (CAuth e))
     \<and> create_unidad \<lparr>secret_key = ''s3cret'', expire_minutes = 120\<rparr> 0
         (Some (''Bearer'', Some (Signed [(''role'', PStr ''User'')] ''s3cret'')))
         \<lparr>unc_nombre = ''Compras'', unc_descripcion = None, unc_activo = True\<rparr> demo_cat
       = (demo_cat, Inl (CAuth e))
     \<and> update_unidad \<lparr>secret_key = ''s3cret'', expire_minutes = 120\<rparr> 0
         (Some (''Bearer'', Some (Signed [(''role'', PStr ''User'')] ''s3cret''))) 1 [UnActivo (Some False)] demo_cat
       = (demo_cat, Inl (CAuth e))
     \<and> delete_unidad \<lparr>secret_key = ''s3cret'', expire_minutes = 120\<rparr> 0
         (Some (''Bearer'', Some (Signed [(''role'', PStr ''User'')] ''s3cret''))) 1 demo_cat
       = (demo_cat, Inl (CAuth e))"
  by (rule catalogue_writes_need_admin) simp

text \<open>
  Every write of the catalogue keeps the invariant: keys distinct and below the next
  autoincrement values, unit names unique, a position's name unique within its unit,
  and every position's unit present; deleting a unit removes its positions with it.
\<close>

theorem catalogue_handlers_preserve_cat_ok:
  "cat_ok d \<Longrightarrow>
   cat_ok (fst (create_puesto cfg now h pc d)) \<and> cat_ok (fst (update_puesto cfg now h i pfs d))
   \<and> cat_ok (fst (delete_puesto cfg now h i d)) \<and> cat_ok (fst (create_unidad cfg now h uc d))
   \<and> cat_ok (fst (update_unidad cfg now h i ufs d)) \<and> cat_ok (fst (delete_unidad cfg now h i d))"
proof -
  assume ok: "cat_ok d"
  have "cat_ok (fst (create_puesto cfg now h pc d))"
    using ok pu_create_ok [OF ok] by (auto simp add: create_puesto_def split: sum.split)
  moreover have "cat_ok (fst (update_puesto cfg now h i pfs d))"
    using ok pu_update_ok [OF ok] by (auto simp add: update_puesto_def split: sum.split option.split)
  moreover have "cat_ok (fst (delete_puesto cfg now h i d))"
    using ok pu_delete_ok [OF ok, of i] by (simp add: delete_puesto_def case_prod_beta split: sum.split)
  moreover have "cat_ok (fst (create_unidad cfg now h uc d))"
    using ok un_create_ok [OF ok] by (auto simp add: create_unidad_def split: sum.split option.split)
  moreover have "cat_ok (fst (update_unidad cfg now h i ufs d))"
    using ok un_update_ok [OF ok] by (auto simp add: update_unidad_def split: sum.split option.split)
  moreover have "cat_ok (fst (delete_unidad cfg now h i d))"
    using ok un_delete_ok [OF ok, of i] by (simp add: delete_unidad_def case_prod_beta split: sum.split)
  ultimately show ?thesis by blast
qed

text \<open>
  The public list of units (\<open>GET /unidades-negocio\<close>, public API key) returns the
  units the filter keeps, each once, sorted by name, and embeds in each unit every one of
  its positions, the inactive ones included, although the public list of positions hides
  inactive positions by default.
\<close>

theorem list_unidades_embeds_inactive:
  assumes "list_unidades key inc d = Inr r"
  shows "key = Some ''Donemilio@2026'' \<and> sorted (map (un_nombre \<circ> fst) r)
         \<and> mset (map fst r) = mset (filter (\<lambda>u. inc \<or> un_activo u) (map snd (unidades d)))
         \<and> (\<forall>(u, ps) \<in> set r. \<forall>p \<in> snd ` set (puestos d). p \<in> set ps \<longleftrightarrow> pu_unidad_id p = un_id u)"
proof -
  have k: "key = Some ''Donemilio@2026''" and r: "r = un_list_full inc d"
    using assms by (auto simp add: list_unidades_def require_public_api_key_def split: if_splits)
  have f: "map fst r = un_list inc d" by (simp add: r un_list_full_def comp_def)
  have "sorted (map (un_nombre \<circ> fst) r)"
    using f by (simp add: un_list_def flip: map_map)
  moreover have "mset (map fst r) = mset (filter (\<lambda>u. inc \<or> un_activo u) (map snd (unidades d)))"
    using f by (simp add: un_list_def)
  moreover have "\<forall>(u, ps) \<in> set r. \<forall>p \<in> snd ` set (puestos d). p \<in> set ps \<longleftrightarrow> pu_unidad_id p = un_id u"
    by (auto simp add: r un_list_full_def puestos_of_def)
  ultimately show ?thesis using k by blast
qed

theorem catalogue_handlers_preserve_cat_ok_witness:
  "cat_ok (fst (create_puesto \<lparr>secret_key = ''s3cret'', expire_minutes = 120\<rparr> 0
       (Some (''Bearer'', Some (Signed [(''role'', PStr ''Admin'')] ''s3cret'')))
       \<lparr>puc_nombre = ''Vendedor'', puc_descripcion = None, puc_activo = True, puc_unidad_id = 1\<rparr> demo_cat))
   \<and> cat_ok (fst (update_puesto \<lparr>secret_key = ''s3cret'', expire_minutes = 120\<rparr> 0
       (Some (''Bearer'', Some (Signed [(''role'', PStr ''Admin'')] ''s3cret''))) 2 [PuUnidadId (Some 2)] demo_cat))
   \<and> cat_ok (fst (delete_puesto \<lparr>secret_key = ''s3cret'', expire_minutes = 120\<rparr> 0
       (Some (''Bearer'', Some (Signed [(''role'', PStr ''Admin'')] ''s3cret''))) 2 demo_cat))
   \<and> cat_ok (fst (create_unidad \<lparr>secret_key = ''s3cret'', expire_minutes = 120\<rparr> 0
       (Some (''Bearer'', Some (Signed [(''role'', PStr ''Admin'')] ''s3cret'')))
       \<lparr>unc_nombre = ''Ventas'', unc_descripcion = None, unc_activo = True\<rparr> demo_cat))
   \<and> cat_ok (fst (update_unidad \<lparr>secret_key = ''s3cret'', expire_minutes = 120\<rparr> 0
       (Some (''Bearer'', Some (Signed [(''role'', PStr ''Admin'')] ''s3cret''))) 2 [UnActivo (Some True)] demo_cat))
   \<and> cat_ok (fst (delete_unidad \<lparr>secret_key = ''s3cret'', expire_minutes = 120\<rparr> 0
       (Some (''Bearer'', Some (Signed [(''role'', PStr ''Admin'')] ''s3cret''))) 1 demo_cat))"
  using catalogue_handlers_preserve_cat_ok [OF cat_ok_demo, where cfg = "\<lparr>secret_key = ''s3cret'', expire_minutes = 120\<rparr>"
      and now = 0 and h = "Some (''Bearer'', Some (Signed [(''role'', PStr ''Admin'')] ''s3cret''))"
      and pc = "\<lparr>puc_nombre = ''Vendedor'', puc_descripcion = None, puc_activo = True, puc_unidad_id = 1\<rparr>"
      and uc = "\<lparr>unc_nombre = ''Ventas'', unc_descripcion = None, unc_activo = True\<rparr>"]
    catalogue_handlers_preserve_cat_ok [OF cat_ok_demo, where cfg = "\<lparr>secret_key = ''s3cret'', expire_minutes = 120\<rparr>"
      and now = 0 and h = "Some (''Bearer'', Some (Signed [(''role'', PStr ''Admin'')] ''s3cret''))" and i = 2
      and pfs = "[PuUnidadId (Some 2)]" and ufs = "[UnActivo (Some True)]"]
    catalogue_handlers_preserve_cat_ok [OF cat_ok_demo, where cfg = "\<lparr>secret_key = ''s3cret'', expire_minutes = 120\<rparr>"
      and now = 0 and h = "Some (''Bearer'', Some (Signed [(''role'', PStr ''Admin'')] ''s3cret''))" and i = 1]
  by blast

lemma list_unidades_demo:
  "list_unidades (Some ''Donemilio@2026'') False demo_cat
     = Inr [(\<lparr>un_id = 1, un_nombre = ''Ventas'', un_descripcion = None, un_activo = True\<rparr>,
             [\<lparr>pu_id = 1, pu_nombre = ''Vendedor'', pu_descripcion = None, pu_activo = True, pu_unidad_id = 1\<rparr>,
              \<lparr>pu_id = 2, pu_nombre = ''Cajero'', pu_descripcion = Some ''turno noche'', pu_activo = False, pu_unidad_id = 1\<rparr>])]"
  by code_simp

theorem list_unidades_embeds_inactive_witness:
  "list_unidades (Some ''Donemilio@2026'') False demo_cat
     = Inr [(\<lparr>un_id = 1, un_nombre = ''Ventas'', un_descripcion = None, un_activo = True\<rparr>,
             [\<lparr>pu_id = 1, pu_nombre = ''Vendedor'', pu_descripcion = None, pu_activo = True, pu_unidad_id = 1\<rparr>,
              \<lparr>pu_id = 2, pu_nombre = ''Cajero'', pu_descripcion = Some ''turno noche'', pu_activo = False, pu_unidad_id = 1\<rparr>])]
   \<and> mset [\<lparr>un_id = 1, un_nombre = ''Ventas'', un_descripcion = None, un_activo = True\<rparr>]
       = mset (filter un_activo (map snd (unidades demo_cat)))
   \<and> \<lparr>pu_id = 2, pu_nombre = ''Cajero'', pu_descripcion = Some ''turno noche'', pu_activo = False, pu_unidad_id = 1\<rparr>
       \<notin> set (pu_list False demo_cat)"
proof -
  have "pu_list False demo_cat = [\<lparr>pu_id = 1, pu_nombre = ''Vendedor'', pu_descripcion = None, pu_activo = True, pu_unidad_id = 1\<rparr>]"
    by code_simp
  then show ?thesis using list_unidades_embeds_inactive [OF list_unidades_demo] list_unidades_demo by simp
qed

end
