(* ===== verification/Postulaciones.thy ===== *)
theory Postulaciones
  imports PyValue
begin

text \<open>
  The application records and their service, \<open>PostulacionesService\<close> of
  \<open>src/Api/services/postulaciones.py\<close>, over the table of
  \<open>src/Api/models/postulaciones.py\<close>. The table is a dict from primary key to row,
  in insertion order, with the next value of the autoincrement key; a timestamp is an
  \<open>int\<close> and the current time is a parameter (\<open>datetime.now\<close> in the code). Each
  service method is one definition; a \<open>ValueError\<close> of the code is \<open>Inl\<close> of
  \<open>decide_error\<close>, whose constructors stand for the code's messages. The SQL queries
  are written as the list functions they compute: \<open>GROUP BY\<close> with first-appearance
  order, \<open>ORDER BY created_at DESC\<close> as a stable sort (ties keep table order).
  Strings are ASCII here, so \<open>len\<close> counts characters as Python does.
\<close>

record postulacion =
  post_id :: int
  nombre :: string
  apellido :: string
  correo :: string
  telefono :: "string option"
  puesto_id :: "int option"
  unidad_id :: "int option"
  puesto_original_id :: "int option"
  unidad_original_id :: "int option"
  estado :: string
  nota :: "string option"
  cv_filename :: string
  cv_original :: string
  cv_mime :: string
  cv_size :: int
  dni :: "string option"
  fecha_nacimiento :: "int option"
  estado_civil :: "string option"
  hijos :: "bool option"
  domicilio_residencia :: "string option"
  localidad :: "string option"
  decidido_motivo :: "string option"
  decidido_por_user_id :: "int option"
  decidido_en :: "int option"
  created_at :: int

record db =
  postulaciones :: "(int, postulacion) dict"
  next_pk :: int

text \<open>The keyword arguments of \<open>create_from_upload\<close>.\<close>

record upload_args =
  up_nombre :: string
  up_apellido :: string
  up_correo :: string
  up_telefono :: "string option"
  up_puesto_id :: "int option"
  up_unidad_id :: "int option"
  up_nota :: "string option"
  up_cv_filename :: string
  up_cv_original :: string
  up_cv_mime :: string
  up_cv_size :: int
  up_dni :: "string option"
  up_fecha_nacimiento :: "int option"
  up_estado_civil :: "string option"
  up_hijos :: "bool option"
  up_domicilio_residencia :: "string option"
  up_localidad :: "string option"

datatype decide_error = NoEncontrado | EstadoVacio | EstadoLargo | MotivoObligatorio

text \<open>The fields of \<open>PostulacionUpdate\<close> (\<open>schemas/postulaciones.py\<close>); an update payload
  is the list of fields the client set (\<open>model_dump(exclude_unset=True)\<close>), each with
  its value, \<open>None\<close> included. The schema has no \<open>estado\<close> and no original ids.\<close>

datatype field_update =
    SetNombre "string option"
  | SetApellido "string option"
  | SetCorreo "string option"
  | SetTelefono "string option"
  | SetPuestoId "int option"
  | SetUnidadId "int option"
  | SetNota "string option"
  | SetDni "string option"
  | SetFechaNacimiento "int option"
  | SetEstadoCivil "string option"
  | SetHijos "bool option"
  | SetDomicilioResidencia "string option"
  | SetLocalidad "string option"

definition get :: "db \<Rightarrow> int \<Rightarrow> postulacion option" where
  "get d i = map_of (postulaciones d) i"

definition create_from_upload :: "int \<Rightarrow> upload_args \<Rightarrow> db \<Rightarrow> db \<times> postulacion" where
  "create_from_upload now a d =
     (let obj = \<lparr>post_id = next_pk d, nombre = up_nombre a, apellido = up_apellido a, correo = up_correo a,
                 telefono = up_telefono a, puesto_id = up_puesto_id a, unidad_id = up_unidad_id a,
                 puesto_original_id = up_puesto_id a, unidad_original_id = up_unidad_id a,
                 estado = ''nueva'', nota = up_nota a,
                 cv_filename = up_cv_filename a, cv_original = up_cv_original a, cv_mime = up_cv_mime a,
                 cv_size = up_cv_size a, dni = up_dni a, fecha_nacimiento = up_fecha_nacimiento a,
                 estado_civil = map_option py_strip (up_estado_civil a), hijos = up_hijos a,
                 domicilio_residencia = up_domicilio_residencia a, localidad = up_localidad a,
                 decidido_motivo = None, decidido_por_user_id = None, decidido_en = None,
                 created_at = now\<rparr>
      in (d\<lparr>postulaciones := postulaciones d @ [(next_pk d, obj)], next_pk := next_pk d + 1\<rparr>, obj))"

definition decide ::
  "int \<Rightarrow> int \<Rightarrow> string \<Rightarrow> string \<Rightarrow> int \<Rightarrow> int option \<Rightarrow> int option \<Rightarrow> db \<Rightarrow> decide_error + db \<times> postulacion" where
  "decide now i new_estado motivo reviewer_user_id new_unidad_id new_puesto_id d =
     (case get d i of
       None \<Rightarrow> Inl NoEncontrado
     | Some obj \<Rightarrow>
         (let e = py_strip new_estado in
          if e = [] then Inl EstadoVacio
          else if length e > 32 then Inl EstadoLargo
          else
            (let m = py_strip motivo in
             if m = [] then Inl MotivoObligatorio
             else
               (let obj' = obj\<lparr>estado := e, decidido_motivo := Some m,
                               decidido_por_user_id := Some reviewer_user_id, decidido_en := Some now,
                               unidad_id := (case new_unidad_id of None \<Rightarrow> unidad_id obj | Some u \<Rightarrow> Some u),
                               puesto_id := (case new_puesto_id of None \<Rightarrow> puesto_id obj | Some p \<Rightarrow> Some p)\<rparr>
                in Inr (d\<lparr>postulaciones := AList.update i obj' (postulaciones d)\<rparr>, obj')))))"

text \<open>\<open>setattr(obj, k, v)\<close> for one field. \<open>nombre\<close>, \<open>apellido\<close> and \<open>correo\<close> are
  NOT NULL columns: setting one to \<open>None\<close> makes the later \<open>commit\<close> raise
  \<open>IntegrityError\<close>, which is \<open>None\<close> here.\<close>

fun set_field :: "postulacion \<Rightarrow> field_update \<Rightarrow> postulacion option" where
  "set_field obj (SetNombre v) = map_option (\<lambda>x. obj\<lparr>nombre := x\<rparr>) v"
| "set_field obj (SetApellido v) = map_option (\<lambda>x. obj\<lparr>apellido := x\<rparr>) v"
| "set_field obj (SetCorreo v) = map_option (\<lambda>x. obj\<lparr>correo := x\<rparr>) v"
| "set_field obj (SetTelefono v) = Some (obj\<lparr>telefono := v\<rparr>)"
| "set_field obj (SetPuestoId v) = Some (obj\<lparr>puesto_id := v\<rparr>)"
| "set_field obj (SetUnidadId v) = Some (obj\<lparr>unidad_id := v\<rparr>)"
| "set_field obj (SetNota v) = Some (obj\<lparr>nota := v\<rparr>)"
| "set_field obj (SetDni v) = Some (obj\<lparr>dni := v\<rparr>)"
| "set_field obj (SetFechaNacimiento v) = Some (obj\<lparr>fecha_nacimiento := v\<rparr>)"
| "set_field obj (SetEstadoCivil v) = Some (obj\<lparr>estado_civil := v\<rparr>)"
| "set_field obj (SetHijos v) = Some (obj\<lparr>hijos := v\<rparr>)"
| "set_field obj (SetDomicilioResidencia v) = Some (obj\<lparr>domicilio_residencia := v\<rparr>)"
| "set_field obj (SetLocalidad v) = Some (obj\<lparr>localidad := v\<rparr>)"

fun set_fields :: "postulacion \<Rightarrow> field_update list \<Rightarrow> postulacion option" where
  "set_fields obj [] = Some obj"
| "set_fields obj (f # fs) = (case set_field obj f of None \<Rightarrow> None | Some obj' \<Rightarrow> set_fields obj' fs)"

datatype db_error = IntegrityError

definition update :: "int \<Rightarrow> field_update list \<Rightarrow> db \<Rightarrow> db_error + db \<times> postulacion option" where
  "update i payload d =
     (case get d i of
       None \<Rightarrow> Inr (d, None)
     | Some obj \<Rightarrow>
         (case set_fields obj payload of
           None \<Rightarrow> Inl IntegrityError
         | Some obj' \<Rightarrow> Inr (d\<lparr>postulaciones := AList.update i obj' (postulaciones d)\<rparr>, Some obj')))"

definition delete :: "int \<Rightarrow> db \<Rightarrow> db \<times> bool" where
  "delete i d =
     (case get d i of
       None \<Rightarrow> (d, False)
     | Some obj \<Rightarrow> (d\<lparr>postulaciones := AList.delete i (postulaciones d)\<rparr>, True))"

text \<open>\<open>GROUP BY estado\<close> with \<open>COUNT(id)\<close>: one row per distinct estado.\<close>

definition group_by_estado :: "db \<Rightarrow> (string \<times> nat) list" where
  "group_by_estado d =
     (let es = map (estado \<circ> snd) (postulaciones d) in map (\<lambda>e. (e, count_list es e)) (remdups es))"

definition resumen_por_estado :: "db \<Rightarrow> (string, nat) dict" where
  "resumen_por_estado d =
     AList.update ''total'' (length (postulaciones d))
       (foldl (\<lambda>out (e, cnt). AList.update e cnt out) [] (group_by_estado d))"

definition count_nuevas :: "db \<Rightarrow> nat" where
  "count_nuevas d = length (filter (\<lambda>(k, p). estado p = ''nueva'') (postulaciones d))"

definition list_by_estado :: "string \<Rightarrow> nat option \<Rightarrow> nat \<Rightarrow> db \<Rightarrow> postulacion list" where
  "list_by_estado e limit offset d =
     (let rows = sort_key (\<lambda>p. - created_at p) [p \<leftarrow> map snd (postulaciones d). estado p = e];
          rows = (if offset \<noteq> 0 then drop offset rows else rows)
      in (case limit of Some l \<Rightarrow> if l \<noteq> 0 then take l rows else rows | None \<Rightarrow> rows))"

text \<open>The table invariant: distinct primary keys, each row stores its own key, every key
  is below the next autoincrement value, and every estado is one \<open>decide\<close> could store
  (stripped, non-empty, at most 32 characters) or the initial \<open>nueva\<close>.\<close>

definition estado_ok :: "string \<Rightarrow> bool" where
  "estado_ok e \<longleftrightarrow> e \<noteq> [] \<and> length e \<le> 32 \<and> py_strip e = e"

definition table_ok :: "db \<Rightarrow> bool" where
  "table_ok d \<longleftrightarrow> dict_ok (postulaciones d)
     \<and> (\<forall>(k, p) \<in> set (postulaciones d). post_id p = k \<and> k < next_pk d \<and> estado_ok (estado p))"

lemma table_ok_iff:
  "table_ok d \<longleftrightarrow> dict_ok (postulaciones d)
     \<and> (\<forall>k p. (k, p) \<in> set (postulaciones d) \<longrightarrow> post_id p = k \<and> k < next_pk d \<and> estado_ok (estado p))"
  unfolding table_ok_def by fast

lemma set_field_frame:
  "set_field obj f = Some obj' \<Longrightarrow>
   post_id obj' = post_id obj \<and> estado obj' = estado obj
   \<and> puesto_original_id obj' = puesto_original_id obj \<and> unidad_original_id obj' = unidad_original_id obj
   \<and> decidido_motivo obj' = decidido_motivo obj \<and> decidido_por_user_id obj' = decidido_por_user_id obj
   \<and> decidido_en obj' = decidido_en obj \<and> cv_filename obj' = cv_filename obj \<and> cv_original obj' = cv_original obj
   \<and> cv_mime obj' = cv_mime obj \<and> cv_size obj' = cv_size obj \<and> created_at obj' = created_at obj"
  by (cases f) auto

lemma set_fields_frame:
  "set_fields obj fs = Some obj' \<Longrightarrow>
   post_id obj' = post_id obj \<and> estado obj' = estado obj
   \<and> puesto_original_id obj' = puesto_original_id obj \<and> unidad_original_id obj' = unidad_original_id obj
   \<and> decidido_motivo obj' = decidido_motivo obj \<and> decidido_por_user_id obj' = decidido_por_user_id obj
   \<and> decidido_en obj' = decidido_en obj \<and> cv_filename obj' = cv_filename obj \<and> cv_original obj' = cv_original obj
   \<and> cv_mime obj' = cv_mime obj \<and> cv_size obj' = cv_size obj \<and> created_at obj' = created_at obj"
proof (induction obj fs rule: set_fields.induct)
  case (1 obj)
  then show ?case by simp
next
  case (2 obj f fs)
  then obtain obj1 where "set_field obj f = Some obj1" and "set_fields obj1 fs = Some obj'"
    by (auto split: option.splits)
  with "2.IH" set_field_frame show ?case by fastforce
qed

lemma table_ok_replace:
  assumes ok: "table_ok d" and g: "get d i = Some obj"
    and same: "post_id obj' = post_id obj" and est: "estado_ok (estado obj')"
  shows "table_ok (d\<lparr>postulaciones := AList.update i obj' (postulaciones d)\<rparr>)"
proof -
  from ok g have "(i, obj) \<in> set (postulaciones d)" by (simp add: get_def map_of_SomeD)
  with ok have "post_id obj = i" and "i < next_pk d" by (auto simp add: table_ok_iff)
  with ok same est show ?thesis
    by (auto simp add: table_ok_iff set_update_dict_ok dict_ok_update)
qed

lemma estado_ok_nueva: "estado_ok ''nueva''"
  by (simp add: estado_ok_def py_strip_def py_isspace_def)

lemma get_append: "get (d\<lparr>postulaciones := postulaciones d @ [(i, v)], next_pk := n\<rparr>) k
   = (case get d k of None \<Rightarrow> if k = i then Some v else None | Some x \<Rightarrow> Some x)"
  by (simp add: get_def map_add_def split: option.split)

lemma table_ok_append:
  assumes ok: "table_ok d" and "post_id obj = next_pk d" and "estado_ok (estado obj)"
  shows "table_ok (d\<lparr>postulaciones := postulaciones d @ [(next_pk d, obj)], next_pk := next_pk d + 1\<rparr>)"
proof -
  have "next_pk d \<notin> fst ` set (postulaciones d)" using ok by (force simp add: table_ok_iff)
  moreover have "k < next_pk d + 1" if "(k, p) \<in> set (postulaciones d)" for k p
    using ok that by (fastforce simp add: table_ok_iff)
  ultimately show ?thesis using assms by (auto simp add: table_ok_iff dict_ok_def)
qed

lemma create_table_ok: "table_ok d \<Longrightarrow> table_ok (fst (create_from_upload now a d))"
  unfolding create_from_upload_def Let_def by (simp add: table_ok_append estado_ok_nueva)

lemma decide_success:
  assumes "decide now i e m r u p d = Inr (d', obj')"
  shows "\<exists>obj. get d i = Some obj \<and> d' = d\<lparr>postulaciones := AList.update i obj' (postulaciones d)\<rparr>
           \<and> obj' = obj\<lparr>estado := py_strip e, decidido_motivo := Some (py_strip m),
                        decidido_por_user_id := Some r, decidido_en := Some now,
                        unidad_id := (case u of None \<Rightarrow> unidad_id obj | Some x \<Rightarrow> Some x),
                        puesto_id := (case p of None \<Rightarrow> puesto_id obj | Some x \<Rightarrow> Some x)\<rparr>
           \<and> estado_ok (py_strip e)"
  using assms
  by (auto simp add: decide_def Let_def estado_ok_def py_strip_idem split: option.splits if_splits)

lemma decide_table_ok: "table_ok d \<Longrightarrow> decide now i e m r u p d = Inr (d', obj') \<Longrightarrow> table_ok d'"
  by (auto dest!: decide_success intro: table_ok_replace)

lemma update_success:
  "update i fs d = Inr (d', Some obj') \<Longrightarrow>
   \<exists>obj. get d i = Some obj \<and> set_fields obj fs = Some obj' \<and> d' = d\<lparr>postulaciones := AList.update i obj' (postulaciones d)\<rparr>"
  by (auto simp add: update_def split: option.splits)

lemma update_none: "update i fs d = Inr (d', None) \<Longrightarrow> d' = d \<and> get d i = None"
  by (auto simp add: update_def split: option.splits)

lemma update_table_ok: "table_ok d \<Longrightarrow> update i fs d = Inr (d', r) \<Longrightarrow> table_ok d'"
proof (cases r)
  case None
  assume "table_ok d" "update i fs d = Inr (d', r)"
  with None show ?thesis by (auto dest: update_none)
next
  case (Some obj')
  assume ok: "table_ok d" and u: "update i fs d = Inr (d', r)"
  with Some obtain obj where "get d i = Some obj" and sf: "set_fields obj fs = Some obj'"
    and d': "d' = d\<lparr>postulaciones := AList.update i obj' (postulaciones d)\<rparr>"
    by (auto dest: update_success)
  moreover from ok \<open>get d i = Some obj\<close> have "estado_ok (estado obj)"
    by (auto simp add: table_ok_iff get_def dest: map_of_SomeD)
  ultimately show ?thesis using ok set_fields_frame [OF sf] by (auto intro: table_ok_replace)
qed

lemma delete_table_ok: "table_ok d \<Longrightarrow> table_ok (fst (delete i d))"
  by (auto simp add: delete_def table_ok_iff set_delete dict_ok_delete split: option.splits)

lemma get_update_same: "get (d\<lparr>postulaciones := AList.update i v (postulaciones d)\<rparr>) i = Some v"
  by (simp add: get_def update_conv')

lemma get_update_other: "k \<noteq> i \<Longrightarrow> get (d\<lparr>postulaciones := AList.update i v (postulaciones d)\<rparr>) k = get d k"
  by (simp add: get_def update_conv')

lemma table_ok_get: "table_ok d \<Longrightarrow> get d i = Some obj \<Longrightarrow> post_id obj = i \<and> estado_ok (estado obj)"
  by (auto simp add: table_ok_iff get_def dest: map_of_SomeD)

lemma set_fields_not_null:
  "SetNombre None \<in> set fs \<or> SetApellido None \<in> set fs \<or> SetCorreo None \<in> set fs \<Longrightarrow> set_fields obj fs = None"
proof (induction obj fs rule: set_fields.induct)
  case (1 obj)
  then show ?case by simp
next
  case (2 obj f fs)
  then show ?case by (cases f) (auto split: option.split)
qed

end
