(* ===== verification/Listado.thy ===== *)
theory Listado
  imports Postulaciones Catalogo "HOL-Library.Option_ord" "HOL-Library.Sublist"
begin

text \<open>
  The general listing of applications: \<open>PostulacionesService.list\<close> of
  \<open>src/Api/services/postulaciones.py\<close> with its search, filters, sort map and paging, the
  handler \<open>list_postulaciones\<close> of \<open>src/Api/routers/postulaciones.py\<close> with the
  validation of its query parameters, and the per-estado helpers \<open>list_nuevas\<close> etc.
  The search is SQL \<open>ILIKE\<close> with the pattern \<open>%q%\<close>: \<open>like_match\<close> is the SQL \<open>LIKE\<close>
  matcher (\<open>%\<close> any run, \<open>_\<close> any one character, backslash the default escape, as in
  PostgreSQL and MySQL), applied to both sides lowered (ASCII case folding). The lookup of
  the unit's "Disponibilidad General" position reads the catalogue of \<open>Catalogo\<close>.
  \<open>ORDER BY\<close> is a stable sort (ties keep table order, which SQL leaves unspecified); a
  descending order is the stable sort of the reversed rows, reversed; NULL sorts below
  every value (MySQL's order; PostgreSQL puts NULL first in a descending order).
\<close>

fun like_match :: "string \<Rightarrow> string \<Rightarrow> bool" where
  "like_match [] s \<longleftrightarrow> s = []"
| "like_match (c # p) [] \<longleftrightarrow> c = CHR ''%'' \<and> like_match p []"
| "like_match (c # p) (x # s) \<longleftrightarrow>
     (if c = CHR ''%'' then like_match p (x # s) \<or> like_match (c # p) s
      else if c = CHR ''_'' then like_match p s
      else if c = CHR 0x5C \<and> p \<noteq> [] then x = hd p \<and> like_match (tl p) s
      else x = c \<and> like_match p s)"

text \<open>\<open>column.ilike(pattern)\<close>.\<close>

definition ilike :: "string \<Rightarrow> string \<Rightarrow> bool" where
  "ilike s pattern \<longleftrightarrow> like_match (py_lower pattern) (py_lower s)"

text \<open>The filters of \<open>list\<close>, in the order of the code. A Python \<open>if x:\<close> on an
  \<open>Optional\<close> skips \<open>None\<close>, the empty string and the integer 0; a comparison with a NULL
  column is false.\<close>

definition search_filter :: "string option \<Rightarrow> postulacion \<Rightarrow> bool" where
  "search_filter q p =
     (case q of
       Some s \<Rightarrow> if s = [] then True
                 else (let like = ''%'' @ s @ ''%''
                       in ilike (nombre p) like \<or> ilike (apellido p) like \<or> ilike (correo p) like)
     | None \<Rightarrow> True)"

definition truthy_int :: "int option \<Rightarrow> int option" where
  "truthy_int x = (case x of Some i \<Rightarrow> if i = 0 then None else Some i | None \<Rightarrow> None)"

definition puesto_general :: "cdb \<Rightarrow> int \<Rightarrow> puesto option" where
  "puesto_general c u =
     find (\<lambda>pu. pu_unidad_id pu = u \<and> ilike (pu_nombre pu) ''Disponibilidad General'') (map snd (puestos c))"

definition place_filter :: "cdb \<Rightarrow> int option \<Rightarrow> int option \<Rightarrow> postulacion \<Rightarrow> bool" where
  "place_filter c puesto unidad p =
     (case truthy_int unidad of
       Some u \<Rightarrow>
         (unidad_id p = Some u \<or> unidad_original_id p = Some u)
         \<and> (case truthy_int puesto of
              Some pid \<Rightarrow>
                (case puesto_general c u of
                  Some g \<Rightarrow>
                    if pu_id g \<noteq> pid
                    then (puesto_id p \<in> Some ` {pid, pu_id g} \<or> puesto_original_id p \<in> Some ` {pid, pu_id g})
                    else (puesto_id p = Some pid \<or> puesto_original_id p = Some pid)
                | None \<Rightarrow> puesto_id p = Some pid \<or> puesto_original_id p = Some pid)
            | None \<Rightarrow> True)
     | None \<Rightarrow>
         (case truthy_int puesto of
           Some pid \<Rightarrow> puesto_id p = Some pid \<or> puesto_original_id p = Some pid
         | None \<Rightarrow> True))"

definition list_filter ::
  "cdb \<Rightarrow> string option \<Rightarrow> string option \<Rightarrow> int option \<Rightarrow> int option \<Rightarrow> postulacion \<Rightarrow> bool" where
  "list_filter c q est puesto unidad p \<longleftrightarrow>
     search_filter q p
     \<and> (case est of Some e \<Rightarrow> e = [] \<or> estado p = e | None \<Rightarrow> True)
     \<and> place_filter c puesto unidad p"

text \<open>\<open>ORDER BY\<close>: ascending and descending stable sorts, and \<open>_sort_map.get(sort, ...)\<close>.\<close>

definition sort_asc :: "('b \<Rightarrow> 'a::linorder) \<Rightarrow> 'b list \<Rightarrow> 'b list" where
  "sort_asc f xs = sort_key f xs"

definition sort_desc :: "('b \<Rightarrow> 'a::linorder) \<Rightarrow> 'b list \<Rightarrow> 'b list" where
  "sort_desc f xs = rev (sort_key f (rev xs))"

definition order_rows :: "string \<Rightarrow> postulacion list \<Rightarrow> postulacion list" where
  "order_rows sort_by rows =
     (if sort_by = ''antiguo'' then sort_asc created_at rows
      else if sort_by = ''nombre_az'' then sort_asc (\<lambda>p. py_lower (nombre p)) rows
      else if sort_by = ''nombre_za'' then sort_desc (\<lambda>p. py_lower (nombre p)) rows
      else if sort_by = ''procesado'' then sort_desc decidido_en rows
      else sort_desc created_at rows)"

text \<open>\<open>list\<close>: the page (\<open>offset\<close>, then \<open>limit\<close>) and the count of all matches. SQL
  \<open>OFFSET\<close> and \<open>LIMIT\<close> take the non-negative values the router admits.\<close>

definition post_list ::
  "db \<Rightarrow> cdb \<Rightarrow> string option \<Rightarrow> string option \<Rightarrow> int option \<Rightarrow> int option \<Rightarrow> nat \<Rightarrow> nat \<Rightarrow> string
   \<Rightarrow> postulacion list \<times> nat" where
  "post_list d c q est puesto unidad limit offset sort_by =
     (let rows = filter (list_filter c q est puesto unidad) (map snd (postulaciones d))
      in (take limit (drop offset (order_rows sort_by rows)), length rows))"

text \<open>The per-estado helpers, over \<open>list_by_estado\<close> of \<open>Postulaciones\<close>.\<close>

definition list_nuevas :: "nat option \<Rightarrow> nat \<Rightarrow> db \<Rightarrow> postulacion list" where
  "list_nuevas limit offset d = list_by_estado ''nueva'' limit offset d"

definition list_destacadas :: "nat option \<Rightarrow> nat \<Rightarrow> db \<Rightarrow> postulacion list" where
  "list_destacadas limit offset d = list_by_estado ''destacada'' limit offset d"

definition list_posibles :: "nat option \<Rightarrow> nat \<Rightarrow> db \<Rightarrow> postulacion list" where
  "list_posibles limit offset d = list_by_estado ''posible'' limit offset d"

definition list_descartadas :: "nat option \<Rightarrow> nat \<Rightarrow> db \<Rightarrow> postulacion list" where
  "list_descartadas limit offset d = list_by_estado ''descartada'' limit offset d"

text \<open>The handler. FastAPI runs the \<open>admin_required\<close> dependency before it validates the
  query parameters (422 on a failure): \<open>1 \<le> limit \<le> 200\<close>, \<open>offset \<ge> 0\<close>, and \<open>sort\<close> one
  of the five keys of the pattern.\<close>

datatype list_error = ListAuth auth_error | ListValidation

record page =
  pg_items :: "postulacion list"
  pg_total :: nat
  pg_limit :: int
  pg_offset :: int

definition sort_keys :: "string list" where
  "sort_keys = [''reciente'', ''antiguo'', ''nombre_az'', ''nombre_za'', ''procesado'']"

definition list_postulaciones ::
  "jwt_cfg \<Rightarrow> int \<Rightarrow> auth_header \<Rightarrow> db \<Rightarrow> cdb \<Rightarrow> string option \<Rightarrow> string option \<Rightarrow> int option \<Rightarrow> int option
   \<Rightarrow> int \<Rightarrow> int \<Rightarrow> string \<Rightarrow> list_error + page" where
  "list_postulaciones cfg now h d c q est puesto unidad limit offset sort_by =
     (case admin_required cfg now h of
       Inl e \<Rightarrow> Inl (ListAuth e)
     | Inr _ \<Rightarrow>
         if \<not> (1 \<le> limit \<and> limit \<le> 200 \<and> 0 \<le> offset \<and> sort_by \<in> set sort_keys) then Inl ListValidation
         else (let (items, total) = post_list d c q est puesto unidad (nat limit) (nat offset) sort_by
               in Inr \<lparr>pg_items = items, pg_total = total, pg_limit = limit, pg_offset = offset\<rparr>))"

definition no_wild :: "string \<Rightarrow> bool" where
  "no_wild q \<longleftrightarrow> (\<forall>c \<in> set q. c \<noteq> CHR ''%'' \<and> c \<noteq> CHR ''_'' \<and> c \<noteq> CHR 0x5C)"

text \<open>Sample data for the witnesses: three applications, created at times 100, 200, 300.\<close>

definition demo_app :: "int \<Rightarrow> string \<Rightarrow> string \<Rightarrow> int \<Rightarrow> postulacion" where
  "demo_app i n a t = \<lparr>post_id = i, nombre = n, apellido = a, correo = n @ ''@x.org'', telefono = None,
     puesto_id = None, unidad_id = None, puesto_original_id = None, unidad_original_id = None,
     estado = ''nueva'', nota = None, cv_filename = ''cv.pdf'', cv_original = ''cv.pdf'',
     cv_mime = ''application/pdf'', cv_size = 1000, dni = None, fecha_nacimiento = None,
     estado_civil = None, hijos = None, domicilio_residencia = None, localidad = None,
     decidido_motivo = None, decidido_por_user_id = None, decidido_en = None, created_at = t\<rparr>"

definition demo_apps :: db where
  "demo_apps = \<lparr>postulaciones = [(1, demo_app 1 ''Ana'' ''Diaz'' 100), (2, demo_app 2 ''Beto'' ''Paz'' 200),
     (3, demo_app 3 ''Carla'' ''Ruiz'' 300)], next_pk = 4\<rparr>"

lemma like_match_literal:
  "no_wild q \<Longrightarrow> like_match (q @ r) s \<longleftrightarrow> (\<exists>s'. s = q @ s' \<and> like_match r s')"
proof (induction q arbitrary: s)
  case Nil
  then show ?case by simp
next
  case (Cons c q)
  then have c: "c \<noteq> CHR ''%'' \<and> c \<noteq> CHR ''_'' \<and> c \<noteq> CHR 0x5C" and q: "no_wild q"
    by (simp_all add: no_wild_def)
  show ?case using Cons.IH [OF q] c by (cases s) auto
qed

lemma like_match_percent:
  "like_match (CHR ''%'' # r) s \<longleftrightarrow> (\<exists>u v. s = u @ v \<and> like_match r v)"
proof (induction s)
  case Nil
  then show ?case by simp
next
  case (Cons x s)
  show ?case
  proof
    assume "like_match (CHR ''%'' # r) (x # s)"
    then have "like_match r (x # s) \<or> like_match (CHR ''%'' # r) s" by simp
    then show "\<exists>u v. x # s = u @ v \<and> like_match r v"
    proof
      assume "like_match r (x # s)"
      then show ?thesis by (metis append_Nil)
    next
      assume "like_match (CHR ''%'' # r) s"
      then obtain u v where "s = u @ v" "like_match r v" using Cons.IH by blast
      then show ?thesis by (metis append_Cons)
    qed
  next
    assume "\<exists>u v. x # s = u @ v \<and> like_match r v"
    then obtain u v where "x # s = u @ v" "like_match r v" by blast
    then show "like_match (CHR ''%'' # r) (x # s)"
      using Cons.IH by (cases u) auto
  qed
qed

lemma like_match_any: "like_match ''%'' s"
  using like_match_percent [of "[]" s] by simp

lemma like_match_infix:
  assumes "no_wild q"
  shows "like_match (CHR ''%'' # q @ ''%'') s \<longleftrightarrow> sublist q s"
proof -
  have "like_match (CHR ''%'' # q @ ''%'') s \<longleftrightarrow> (\<exists>u v. s = u @ v \<and> like_match (q @ ''%'') v)"
    by (rule like_match_percent)
  also have "\<dots> \<longleftrightarrow> (\<exists>u v. s = u @ v \<and> (\<exists>w. v = q @ w \<and> like_match ''%'' w))"
    by (simp only: like_match_literal [OF assms])
  also have "\<dots> \<longleftrightarrow> (\<exists>u w. s = u @ q @ w)"
    using like_match_any by blast
  finally show ?thesis by (simp add: sublist_def)
qed

lemma py_lower_append: "py_lower (a @ b) = py_lower a @ py_lower b"
  by (simp add: py_lower_def)

lemma py_lower_char_cases:
  "c \<in> set (py_lower q) \<Longrightarrow> c \<in> set q \<or> (97 \<le> (of_char c :: nat) \<and> (of_char c :: nat) \<le> 122)"
  by (auto simp add: py_lower_def split: if_splits)

lemma no_wild_py_lower: "no_wild q \<Longrightarrow> no_wild (py_lower q)"
  unfolding no_wild_def
proof
  fix c assume nw: "\<forall>c \<in> set q. c \<noteq> CHR ''%'' \<and> c \<noteq> CHR ''_'' \<and> c \<noteq> CHR 0x5C"
    and c: "c \<in> set (py_lower q)"
  from py_lower_char_cases [OF c] show "c \<noteq> CHR ''%'' \<and> c \<noteq> CHR ''_'' \<and> c \<noteq> CHR 0x5C"
  proof
    assume "c \<in> set q" with nw show ?thesis by blast
  next
    assume "97 \<le> (of_char c :: nat) \<and> (of_char c :: nat) \<le> 122"
    then show ?thesis by auto
  qed
qed

lemma py_lower_pct: "py_lower ''%'' = ''%''"
  by (simp add: py_lower_def)

lemma py_lower_pct_Cons: "py_lower (CHR ''%'' # s) = CHR ''%'' # py_lower s"
  by (simp add: py_lower_def)

lemma ilike_infix:
  "no_wild q \<Longrightarrow> ilike s (''%'' @ q @ ''%'') \<longleftrightarrow> sublist (py_lower q) (py_lower s)"
  by (simp del: like_match.simps
      add: ilike_def py_lower_pct_Cons py_lower_append py_lower_Nil like_match_infix no_wild_py_lower)

lemma search_filter_plain_iff:
  "no_wild q \<Longrightarrow> q \<noteq> [] \<Longrightarrow>
   search_filter (Some q) p \<longleftrightarrow> sublist (py_lower q) (py_lower (nombre p))
     \<or> sublist (py_lower q) (py_lower (apellido p)) \<or> sublist (py_lower q) (py_lower (correo p))"
  by (simp only: search_filter_def option.case Let_def ilike_infix) simp

text \<open>
  C16. The search of the general listing is a case-insensitive substring search when the
  query has no LIKE metacharacter: a non-empty \<open>q\<close> without \<open>%\<close>, \<open>_\<close> or backslash
  keeps exactly the applications whose nombre, apellido or correo contains \<open>q\<close>, both
  lowered (the equivalence of \<open>ILIKE '%q%'\<close> with \<open>sublist\<close>). With a metacharacter it is
  a pattern: \<open>q = "_"\<close> keeps every application with a non-empty field
  (\<open>search_underscore_matches_all\<close>).
\<close>

theorem search_is_substring:
  "no_wild q \<Longrightarrow> q \<noteq> [] \<Longrightarrow>
   search_filter (Some q) p \<longleftrightarrow> sublist (py_lower q) (py_lower (nombre p))
     \<or> sublist (py_lower q) (py_lower (apellido p)) \<or> sublist (py_lower q) (py_lower (correo p))"
  by (rule search_filter_plain_iff)

lemma like_match_one: "like_match (CHR ''_'' # ''%'') v \<longleftrightarrow> v \<noteq> []"
proof (cases v)
  case Nil
  then show ?thesis by simp
next
  case (Cons a l)
  then show ?thesis using like_match_any [of l] by simp
qed

lemma like_match_underscore: "like_match ''%_%'' s \<longleftrightarrow> s \<noteq> []"
proof -
  have "like_match ''%_%'' s \<longleftrightarrow> (\<exists>u v. s = u @ v \<and> like_match (CHR ''_'' # ''%'') v)"
    by (rule like_match_percent)
  also have "\<dots> \<longleftrightarrow> (\<exists>u v. s = u @ v \<and> v \<noteq> [])"
    by (simp only: like_match_one)
  also have "\<dots> \<longleftrightarrow> s \<noteq> []"
  proof
    assume "\<exists>u v. s = u @ v \<and> v \<noteq> []" then show "s \<noteq> []" by auto
  next
    assume "s \<noteq> []" then show "\<exists>u v. s = u @ v \<and> v \<noteq> []" by (intro exI [of _ "[]"] exI [of _ s]) simp
  qed
  finally show ?thesis .
qed

lemma search_underscore_matches_all:
  "search_filter (Some ''_'') p \<longleftrightarrow> nombre p \<noteq> [] \<or> apellido p \<noteq> [] \<or> correo p \<noteq> []"
proof -
  have pl: "py_lower ''%_%'' = ''%_%''" by (simp add: py_lower_def)
  have il: "ilike x ''%_%'' \<longleftrightarrow> x \<noteq> []" for x
    by (simp only: ilike_def pl like_match_underscore) (simp add: py_lower_def)
  show ?thesis by (simp add: search_filter_def il)
qed

lemma take_windows: "concat (map (\<lambda>k. take l (drop (k * l) xs)) [0..<n]) = take (n * l) xs"
proof (induction n)
  case 0
  then show ?case by simp
next
  case (Suc n)
  have eq: "take (n * l + l) xs = take (n * l) xs @ take l (drop (n * l) xs)"
    by (rule take_add)
  show ?case by (simp add: Suc.IH eq [symmetric] add.commute)
qed

lemma order_rows_mset: "mset (order_rows sort_by xs) = mset xs"
  by (simp add: order_rows_def sort_asc_def sort_desc_def)

lemma sort_desc_sorted: "sorted (rev (map f (sort_desc f xs)))"
  by (simp add: sort_desc_def rev_map)

lemma list_postulaciones_ok:
  assumes "admin_required cfg now h = Inr a" "1 \<le> l" "l \<le> 200" "sort_by \<in> set sort_keys"
  shows "list_postulaciones cfg now h d c q est pu un (int l) (int off) sort_by =
     Inr \<lparr>pg_items = take l (drop off (order_rows sort_by (filter (list_filter c q est pu un) (map snd (postulaciones d))))),
          pg_total = length (filter (list_filter c q est pu un) (map snd (postulaciones d))),
          pg_limit = int l, pg_offset = int off\<rparr>"
  using assms by (simp add: list_postulaciones_def post_list_def Let_def)

text \<open>
  C35. Paging the general listing loses and repeats nothing: for an administrator, a
  valid \<open>limit\<close> and \<open>sort\<close>, and enough pages of \<open>limit\<close> rows at offsets \<open>0, limit,
  2 limit, ...\<close> to reach the total, every page reports the same total, the number of
  matching applications, holds at most \<open>limit\<close> rows, and the pages together are exactly
  the matching applications, each once (on a table that does not change meanwhile).
\<close>

theorem list_pages_partition:
  assumes admin: "admin_required cfg now h = Inr a" and lim: "1 \<le> l" "l \<le> 200"
    and srt: "sort_by \<in> set sort_keys"
    and cover: "length (filter (list_filter c q est pu un) (map snd (postulaciones d))) \<le> n * l"
  shows "\<exists>pgs. map (\<lambda>k. list_postulaciones cfg now h d c q est pu un (int l) (int (k * l)) sort_by) [0..<n] = map Inr pgs
     \<and> (\<forall>pg \<in> set pgs. pg_total pg = length (filter (list_filter c q est pu un) (map snd (postulaciones d)))
                       \<and> length (pg_items pg) \<le> l)
     \<and> mset (concat (map pg_items pgs)) = mset (filter (list_filter c q est pu un) (map snd (postulaciones d)))"
proof -
  define rows where "rows = filter (list_filter c q est pu un) (map snd (postulaciones d))"
  define ord where "ord = order_rows sort_by rows"
  define pgs where "pgs = map (\<lambda>k. \<lparr>pg_items = take l (drop (k * l) ord), pg_total = length rows,
                                     pg_limit = int l, pg_offset = int (k * l)\<rparr>) [0..<n]"
  have calls: "map (\<lambda>k. list_postulaciones cfg now h d c q est pu un (int l) (int (k * l)) sort_by) [0..<n] = map Inr pgs"
    using list_postulaciones_ok [OF admin lim srt] by (simp add: pgs_def rows_def ord_def del: of_nat_mult)
  have "concat (map pg_items pgs) = take (n * l) ord"
    by (simp add: pgs_def comp_def take_windows)
  then have "mset (concat (map pg_items pgs)) = mset (take (n * l) ord)" by simp
  also have "take (n * l) ord = ord"
    using cover by (simp add: rows_def ord_def size_mset [symmetric] order_rows_mset del: size_mset)
  finally have "mset (concat (map pg_items pgs)) = mset rows" by (simp add: ord_def order_rows_mset)
  moreover have "\<forall>pg \<in> set pgs. pg_total pg = length rows \<and> length (pg_items pg) \<le> l"
    by (auto simp add: pgs_def)
  ultimately show ?thesis using calls by (auto simp add: rows_def)
qed

lemma py_lower_DIAZ: "py_lower ''DIAZ'' = ''diaz'' \<and> py_lower ''Diaz'' = ''diaz''"
  by code_simp

lemma demo_admin:
  "admin_required \<lparr>secret_key = ''s3cret'', expire_minutes = 120\<rparr> 0
     (Some (''Bearer'', Some (Signed [(''role'', PStr ''Admin'')] ''s3cret''))) = Inr [(''role'', PStr ''Admin'')]"
  by (simp add: admin_required_def jwt_bearer_def http_bearer_def validate_token_def py_lower_Bearer)

theorem search_is_substring_witness:
  "search_filter (Some ''DIAZ'') (demo_app 1 ''Ana'' ''Diaz'' 100)"
proof -
  have "no_wild ''DIAZ''" by (simp add: no_wild_def)
  from search_is_substring [OF this, of "demo_app 1 ''Ana'' ''Diaz'' 100"] show ?thesis
    by (simp add: py_lower_DIAZ demo_app_def)
qed

theorem list_pages_partition_witness:
  "\<exists>pgs. map (\<lambda>k. list_postulaciones \<lparr>secret_key = ''s3cret'', expire_minutes = 120\<rparr> 0
                 (Some (''Bearer'', Some (Signed [(''role'', PStr ''Admin'')] ''s3cret''))) demo_apps demo_cat
                 None None None None 2 (int (k * 2)) ''reciente'') [0..<2] = map Inr pgs
     \<and> mset (concat (map pg_items pgs)) = mset (map snd (postulaciones demo_apps))"
proof -
  have all: "filter (list_filter demo_cat None None None None) (map snd (postulaciones demo_apps))
             = map snd (postulaciones demo_apps)"
    by (simp add: list_filter_def search_filter_def place_filter_def truthy_int_def)
  have "length (filter (list_filter demo_cat None None None None) (map snd (postulaciones demo_apps))) \<le> 2 * 2"
    by (simp add: all demo_apps_def)
  from list_pages_partition [where sort_by = "''reciente''", OF demo_admin _ _ _ this] show ?thesis
    by (simp add: all sort_keys_def) blast
qed

end
