(* ===== verification/ConnectionManager.thy ===== *)
theory ConnectionManager
  imports PyValue
begin

text \<open>
  The notification hub of \<open>src/Api/utils/websocket_manager.py\<close>, class
  \<open>ConnectionManager\<close>. Its state is two dicts: \<open>active_connections\<close>
  (WebSocket \<open>\<rightarrow>\<close> \<open>{"id", "nombre"}\<close>, the connection registry) and \<open>viewers\<close>
  (cv id \<open>\<rightarrow>\<close> user id \<open>\<rightarrow>\<close> display name, the presence index). A WebSocket is
  an opaque handle compared by identity, a \<open>nat\<close> here. A send of the hub is a pair of
  the connection and the JSON value it writes; \<open>send_text\<close> to a connection may fail,
  which the model takes as a parameter \<open>alive\<close>: the sends that succeed are those to
  connections with \<open>alive c\<close>. Every method is one definition, in the order of the
  class; the lemmas after them give each method's behaviour on every branch, the
  invariant \<open>hub_inv\<close> with its preservation by every state-changing method, and the
  refinement of the presence index by an abstract map of maps.
\<close>

type_synonym ws = nat

record user_info =
  ui_id :: int
  ui_nombre :: string

record manager =
  active_connections :: "(ws, user_info) dict"
  viewers :: "(int, (int, string) dict) dict"

type_synonym send = "ws \<times> pyval"

definition init_manager :: manager where
  "init_manager = \<lparr>active_connections = [], viewers = []\<rparr>"

definition connect :: "ws \<Rightarrow> user_info \<Rightarrow> manager \<Rightarrow> manager" where
  "connect w user s = s\<lparr>active_connections := AList.update w user (active_connections s)\<rparr>"

text \<open>The loop of \<open>disconnect\<close>: drop the user from every viewer map that holds it and
  collect the cv ids of those maps, in the order of \<open>viewers\<close>.\<close>

fun purge_viewer :: "int \<Rightarrow> (int, (int, string) dict) dict \<Rightarrow> (int, (int, string) dict) dict \<times> int list" where
  "purge_viewer u [] = ([], [])"
| "purge_viewer u ((cv, m) # vs) =
     (let (vs', notify) = purge_viewer u vs in
      if dict_has m u then ((cv, AList.delete u m) # vs', cv # notify)
      else ((cv, m) # vs', notify))"

text \<open>\<open>disconnect\<close> returns \<open>None\<close> (Python's implicit return) for an unknown handle.\<close>

definition disconnect :: "ws \<Rightarrow> manager \<Rightarrow> manager \<times> int list option" where
  "disconnect w s =
     (case map_of (active_connections s) w of
       None \<Rightarrow> (s, None)
     | Some user \<Rightarrow>
         (let (vs', to_notify_cvs) = purge_viewer (ui_id user) (viewers s)
          in (s\<lparr>viewers := vs', active_connections := AList.delete w (active_connections s)\<rparr>,
              Some to_notify_cvs)))"

definition broadcast :: "(ws \<Rightarrow> bool) \<Rightarrow> string \<Rightarrow> pyval \<Rightarrow> manager \<Rightarrow> send list" where
  "broadcast alive event_type data s =
     (let message = PDict [(''type'', PStr event_type), (''payload'', data)]
      in [(c, message). c \<leftarrow> map fst (active_connections s), alive c])"

text \<open>\<open>self.viewers[cv_id]\<close> where the code has checked \<open>cv_id in self.viewers\<close>, and
  the empty dict otherwise.\<close>

definition viewers_of :: "manager \<Rightarrow> int \<Rightarrow> (int, string) dict" where
  "viewers_of s cv = (case map_of (viewers s) cv of None \<Rightarrow> [] | Some m \<Rightarrow> m)"

definition broadcast_viewers :: "(ws \<Rightarrow> bool) \<Rightarrow> int \<Rightarrow> manager \<Rightarrow> send list" where
  "broadcast_viewers alive cv s =
     (let current_viewers = [PDict [(''id'', PInt uid), (''nombre'', PStr name)]. (uid, name) \<leftarrow> viewers_of s cv]
      in broadcast alive ''VIEWERS_UPDATE'' (PDict [(''cvId'', PInt cv), (''viewers'', PList current_viewers)]) s)"

text \<open>The two mutations of \<open>handle_message\<close>: \<open>ENTER_VIEW\<close> creates the viewer map
  when missing and sets the user's name in it; \<open>EXIT_VIEW\<close> deletes the user.\<close>

definition add_viewer :: "int \<Rightarrow> user_info \<Rightarrow> manager \<Rightarrow> manager" where
  "add_viewer cv user s =
     s\<lparr>viewers := AList.update cv (AList.update (ui_id user) (ui_nombre user) (viewers_of s cv)) (viewers s)\<rparr>"

definition remove_viewer :: "int \<Rightarrow> int \<Rightarrow> manager \<Rightarrow> manager" where
  "remove_viewer cv u s = s\<lparr>viewers := AList.update cv (AList.delete u (viewers_of s cv)) (viewers s)\<rparr>"

definition handle_message :: "(ws \<Rightarrow> bool) \<Rightarrow> ws \<Rightarrow> pyval \<Rightarrow> manager \<Rightarrow> py_error + manager \<times> send list" where
  "handle_message alive w data s =
     (case py_get data ''type'' PNone of
       Inl e \<Rightarrow> Inl e
     | Inr msg_type \<Rightarrow>
     (case py_get data ''payload'' (PDict []) of
       Inl e \<Rightarrow> Inl e
     | Inr payload \<Rightarrow>
     (case map_of (active_connections s) w of
       None \<Rightarrow> Inr (s, [])
     | Some user \<Rightarrow>
         if msg_type = PStr ''ENTER_VIEW'' then
           (case py_get_int payload ''cvId'' 0 of
             Inl e \<Rightarrow> Inl e
           | Inr cv_id \<Rightarrow>
               if cv_id \<noteq> 0 then
                 (let s' = add_viewer cv_id user s in Inr (s', broadcast_viewers alive cv_id s'))
               else Inr (s, []))
         else if msg_type = PStr ''EXIT_VIEW'' then
           (case py_get_int payload ''cvId'' 0 of
             Inl e \<Rightarrow> Inl e
           | Inr cv_id \<Rightarrow>
               if cv_id \<noteq> 0 \<and> dict_has (viewers s) cv_id then
                 (if dict_has (viewers_of s cv_id) (ui_id user) then
                    (let s' = remove_viewer cv_id (ui_id user) s in Inr (s', broadcast_viewers alive cv_id s'))
                  else Inr (s, []))
               else Inr (s, []))
         else Inr (s, []))))"

text \<open>
  The invariant the hub keeps: both dicts and every viewer map have distinct keys (they
  are dicts), and every presence entry \<open>(user id, name)\<close> is the identity of some
  registered connection, so no entry outlives the last connection that could have
  made it.
\<close>

definition presence_sound :: "manager \<Rightarrow> bool" where
  "presence_sound s \<longleftrightarrow>
     (\<forall>(cv, m) \<in> set (viewers s). \<forall>(u, n) \<in> set m.
        \<exists>(c, user) \<in> set (active_connections s). ui_id user = u \<and> ui_nombre user = n)"

definition hub_inv :: "manager \<Rightarrow> bool" where
  "hub_inv s \<longleftrightarrow> dict_ok (active_connections s) \<and> dict_ok (viewers s)
     \<and> (\<forall>(cv, m) \<in> set (viewers s). dict_ok m) \<and> presence_sound s"

text \<open>
  The abstract presence index the hub promises (spec 4.2): for each cv id a finite map
  from user id to display name, with the three operations the spec names. The hub's
  \<open>viewers\<close> dict refines it through \<open>presence\<close>.
\<close>

definition presence :: "manager \<Rightarrow> int \<Rightarrow> int \<rightharpoonup> string" where
  "presence s cv = map_of (viewers_of s cv)"

definition enter_abs :: "(int \<Rightarrow> int \<rightharpoonup> string) \<Rightarrow> int \<Rightarrow> int \<Rightarrow> string \<Rightarrow> int \<Rightarrow> int \<rightharpoonup> string" where
  "enter_abs P cv u n = P(cv := (P cv)(u \<mapsto> n))"

definition exit_abs :: "(int \<Rightarrow> int \<rightharpoonup> string) \<Rightarrow> int \<Rightarrow> int \<Rightarrow> int \<Rightarrow> int \<rightharpoonup> string" where
  "exit_abs P cv u = P(cv := (P cv)(u := None))"

definition drop_abs :: "(int \<Rightarrow> int \<rightharpoonup> string) \<Rightarrow> int \<Rightarrow> int \<Rightarrow> int \<rightharpoonup> string" where
  "drop_abs P u = (\<lambda>cv. (P cv)(u := None))"

text \<open>A hub with two connections, Ana (id 1) and Beto (id 2), used by the witnesses.\<close>

definition demo_hub :: manager where
  "demo_hub = \<lparr>active_connections = [(1, \<lparr>ui_id = 1, ui_nombre = ''Ana''\<rparr>), (2, \<lparr>ui_id = 2, ui_nombre = ''Beto''\<rparr>)],
               viewers = [(42, [(2, ''Beto'')]), (7, [(1, ''Ana''), (2, ''Beto'')])]\<rparr>"

subsection \<open>Behaviour of the methods\<close>

lemma presence_sound_iff:
  "presence_sound s \<longleftrightarrow>
     (\<forall>cv m u n. (cv, m) \<in> set (viewers s) \<longrightarrow> (u, n) \<in> set m \<longrightarrow>
        (\<exists>c user. (c, user) \<in> set (active_connections s) \<and> ui_id user = u \<and> ui_nombre user = n))"
  unfolding presence_sound_def by fast

lemma hub_inv_iff:
  "hub_inv s \<longleftrightarrow> dict_ok (active_connections s) \<and> dict_ok (viewers s)
     \<and> (\<forall>cv m. (cv, m) \<in> set (viewers s) \<longrightarrow> dict_ok m) \<and> presence_sound s"
  unfolding hub_inv_def by fast

lemma purge_viewer_eq:
  "purge_viewer u vs = (AList.map_ran (\<lambda>_ m. AList.delete u m) vs, [cv. (cv, m) \<leftarrow> vs, dict_has m u])"
  by (induction u vs rule: purge_viewer.induct) (auto simp add: image_iff)

lemma disconnect_eq:
  "map_of (active_connections s) w = Some user \<Longrightarrow>
   disconnect w s = (s\<lparr>viewers := AList.map_ran (\<lambda>_ m. AList.delete (ui_id user) m) (viewers s),
                       active_connections := AList.delete w (active_connections s)\<rparr>,
                     Some [cv. (cv, m) \<leftarrow> viewers s, dict_has m (ui_id user)])"
  by (simp add: disconnect_def purge_viewer_eq)

lemma disconnect_absent: "map_of (active_connections s) w = None \<Longrightarrow> disconnect w s = (s, None)"
  by (simp add: disconnect_def)


lemma hub_inv_init: "hub_inv init_manager"
  by (simp add: hub_inv_iff presence_sound_iff init_manager_def)

lemma viewers_of_in_set: "dict_ok (viewers s) \<Longrightarrow> (cv, m) \<in> set (viewers s) \<Longrightarrow> viewers_of s cv = m"
  by (simp add: viewers_of_def in_set_dict_ok)

lemma viewers_of_in_set_cases:
  assumes "(u, n) \<in> set (viewers_of s cv)"
  obtains m where "(cv, m) \<in> set (viewers s)" and "(u, n) \<in> set m"
proof (cases "map_of (viewers s) cv")
  case None
  with assms show ?thesis by (simp add: viewers_of_def)
next
  case (Some m)
  with assms have "(u, n) \<in> set m" by (simp add: viewers_of_def)
  with Some show ?thesis by (blast intro: that dest: map_of_SomeD)
qed

lemma hub_inv_viewers_of_ok: "hub_inv s \<Longrightarrow> dict_ok (viewers_of s cv)"
proof (cases "map_of (viewers s) cv")
  case None
  then show ?thesis by (simp add: viewers_of_def)
next
  case (Some m)
  then have "(cv, m) \<in> set (viewers s)" by (rule map_of_SomeD)
  moreover assume "hub_inv s"
  ultimately show ?thesis using Some by (simp add: viewers_of_def hub_inv_iff)
qed

lemma hub_inv_viewers_of_sound:
  assumes "hub_inv s" and "(u, n) \<in> set (viewers_of s cv)"
  shows "\<exists>c user. (c, user) \<in> set (active_connections s) \<and> ui_id user = u \<and> ui_nombre user = n"
proof -
  from assms(2) obtain m where "(cv, m) \<in> set (viewers s)" and "(u, n) \<in> set m"
    by (rule viewers_of_in_set_cases)
  with assms(1) show ?thesis unfolding hub_inv_iff presence_sound_iff by blast
qed

lemma presence_sound_mono:
  "presence_sound s \<Longrightarrow> viewers s' = viewers s \<Longrightarrow>
   set (active_connections s) \<subseteq> set (active_connections s') \<Longrightarrow> presence_sound s'"
  unfolding presence_sound_iff by (simp only:) blast

lemma connect_hub_inv:
  assumes inv: "hub_inv s" and fresh: "\<not> dict_has (active_connections s) w"
  shows "hub_inv (connect w user s)"
proof -
  have act: "active_connections (connect w user s) = active_connections s @ [(w, user)]"
    using fresh by (simp add: connect_def update_new_key)
  from inv have "presence_sound s" by (simp add: hub_inv_iff)
  then have "presence_sound (connect w user s)"
    by (rule presence_sound_mono) (simp_all only: act set_append, simp add: connect_def, blast)
  moreover from inv fresh have "dict_ok (active_connections s @ [(w, user)])"
    by (simp add: hub_inv_iff dict_ok_def)
  ultimately show ?thesis
    using inv by (simp add: hub_inv_iff act) (simp add: connect_def)
qed

lemma add_viewer_hub_inv:
  assumes inv: "hub_inv s" and act: "(w, user) \<in> set (active_connections s)"
  shows "hub_inv (add_viewer cv user s)"
proof -
  let ?m = "AList.update (ui_id user) (ui_nombre user) (viewers_of s cv)"
  have ok: "dict_ok ?m" using inv by (simp add: hub_inv_viewers_of_ok dict_ok_update)
  have vs: "set (viewers (add_viewer cv user s)) = insert (cv, ?m) {p \<in> set (viewers s). fst p \<noteq> cv}"
    using inv by (simp add: add_viewer_def hub_inv_iff set_update_dict_ok)
  have sound: "\<exists>c user'. (c, user') \<in> set (active_connections s) \<and> ui_id user' = u \<and> ui_nombre user' = n"
    if "(u, n) \<in> set ?m" for u n
  proof (cases "u = ui_id user")
    case True
    with that ok have "n = ui_nombre user" by (simp add: in_set_dict_ok)
    with True act show ?thesis by blast
  next
    case False
    with that inv have "(u, n) \<in> set (viewers_of s cv)"
      by (simp add: set_update_dict_ok hub_inv_viewers_of_ok)
    with inv show ?thesis by (rule hub_inv_viewers_of_sound)
  qed
  have "presence_sound (add_viewer cv user s)"
    unfolding presence_sound_iff
  proof (intro allI impI)
    fix cv' m u n
    assume "(cv', m) \<in> set (viewers (add_viewer cv user s))" and un: "(u, n) \<in> set m"
    with vs have "(cv', m) = (cv, ?m) \<or> (cv', m) \<in> set (viewers s)" by auto
    then show "\<exists>c user'. (c, user') \<in> set (active_connections (add_viewer cv user s)) \<and> ui_id user' = u \<and> ui_nombre user' = n"
      using sound un inv by (auto simp add: add_viewer_def hub_inv_iff presence_sound_iff)
  qed
  moreover have "\<forall>cv' m. (cv', m) \<in> set (viewers (add_viewer cv user s)) \<longrightarrow> dict_ok m"
    using vs ok inv by (auto simp add: hub_inv_iff)
  ultimately show ?thesis
    using inv by (simp add: hub_inv_iff add_viewer_def dict_ok_update)
qed

lemma remove_viewer_hub_inv:
  assumes inv: "hub_inv s"
  shows "hub_inv (remove_viewer cv u s)"
proof -
  let ?m = "AList.delete u (viewers_of s cv)"
  have ok: "dict_ok ?m" using inv by (simp add: hub_inv_viewers_of_ok dict_ok_delete)
  have vs: "set (viewers (remove_viewer cv u s)) = insert (cv, ?m) {p \<in> set (viewers s). fst p \<noteq> cv}"
    using inv by (simp add: remove_viewer_def hub_inv_iff set_update_dict_ok)
  have "presence_sound (remove_viewer cv u s)"
    unfolding presence_sound_iff
  proof (intro allI impI)
    fix cv' m u' n
    assume "(cv', m) \<in> set (viewers (remove_viewer cv u s))" and un: "(u', n) \<in> set m"
    with vs have "(cv', m) = (cv, ?m) \<or> (cv', m) \<in> set (viewers s)" by auto
    then show "\<exists>c user'. (c, user') \<in> set (active_connections (remove_viewer cv u s)) \<and> ui_id user' = u' \<and> ui_nombre user' = n"
    proof
      assume "(cv', m) = (cv, ?m)"
      with un have "(u', n) \<in> set (viewers_of s cv)" by (simp add: set_delete)
      with inv show ?thesis unfolding remove_viewer_def by (simp add: hub_inv_viewers_of_sound)
    next
      assume "(cv', m) \<in> set (viewers s)"
      with un inv show ?thesis unfolding remove_viewer_def hub_inv_iff presence_sound_iff by simp
    qed
  qed
  moreover have "\<forall>cv' m. (cv', m) \<in> set (viewers (remove_viewer cv u s)) \<longrightarrow> dict_ok m"
    using vs ok inv by (auto simp add: hub_inv_iff)
  ultimately show ?thesis
    using inv by (simp add: hub_inv_iff remove_viewer_def dict_ok_update)
qed

lemma disconnect_hub_inv:
  assumes inv: "hub_inv s" and r: "disconnect w s = (s', r)"
  shows "hub_inv s'"
proof (cases "map_of (active_connections s) w")
  case None
  with inv r show ?thesis by (simp add: disconnect_absent)
next
  case (Some user)
  let ?f = "\<lambda>_ m. AList.delete (ui_id user) m"
  from Some r have s': "s' = s\<lparr>viewers := AList.map_ran ?f (viewers s),
                              active_connections := AList.delete w (active_connections s)\<rparr>"
    by (simp add: disconnect_eq)
  have "presence_sound s'"
    unfolding presence_sound_iff
  proof (intro allI impI)
    fix cv m' u n
    assume "(cv, m') \<in> set (viewers s')" and un: "(u, n) \<in> set m'"
    then obtain m where cvm: "(cv, m) \<in> set (viewers s)" and m': "m' = AList.delete (ui_id user) m"
      by (auto simp add: s' in_set_map_ran)
    with un have "(u, n) \<in> set m" and ne: "u \<noteq> ui_id user" by (auto simp add: set_delete)
    with cvm inv obtain c user' where cu: "(c, user') \<in> set (active_connections s)"
      and "ui_id user' = u" and "ui_nombre user' = n"
      unfolding hub_inv_iff presence_sound_iff by blast
    moreover have "c \<noteq> w"
    proof
      assume "c = w"
      with cu inv Some have "user' = user" by (simp add: hub_inv_iff in_set_dict_ok)
      with ne \<open>ui_id user' = u\<close> show False by simp
    qed
    ultimately show "\<exists>c user'. (c, user') \<in> set (active_connections s') \<and> ui_id user' = u \<and> ui_nombre user' = n"
      by (auto simp add: s' set_delete)
  qed
  moreover have "\<forall>cv m. (cv, m) \<in> set (viewers s') \<longrightarrow> dict_ok m"
    using inv by (auto simp add: s' in_set_map_ran hub_inv_iff dict_ok_delete)
  ultimately show ?thesis
    using inv by (simp add: hub_inv_iff s' dict_ok_delete dict_ok_map_ran)
qed

lemma viewers_of_add_viewer:
  "viewers_of (add_viewer cv user s) cv' =
     (if cv' = cv then AList.update (ui_id user) (ui_nombre user) (viewers_of s cv) else viewers_of s cv')"
  by (simp add: viewers_of_def add_viewer_def)

lemma viewers_of_remove_viewer:
  "viewers_of (remove_viewer cv u s) cv' = (if cv' = cv then AList.delete u (viewers_of s cv) else viewers_of s cv')"
  by (simp add: viewers_of_def remove_viewer_def)

lemma active_add_viewer [simp]: "active_connections (add_viewer cv user s) = active_connections s"
  by (simp add: add_viewer_def)

lemma active_remove_viewer [simp]: "active_connections (remove_viewer cv u s) = active_connections s"
  by (simp add: remove_viewer_def)

lemma handle_message_effect:
  assumes "handle_message alive w data s = Inr (s', out)"
  shows "(s' = s \<and> out = []) \<or>
         (\<exists>user cv. map_of (active_connections s) w = Some user \<and> cv \<noteq> 0 \<and>
            (s' = add_viewer cv user s \<or> s' = remove_viewer cv (ui_id user) s) \<and>
            out = broadcast_viewers alive cv s')"
  using assms unfolding handle_message_def
  by (auto simp add: Let_def split: sum.splits option.splits if_splits)

lemma handle_message_hub_inv:
  assumes inv: "hub_inv s" and r: "handle_message alive w data s = Inr (s', out)"
  shows "hub_inv s'"
  using handle_message_effect [OF r] inv
  by (auto intro: add_viewer_hub_inv remove_viewer_hub_inv dest: map_of_SomeD)

lemma demo_hub_inv: "hub_inv demo_hub"
  by (simp add: demo_hub_def hub_inv_def presence_sound_def dict_ok_def)

lemma comprehension_filter: "[(c, m). c \<leftarrow> xs, P c] = map (\<lambda>c. (c, m)) (filter P xs)"
  by (induction xs) auto

lemma broadcast_eq:
  "broadcast alive t d s =
     map (\<lambda>c. (c, PDict [(''type'', PStr t), (''payload'', d)])) (filter alive (dict_keys (active_connections s)))"
  unfolding broadcast_def Let_def by (simp only: comprehension_filter)

lemma viewers_of_has_key: "dict_has (viewers_of s cv) u \<Longrightarrow> dict_has (viewers s) cv"
proof (cases "map_of (viewers s) cv")
  case (Some m)
  then have "(cv, m) \<in> set (viewers s)" by (rule map_of_SomeD)
  then show ?thesis by force
qed (simp add: viewers_of_def)


lemma presence_add_viewer:
  "presence (add_viewer cv user s) = enter_abs (presence s) cv (ui_id user) (ui_nombre user)"
  by (auto simp add: presence_def enter_abs_def viewers_of_add_viewer update_conv')

lemma presence_remove_viewer:
  "presence (remove_viewer cv u s) = exit_abs (presence s) cv u"
  by (auto simp add: presence_def exit_abs_def viewers_of_remove_viewer delete_conv')

lemma viewers_of_disconnect:
  "map_of (active_connections s) w = Some user \<Longrightarrow>
   viewers_of (fst (disconnect w s)) cv = AList.delete (ui_id user) (viewers_of s cv)"
  by (auto simp add: disconnect_eq viewers_of_def AList.map_ran_conv split: option.splits)

text \<open>Refinement of unregistering: \<open>disconnect\<close> of a registered connection removes
  its user id from the presence map of every cv and changes nothing else there.\<close>

lemma disconnect_refinement:
  "map_of (active_connections s) w = Some user \<Longrightarrow>
   presence (fst (disconnect w s)) = drop_abs (presence s) (ui_id user)"
  by (auto simp add: presence_def drop_abs_def disconnect_eq viewers_of_def AList.map_ran_conv delete_conv'
      split: option.splits)

subsection \<open>Properties of the hub\<close>

text \<open>
  C3. Entering a view (spec 8, second property): an \<open>ENTER_VIEW\<close> message from a
  registered connection whose payload's \<open>cvId\<close> converts to a nonzero id always
  returns; afterwards the viewer list of that cv holds exactly one entry for the user,
  with the connection's display name, however many times the user entered before, and
  the hub broadcasts the new list.
\<close>

theorem enter_view_single_entry:
  assumes "hub_inv s" and "map_of (active_connections s) w = Some user"
    and "py_get_int payload ''cvId'' 0 = Inr cv" and "cv \<noteq> 0"
  shows "\<exists>s'. handle_message alive w (PDict [(''type'', PStr ''ENTER_VIEW''), (''payload'', payload)]) s
              = Inr (s', broadcast_viewers alive cv s')
           \<and> [p \<leftarrow> viewers_of s' cv. fst p = ui_id user] = [(ui_id user, ui_nombre user)]"
proof -
  let ?s' = "add_viewer cv user s"
  have "handle_message alive w (PDict [(''type'', PStr ''ENTER_VIEW''), (''payload'', payload)]) s
          = Inr (?s', broadcast_viewers alive cv ?s')"
    using assms by (simp add: handle_message_def Let_def)
  moreover have "[p \<leftarrow> viewers_of ?s' cv. fst p = ui_id user] = [(ui_id user, ui_nombre user)]"
    using assms(1) by (simp add: viewers_of_add_viewer filter_key_dict_ok hub_inv_viewers_of_ok dict_ok_update)
  ultimately show ?thesis by blast
qed

theorem enter_view_single_entry_witness:
  "\<exists>s'. handle_message (\<lambda>_. True) 1
           (PDict [(''type'', PStr ''ENTER_VIEW''), (''payload'', PDict [(''cvId'', PStr '' 42'')])]) demo_hub
         = Inr (s', broadcast_viewers (\<lambda>_. True) 42 s')
       \<and> [p \<leftarrow> viewers_of s' 42. fst p = 1] = [(1, ''Ana'')]"
proof -
  have "py_get_int (PDict [(''cvId'', PStr '' 42'')]) ''cvId'' 0 = Inr 42"
    by (simp add: py_get_int_def py_strip_def py_isspace_def is_digit_def digit_val_def)
  moreover have "map_of (active_connections demo_hub) 1 = Some \<lparr>ui_id = 1, ui_nombre = ''Ana''\<rparr>"
    by (simp add: demo_hub_def)
  ultimately show ?thesis
    using enter_view_single_entry [OF demo_hub_inv] by fastforce
qed

text \<open>
  C4. Unregistering (spec 8, third property): \<open>disconnect\<close> of a registered
  connection returns exactly the cv ids whose viewer map held the connection's user id,
  in the order of \<open>viewers\<close>; afterwards every viewer list is the old one without
  that user id, and the handle is no longer registered.
\<close>

theorem disconnect_reports_affected:
  assumes "map_of (active_connections s) w = Some user"
  shows "\<exists>s'. disconnect w s = (s', Some [cv. (cv, m) \<leftarrow> viewers s, dict_has m (ui_id user)])
           \<and> (\<forall>cv. viewers_of s' cv = AList.delete (ui_id user) (viewers_of s cv))
           \<and> active_connections s' = AList.delete w (active_connections s)"
  using assms
  by (auto simp add: disconnect_eq viewers_of_def AList.map_ran_conv split: option.splits)

theorem disconnect_reports_affected_witness:
  "\<exists>s'. disconnect 2 demo_hub = (s', Some [42, 7])
       \<and> (\<forall>cv. viewers_of s' cv = AList.delete 2 (viewers_of demo_hub cv))
       \<and> active_connections s' = [(1, \<lparr>ui_id = 1, ui_nombre = ''Ana''\<rparr>)]"
proof -
  have "map_of (active_connections demo_hub) 2 = Some \<lparr>ui_id = 2, ui_nombre = ''Beto''\<rparr>"
    by (simp add: demo_hub_def)
  from disconnect_reports_affected [OF this] show ?thesis
    by (simp add: demo_hub_def)
qed

text \<open>
  C5. Broadcast (spec 8, fourth property): under the invariant, every registered
  connection whose send succeeds receives the same envelope
  \<open>{"type": event_type, "payload": data}\<close> exactly once, and nobody else receives
  it; a failed send to one connection changes nothing for the others.
\<close>

theorem broadcast_recipients:
  assumes "hub_inv s"
  shows "distinct (map fst (broadcast alive t d s))
         \<and> set (broadcast alive t d s) =
             {(c, PDict [(''type'', PStr t), (''payload'', d)]) | c. dict_has (active_connections s) c \<and> alive c}"
  using assms by (auto simp add: broadcast_eq hub_inv_iff dict_ok_def distinct_map inj_on_def)

theorem broadcast_recipients_witness:
  "distinct (map fst (broadcast (\<lambda>c. c \<noteq> 2) ''POSTULACION_CREATED'' PNone demo_hub))
   \<and> set (broadcast (\<lambda>c. c \<noteq> 2) ''POSTULACION_CREATED'' PNone demo_hub) =
       {(c, PDict [(''type'', PStr ''POSTULACION_CREATED''), (''payload'', PNone)]) | c.
          dict_has (active_connections demo_hub) c \<and> c \<noteq> 2}"
  by (rule broadcast_recipients [OF demo_hub_inv])

text \<open>
  C9. Refinement of the presence index (spec 4.2): the two mutations of
  \<open>handle_message\<close> act on the abstract presence map as \<open>enter\<close> (add or overwrite
  the user's entry for that cv) and \<open>exit\<close> (remove it) do, and touch no other cv.
\<close>

theorem presence_refinement:
  "presence (add_viewer cv user s) = enter_abs (presence s) cv (ui_id user) (ui_nombre user)
   \<and> presence (remove_viewer cv u s) = exit_abs (presence s) cv u"
  by (simp add: presence_add_viewer presence_remove_viewer)

text \<open>
  C11. Exiting a view: an \<open>EXIT_VIEW\<close> message from a registered connection removes
  the user from the cv's viewer list and broadcasts the new list exactly when the id is
  nonzero and the user is in that list; otherwise nothing changes and nothing is sent
  (the code's two checks, \<open>cv_id in self.viewers\<close> and \<open>user["id"] in ...\<close>,
  amount to the second condition).
\<close>

theorem exit_view_behaviour:
  assumes "map_of (active_connections s) w = Some user" and "py_get_int payload ''cvId'' 0 = Inr cv"
  shows "handle_message alive w (PDict [(''type'', PStr ''EXIT_VIEW''), (''payload'', payload)]) s =
           (if cv \<noteq> 0 \<and> dict_has (viewers_of s cv) (ui_id user)
            then Inr (remove_viewer cv (ui_id user) s, broadcast_viewers alive cv (remove_viewer cv (ui_id user) s))
            else Inr (s, []))"
  using assms viewers_of_has_key [where s = s and cv = cv and u = "ui_id user"]
  by (simp add: handle_message_def Let_def)

theorem exit_view_behaviour_witness:
  "handle_message (\<lambda>_. True) 1 (PDict [(''type'', PStr ''EXIT_VIEW''), (''payload'', PDict [(''cvId'', PInt 42)])]) demo_hub
     = Inr (demo_hub, [])"
proof -
  have "map_of (active_connections demo_hub) 1 = Some \<lparr>ui_id = 1, ui_nombre = ''Ana''\<rparr>"
    by (simp add: demo_hub_def)
  moreover have "py_get_int (PDict [(''cvId'', PInt 42)]) ''cvId'' 0 = Inr 42"
    by (simp add: py_get_int_def)
  ultimately show ?thesis
    using exit_view_behaviour [where alive = "\<lambda>_. True"] by (simp add: demo_hub_def viewers_of_def)
qed

text \<open>
  Order of the viewer list (spec 4.2, insertion order): entering keeps the position
  of a user already in the list and appends a new user at the end.
\<close>

theorem enter_view_keeps_order:
  "dict_keys (viewers_of (add_viewer cv user s) cv) =
     (if dict_has (viewers_of s cv) (ui_id user) then dict_keys (viewers_of s cv)
      else dict_keys (viewers_of s cv) @ [ui_id user])"
  by (simp add: viewers_of_add_viewer update_keys)

end
