(* ===== verification/WsEndpoint.thy ===== *)
theory WsEndpoint
  imports ConnectionManager
begin

text \<open>
  The WebSocket route of \<open>src/Api/routers/websockets.py\<close> (\<open>websocket_endpoint\<close>)
  and the hub as a whole. Each connection runs its own flow: it registers with the
  identity from its query parameters, then loops on \<open>receive_text\<close>; a frame that is
  no JSON or that makes \<open>handle_message\<close> raise is dropped by the bare \<open>except\<close>; a
  \<open>WebSocketDisconnect\<close> unregisters the connection and re-broadcasts the viewer
  lists of the cvs it affected; any other exception from the transport unregisters it
  without a broadcast. A flow's event is a \<open>ws_event\<close>, and \<open>endpoint_step\<close> is one
  turn of the loop or one of its exception handlers. The hub is driven by
  \<open>hub_event\<close>s: a connection opening, an event of one connection's flow, or a
  domain event that a REST handler broadcasts; the flows of different connections
  interleave at these events. \<open>hub_run\<close> runs a list of them. The connection
  lifecycle (spec 4.4: Connecting, Active, Disconnected, terminal) is the \<open>phase\<close>
  map of \<open>hub_sys\<close>; \<open>reachable\<close> holds for the states of every run where each
  event is allowed by that lifecycle, and \<open>sys_inv\<close> is the invariant they share.
  \<open>hub_abs\<close> and \<open>abs_step\<close> are the hub of the spec, a registry and a presence map
  changed by register, unregister, enter and exit, which every run of \<open>hub_run\<close>
  refines; \<open>viewers_update_msg\<close> is the envelope of a viewer-list broadcast.
\<close>

datatype ws_event =
    Receive "pyval option"
  | Disconnected
  | Errored

datatype hub_event =
    Open ws "int option" "string option"
  | Frame ws ws_event
  | Domain string pyval

datatype phase = Active | Closed

record hub_sys =
  mgr :: manager
  phase :: "(ws, phase) dict"

text \<open>The query parameters \<open>id\<close> and \<open>nombre\<close>, with their defaults.\<close>

definition endpoint_user :: "int option \<Rightarrow> string option \<Rightarrow> user_info" where
  "endpoint_user i n =
     \<lparr>ui_id = (case i of None \<Rightarrow> 0 | Some x \<Rightarrow> x), ui_nombre = (case n of None \<Rightarrow> ''Anonimo'' | Some x \<Rightarrow> x)\<rparr>"

fun endpoint_step :: "(ws \<Rightarrow> bool) \<Rightarrow> ws \<Rightarrow> ws_event \<Rightarrow> manager \<Rightarrow> manager \<times> send list" where
  "endpoint_step alive w (Receive None) s = (s, [])"
| "endpoint_step alive w (Receive (Some data)) s =
     (case handle_message alive w data s of Inl _ \<Rightarrow> (s, []) | Inr r \<Rightarrow> r)"
| "endpoint_step alive w Disconnected s =
     (let (s', affected_cvs) = disconnect w s
      in (s', case affected_cvs of
                None \<Rightarrow> []
              | Some cvs \<Rightarrow> concat (map (\<lambda>cv. broadcast_viewers alive cv s') cvs)))"
| "endpoint_step alive w Errored s = (fst (disconnect w s), [])"

fun hub_step :: "(ws \<Rightarrow> bool) \<Rightarrow> manager \<Rightarrow> hub_event \<Rightarrow> manager \<times> send list" where
  "hub_step alive s (Open w i n) = (connect w (endpoint_user i n) s, [])"
| "hub_step alive s (Frame w e) = endpoint_step alive w e s"
| "hub_step alive s (Domain t d) = (s, broadcast alive t d s)"

fun hub_run :: "(ws \<Rightarrow> bool) \<Rightarrow> manager \<Rightarrow> hub_event list \<Rightarrow> manager \<times> send list" where
  "hub_run alive s [] = (s, [])"
| "hub_run alive s (e # es) =
     (let (s', out) = hub_step alive s e; (s'', out') = hub_run alive s' es in (s'', out @ out'))"

text \<open>The lifecycle: a handle opens once, only an active connection has events, and the
  end of its flow closes it for good.\<close>

fun allowed :: "hub_sys \<Rightarrow> hub_event \<Rightarrow> bool" where
  "allowed S (Open w i n) = (map_of (phase S) w = None)"
| "allowed S (Frame w e) = (map_of (phase S) w = Some Active)"
| "allowed S (Domain t d) = True"

fun next_phase :: "(ws, phase) dict \<Rightarrow> hub_event \<Rightarrow> (ws, phase) dict" where
  "next_phase ph (Open w i n) = AList.update w Active ph"
| "next_phase ph (Frame w (Receive d)) = ph"
| "next_phase ph (Frame w Disconnected) = AList.update w Closed ph"
| "next_phase ph (Frame w Errored) = AList.update w Closed ph"
| "next_phase ph (Domain t d) = ph"

definition sys_next :: "(ws \<Rightarrow> bool) \<Rightarrow> hub_sys \<Rightarrow> hub_event \<Rightarrow> hub_sys" where
  "sys_next alive S e = \<lparr>mgr = fst (hub_step alive (mgr S) e), phase = next_phase (phase S) e\<rparr>"

definition init_sys :: hub_sys where
  "init_sys = \<lparr>mgr = init_manager, phase = []\<rparr>"

inductive reachable :: "hub_sys \<Rightarrow> bool" where
  init: "reachable init_sys"
| step: "reachable S \<Longrightarrow> allowed S e \<Longrightarrow> reachable (sys_next alive S e)"

definition sys_inv :: "hub_sys \<Rightarrow> bool" where
  "sys_inv S \<longleftrightarrow> hub_inv (mgr S) \<and> dict_ok (phase S)
     \<and> (\<forall>w \<in> set (dict_keys (active_connections (mgr S))). map_of (phase S) w = Some Active)
     \<and> (\<forall>(w, p) \<in> set (phase S). p = Active \<longrightarrow> dict_has (active_connections (mgr S)) w)"

text \<open>The \<open>ENTER_VIEW\<close> frame for a cv, as the admin front end sends it.\<close>

abbreviation enter_msg :: "int \<Rightarrow> pyval" where
  "enter_msg cv \<equiv> PDict [(''type'', PStr ''ENTER_VIEW''), (''payload'', PDict [(''cvId'', PInt cv)])]"

text \<open>
  The hub as the spec describes it (spec 4.1, 4.2, 4.4, 9): a registry from handle to
  identity and the presence map of \<open>ConnectionManager.presence\<close>, changed by
  \<open>register\<close>, \<open>unregister\<close> (which drops the identity's user id from every cv),
  and the inbound messages decoded once at the boundary into a closed type. A frame
  is decoded by the reads \<open>handle_message\<close> makes: \<open>data.get("type")\<close>,
  \<open>data.get("payload", {})\<close> and \<open>int(payload.get("cvId", 0))\<close>, where a read that
  raises makes the frame undecodable; a cv id of 0 names no cv.
\<close>

datatype inbound = EnterView int | ExitView int | OtherType

definition decode_frame :: "pyval \<Rightarrow> inbound option" where
  "decode_frame data =
     (case py_get data ''type'' PNone of
       Inl _ \<Rightarrow> None
     | Inr t \<Rightarrow>
     (case py_get data ''payload'' (PDict []) of
       Inl _ \<Rightarrow> None
     | Inr p \<Rightarrow>
         if t = PStr ''ENTER_VIEW'' then
           (case py_get_int p ''cvId'' 0 of Inl _ \<Rightarrow> None | Inr cv \<Rightarrow> Some (EnterView cv))
         else if t = PStr ''EXIT_VIEW'' then
           (case py_get_int p ''cvId'' 0 of Inl _ \<Rightarrow> None | Inr cv \<Rightarrow> Some (ExitView cv))
         else Some OtherType))"

type_synonym hub_abs = "(ws \<rightharpoonup> user_info) \<times> (int \<Rightarrow> int \<rightharpoonup> string)"

definition abs_hub :: "manager \<Rightarrow> hub_abs" where
  "abs_hub s = (map_of (active_connections s), presence s)"

definition unregister_abs :: "ws \<Rightarrow> hub_abs \<Rightarrow> hub_abs" where
  "unregister_abs w A =
     (case fst A w of None \<Rightarrow> A | Some u \<Rightarrow> ((fst A)(w := None), drop_abs (snd A) (ui_id u)))"

fun dispatch_abs :: "user_info \<Rightarrow> inbound \<Rightarrow> (int \<Rightarrow> int \<rightharpoonup> string) \<Rightarrow> int \<Rightarrow> int \<rightharpoonup> string" where
  "dispatch_abs u (EnterView cv) P = (if cv = 0 then P else enter_abs P cv (ui_id u) (ui_nombre u))"
| "dispatch_abs u (ExitView cv) P = (if cv = 0 then P else exit_abs P cv (ui_id u))"
| "dispatch_abs u OtherType P = P"

fun abs_step :: "hub_abs \<Rightarrow> hub_event \<Rightarrow> hub_abs" where
  "abs_step (R, P) (Open w i n) = (R(w \<mapsto> endpoint_user i n), P)"
| "abs_step (R, P) (Frame w (Receive None)) = (R, P)"
| "abs_step (R, P) (Frame w (Receive (Some d))) =
     (case (R w, decode_frame d) of (Some u, Some m) \<Rightarrow> (R, dispatch_abs u m P) | _ \<Rightarrow> (R, P))"
| "abs_step A (Frame w Disconnected) = unregister_abs w A"
| "abs_step A (Frame w Errored) = unregister_abs w A"
| "abs_step A (Domain t d) = A"

text \<open>The \<open>VIEWERS_UPDATE\<close> envelope \<open>broadcast_viewers\<close> sends for a cv and its viewer
  dict, with the code's keys \<open>cvId\<close>, \<open>id\<close> and \<open>nombre\<close>.\<close>

definition viewers_update_msg :: "int \<Rightarrow> (int, string) dict \<Rightarrow> pyval" where
  "viewers_update_msg cv m =
     PDict [(''type'', PStr ''VIEWERS_UPDATE''),
            (''payload'', PDict [(''cvId'', PInt cv),
               (''viewers'', PList [PDict [(''id'', PInt uid), (''nombre'', PStr name)]. (uid, name) \<leftarrow> m])])]"

text \<open>Ana (id 1) with two tabs, handles 1 and 2; the second tab views cv 42.\<close>

definition two_tabs_hub :: manager where
  "two_tabs_hub = \<lparr>active_connections = [(1, \<lparr>ui_id = 1, ui_nombre = ''Ana''\<rparr>), (2, \<lparr>ui_id = 1, ui_nombre = ''Ana''\<rparr>)],
                   viewers = [(42, [(1, ''Ana'')])]\<rparr>"

subsection \<open>Lemmas on the route and the lifecycle\<close>


lemma sys_inv_iff:
  "sys_inv S \<longleftrightarrow> hub_inv (mgr S) \<and> dict_ok (phase S)
     \<and> (\<forall>w. dict_has (active_connections (mgr S)) w \<longleftrightarrow> map_of (phase S) w = Some Active)"
proof -
  have "dict_ok (phase S) \<Longrightarrow>
        (\<forall>(w, p) \<in> set (phase S). p = Active \<longrightarrow> dict_has (active_connections (mgr S)) w) \<longleftrightarrow>
        (\<forall>w. map_of (phase S) w = Some Active \<longrightarrow> dict_has (active_connections (mgr S)) w)"
    by (auto simp add: in_set_dict_ok)
  then show ?thesis unfolding sys_inv_def by blast
qed

lemma handle_message_active:
  "handle_message alive w d s = Inr (s', out) \<Longrightarrow> active_connections s' = active_connections s"
  using handle_message_effect [of alive w d s s' out] by auto

lemma endpoint_receive_active_eq:
  "active_connections (fst (endpoint_step alive w (Receive d) s)) = active_connections s"
  by (cases d) (auto simp add: handle_message_active split: sum.splits)

lemma disconnect_active:
  "disconnect w s = (s', r) \<Longrightarrow> active_connections s' = AList.delete w (active_connections s)"
  by (cases "map_of (active_connections s) w")
     (auto simp add: disconnect_eq disconnect_absent map_of_eq_None_iff)

lemma disconnect_fst:
  "hub_inv s \<Longrightarrow> hub_inv (fst (disconnect w s))"
  "active_connections (fst (disconnect w s)) = AList.delete w (active_connections s)"
  using disconnect_hub_inv [of s w "fst (disconnect w s)" "snd (disconnect w s)"]
    disconnect_active [of w s "fst (disconnect w s)" "snd (disconnect w s)"]
  by simp_all

lemma endpoint_step_hub_inv:
  "hub_inv s \<Longrightarrow> hub_inv (fst (endpoint_step alive w e s))"
proof (cases e)
  case (Receive d)
  assume inv: "hub_inv s"
  show ?thesis
  proof (cases d)
    case (Some data)
    with Receive inv show ?thesis
      by (auto split: sum.splits intro: handle_message_hub_inv)
  qed (use Receive inv in simp)
next
  case Disconnected
  assume "hub_inv s"
  then show ?thesis using Disconnected
    by (auto simp add: Let_def split: prod.splits intro: disconnect_hub_inv)
next
  case Errored
  assume "hub_inv s"
  then show ?thesis using Errored by (simp add: disconnect_fst)
qed

lemma endpoint_close_active:
  "e \<in> {Disconnected, Errored} \<Longrightarrow>
   active_connections (fst (endpoint_step alive w e s)) = AList.delete w (active_connections s)"
  by (auto simp add: Let_def disconnect_active disconnect_fst split: prod.splits)

lemma sys_next_inv:
  assumes inv: "sys_inv S" and ok: "allowed S e"
  shows "sys_inv (sys_next alive S e)"
proof (cases e)
  case (Open w i n)
  from inv ok Open have fresh: "\<not> dict_has (active_connections (mgr S)) w"
    by (auto simp add: sys_inv_iff)
  let ?S' = "sys_next alive S e"
  have act: "active_connections (mgr ?S') = active_connections (mgr S) @ [(w, endpoint_user i n)]"
    using fresh Open by (simp add: sys_next_def connect_def update_new_key)
  have ph: "phase ?S' = AList.update w Active (phase S)"
    using Open by (simp add: sys_next_def)
  have "hub_inv (mgr ?S')"
    using inv fresh Open by (simp add: sys_next_def sys_inv_iff connect_hub_inv)
  moreover have "dict_ok (phase ?S')"
    using inv by (simp add: ph sys_inv_iff dict_ok_update)
  moreover have "dict_has (active_connections (mgr ?S')) w' \<longleftrightarrow> map_of (phase ?S') w' = Some Active" for w'
    using inv by (cases "w' = w") (simp_all add: act ph sys_inv_iff)
  ultimately show ?thesis by (simp add: sys_inv_iff)
next
  case (Frame w ev)
  show ?thesis
  proof (cases ev)
    case (Receive d)
    with inv Frame show ?thesis
      by (simp add: sys_inv_iff sys_next_def endpoint_step_hub_inv endpoint_receive_active_eq del: endpoint_step.simps)
  next
    case Disconnected
    with inv Frame show ?thesis
      by (simp add: sys_inv_iff sys_next_def endpoint_step_hub_inv endpoint_close_active dict_ok_update update_conv'
          del: endpoint_step.simps)
  next
    case Errored
    with inv Frame show ?thesis
      by (simp add: sys_inv_iff sys_next_def endpoint_step_hub_inv endpoint_close_active dict_ok_update update_conv'
          del: endpoint_step.simps)
  qed
next
  case (Domain t d)
  with inv show ?thesis by (simp add: sys_next_def sys_inv_def)
qed

lemma reachable_sys_inv: "reachable S \<Longrightarrow> sys_inv S"
proof (induction rule: reachable.induct)
  case init
  show ?case by (simp add: init_sys_def sys_inv_def hub_inv_def presence_sound_def init_manager_def)
next
  case (step S e alive)
  from step.IH step.hyps(2) show ?case by (rule sys_next_inv)
qed



subsection \<open>The route refines the abstract hub\<close>

lemma exit_abs_absent:
  "\<not> dict_has (viewers_of s cv) u \<Longrightarrow> exit_abs (presence s) cv u = presence s"
  unfolding exit_abs_def by (rule ext) (simp add: presence_def map_of_eq_None_iff fun_upd_idem_iff)

lemma presence_connect [simp]: "presence (connect w u s) = presence s"
  by (rule ext) (simp add: presence_def viewers_of_def connect_def)

lemma abs_receive:
  "abs_hub (fst (endpoint_step alive w (Receive (Some d)) s)) = abs_step (abs_hub s) (Frame w (Receive (Some d)))"
proof (cases "map_of (active_connections s) w")
  case None
  then show ?thesis
    by (auto simp add: abs_hub_def handle_message_def split: sum.splits option.splits)
next
  case (Some user)
  then show ?thesis
    using viewers_of_has_key [where s = s and u = "ui_id user"]
    by (auto simp add: abs_hub_def handle_message_def decode_frame_def Let_def presence_add_viewer
        presence_remove_viewer exit_abs_absent split: sum.splits option.splits)
qed

lemma endpoint_close_fst:
  "e \<in> {Disconnected, Errored} \<Longrightarrow> fst (endpoint_step alive w e s) = fst (disconnect w s)"
  by (auto simp add: Let_def split: prod.splits)

lemma abs_close:
  assumes "e \<in> {Disconnected, Errored}"
  shows "abs_hub (fst (endpoint_step alive w e s)) = unregister_abs w (abs_hub s)"
proof (cases "map_of (active_connections s) w")
  case None
  then show ?thesis
    by (simp add: endpoint_close_fst [OF assms] abs_hub_def unregister_abs_def disconnect_absent)
next
  case (Some user)
  then show ?thesis
    by (simp add: endpoint_close_fst [OF assms] abs_hub_def unregister_abs_def disconnect_refinement
        disconnect_fst delete_conv')
qed

lemma abs_hub_step:
  "abs_hub (fst (hub_step alive s e)) = abs_step (abs_hub s) e"
proof (cases e)
  case (Open w i n)
  then show ?thesis by (simp add: abs_hub_def) (simp add: connect_def update_conv')
next
  case (Frame w ev)
  then show ?thesis
  proof (cases ev)
    case (Receive d)
    with Frame show ?thesis
      by (cases d) (simp_all add: abs_receive del: endpoint_step.simps abs_step.simps,
          simp add: abs_hub_def)
  next
    case Disconnected
    with Frame show ?thesis using abs_close [of Disconnected alive w s] by (simp del: endpoint_step.simps)
  next
    case Errored
    with Frame show ?thesis using abs_close [of Errored alive w s] by (simp del: endpoint_step.simps)
  qed
next
  case (Domain t d)
  then show ?thesis by simp
qed

lemma hub_run_fst: "fst (hub_run alive s (e # es)) = fst (hub_run alive (fst (hub_step alive s e)) es)"
  by (simp add: Let_def split_def)

subsection \<open>What a disconnect sends\<close>

lemma broadcast_viewers_msg:
  "broadcast_viewers alive cv s =
     map (\<lambda>c. (c, viewers_update_msg cv (viewers_of s cv))) (filter alive (dict_keys (active_connections s)))"
  by (simp add: broadcast_viewers_def broadcast_eq viewers_update_msg_def)

lemma affected_cvs_iff:
  assumes ok: "dict_ok (viewers s)"
  shows "cv \<in> set [cv. (cv, m) \<leftarrow> viewers s, dict_has m u] \<longleftrightarrow> dict_has (viewers_of s cv) u"
proof -
  have "cv \<in> set [cv. (cv, m) \<leftarrow> viewers s, dict_has m u] \<longleftrightarrow> (\<exists>m. (cv, m) \<in> set (viewers s) \<and> dict_has m u)"
    unfolding keys_with_eq by force
  also have "\<dots> \<longleftrightarrow> dict_has (viewers_of s cv) u"
    by (cases "map_of (viewers s) cv") (simp_all add: viewers_of_def in_set_dict_ok [OF ok])
  finally show ?thesis .
qed

lemma viewers_update_msg_inj: "viewers_update_msg cv m = viewers_update_msg cv' m' \<Longrightarrow> cv = cv'"
  by (simp add: viewers_update_msg_def)

subsection \<open>Properties of the route and the hub\<close>

text \<open>
  C1. The hub invariant over every run (spec 4.1, 4.2, 5): in every state reachable by
  lifecycle-respecting events, the hub invariant holds (dict keys distinct, every
  presence entry belongs to a registered identity) and the registry holds exactly the
  connections whose lifecycle phase is Active.
\<close>

theorem reachable_registry:
  assumes "reachable S"
  shows "hub_inv (mgr S) \<and> (\<forall>w. dict_has (active_connections (mgr S)) w \<longleftrightarrow> map_of (phase S) w = Some Active)"
  using reachable_sys_inv [OF assms] by (simp add: sys_inv_iff)

lemma demo_run_reachable:
  "reachable (sys_next alive (sys_next alive (sys_next alive init_sys (Open 1 (Some 1) (Some ''Ana'')))
      (Frame 1 (Receive (Some (enter_msg 42))))) (Frame 1 Disconnected))"
  by (intro reachable.step reachable.init) (simp_all add: sys_next_def init_sys_def)

theorem reachable_registry_witness:
  "hub_inv (mgr (sys_next (\<lambda>_. True) init_sys (Open 1 (Some 1) (Some ''Ana''))))"
proof -
  have "reachable (sys_next (\<lambda>_. True) init_sys (Open 1 (Some 1) (Some ''Ana'')))"
    by (intro reachable.step reachable.init) (simp add: init_sys_def)
  from reachable_registry [OF this] show ?thesis by simp
qed

text \<open>
  C2. No stale presence (spec 8, first property): in every reachable state, a user id
  that no registered connection claims appears in no cv's viewer list, whatever
  sequence of connects, enters, exits and disconnects led there.
\<close>

theorem no_stale_viewer:
  assumes "reachable S" and "\<forall>(c, user) \<in> set (active_connections (mgr S)). ui_id user \<noteq> u"
  shows "\<not> dict_has (viewers_of (mgr S) cv) u"
proof
  assume "dict_has (viewers_of (mgr S) cv) u"
  then obtain n where "(u, n) \<in> set (viewers_of (mgr S) cv)" by auto
  moreover have "hub_inv (mgr S)" using reachable_sys_inv [OF assms(1)] by (simp add: sys_inv_def)
  ultimately obtain c user where "(c, user) \<in> set (active_connections (mgr S))" and "ui_id user = u"
    using hub_inv_viewers_of_sound by blast
  with assms(2) show False by auto
qed

theorem no_stale_viewer_witness:
  "\<not> dict_has (viewers_of (mgr (sys_next (\<lambda>_. True) (sys_next (\<lambda>_. True) (sys_next (\<lambda>_. True) init_sys
      (Open 1 (Some 1) (Some ''Ana''))) (Frame 1 (Receive (Some (enter_msg 42))))) (Frame 1 Disconnected))) 42) 1"
proof (rule no_stale_viewer [OF demo_run_reachable])
  show "\<forall>(c, user) \<in> set (active_connections (mgr (sys_next (\<lambda>_. True) (sys_next (\<lambda>_. True)
      (sys_next (\<lambda>_. True) init_sys (Open 1 (Some 1) (Some ''Ana''))) (Frame 1 (Receive (Some (enter_msg 42)))))
      (Frame 1 Disconnected)))). ui_id user \<noteq> 1"
    by (simp add: sys_next_def init_sys_def init_manager_def connect_def disconnect_def handle_message_def
        py_get_int_def add_viewer_def viewers_of_def Let_def)
qed


text \<open>
  C6. Malformed frames (spec 7, 8 fifth property): a received frame changes the hub
  or causes a send only if it is a JSON object from a registered connection whose
  \<open>type\<close> is \<open>ENTER_VIEW\<close> or \<open>EXIT_VIEW\<close> and whose payload is a dict with a
  \<open>cvId\<close> that \<open>int()\<close> converts to a nonzero id. Everything else is dropped.
\<close>

theorem frame_effect_requires_wellformed:
  assumes "endpoint_step alive w (Receive d) s \<noteq> (s, [])"
  shows "\<exists>kv user payload cv. d = Some (PDict kv) \<and> map_of (active_connections s) w = Some user
           \<and> (map_of kv ''type'' = Some (PStr ''ENTER_VIEW'') \<or> map_of kv ''type'' = Some (PStr ''EXIT_VIEW''))
           \<and> py_get (PDict kv) ''payload'' (PDict []) = Inr payload
           \<and> py_get_int payload ''cvId'' 0 = Inr cv \<and> cv \<noteq> 0"
proof (cases d)
  case None
  with assms show ?thesis by simp
next
  case (Some data)
  with assms obtain s' out where hm: "handle_message alive w data s = Inr (s', out)" and ne: "(s', out) \<noteq> (s, [])"
    by (auto split: sum.splits)
  then obtain kv where data: "data = PDict kv"
    unfolding handle_message_def by (cases data) auto
  from hm ne Some data show ?thesis
    unfolding handle_message_def
    by (auto simp add: Let_def split: sum.splits option.splits if_splits)
qed

theorem frame_effect_requires_wellformed_witness:
  "\<exists>kv user payload cv. Some (enter_msg 42) = Some (PDict kv) \<and> map_of (active_connections demo_hub) 1 = Some user
     \<and> (map_of kv ''type'' = Some (PStr ''ENTER_VIEW'') \<or> map_of kv ''type'' = Some (PStr ''EXIT_VIEW''))
     \<and> py_get (PDict kv) ''payload'' (PDict []) = Inr payload
     \<and> py_get_int payload ''cvId'' 0 = Inr cv \<and> cv \<noteq> 0"
proof (rule frame_effect_requires_wellformed [where alive = "\<lambda>_. True"])
  show "endpoint_step (\<lambda>_. True) 1 (Receive (Some (enter_msg 42))) demo_hub \<noteq> (demo_hub, [])"
    by (simp add: handle_message_def py_get_int_def demo_hub_def Let_def broadcast_viewers_def broadcast_def)
qed

text \<open>
  The spec's malformed examples: text that is no JSON, \<open>{"type": 5}\<close>, \<open>{}\<close>
  and a JSON string leave the hub unchanged and send nothing, in every state.
\<close>

theorem malformed_frames_ignored:
  "endpoint_step alive w (Receive None) s = (s, [])
   \<and> endpoint_step alive w (Receive (Some (PDict [(''type'', PInt 5)]))) s = (s, [])
   \<and> endpoint_step alive w (Receive (Some (PDict []))) s = (s, [])
   \<and> endpoint_step alive w (Receive (Some (PStr ''not json''))) s = (s, [])"
  by (simp add: handle_message_def split: option.splits)

text \<open>
  C7. A received frame never terminates the connection (spec 8, fifth property): after
  any \<open>Receive\<close> event the connection is still registered and still Active.
\<close>

theorem receive_keeps_connection:
  assumes "reachable S" and "allowed S (Frame w (Receive d))"
  shows "dict_has (active_connections (mgr (sys_next alive S (Frame w (Receive d))))) w
         \<and> map_of (phase (sys_next alive S (Frame w (Receive d)))) w = Some Active"
  using reachable_sys_inv [OF assms(1)] assms(2)
  by (simp add: sys_inv_iff sys_next_def endpoint_receive_active_eq del: endpoint_step.simps)

theorem receive_keeps_connection_witness:
  "dict_has (active_connections (mgr (sys_next (\<lambda>_. True) (sys_next (\<lambda>_. True) init_sys (Open 1 (Some 1) (Some ''Ana'')))
      (Frame 1 (Receive (Some (PStr ''not json''))))))) 1"
proof -
  have r: "reachable (sys_next (\<lambda>_. True) init_sys (Open 1 (Some 1) (Some ''Ana'')))"
    by (intro reachable.step reachable.init) (simp add: init_sys_def)
  have "allowed (sys_next (\<lambda>_. True) init_sys (Open 1 (Some 1) (Some ''Ana''))) (Frame 1 (Receive (Some (PStr ''not json''))))"
    by (simp add: sys_next_def init_sys_def)
  from receive_keeps_connection [OF r this] show ?thesis by blast
qed

text \<open>
  Unregistering an absent handle (spec 4.1, idempotence): the route's disconnect
  handler on a handle the registry does not hold changes nothing and sends nothing;
  \<open>disconnect\<close> itself returns \<open>None\<close> there, not an empty list.
\<close>

theorem disconnect_unknown_handle:
  "map_of (active_connections s) w = None \<Longrightarrow> endpoint_step alive w Disconnected s = (s, [])"
  by (simp add: disconnect_absent)

theorem disconnect_unknown_handle_witness:
  "endpoint_step (\<lambda>_. True) 5 Disconnected demo_hub = (demo_hub, [])"
  by (rule disconnect_unknown_handle) (simp add: demo_hub_def)

text \<open>
  C14. A connection that ends by an exception other than \<open>WebSocketDisconnect\<close>
  is unregistered exactly as on a clean disconnect, but the route sends no
  \<open>VIEWERS_UPDATE\<close> for the viewer lists that changed (spec 2 says every drop
  re-announces them).
\<close>

theorem errored_close_skips_broadcast:
  "map_of (active_connections s) w = Some user \<Longrightarrow>
   fst (endpoint_step alive w Errored s) = fst (endpoint_step alive w Disconnected s)
   \<and> snd (endpoint_step alive w Errored s) = []"
  by (simp add: Let_def split: prod.splits)

theorem errored_close_skips_broadcast_witness:
  "fst (endpoint_step (\<lambda>_. True) 2 Errored demo_hub) = fst (endpoint_step (\<lambda>_. True) 2 Disconnected demo_hub)
   \<and> snd (endpoint_step (\<lambda>_. True) 2 Errored demo_hub) = []
   \<and> snd (endpoint_step (\<lambda>_. True) 2 Disconnected demo_hub) \<noteq> []"
proof -
  have "map_of (active_connections demo_hub) 2 = Some \<lparr>ui_id = 2, ui_nombre = ''Beto''\<rparr>"
    by (simp add: demo_hub_def)
  from errored_close_skips_broadcast [OF this] show ?thesis
    by (simp add: disconnect_def demo_hub_def broadcast_viewers_def broadcast_def Let_def)
qed

text \<open>
  C15. Presence is keyed by user id, not by connection: when a user has two
  registered connections (two tabs with the same \<open>id\<close>) and one of them ends, by a
  \<open>WebSocketDisconnect\<close> or by any other exception, the user disappears from every
  viewer list although the other connection is still registered with the same identity
  and may be the one viewing the cv.
\<close>

theorem shared_identity_loses_presence:
  assumes "map_of (active_connections s) c1 = Some u1" and "map_of (active_connections s) c2 = Some u2"
    and "c1 \<noteq> c2" and "ui_id u1 = ui_id u2" and "dict_has (viewers_of s cv) (ui_id u2)"
    and "e \<in> {Disconnected, Errored}"
  shows "map_of (active_connections (fst (endpoint_step alive c1 e s))) c2 = Some u2
         \<and> \<not> dict_has (viewers_of (fst (endpoint_step alive c1 e s)) cv) (ui_id u2)"
  using assms(1-4)
  by (simp add: endpoint_close_fst [OF assms(6)] viewers_of_disconnect disconnect_fst(2) delete_conv')

theorem shared_identity_loses_presence_witness:
  "map_of (active_connections (fst (endpoint_step (\<lambda>_. True) 1 Disconnected two_tabs_hub))) 2
     = Some \<lparr>ui_id = 1, ui_nombre = ''Ana''\<rparr>
   \<and> \<not> dict_has (viewers_of (fst (endpoint_step (\<lambda>_. True) 1 Disconnected two_tabs_hub)) 42) 1"
proof -
  have "map_of (active_connections (fst (endpoint_step (\<lambda>_. True) 1 Disconnected two_tabs_hub))) 2
          = Some \<lparr>ui_id = 1, ui_nombre = ''Ana''\<rparr>
        \<and> \<not> dict_has (viewers_of (fst (endpoint_step (\<lambda>_. True) 1 Disconnected two_tabs_hub)) 42)
             (ui_id \<lparr>ui_id = 1, ui_nombre = ''Ana''\<rparr>)"
    by (rule shared_identity_loses_presence [of two_tabs_hub 1 "\<lparr>ui_id = 1, ui_nombre = ''Ana''\<rparr>"])
       (simp_all add: two_tabs_hub_def viewers_of_def)
  then show ?thesis by simp
qed

text \<open>
  C10. The route and the hub refine the spec's hub (spec 4.1, 4.2, 4.4): over every
  sequence of events of any connections, interleaved in any order, the registry and
  the presence map of the state the hub reaches are those of the abstract hub that
  registers each opened handle, applies each decodable frame of a registered handle as
  \<open>enter\<close> or \<open>exit\<close> of that handle's identity, and on the end of a flow unregisters
  the handle and drops its user id from every cv.
\<close>

theorem hub_run_refines_abs:
  "abs_hub (fst (hub_run alive s es)) = foldl abs_step (abs_hub s) es"
proof (induction es arbitrary: s)
  case Nil
  then show ?case by simp
next
  case (Cons e es)
  then show ?case by (simp only: hub_run_fst abs_hub_step foldl_Cons)
qed

text \<open>
  C8. Re-announcing after a disconnect (spec 2, 4.3; the spec's scenario of spec 8 in
  general): when a registered connection disconnects, the route sends, for each cv
  whose viewer list held the connection's user id, one \<open>VIEWERS_UPDATE\<close> carrying
  that list without the user to each other registered connection whose send succeeds,
  each exactly once, and nothing else; the closed connection receives nothing.
\<close>

theorem disconnect_announces_remaining:
  assumes inv: "hub_inv s" and reg: "map_of (active_connections s) w = Some user"
    and run: "endpoint_step alive w Disconnected s = (s', out)"
  shows "distinct out
         \<and> set out = {(c, viewers_update_msg cv (AList.delete (ui_id user) (viewers_of s cv))) | c cv.
                        dict_has (active_connections s) c \<and> c \<noteq> w \<and> alive c
                        \<and> dict_has (viewers_of s cv) (ui_id user)}"
proof -
  let ?cvs = "[cv. (cv, m) \<leftarrow> viewers s, dict_has m (ui_id user)]"
  let ?rcp = "filter alive (dict_keys (AList.delete w (active_connections s)))"
  have ok: "dict_ok (viewers s)" "dict_ok (active_connections s)" using inv by (simp_all add: hub_inv_def)
  obtain s1 where d: "disconnect w s = (s1, Some ?cvs)" using disconnect_eq [OF reg] by simp
  have s1: "viewers_of s1 cv = AList.delete (ui_id user) (viewers_of s cv)"
    "active_connections s1 = AList.delete w (active_connections s)" for cv
    using viewers_of_disconnect [OF reg, of cv] disconnect_fst(2) [of w s] d by simp_all
  have out: "out = concat (map (\<lambda>cv. map (\<lambda>c. (c, viewers_update_msg cv (AList.delete (ui_id user) (viewers_of s cv))))
                                  ?rcp) ?cvs)"
    using run by (simp add: d broadcast_viewers_msg s1)
  show ?thesis
  proof
    have "distinct ?rcp" using dict_ok_delete [OF ok(2), of w] by (simp add: dict_ok_def)
    moreover have "distinct ?cvs" using ok(1) by (simp add: keys_with_eq dict_ok_def distinct_map_filter)
    ultimately show "distinct out" unfolding out
      by (rule distinct_concat_map_pairs) (auto dest: viewers_update_msg_inj)
  next
    have "set out = {(c, viewers_update_msg cv (AList.delete (ui_id user) (viewers_of s cv))) | c cv.
                       cv \<in> set ?cvs \<and> c \<in> set ?rcp}"
      unfolding out set_concat_map_pairs by blast
    also have "\<dots> = {(c, viewers_update_msg cv (AList.delete (ui_id user) (viewers_of s cv))) | c cv.
                       dict_has (viewers_of s cv) (ui_id user) \<and> c \<in> set ?rcp}"
      by (simp only: affected_cvs_iff [OF ok(1)])
    finally show "set out = {(c, viewers_update_msg cv (AList.delete (ui_id user) (viewers_of s cv))) | c cv.
                     dict_has (active_connections s) c \<and> c \<noteq> w \<and> alive c
                     \<and> dict_has (viewers_of s cv) (ui_id user)}" by auto
  qed
qed

theorem disconnect_announces_remaining_witness:
  "snd (endpoint_step (\<lambda>c. c \<noteq> 3) 2 Disconnected demo_hub)
     = [(1, viewers_update_msg 42 []), (1, viewers_update_msg 7 [(1, ''Ana'')])]
   \<and> distinct (snd (endpoint_step (\<lambda>c. c \<noteq> 3) 2 Disconnected demo_hub))
   \<and> set (snd (endpoint_step (\<lambda>c. c \<noteq> 3) 2 Disconnected demo_hub))
       = {(c, viewers_update_msg cv (AList.delete 2 (viewers_of demo_hub cv))) | c cv.
            dict_has (active_connections demo_hub) c \<and> c \<noteq> 2 \<and> c \<noteq> 3 \<and> dict_has (viewers_of demo_hub cv) 2}"
proof -
  have reg: "map_of (active_connections demo_hub) 2 = Some \<lparr>ui_id = 2, ui_nombre = ''Beto''\<rparr>"
    by (simp add: demo_hub_def)
  have "distinct (snd (endpoint_step (\<lambda>c. c \<noteq> 3) 2 Disconnected demo_hub))
        \<and> set (snd (endpoint_step (\<lambda>c. c \<noteq> 3) 2 Disconnected demo_hub))
            = {(c, viewers_update_msg cv (AList.delete (ui_id \<lparr>ui_id = 2, ui_nombre = ''Beto''\<rparr>) (viewers_of demo_hub cv))) | c cv.
                 dict_has (active_connections demo_hub) c \<and> c \<noteq> 2 \<and> c \<noteq> 3
                 \<and> dict_has (viewers_of demo_hub cv) (ui_id \<lparr>ui_id = 2, ui_nombre = ''Beto''\<rparr>)}"
    by (rule disconnect_announces_remaining [where alive = "\<lambda>c. c \<noteq> 3", OF demo_hub_inv reg surjective_pairing])
  moreover have "snd (endpoint_step (\<lambda>c. c \<noteq> 3) 2 Disconnected demo_hub)
     = [(1, viewers_update_msg 42 []), (1, viewers_update_msg 7 [(1, ''Ana'')])]"
    by (simp add: disconnect_def demo_hub_def broadcast_viewers_def broadcast_def viewers_update_msg_def viewers_of_def)
  ultimately show ?thesis by simp
qed

end
