(* ===== verification/Files.thy ===== *)
theory Files
  imports PyValue "HOL-Library.Sublist"
begin

text \<open>
  The CV upload pipeline of \<open>src/Api/utils/files.py\<close>. Its settings (read from the
  environment at import) are the record \<open>files_cfg\<close>; the directory \<open>STORAGE_DIR/cv\<close>
  is the list of paths that exist in it; the uploaded file is the list of chunk lengths
  that \<open>file.file.read(1024 * 1024)\<close> returns, where a 0 is the empty read that ends the
  loop; the current time is the six fields \<open>strftime\<close> prints. Path operations are
  those of \<open>posixpath\<close>. Strings are ASCII here: \<open>unicodedata.normalize("NFKD", ...)\<close>
  leaves ASCII text unchanged, and \<open>ascii_fold\<close> drops the bytes the ASCII encoder
  would refuse (the decomposition of accented letters into a base letter and a
  combining mark is not modelled).
\<close>

record files_cfg =
  storage_dir :: string
  max_cv_mb :: int
  allowed_exts :: "string list"

datatype file_error = ExtensionNoPermitida string | ArchivoDemasiadoGrande int

definition file_error_status :: "file_error \<Rightarrow> nat" where
  "file_error_status e = (case e of ExtensionNoPermitida _ \<Rightarrow> 400 | ArchivoDemasiadoGrande _ \<Rightarrow> 413)"

text \<open>\<open>s.split(",")\<close>: the pieces between separators, empty ones included.\<close>

fun py_split :: "char \<Rightarrow> string \<Rightarrow> string list" where
  "py_split c [] = [[]]"
| "py_split c (x # xs) = (if x = c then [] # py_split c xs else (let ps = py_split c xs in (x # hd ps) # tl ps))"

definition allowed_exts_of :: "string \<Rightarrow> string list" where
  "allowed_exts_of env = remdups (map (\<lambda>e. py_lower (py_strip e)) (py_split CHR '','' env))"

text \<open>\<open>posixpath.basename\<close>, \<open>posixpath.join\<close> of two parts and \<open>posixpath.splitext\<close>: the
  extension starts at the last dot of the last component, unless that component has
  only dots before it.\<close>

definition basename :: "string \<Rightarrow> string" where
  "basename p = rev (takeWhile (\<lambda>c. c \<noteq> CHR ''/'') (rev p))"

definition path_join :: "string \<Rightarrow> string \<Rightarrow> string" where
  "path_join a b = (if b \<noteq> [] \<and> hd b = CHR ''/'' then b
                    else if a = [] \<or> last a = CHR ''/'' then a @ b else a @ ''/'' @ b)"

definition splitext :: "string \<Rightarrow> string \<times> string" where
  "splitext p =
     (let b = basename p; d = take (length p - length b) p;
          k = length (rev (dropWhile (\<lambda>c. c \<noteq> CHR ''.'') (rev b)))
      in if CHR ''.'' \<in> set b \<and> (\<exists>c\<in>set (take (k - 1) b). c \<noteq> CHR ''.'')
         then (d @ take (k - 1) b, drop (k - 1) b) else (p, []))"

definition secure_basename :: "string option \<Rightarrow> string" where
  "secure_basename f = basename (case f of None \<Rightarrow> ''upload'' | Some s \<Rightarrow> if s = [] then ''upload'' else s)"

definition validate_ext :: "files_cfg \<Rightarrow> string \<Rightarrow> file_error + string" where
  "validate_ext cfg filename =
     (let ext = py_lower (snd (splitext filename))
      in if ext \<notin> set (allowed_exts cfg) then Inl (ExtensionNoPermitida ext) else Inr ext)"

text \<open>\<open>slugify\<close>: strip, fold to ASCII, lower-case, replace each maximal run of
  characters outside \<open>[a-z0-9]\<close> by one dash (\<open>_slug_re.sub\<close>), strip dashes, and
  answer \<open>x\<close> for an empty result.\<close>

definition ascii_fold :: "string \<Rightarrow> string" where
  "ascii_fold s = filter (\<lambda>c. (of_char c :: nat) < 128) s"

definition slug_char :: "char \<Rightarrow> bool" where
  "slug_char c \<longleftrightarrow> is_digit c \<or> (97 \<le> (of_char c :: nat) \<and> (of_char c :: nat) \<le> 122)"

fun slug_runs :: "bool \<Rightarrow> string \<Rightarrow> string" where
  "slug_runs r [] = []"
| "slug_runs r (c # cs) =
     (if slug_char c then c # slug_runs False cs
      else if r then slug_runs True cs else CHR ''-'' # slug_runs True cs)"

definition strip_dashes :: "string \<Rightarrow> string" where
  "strip_dashes s = rev (dropWhile (\<lambda>c. c = CHR ''-'') (rev (dropWhile (\<lambda>c. c = CHR ''-'') s)))"

definition slugify :: "string \<Rightarrow> string" where
  "slugify t = (let s = strip_dashes (slug_runs False (py_lower (ascii_fold (py_strip t)))) in if s = [] then ''x'' else s)"

text \<open>\<open>now.strftime("%Y%m%d_%H%M%S")\<close>: zero-padded fields.\<close>

definition zpad :: "nat \<Rightarrow> nat \<Rightarrow> string" where
  "zpad w n = (let s = nat_digits n in replicate (w - length s) CHR ''0'' @ s)"

definition strftime_stamp :: "nat \<times> nat \<times> nat \<times> nat \<times> nat \<times> nat \<Rightarrow> string" where
  "strftime_stamp t = (case t of (y, mo, d, h, mi, s) \<Rightarrow>
     zpad 4 y @ zpad 2 mo @ zpad 2 d @ ''_'' @ zpad 2 h @ zpad 2 mi @ zpad 2 s)"

definition build_cv_filename :: "string \<Rightarrow> string \<Rightarrow> string \<Rightarrow> nat \<times> nat \<times> nat \<times> nat \<times> nat \<times> nat \<Rightarrow> string" where
  "build_cv_filename nombre apellido ext now =
     slugify nombre @ ''_'' @ slugify apellido @ ''_'' @ strftime_stamp now @ ext"

text \<open>The module-level settings: \<open>STORAGE_DIR\<close>, \<open>MAX_CV_MB\<close> (an \<open>int()\<close> that can fail
  at import) and \<open>ALLOWED_EXTS\<close>, from the three environment variables.\<close>

definition load_files_cfg :: "string option \<Rightarrow> string option \<Rightarrow> string option \<Rightarrow> py_error + files_cfg" where
  "load_files_cfg sd mb exts =
     (case py_int (PStr (case mb of None \<Rightarrow> ''10'' | Some s \<Rightarrow> s)) of
       Inl e \<Rightarrow> Inl e
     | Inr n \<Rightarrow> Inr \<lparr>storage_dir = py_strip (case sd of None \<Rightarrow> ''storage'' | Some s \<Rightarrow> s), max_cv_mb = n,
                    allowed_exts = allowed_exts_of (case exts of None \<Rightarrow> ''.pdf,.doc,.docx'' | Some s \<Rightarrow> s)\<rparr>)"

text \<open>\<open>unique_path\<close>: the loop \<open>while os.path.exists(candidate)\<close> tries \<open>name-2ext\<close>,
  \<open>name-3ext\<close>, ...; \<open>unique_from\<close> is that loop from the counter \<open>i\<close>. It terminates
  because the candidates are pairwise distinct (\<open>str\<close> of an int is injective), so only
  finitely many of them exist.\<close>

definition unique_candidate :: "string \<Rightarrow> string \<Rightarrow> string \<Rightarrow> nat \<Rightarrow> string" where
  "unique_candidate dir name ext i = path_join dir (name @ ''-'' @ py_str_int (int i) @ ext)"

function unique_from :: "string list \<Rightarrow> string \<Rightarrow> string \<Rightarrow> string \<Rightarrow> nat \<Rightarrow> string" where
  "unique_from fs dir name ext i =
     (if unique_candidate dir name ext i \<in> set fs then unique_from fs dir name ext (Suc i)
      else unique_candidate dir name ext i)"
  by pat_completeness auto

definition unique_path :: "string list \<Rightarrow> string \<Rightarrow> string \<Rightarrow> string" where
  "unique_path fs dirpath filename =
     (let (name, ext) = splitext filename; candidate = path_join dirpath filename
      in if candidate \<in> set fs then unique_from fs dirpath name ext 2 else candidate)"

text \<open>The copy loop of \<open>save_upload_file_cv\<close>: \<open>size\<close> counts the bytes read so far; an
  empty read ends the loop; as soon as \<open>size\<close> exceeds \<open>MAX_CV_MB * 1024 * 1024\<close> the
  upload fails with 413.\<close>

fun write_chunks :: "files_cfg \<Rightarrow> int \<Rightarrow> nat list \<Rightarrow> file_error + int" where
  "write_chunks cfg sz [] = Inr sz"
| "write_chunks cfg sz (c # cs) =
     (if c = 0 then Inr sz
      else if sz + int c > max_cv_mb cfg * 1024 * 1024 then Inl (ArchivoDemasiadoGrande (max_cv_mb cfg))
      else write_chunks cfg (sz + int c) cs)"

text \<open>\<open>save_upload_file_cv\<close>: the new directory listing and the stored name, size and MIME
  type, or the \<open>HTTPException\<close>. On a 413 the partly written file is removed (the
  failure of that removal, which the code ignores, is not modelled).\<close>

definition save_upload_file_cv ::
  "files_cfg \<Rightarrow> string list \<Rightarrow> string option \<Rightarrow> string option \<Rightarrow> nat list \<Rightarrow> string \<Rightarrow> string \<Rightarrow>
   nat \<times> nat \<times> nat \<times> nat \<times> nat \<times> nat \<Rightarrow> file_error + string list \<times> (string \<times> int \<times> string)" where
  "save_upload_file_cv cfg fs fname ctype chunks nombre apellido now =
     (case validate_ext cfg (secure_basename fname) of
       Inl e \<Rightarrow> Inl e
     | Inr ext \<Rightarrow>
         (let filename = build_cv_filename nombre apellido ext now;
              dest = unique_path fs (path_join (storage_dir cfg) ''cv'') filename
          in case write_chunks cfg 0 chunks of
               Inl e \<Rightarrow> Inl e
             | Inr sz \<Rightarrow>
                 Inr (dest # fs, (basename dest, sz,
                      case ctype of None \<Rightarrow> ''application/octet-stream''
                      | Some m \<Rightarrow> if m = [] then ''application/octet-stream'' else m))))"

definition cv_disk_path :: "files_cfg \<Rightarrow> string \<Rightarrow> string" where
  "cv_disk_path cfg stored = path_join (path_join (storage_dir cfg) ''cv'') stored"

lemma path_join_inj: "b \<noteq> [] \<Longrightarrow> b' \<noteq> [] \<Longrightarrow> hd b = hd b' \<Longrightarrow> path_join a b = path_join a b' \<Longrightarrow> b = b'"
  by (auto simp add: path_join_def split: if_splits)

lemma unique_candidate_inj: "unique_candidate dir name ext i = unique_candidate dir name ext j \<Longrightarrow> i = j"
proof -
  assume eq: "unique_candidate dir name ext i = unique_candidate dir name ext j"
  have "hd (name @ ''-'' @ py_str_int (int i) @ ext) = hd (name @ ''-'' @ py_str_int (int j) @ ext)"
    by (cases name) simp_all
  then have "name @ ''-'' @ py_str_int (int i) @ ext = name @ ''-'' @ py_str_int (int j) @ ext"
    using eq unfolding unique_candidate_def by (rule path_join_inj [rotated 2]) simp_all
  then have "py_str_int (int i) = py_str_int (int j)" by simp
  then have "int i = int j" by (rule py_str_int_inj)
  then show "i = j" by simp
qed

lemma finite_taken: "finite {j. unique_candidate dir name ext j \<in> set fs}"
proof -
  have "inj (unique_candidate dir name ext)" by (rule injI) (rule unique_candidate_inj)
  then have "finite (unique_candidate dir name ext -` set fs)" by (rule finite_vimageI [rotated]) simp
  then show ?thesis by (simp add: vimage_def)
qed

lemma taken_decreases:
  assumes "unique_candidate dir name ext i \<in> set fs"
  shows "card {j. Suc i \<le> j \<and> unique_candidate dir name ext j \<in> set fs}
         < card {j. i \<le> j \<and> unique_candidate dir name ext j \<in> set fs}"
proof (rule psubset_card_mono)
  show "finite {j. i \<le> j \<and> unique_candidate dir name ext j \<in> set fs}"
    by (rule finite_subset [OF _ finite_taken]) blast
  show "{j. Suc i \<le> j \<and> unique_candidate dir name ext j \<in> set fs}
        \<subset> {j. i \<le> j \<and> unique_candidate dir name ext j \<in> set fs}" (is "?A \<subset> ?B")
  proof
    show "?A \<subseteq> ?B" by auto
    have "i \<in> ?B" "i \<notin> ?A" using assms by auto
    then show "?A \<noteq> ?B" by blast
  qed
qed

termination unique_from
  by (relation "measure (\<lambda>(fs, dir, name, ext, i). card {j. i \<le> j \<and> unique_candidate dir name ext j \<in> set fs})")
     (simp_all add: taken_decreases)

lemma unique_from_least:
  "unique_from fs dir name ext i \<notin> set fs
   \<and> (\<exists>k\<ge>i. unique_from fs dir name ext i = unique_candidate dir name ext k
        \<and> (\<forall>j. i \<le> j \<and> j < k \<longrightarrow> unique_candidate dir name ext j \<in> set fs))"
proof (induction fs dir name ext i rule: unique_from.induct)
  case (1 fs dir name ext i)
  show ?case
  proof (cases "unique_candidate dir name ext i \<in> set fs")
    case True
    with "1.IH" obtain k where k: "Suc i \<le> k" "unique_from fs dir name ext (Suc i) = unique_candidate dir name ext k"
      "\<forall>j. Suc i \<le> j \<and> j < k \<longrightarrow> unique_candidate dir name ext j \<in> set fs"
      and fresh: "unique_from fs dir name ext (Suc i) \<notin> set fs" by blast
    have "\<forall>j. i \<le> j \<and> j < k \<longrightarrow> unique_candidate dir name ext j \<in> set fs"
      using k(3) True by (metis Suc_leI le_neq_implies_less)
    with True k fresh show ?thesis by (intro conjI exI [of _ k]) simp_all
  next
    case False
    then show ?thesis by (intro conjI exI [of _ i]) auto
  qed
qed

lemma taken_run_bound:
  assumes "\<forall>j. i \<le> j \<and> j < k \<longrightarrow> unique_candidate dir name ext j \<in> set fs"
  shows "k - i \<le> length fs"
proof -
  have "unique_candidate dir name ext ` {i..<k} \<subseteq> set fs" using assms by auto
  then have "card (unique_candidate dir name ext ` {i..<k}) \<le> card (set fs)" by (rule card_mono [rotated]) simp
  moreover have "inj_on (unique_candidate dir name ext) {i..<k}"
    by (rule inj_onI) (rule unique_candidate_inj)
  ultimately have "card {i..<k} \<le> card (set fs)" by (simp add: card_image)
  then show ?thesis using card_length [of fs] by simp
qed

text \<open>
  C27. \<open>unique_path\<close> always returns, with a path that does not exist yet: the plain
  \<open>dirpath/filename\<close> when it is free, otherwise \<open>name-k ext\<close> for the least \<open>k \<ge> 2\<close>
  whose candidate is free, and that \<open>k\<close> is at most \<open>len(existing) + 2\<close>, so the
  \<open>while\<close> loop runs at most once per existing file plus one.
\<close>

theorem unique_path_least:
  "unique_path fs dir f \<notin> set fs
   \<and> (path_join dir f \<notin> set fs \<longrightarrow> unique_path fs dir f = path_join dir f)
   \<and> (path_join dir f \<in> set fs \<longrightarrow>
        (\<exists>k. 2 \<le> k \<and> k \<le> length fs + 2
             \<and> unique_path fs dir f = unique_candidate dir (fst (splitext f)) (snd (splitext f)) k
             \<and> (\<forall>j. 2 \<le> j \<and> j < k \<longrightarrow> unique_candidate dir (fst (splitext f)) (snd (splitext f)) j \<in> set fs)))"
proof (cases "path_join dir f \<in> set fs")
  case True
  obtain name ext where s: "splitext f = (name, ext)" by (cases "splitext f")
  from unique_from_least [of fs dir name ext 2] obtain k where
    "unique_from fs dir name ext 2 \<notin> set fs" "2 \<le> k" "unique_from fs dir name ext 2 = unique_candidate dir name ext k"
    and run: "\<forall>j. 2 \<le> j \<and> j < k \<longrightarrow> unique_candidate dir name ext j \<in> set fs" by blast
  moreover have "k - 2 \<le> length fs" using run by (rule taken_run_bound)
  ultimately show ?thesis using True s by (auto simp add: unique_path_def)
next
  case False
  then show ?thesis by (simp add: unique_path_def case_prod_beta)
qed

theorem unique_path_least_witness:
  "unique_path [''storage/cv/ana.pdf'', ''storage/cv/ana-2.pdf''] ''storage/cv'' ''ana.pdf'' = ''storage/cv/ana-3.pdf''
   \<and> ''storage/cv/ana-3.pdf'' \<notin> set [''storage/cv/ana.pdf'', ''storage/cv/ana-2.pdf'']"
proof -
  have eval: "unique_path [''storage/cv/ana.pdf'', ''storage/cv/ana-2.pdf''] ''storage/cv'' ''ana.pdf'' = ''storage/cv/ana-3.pdf''"
    by code_simp
  show ?thesis using conjunct1 [OF unique_path_least [of "[''storage/cv/ana.pdf'', ''storage/cv/ana-2.pdf'']" "''storage/cv''" "''ana.pdf''"]]
    by (simp only: eval) simp
qed

lemma write_chunks_sum:
  "s \<le> max_cv_mb cfg * 1024 * 1024 \<Longrightarrow>
   write_chunks cfg s cs =
     (if max_cv_mb cfg * 1024 * 1024 < s + int (sum_list (takeWhile (\<lambda>c. c \<noteq> 0) cs))
      then Inl (ArchivoDemasiadoGrande (max_cv_mb cfg)) else Inr (s + int (sum_list (takeWhile (\<lambda>c. c \<noteq> 0) cs))))"
proof (induction cs arbitrary: s)
  case Nil
  then show ?case by simp
next
  case (Cons c cs)
  show ?case
  proof (cases "c = 0")
    case False
    show ?thesis
    proof (cases "max_cv_mb cfg * 1024 * 1024 < s + int c")
      case True
      then show ?thesis using False by simp
    next
      case over: False
      then show ?thesis using False Cons.IH [of "s + int c"] by (simp add: add.assoc)
    qed
  qed (use Cons.prems in simp)
qed

lemma write_chunks_ok: "write_chunks cfg s cs = Inr r \<Longrightarrow> s \<le> r \<and> (r = s \<or> r \<le> max_cv_mb cfg * 1024 * 1024)"
proof (induction cfg s cs rule: write_chunks.induct)
  case (1 cfg s)
  then show ?case by simp
next
  case (2 cfg s c cs)
  then show ?case by (force split: if_splits)
qed

text \<open>
  C28. With a non-negative \<open>MAX_CV_MB\<close>, the chunked copy loop fails with 413 exactly
  when the whole file (up to the first empty read) is larger than
  \<open>MAX_CV_MB * 1024 * 1024\<close> bytes, and otherwise returns the file's size: checking
  after each chunk is the same as checking the total.
\<close>

theorem write_chunks_limit:
  "0 \<le> max_cv_mb cfg \<Longrightarrow>
   write_chunks cfg 0 chunks =
     (if max_cv_mb cfg * 1024 * 1024 < int (sum_list (takeWhile (\<lambda>c. c \<noteq> 0) chunks))
      then Inl (ArchivoDemasiadoGrande (max_cv_mb cfg)) else Inr (int (sum_list (takeWhile (\<lambda>c. c \<noteq> 0) chunks))))"
  using write_chunks_sum [of 0 cfg chunks] by simp

theorem write_chunks_limit_witness:
  "write_chunks \<lparr>storage_dir = ''storage'', max_cv_mb = 1, allowed_exts = [''.pdf'']\<rparr> 0 [1048576, 1, 0, 5]
     = Inl (ArchivoDemasiadoGrande 1)
   \<and> write_chunks \<lparr>storage_dir = ''storage'', max_cv_mb = 1, allowed_exts = [''.pdf'']\<rparr> 0 [1048575, 1, 0, 5] = Inr 1048576"
  using write_chunks_limit [of "\<lparr>storage_dir = ''storage'', max_cv_mb = 1, allowed_exts = [''.pdf'']\<rparr>"] by simp

lemma dash_not_slug: "\<not> slug_char CHR ''-''"
  by (simp add: slug_char_def is_digit_def)

lemma slug_runs_shape:
  "(\<forall>c\<in>set (slug_runs r s). slug_char c \<or> c = CHR ''-'') \<and> \<not> sublist ''--'' (slug_runs r s)
   \<and> (r \<longrightarrow> slug_runs r s = [] \<or> hd (slug_runs r s) \<noteq> CHR ''-'')"
proof (induction r s rule: slug_runs.induct)
  case (1 r)
  then show ?case by simp
next
  case (2 r c cs)
  then show ?case
    by (cases "slug_runs True cs") (auto simp add: sublist_Cons_right dash_not_slug)
qed

lemma slug_runs_id:
  "\<forall>c\<in>set s. slug_char c \<or> c = CHR ''-'' \<Longrightarrow> \<not> sublist ''--'' s \<Longrightarrow> (r \<longrightarrow> s = [] \<or> hd s \<noteq> CHR ''-'')
   \<Longrightarrow> slug_runs r s = s"
proof (induction r s rule: slug_runs.induct)
  case (1 r)
  then show ?case by simp
next
  case (2 r c cs)
  then show ?case
    by (cases cs) (auto simp add: sublist_Cons_right dash_not_slug)
qed

lemma sublist_dropWhile: "sublist x (dropWhile P s) \<Longrightarrow> sublist x s"
  by (metis sublist_append_leftI sublist_order.order.trans takeWhile_dropWhile_id)

lemma strip_split:
  "dropWhile P s = rev (dropWhile P (rev (dropWhile P s))) @ rev (takeWhile P (rev (dropWhile P s)))"
  using takeWhile_dropWhile_id [of P "rev (dropWhile P s)"] by (metis rev_append rev_rev_ident)

lemma strip_set: "set (strip_dashes s) \<subseteq> set s"
  unfolding strip_dashes_def by (auto dest!: set_dropWhileD)

lemma strip_sublist: "sublist (strip_dashes s) (dropWhile (\<lambda>c. c = CHR ''-'') s)"
  unfolding strip_dashes_def by (subst (2) strip_split) (rule sublist_append_rightI)

lemma strip_no_double: "sublist ''--'' (strip_dashes s) \<Longrightarrow> sublist ''--'' s"
  using strip_sublist [of s] sublist_dropWhile [of "strip_dashes s" _ s] sublist_order.order.trans by blast

lemma strip_ends:
  assumes ne: "strip_dashes s \<noteq> []"
  shows "hd (strip_dashes s) \<noteq> CHR ''-'' \<and> last (strip_dashes s) \<noteq> CHR ''-''"
proof -
  let ?P = "\<lambda>c. c = CHR ''-''"
  let ?s1 = "dropWhile ?P s"
  let ?X = "dropWhile ?P (rev ?s1)"
  have st: "strip_dashes s = rev ?X" by (simp add: strip_dashes_def)
  have eq: "?s1 = strip_dashes s @ rev (takeWhile ?P (rev ?s1))" unfolding st by (rule strip_split)
  have h: "hd ?s1 = hd (strip_dashes s)" by (subst eq) (rule hd_append2 [OF ne])
  have "?s1 \<noteq> []" by (metis eq ne append_is_Nil_conv)
  then have "hd ?s1 \<noteq> CHR ''-''" using hd_dropWhile [of ?P s] by simp
  moreover have "?X \<noteq> []" using ne st by simp
  then have "hd ?X \<noteq> CHR ''-''" using hd_dropWhile [of ?P "rev ?s1"] by simp
  ultimately show ?thesis using h st by (simp add: last_rev)
qed

lemma slug_char_plain:
  "slug_char c \<or> c = CHR ''-'' \<Longrightarrow>
   \<not> py_isspace c \<and> (of_char c :: nat) < 128 \<and> \<not> (65 \<le> (of_char c :: nat) \<and> (of_char c :: nat) \<le> 90)"
  by (auto simp add: slug_char_def is_digit_def py_isspace_def)

lemma slugify_fixpoint:
  assumes ne: "w \<noteq> []" and chars: "\<forall>c\<in>set w. slug_char c \<or> c = CHR ''-''"
    and nd: "\<not> sublist ''--'' w" and h: "hd w \<noteq> CHR ''-''" and l: "last w \<noteq> CHR ''-''"
  shows "slugify w = w"
proof -
  have "py_strip w = w" using chars slug_char_plain by (simp add: py_strip_no_space)
  moreover have "ascii_fold w = w" using chars slug_char_plain by (simp add: ascii_fold_def)
  moreover have "py_lower w = w" unfolding py_lower_def
    by (rule map_idI) (use chars slug_char_plain in fastforce)
  moreover have "slug_runs False w = w" using chars nd by (simp add: slug_runs_id)
  moreover have "dropWhile (\<lambda>c. c = CHR ''-'') w = w" using ne h by (simp add: dropWhile_eq_self_iff)
  moreover have "dropWhile (\<lambda>c. c = CHR ''-'') (rev w) = rev w"
    using ne l by (simp add: dropWhile_eq_self_iff hd_rev)
  ultimately show ?thesis using ne by (simp add: slugify_def strip_dashes_def)
qed

lemma slugify_shape:
  "slugify t \<noteq> [] \<and> (\<forall>c\<in>set (slugify t). slug_char c \<or> c = CHR ''-'') \<and> \<not> sublist ''--'' (slugify t)
   \<and> hd (slugify t) \<noteq> CHR ''-'' \<and> last (slugify t) \<noteq> CHR ''-''"
proof -
  let ?r = "slug_runs False (py_lower (ascii_fold (py_strip t)))"
  show ?thesis
  proof (cases "strip_dashes ?r = []")
    case True
    then show ?thesis by (simp add: slugify_def slug_char_def sublist_Cons_right)
  next
    case False
    have "\<forall>c\<in>set (strip_dashes ?r). slug_char c \<or> c = CHR ''-''"
      using strip_set [of ?r] slug_runs_shape [of False "py_lower (ascii_fold (py_strip t))"] by blast
    moreover have "\<not> sublist ''--'' (strip_dashes ?r)"
      using strip_no_double [of ?r] slug_runs_shape [of False "py_lower (ascii_fold (py_strip t))"] by blast
    ultimately show ?thesis using False strip_ends [OF False] by (simp add: slugify_def)
  qed
qed

text \<open>
  C29. \<open>slugify\<close> always returns a slug: non-empty, only \<open>[a-z0-9]\<close> and dashes, no
  dash at either end, no two dashes in a row; and a slug is its own slugify, so the
  function is idempotent.
\<close>

theorem slugify_slug:
  "slugify t \<noteq> [] \<and> (\<forall>c\<in>set (slugify t). slug_char c \<or> c = CHR ''-'') \<and> \<not> sublist ''--'' (slugify t)
   \<and> hd (slugify t) \<noteq> CHR ''-'' \<and> last (slugify t) \<noteq> CHR ''-'' \<and> slugify (slugify t) = slugify t"
  using slugify_shape [of t] slugify_fixpoint [of "slugify t"] by blast

theorem slugify_slug_witness:
  "slugify ''  Ana  Maria -- Perez!! '' = ''ana-maria-perez'' \<and> slugify ''ana-maria-perez'' = ''ana-maria-perez''
   \<and> \<not> sublist ''--'' ''ana-maria-perez''"
proof -
  have eval: "slugify ''  Ana  Maria -- Perez!! '' = ''ana-maria-perez''" by code_simp
  show ?thesis using slugify_slug [of "''  Ana  Maria -- Perez!! ''"] by (simp only: eval) simp
qed

lemma basename_no_slash: "CHR ''/'' \<notin> set (basename p)"
  unfolding basename_def by (auto dest: set_takeWhileD)

lemma basename_id: "CHR ''/'' \<notin> set c \<Longrightarrow> basename c = c"
  unfolding basename_def by (subst takeWhile_eq_all_conv [THEN iffD2]) auto

lemma basename_join:
  assumes c: "CHR ''/'' \<notin> set c" "c \<noteq> []"
  shows "basename (path_join D c) = c"
proof -
  let ?P = "\<lambda>x. x \<noteq> CHR ''/''"
  have nh: "hd c \<noteq> CHR ''/''" using c hd_in_set by metis
  have all: "takeWhile ?P (rev c @ ys) = rev c @ takeWhile ?P ys" for ys
    using c by (intro takeWhile_append2) auto
  show ?thesis
  proof (cases "D = [] \<or> last D = CHR ''/''")
    case True
    then have pj: "path_join D c = D @ c" using nh by (simp add: path_join_def)
    have "takeWhile ?P (rev D) = []" using True by (cases D rule: rev_cases) auto
    then show ?thesis by (simp add: pj basename_def all)
  next
    case False
    then have pj: "path_join D c = D @ ''/'' @ c" using nh by (simp add: path_join_def)
    show ?thesis by (simp add: pj basename_def all)
  qed
qed

lemma splitext_no_slash:
  "CHR ''/'' \<notin> set p \<Longrightarrow> CHR ''/'' \<notin> set (fst (splitext p)) \<and> CHR ''/'' \<notin> set (snd (splitext p))"
  by (auto simp add: splitext_def Let_def basename_id dest: in_set_takeD in_set_dropD)

lemma upper_to_lower_not_slash:
  "65 \<le> (of_char x :: nat) \<Longrightarrow> (of_char x :: nat) \<le> 90 \<Longrightarrow> char_of (of_char x + (32 :: nat)) \<noteq> CHR ''/''"
proof
  assume r: "65 \<le> (of_char x :: nat)" "(of_char x :: nat) \<le> 90" and eq: "char_of (of_char x + (32 :: nat)) = CHR ''/''"
  have "(of_char (char_of (of_char x + (32 :: nat))) :: nat) = of_char x + 32" using r by (simp add: of_char_of)
  then show False using eq r by simp
qed

lemma py_lower_no_slash:
  assumes "CHR ''/'' \<notin> set s"
  shows "CHR ''/'' \<notin> set (py_lower s)"
proof -
  let ?f = "\<lambda>c. if 65 \<le> (of_char c :: nat) \<and> (of_char c :: nat) \<le> 90 then char_of (of_char c + (32 :: nat)) else c"
  have ne: "?f x \<noteq> CHR ''/''" if "x \<in> set s" for x
  proof (cases "65 \<le> (of_char x :: nat) \<and> (of_char x :: nat) \<le> 90")
    case True
    then have eq: "?f x = char_of (of_char x + (32 :: nat))" by (rule if_P)
    have "char_of (of_char x + (32 :: nat)) \<noteq> CHR ''/''" using True by (intro upper_to_lower_not_slash) auto
    then show ?thesis by (simp only: eq not_False_eq_True)
  next
    case False
    then have eq: "?f x = x" by (rule if_not_P)
    show ?thesis using that assms by (simp only: eq) blast
  qed
  show ?thesis unfolding py_lower_def set_map
  proof
    assume "CHR ''/'' \<in> ?f ` set s"
    then obtain x where "x \<in> set s" and "CHR ''/'' = ?f x" by (rule imageE)
    then show False using ne [of x] by argo
  qed
qed

lemma digits_no_slash: "CHR ''/'' \<notin> set (nat_digits n)"
  using nat_digits_digits [of n] by (auto simp add: is_digit_def)

lemma py_str_int_no_slash: "CHR ''/'' \<notin> set (py_str_int i)"
  using digits_no_slash by (simp add: py_str_int_def)

lemma stamp_no_slash: "CHR ''/'' \<notin> set (strftime_stamp t)"
  using digits_no_slash by (auto simp add: strftime_stamp_def zpad_def Let_def split: prod.splits)

lemma slugify_no_slash: "CHR ''/'' \<notin> set (slugify t)"
  using slugify_shape [of t] by (auto simp add: slug_char_def is_digit_def)

lemma build_cv_filename_shape:
  "CHR ''/'' \<notin> set ext \<Longrightarrow> build_cv_filename n a ext t \<noteq> [] \<and> CHR ''/'' \<notin> set (build_cv_filename n a ext t)"
  using slugify_no_slash [of n] slugify_no_slash [of a] stamp_no_slash [of t]
  by (auto simp add: build_cv_filename_def)

lemma unique_path_shape:
  assumes "CHR ''/'' \<notin> set f" and "f \<noteq> []"
  shows "unique_path fs D f \<notin> set fs \<and> (\<exists>c. unique_path fs D f = path_join D c \<and> c \<noteq> [] \<and> CHR ''/'' \<notin> set c)"
proof (cases "path_join D f \<in> set fs")
  case True
  obtain name ext where s: "splitext f = (name, ext)" by (cases "splitext f")
  then have nm: "CHR ''/'' \<notin> set name" "CHR ''/'' \<notin> set ext" using splitext_no_slash [OF assms(1)] by simp_all
  from unique_from_least [of fs D name ext 2] obtain k where
    "unique_from fs D name ext 2 \<notin> set fs" "unique_from fs D name ext 2 = unique_candidate D name ext k" by blast
  then show ?thesis using True s nm py_str_int_no_slash [of "int k"]
    by (auto simp add: unique_path_def unique_candidate_def)
next
  case False
  then show ?thesis using assms by (auto simp add: unique_path_def case_prod_beta)
qed

lemma validate_ext_no_slash: "validate_ext cfg (secure_basename f) = Inr ext \<Longrightarrow> CHR ''/'' \<notin> set ext"
  using splitext_no_slash [OF basename_no_slash] py_lower_no_slash
  by (auto simp add: validate_ext_def secure_basename_def Let_def split: if_splits)

lemma save_upload_result:
  assumes run: "save_upload_file_cv cfg fs fname ctype chunks nombre apellido now = Inr (fs', stored, sz, mime)"
  shows "cv_disk_path cfg stored \<notin> set fs \<and> fs' = cv_disk_path cfg stored # fs \<and> stored \<noteq> [] \<and> CHR ''/'' \<notin> set stored
         \<and> 0 \<le> sz \<and> (sz = 0 \<or> sz \<le> max_cv_mb cfg * 1024 * 1024)"
proof -
  obtain ext where v: "validate_ext cfg (secure_basename fname) = Inr ext"
    using run by (auto simp add: save_upload_file_cv_def split: sum.splits)
  let ?D = "path_join (storage_dir cfg) ''cv''"
  let ?f = "build_cv_filename nombre apellido ext now"
  have w: "write_chunks cfg 0 chunks = Inr sz"
    and r: "fs' = unique_path fs ?D ?f # fs" "stored = basename (unique_path fs ?D ?f)"
    using run v by (auto simp add: save_upload_file_cv_def Let_def split: sum.splits)
  obtain c where c: "unique_path fs ?D ?f = path_join ?D c" "c \<noteq> []" "CHR ''/'' \<notin> set c"
    and fresh: "unique_path fs ?D ?f \<notin> set fs"
    using unique_path_shape [OF conjunct2 [OF build_cv_filename_shape] conjunct1 [OF build_cv_filename_shape]]
      validate_ext_no_slash [OF v] by blast
  have "stored = c" using r(2) c basename_join by simp
  moreover have "cv_disk_path cfg c = unique_path fs ?D ?f" using c by (simp add: cv_disk_path_def)
  ultimately show ?thesis using r(1) fresh c write_chunks_ok [OF w] by auto
qed

text \<open>
  C30. A successful \<open>save_upload_file_cv\<close> writes exactly one new file, at a path that
  did not exist, and the returned stored name leads back to it: \<open>cv_disk_path\<close> of the
  name is the path written. The stored name contains no slash, whatever the client's
  file name was, so the file stays inside \<open>STORAGE_DIR/cv\<close>. The size it reports is
  non-negative and within the limit (or 0).
\<close>

theorem save_upload_stored:
  "save_upload_file_cv cfg fs fname ctype chunks nombre apellido now = Inr (fs', stored, sz, mime) \<Longrightarrow>
   cv_disk_path cfg stored \<notin> set fs \<and> fs' = cv_disk_path cfg stored # fs \<and> stored \<noteq> [] \<and> CHR ''/'' \<notin> set stored
   \<and> 0 \<le> sz \<and> (sz = 0 \<or> sz \<le> max_cv_mb cfg * 1024 * 1024)"
  by (rule save_upload_result)

theorem save_upload_stored_witness:
  "save_upload_file_cv \<lparr>storage_dir = ''storage'', max_cv_mb = 10, allowed_exts = [''.pdf'', ''.doc'', ''.docx'']\<rparr>
      [''storage/cv/ana_diaz_20250102_030405.pdf''] (Some ''../../etc/CV Final.PDF'') (Some ''application/pdf'')
      [2048, 0] '' Ana '' ''Diaz'' (2025, 1, 2, 3, 4, 5)
   = Inr ([''storage/cv/ana_diaz_20250102_030405-2.pdf'', ''storage/cv/ana_diaz_20250102_030405.pdf''],
          ''ana_diaz_20250102_030405-2.pdf'', 2048, ''application/pdf'')
   \<and> cv_disk_path \<lparr>storage_dir = ''storage'', max_cv_mb = 10, allowed_exts = [''.pdf'', ''.doc'', ''.docx'']\<rparr>
       ''ana_diaz_20250102_030405-2.pdf'' \<notin> set [''storage/cv/ana_diaz_20250102_030405.pdf'']"
proof -
  have eval: "save_upload_file_cv \<lparr>storage_dir = ''storage'', max_cv_mb = 10, allowed_exts = [''.pdf'', ''.doc'', ''.docx'']\<rparr>
      [''storage/cv/ana_diaz_20250102_030405.pdf''] (Some ''../../etc/CV Final.PDF'') (Some ''application/pdf'')
      [2048, 0] '' Ana '' ''Diaz'' (2025, 1, 2, 3, 4, 5)
   = Inr ([''storage/cv/ana_diaz_20250102_030405-2.pdf'', ''storage/cv/ana_diaz_20250102_030405.pdf''],
          ''ana_diaz_20250102_030405-2.pdf'', 2048, ''application/pdf'')" by code_simp
  show ?thesis using save_upload_stored [OF eval] eval by blast
qed

end
