(* ===== verification/PostulacionesRouter.thy ===== *)
theory PostulacionesRouter
  imports Postulaciones WsEndpoint Files
begin

text \<open>
  The REST handlers of \<open>src/Api/routers/postulaciones.py\<close> that change the table or
  announce a change, and the decision schema of \<open>src/Api/schemas/postulaciones.py\<close>.
  A handler returns the new table, its response (\<open>Inl (status, detail)\<close> for an
  \<open>HTTPException\<close>, or for an unhandled exception the 500 the server answers), and the
  background tasks it scheduled: each is a call \<open>manager.broadcast(event_type, data)\<close>,
  which reaches the hub, after the response, as the hub event \<open>Domain event_type data\<close>.
  The handlers run after \<open>admin_required\<close> has accepted the caller (that guard is not
  part of this theory); \<open>jwt\<close> is the token payload it returns.
\<close>

datatype detail = Detail string | DecideDetail decide_error | UploadDetail file_error | InternalServerError

type_synonym 'a response = "(nat \<times> detail) + 'a"

type_synonym task = "string \<times> pyval"

text \<open>\<open>PostulacionDecisionIn\<close> after pydantic validation: the field constraints on the raw
  strings, then the validator that strips \<open>estado\<close> and rejects it empty (422).\<close>

record decision_in =
  di_estado :: string
  di_motivo :: string
  di_unidad_id :: "int option"
  di_puesto_id :: "int option"

definition validate_decision_in :: "string \<Rightarrow> string \<Rightarrow> int option \<Rightarrow> int option \<Rightarrow> decision_in response" where
  "validate_decision_in e m u p =
     (if length e < 1 \<or> 32 < length e \<or> length m < 3 \<or> 255 < length m then Inl (422, Detail ''validation error'')
      else if py_strip e = [] then Inl (422, Detail ''validation error'')
      else Inr \<lparr>di_estado = py_strip e, di_motivo = m, di_unidad_id = u, di_puesto_id = p\<rparr>)"

text \<open>The loop body of \<open>counts_por_estado\<close>: one \<open>GROUP BY\<close> row, its estado normalised
  with \<open>.strip().lower()\<close>; a key outside the four known ones is counted only in the total.\<close>

definition count_step :: "(string, nat) dict \<times> nat \<Rightarrow> string \<times> nat \<Rightarrow> (string, nat) dict \<times> nat" where
  "count_step = (\<lambda>(res, total) (e, cnt).
                 (let key = py_lower (py_strip e)
                  in (case map_of res key of Some c \<Rightarrow> AList.update key (c + cnt) res | None \<Rightarrow> res,
                      total + cnt)))"

definition counts_por_estado :: "db \<Rightarrow> (string, nat) dict" where
  "counts_por_estado d =
     (let (res, total) = foldl count_step
          ([(''nueva'', 0), (''destacada'', 0), (''posible'', 0), (''descartada'', 0)], 0)
          (group_by_estado d)
      in AList.update ''total'' total res)"

definition get_postulacion :: "int \<Rightarrow> db \<Rightarrow> postulacion response" where
  "get_postulacion pid d = (case get d pid of None \<Rightarrow> Inl (404, Detail ''No encontrado'') | Some obj \<Rightarrow> Inr obj)"

text \<open>\<open>create_postulacion\<close>: \<open>saved\<close> is the outcome of \<open>save_upload_file_cv\<close> (the stored
  name, size and MIME type, or its \<open>HTTPException\<close>); \<open>cv.filename or "cv"\<close> is the
  original name. The two e-mails are sent inside \<open>try\<close> blocks that swallow every
  error, so they change nothing here.\<close>

definition create_postulacion ::
  "int \<Rightarrow> (nat \<times> detail) + (string \<times> int \<times> string) \<Rightarrow> string option \<Rightarrow> upload_args \<Rightarrow> db \<Rightarrow>
   db \<times> postulacion response \<times> task list" where
  "create_postulacion now saved cv_name form d =
     (case saved of
       Inl err \<Rightarrow> (d, Inl err, [])
     | Inr (stored, sz, mime) \<Rightarrow>
         (let (d', obj) = create_from_upload now
                (form\<lparr>up_cv_filename := stored, up_cv_original := (case cv_name of Some n \<Rightarrow> if n = [] then ''cv'' else n | None \<Rightarrow> ''cv''),
                      up_cv_mime := mime, up_cv_size := sz\<rparr>) d
          in (d', Inr obj, [(''POSTULACION_CREATED'', PDict [(''id'', PInt (post_id obj)), (''estado'', PStr ''nueva'')])])))"

text \<open>The whole of \<open>create_postulacion\<close> with its first line,
  \<open>save_upload_file_cv(cv, nombre, apellido)\<close>: the CV directory before and after, the
  time stamp of the file name, and the upload itself (file name, content type, chunks).
  An upload error is the handler's \<open>HTTPException\<close>.\<close>

definition create_postulacion_upload ::
  "files_cfg \<Rightarrow> string list \<Rightarrow> int \<Rightarrow> nat \<times> nat \<times> nat \<times> nat \<times> nat \<times> nat \<Rightarrow> string option \<Rightarrow> string option \<Rightarrow>
   nat list \<Rightarrow> upload_args \<Rightarrow> db \<Rightarrow> string list \<times> db \<times> postulacion response \<times> task list" where
  "create_postulacion_upload cfg fs now stamp cv_name ctype chunks form d =
     (case save_upload_file_cv cfg fs cv_name ctype chunks (up_nombre form) (up_apellido form) stamp of
       Inl e \<Rightarrow> (fs, d, Inl (file_error_status e, UploadDetail e), [])
     | Inr (fs', saved) \<Rightarrow>
         (let (d', r, ts) = create_postulacion now (Inr saved) cv_name form d in (fs', d', r, ts)))"

definition reviewer_id :: "pyval \<Rightarrow> py_error + int" where
  "reviewer_id jwt =
     (case py_get jwt ''uid'' (PInt 0) of
       Inl e \<Rightarrow> Inl e
     | Inr v \<Rightarrow> py_int (if py_truthy v then v else PInt 0))"

definition decidir_postulacion ::
  "int \<Rightarrow> int \<Rightarrow> decision_in \<Rightarrow> pyval \<Rightarrow> db \<Rightarrow> db \<times> postulacion response \<times> task list" where
  "decidir_postulacion now pid payload jwt d =
     (case reviewer_id jwt of
       Inl _ \<Rightarrow> (d, Inl (500, InternalServerError), [])
     | Inr rid \<Rightarrow>
         if rid = 0 then (d, Inl (401, Detail ''No autenticado''), [])
         else
           (case decide now pid (di_estado payload) (di_motivo payload) rid None None d of
             Inl NoEncontrado \<Rightarrow> (d, Inl (404, DecideDetail NoEncontrado), [])
           | Inl e \<Rightarrow> (d, Inl (400, DecideDetail e), [])
           | Inr (d', obj) \<Rightarrow>
               (d', Inr obj, [(''POSTULACION_UPDATED'', PDict [(''id'', PInt (post_id obj)), (''estado'', PStr (estado obj))])])))"

text \<open>\<open>update_postulacion\<close>: the \<open>return obj\<close> inside the \<open>try\<close> ends the handler, so the
  \<open>background_tasks.add_task(manager.broadcast, "POSTULACION_UPDATED", ...)\<close> after the
  \<open>try\<close> never runs; an \<open>IntegrityError\<close> of the commit is no \<open>ValueError\<close> and
  becomes a 500.\<close>

definition update_postulacion :: "int \<Rightarrow> field_update list \<Rightarrow> db \<Rightarrow> db \<times> postulacion response \<times> task list" where
  "update_postulacion pid payload d =
     (case update pid payload d of
       Inl IntegrityError \<Rightarrow> (d, Inl (500, InternalServerError), [])
     | Inr (d', None) \<Rightarrow> (d', Inl (404, Detail ''No encontrado''), [])
     | Inr (d', Some obj) \<Rightarrow> (d', Inr obj, []))"

definition delete_postulacion :: "int \<Rightarrow> db \<Rightarrow> db \<times> unit response \<times> task list" where
  "delete_postulacion pid d =
     (let (d', ok) = delete pid d
      in if \<not> ok then (d', Inl (404, Detail ''No encontrado''), [])
         else (d', Inr (), [(''POSTULACION_DELETED'', PDict [(''id'', PInt pid)])]))"

text \<open>The background tasks, run on the hub after the response.\<close>

definition run_tasks :: "(ws \<Rightarrow> bool) \<Rightarrow> manager \<Rightarrow> task list \<Rightarrow> manager \<times> send list" where
  "run_tasks alive s ts = hub_run alive s (map (\<lambda>(t, data). Domain t data) ts)"

text \<open>Sample data for the witnesses: one stored application and one upload form.\<close>

definition demo_row :: postulacion where
  "demo_row = \<lparr>post_id = 1, nombre = ''Ana'', apellido = ''Diaz'', correo = ''ana@x.org'', telefono = None,
     puesto_id = Some 3, unidad_id = Some 5, puesto_original_id = Some 3, unidad_original_id = Some 5,
     estado = ''nueva'', nota = None, cv_filename = ''ana.pdf'', cv_original = ''cv.pdf'',
     cv_mime = ''application/pdf'', cv_size = 1000, dni = None, fecha_nacimiento = None,
     estado_civil = None, hijos = None, domicilio_residencia = None, localidad = None,
     decidido_motivo = None, decidido_por_user_id = None, decidido_en = None, created_at = 100\<rparr>"

definition demo_db :: db where
  "demo_db = \<lparr>postulaciones = [(1, demo_row)], next_pk = 2\<rparr>"

definition demo_form :: upload_args where
  "demo_form = \<lparr>up_nombre = ''Beto'', up_apellido = ''Paz'', up_correo = ''beto@x.org'', up_telefono = None,
     up_puesto_id = Some 4, up_unidad_id = Some 6, up_nota = None, up_cv_filename = '''', up_cv_original = '''',
     up_cv_mime = '''', up_cv_size = 0, up_dni = None, up_fecha_nacimiento = None, up_estado_civil = Some '' soltero '',
     up_hijos = None, up_domicilio_residencia = None, up_localidad = None\<rparr>"

lemma count_step_eq:
  "dict_ok res \<Longrightarrow>
   count_step (res, t) (e, cnt) = (map (\<lambda>(k, v). (k, v + (if k = py_lower (py_strip e) then cnt else 0))) res, t + cnt)"
proof (cases "map_of res (py_lower (py_strip e))")
  case None
  then have "py_lower (py_strip e) \<notin> fst ` set res" by (simp add: map_of_eq_None_iff)
  then have "map (\<lambda>(k, v). (k, v + (if k = py_lower (py_strip e) then cnt else 0))) res = res"
    by (induction res) auto
  with None show ?thesis by (simp add: count_step_def)
next
  case (Some c)
  moreover assume "dict_ok res"
  ultimately show ?thesis by (simp add: count_step_def update_existing_map)
qed

lemma foldl_count_step:
  "dict_ok res \<Longrightarrow>
   foldl count_step (res, t) rows =
     (map (\<lambda>(k, v). (k, v + sum_list (map snd (filter (\<lambda>r. py_lower (py_strip (fst r)) = k) rows)))) res,
      t + sum_list (map snd rows))"
proof (induction rows arbitrary: res t)
  case Nil
  then show ?case by (induction res) auto
next
  case (Cons row rows)
  obtain e cnt where row: "row = (e, cnt)" by (cases row)
  let ?res1 = "map (\<lambda>(k, v). (k, v + (if k = py_lower (py_strip e) then cnt else 0))) res"
  have ok1: "dict_ok ?res1" using Cons.prems by (simp add: dict_ok_def comp_def case_prod_beta)
  have "foldl count_step (res, t) (row # rows) = foldl count_step (?res1, t + cnt) rows"
    using Cons.prems row by (simp add: count_step_eq)
  also have "\<dots> = (map (\<lambda>(k, v). (k, v + sum_list (map snd (filter (\<lambda>r. py_lower (py_strip (fst r)) = k) rows)))) ?res1,
                    t + cnt + sum_list (map snd rows))"
    by (rule Cons.IH [OF ok1])
  finally show ?case using row by (simp add: comp_def case_prod_beta add_ac)
qed

lemma table_ok_demo_db: "table_ok demo_db"
  by (simp add: table_ok_def demo_db_def demo_row_def dict_ok_def estado_ok_nueva)

lemma group_sum_filter:
  "sum_list (map snd (filter (\<lambda>r. P (fst r)) (group_by_estado d)))
   = length (filter P (map (estado \<circ> snd) (postulaciones d)))"
proof -
  let ?es = "map (estado \<circ> snd) (postulaciones d)"
  have gen: "sum_list (map snd (filter (\<lambda>r. P (fst r)) (map (\<lambda>e. (e, f e)) ys)))
             = sum_list (map (\<lambda>e. if P e then f e else 0) ys)" for ys and f :: "string \<Rightarrow> nat"
    by (induction ys) auto
  have "sum_list (map (\<lambda>e. if P e then count_list ?es e else 0) (remdups ?es))
        = (\<Sum>e\<in>set ?es. if P e then count_list ?es e else 0)"
    by (simp add: sum_list_distinct_conv_sum_set)
  also have "\<dots> = length (filter P ?es)"
    by (rule sum_count_list_filter) auto
  finally show ?thesis by (simp add: group_by_estado_def Let_def gen)
qed

lemma validated_estado:
  "validate_decision_in e m u p = Inr payload \<Longrightarrow>
   di_estado payload = py_strip e \<and> di_motivo payload = m \<and> py_strip (di_estado payload) = di_estado payload
   \<and> py_strip (di_estado payload) \<noteq> [] \<and> length (py_strip (di_estado payload)) \<le> 32"
  using length_py_strip [of e]
  by (auto simp add: validate_decision_in_def py_strip_idem split: if_splits)

lemma decide_outcome:
  "py_strip e \<noteq> [] \<Longrightarrow> length (py_strip e) \<le> 32 \<Longrightarrow>
   decide now i e m r u p d =
     (case get d i of None \<Rightarrow> Inl NoEncontrado
      | Some obj \<Rightarrow> if py_strip m = [] then Inl MotivoObligatorio
          else Inr (d\<lparr>postulaciones := AList.update i (obj\<lparr>estado := py_strip e, decidido_motivo := Some (py_strip m),
                          decidido_por_user_id := Some r, decidido_en := Some now,
                          unidad_id := (case u of None \<Rightarrow> unidad_id obj | Some x \<Rightarrow> Some x),
                          puesto_id := (case p of None \<Rightarrow> puesto_id obj | Some x \<Rightarrow> Some x)\<rparr>) (postulaciones d)\<rparr>,
                    obj\<lparr>estado := py_strip e, decidido_motivo := Some (py_strip m),
                          decidido_por_user_id := Some r, decidido_en := Some now,
                          unidad_id := (case u of None \<Rightarrow> unidad_id obj | Some x \<Rightarrow> Some x),
                          puesto_id := (case p of None \<Rightarrow> puesto_id obj | Some x \<Rightarrow> Some x)\<rparr>))"
  by (simp add: decide_def Let_def split: option.split)

lemma decidir_validated:
  assumes "validate_decision_in e m u p = Inr payload" and "reviewer_id jwt = Inr rid" and "rid \<noteq> 0"
  shows "decidir_postulacion now pid payload jwt d =
     (case get d pid of None \<Rightarrow> (d, Inl (404, DecideDetail NoEncontrado), [])
      | Some obj \<Rightarrow> if py_strip m = [] then (d, Inl (400, DecideDetail MotivoObligatorio), [])
          else (let obj' = obj\<lparr>estado := di_estado payload, decidido_motivo := Some (py_strip m),
                                 decidido_por_user_id := Some rid, decidido_en := Some now\<rparr>
                in (d\<lparr>postulaciones := AList.update pid obj' (postulaciones d)\<rparr>, Inr obj',
                    [(''POSTULACION_UPDATED'', PDict [(''id'', PInt (post_id obj)), (''estado'', PStr (di_estado payload))])])))"
proof -
  from validated_estado [OF assms(1)] have v: "py_strip (di_estado payload) \<noteq> []"
    "length (py_strip (di_estado payload)) \<le> 32" "di_motivo payload = m"
    "py_strip (di_estado payload) = di_estado payload" by auto
  show ?thesis using assms(2,3)
    by (simp add: decidir_postulacion_def decide_outcome [OF v(1,2)] v(3,4) Let_def split: option.split)
qed

lemma decidir_Inr:
  "decidir_postulacion now pid payload jwt d = (d', Inr obj, ts) \<Longrightarrow>
   \<exists>rid. reviewer_id jwt = Inr rid \<and> rid \<noteq> 0 \<and> decide now pid (di_estado payload) (di_motivo payload) rid None None d = Inr (d', obj)
     \<and> ts = [(''POSTULACION_UPDATED'', PDict [(''id'', PInt (post_id obj)), (''estado'', PStr (estado obj))])]"
  by (auto simp add: decidir_postulacion_def split: sum.splits if_splits decide_error.splits)

lemma decidir_Inr_obj:
  "decidir_postulacion now pid payload jwt d = (d', Inr obj, ts) \<Longrightarrow>
   \<exists>rid d''. decide now pid (di_estado payload) (di_motivo payload) rid None None d = Inr (d'', obj)
     \<and> ts = [(''POSTULACION_UPDATED'', PDict [(''id'', PInt (post_id obj)), (''estado'', PStr (estado obj))])]"
  by (auto simp add: decidir_postulacion_def split: sum.splits if_splits decide_error.splits)

lemma decidir_Inr_task:
  assumes ok: "table_ok d" and run: "decidir_postulacion now pid payload jwt d = (d', Inr obj, ts)"
  shows "ts = [(''POSTULACION_UPDATED'', PDict [(''id'', PInt pid), (''estado'', PStr (estado obj))])]"
proof -
  obtain rid d'' where dec: "decide now pid (di_estado payload) (di_motivo payload) rid None None d = Inr (d'', obj)"
    and ts: "ts = [(''POSTULACION_UPDATED'', PDict [(''id'', PInt (post_id obj)), (''estado'', PStr (estado obj))])]"
    using decidir_Inr_obj [OF run] by blast
  obtain old where g: "get d pid = Some old" and o: "post_id obj = post_id old"
    using decide_success [OF dec] by auto
  show ?thesis using table_ok_get [OF ok g] o ts by simp
qed

lemma create_postulacion_Inr:
  "create_postulacion now (Inr (stored, sz, mime)) cv_name form d = (d', Inr obj, ts) \<Longrightarrow>
   d' = d\<lparr>postulaciones := postulaciones d @ [(next_pk d, obj)], next_pk := next_pk d + 1\<rparr>
   \<and> post_id obj = next_pk d \<and> estado obj = ''nueva'' \<and> puesto_original_id obj = up_puesto_id form
   \<and> unidad_original_id obj = up_unidad_id form \<and> decidido_en obj = None \<and> cv_filename obj = stored
   \<and> ts = [(''POSTULACION_CREATED'', PDict [(''id'', PInt (post_id obj)), (''estado'', PStr ''nueva'')])]"
  by (auto simp add: create_postulacion_def create_from_upload_def Let_def)

lemma update_postulacion_tasks: "snd (snd (update_postulacion pid fs d)) = []"
  by (simp add: update_postulacion_def split: sum.split db_error.split prod.split option.split)

lemma create_postulacion_facts:
  assumes ok: "table_ok d"
    and run: "create_postulacion now (Inr (stored, sz, mime)) cv_name form d = (d', Inr obj, ts)"
  shows "get d (post_id obj) = None \<and> get d' (post_id obj) = Some obj
         \<and> (\<forall>k. k \<noteq> post_id obj \<longrightarrow> get d' k = get d k) \<and> table_ok d'"
proof -
  note c = create_postulacion_Inr [OF run]
  have "next_pk d \<notin> fst ` set (postulaciones d)" using ok by (force simp add: table_ok_iff)
  then have fresh: "get d (post_id obj) = None" using c by (simp add: get_def map_of_eq_None_iff)
  have "table_ok d'" using c table_ok_append [OF ok] estado_ok_nueva by simp
  moreover have "get d' (post_id obj) = Some obj" using c fresh by (simp add: get_append)
  moreover have "get d' k = get d k" if "k \<noteq> post_id obj" for k
    using c that by (simp add: get_append split: option.split)
  ultimately show ?thesis using fresh by blast
qed

text \<open>
  C17. Every REST handler that writes the table keeps the table invariant \<open>table_ok\<close>:
  distinct keys, each row stores its own key, every key is below the next autoincrement
  value, and every estado is stripped, non-empty and at most 32 characters long.
\<close>

theorem handlers_preserve_table_ok:
  "table_ok d \<Longrightarrow>
   table_ok (fst (create_postulacion now saved cv_name form d)) \<and> table_ok (fst (decidir_postulacion now pid payload jwt d))
   \<and> table_ok (fst (update_postulacion pid fs d)) \<and> table_ok (fst (delete_postulacion pid d))"
proof -
  assume ok: "table_ok d"
  have "table_ok (fst (create_postulacion now saved cv_name form d))"
    using ok create_table_ok [OF ok] by (simp add: create_postulacion_def case_prod_beta split: sum.split)
  moreover have "table_ok (fst (decidir_postulacion now pid payload jwt d))"
    using ok decide_table_ok [OF ok]
    by (simp add: decidir_postulacion_def split: sum.split decide_error.split prod.split)
  moreover have "table_ok (fst (update_postulacion pid fs d))"
    using ok update_table_ok [OF ok]
    by (simp add: update_postulacion_def split: sum.split db_error.split prod.split option.split)
  moreover have "table_ok (fst (delete_postulacion pid d))"
    using delete_table_ok [OF ok, of pid] by (simp add: delete_postulacion_def case_prod_beta)
  ultimately show ?thesis by blast
qed

theorem handlers_preserve_table_ok_witness:
  "table_ok (fst (create_postulacion 600 (Inr (''beto.pdf'', 2048, ''application/pdf'')) None demo_form demo_db))
   \<and> table_ok (fst (decidir_postulacion 600 1 \<lparr>di_estado = ''posible'', di_motivo = ''a revisar'', di_unidad_id = None,
        di_puesto_id = None\<rparr> (PDict [(''uid'', PInt 7)]) demo_db))
   \<and> table_ok (fst (update_postulacion 1 [SetNota (Some ''llamar'')] demo_db)) \<and> table_ok (fst (delete_postulacion 1 demo_db))"
  using handlers_preserve_table_ok [OF table_ok_demo_db, where now = 600 and saved = "Inr (''beto.pdf'', 2048, ''application/pdf'')"
      and cv_name = None and form = demo_form and pid = 1
      and payload = "\<lparr>di_estado = ''posible'', di_motivo = ''a revisar'', di_unidad_id = None, di_puesto_id = None\<rparr>"
      and jwt = "PDict [(''uid'', PInt 7)]" and fs = "[SetNota (Some ''llamar'')]"]
  by blast

text \<open>
  C18. A successful decision changes exactly the four decision fields of the stored row
  (estado, stripped; motivo, stripped; the reviewer; the time), leaves every other row
  alone, and schedules one \<open>POSTULACION_UPDATED\<close> broadcast with the row's id and new
  estado. The \<open>unidad_id\<close> and \<open>puesto_id\<close> of the request body are not used: the
  handler never passes them to \<open>decide\<close>.
\<close>

theorem decidir_success:
  assumes ok: "table_ok d" and run: "decidir_postulacion now pid payload jwt d = (d', Inr obj, ts)"
  shows "\<exists>old rid. get d pid = Some old \<and> reviewer_id jwt = Inr rid
           \<and> obj = old\<lparr>estado := py_strip (di_estado payload), decidido_motivo := Some (py_strip (di_motivo payload)),
                        decidido_por_user_id := Some rid, decidido_en := Some now\<rparr>
           \<and> get d' pid = Some obj \<and> (\<forall>k. k \<noteq> pid \<longrightarrow> get d' k = get d k) \<and> table_ok d'
           \<and> ts = [(''POSTULACION_UPDATED'', PDict [(''id'', PInt pid), (''estado'', PStr (estado obj))])]"
proof -
  obtain rid where r: "reviewer_id jwt = Inr rid"
    and dec: "decide now pid (di_estado payload) (di_motivo payload) rid None None d = Inr (d', obj)"
    using decidir_Inr [OF run] by blast
  obtain old where g: "get d pid = Some old"
    and d': "d' = d\<lparr>postulaciones := AList.update pid obj (postulaciones d)\<rparr>"
    and o: "obj = old\<lparr>estado := py_strip (di_estado payload), decidido_motivo := Some (py_strip (di_motivo payload)),
                        decidido_por_user_id := Some rid, decidido_en := Some now\<rparr>"
    using decide_success [OF dec] by auto
  show ?thesis
    using g r o d' decidir_Inr_task [OF ok run] decide_table_ok [OF ok dec]
    by (auto simp add: get_update_same get_update_other)
qed

theorem decidir_success_witness:
  "decidir_postulacion 500 1 \<lparr>di_estado = ''destacada'', di_motivo = ''buen perfil'', di_unidad_id = Some 9, di_puesto_id = Some 8\<rparr>
       (PDict [(''uid'', PInt 7)]) demo_db
   = (\<lparr>postulaciones = [(1, demo_row\<lparr>estado := ''destacada'', decidido_motivo := Some ''buen perfil'',
                                   decidido_por_user_id := Some 7, decidido_en := Some 500\<rparr>)], next_pk = 2\<rparr>,
      Inr (demo_row\<lparr>estado := ''destacada'', decidido_motivo := Some ''buen perfil'',
                     decidido_por_user_id := Some 7, decidido_en := Some 500\<rparr>),
      [(''POSTULACION_UPDATED'', PDict [(''id'', PInt 1), (''estado'', PStr ''destacada'')])])
   \<and> unidad_id (demo_row\<lparr>estado := ''destacada'', decidido_motivo := Some ''buen perfil'',
                     decidido_por_user_id := Some 7, decidido_en := Some 500\<rparr>) = Some 5"
proof -
  have run: "decidir_postulacion 500 1 \<lparr>di_estado = ''destacada'', di_motivo = ''buen perfil'', di_unidad_id = Some 9, di_puesto_id = Some 8\<rparr>
       (PDict [(''uid'', PInt 7)]) demo_db
   = (\<lparr>postulaciones = [(1, demo_row\<lparr>estado := ''destacada'', decidido_motivo := Some ''buen perfil'',
                                   decidido_por_user_id := Some 7, decidido_en := Some 500\<rparr>)], next_pk = 2\<rparr>,
      Inr (demo_row\<lparr>estado := ''destacada'', decidido_motivo := Some ''buen perfil'',
                     decidido_por_user_id := Some 7, decidido_en := Some 500\<rparr>),
      [(''POSTULACION_UPDATED'', PDict [(''id'', PInt 1), (''estado'', PStr ''destacada'')])])"
    by (simp add: decidir_postulacion_def reviewer_id_def decide_def get_def demo_db_def demo_row_def
        py_strip_def py_isspace_def Let_def)
  from decidir_success [OF table_ok_demo_db run] run show ?thesis by (simp add: demo_row_def)
qed

text \<open>
  C19. Once the request body has passed \<open>PostulacionDecisionIn\<close> and the token names a
  reviewer, the response of \<open>decidir_postulacion\<close> is decided by two facts: 404 exactly
  when the row is missing, 400 (motivo obligatorio) exactly when the row exists and the
  motivo is blank, success otherwise. The estado checks of \<open>decide\<close> never fire, since
  the schema has already stripped and bounded estado. An error leaves the table unchanged
  and schedules no broadcast.
\<close>

theorem decidir_outcomes:
  assumes "validate_decision_in e m u p = Inr payload" and "reviewer_id jwt = Inr rid" and "rid \<noteq> 0"
    and "decidir_postulacion now pid payload jwt d = (d', resp, ts)"
  shows "(resp = Inl (404, DecideDetail NoEncontrado) \<longleftrightarrow> get d pid = None)
         \<and> (resp = Inl (400, DecideDetail MotivoObligatorio) \<longleftrightarrow> get d pid \<noteq> None \<and> py_strip m = [])
         \<and> ((\<exists>obj. resp = Inr obj) \<longleftrightarrow> get d pid \<noteq> None \<and> py_strip m \<noteq> [])
         \<and> (\<forall>err. resp = Inl err \<longrightarrow> d' = d \<and> ts = [])"
  using assms(4) unfolding decidir_validated [OF assms(1-3)]
  by (auto simp add: Let_def split: option.splits if_splits)

theorem decidir_outcomes_witness:
  "validate_decision_in '' destacada '' ''   '' None None
     = Inr \<lparr>di_estado = ''destacada'', di_motivo = ''   '', di_unidad_id = None, di_puesto_id = None\<rparr>
   \<and> decidir_postulacion 500 1 \<lparr>di_estado = ''destacada'', di_motivo = ''   '', di_unidad_id = None, di_puesto_id = None\<rparr>
       (PDict [(''uid'', PInt 7)]) demo_db = (demo_db, Inl (400, DecideDetail MotivoObligatorio), [])"
proof -
  have v: "validate_decision_in '' destacada '' ''   '' None None
          = Inr \<lparr>di_estado = ''destacada'', di_motivo = ''   '', di_unidad_id = None, di_puesto_id = None\<rparr>"
    by (simp add: validate_decision_in_def py_strip_def py_isspace_def)
  have r: "reviewer_id (PDict [(''uid'', PInt 7)]) = Inr 7" by (simp add: reviewer_id_def)
  obtain d' resp ts where run: "decidir_postulacion 500 1 \<lparr>di_estado = ''destacada'', di_motivo = ''   '', di_unidad_id = None, di_puesto_id = None\<rparr>
       (PDict [(''uid'', PInt 7)]) demo_db = (d', resp, ts)" by (metis prod.exhaust)
  have "get demo_db 1 \<noteq> None" by (simp add: get_def demo_db_def)
  moreover have "py_strip ''   '' = []" by (simp add: py_strip_def py_isspace_def)
  ultimately have "resp = Inl (400, DecideDetail MotivoObligatorio) \<and> d' = demo_db \<and> ts = []"
    using decidir_outcomes [OF v r _ run] by simp
  with v run show ?thesis by simp
qed

text \<open>
  A successful upload stores one new row under a key no row had, leaves every other
  row alone, keeps the table invariant, starts the row as \<open>nueva\<close> with no decision, records
  the requested puesto and unidad as the original ones, stores the file under the name
  the upload pipeline chose, and schedules one \<open>POSTULACION_CREATED\<close> broadcast.
\<close>

theorem create_postulacion_success:
  assumes ok: "table_ok d"
    and run: "create_postulacion now (Inr (stored, sz, mime)) cv_name form d = (d', Inr obj, ts)"
  shows "get d (post_id obj) = None \<and> get d' (post_id obj) = Some obj
         \<and> (\<forall>k. k \<noteq> post_id obj \<longrightarrow> get d' k = get d k) \<and> table_ok d'
         \<and> estado obj = ''nueva'' \<and> puesto_original_id obj = up_puesto_id form
         \<and> unidad_original_id obj = up_unidad_id form \<and> decidido_en obj = None \<and> cv_filename obj = stored
         \<and> ts = [(''POSTULACION_CREATED'', PDict [(''id'', PInt (post_id obj)), (''estado'', PStr ''nueva'')])]"
  using create_postulacion_facts [OF ok run] create_postulacion_Inr [OF run] by blast

theorem create_postulacion_success_witness:
  "get demo_db 2 = None \<and> get (fst (create_postulacion 600 (Inr (''beto.pdf'', 2048, ''application/pdf'')) None demo_form demo_db)) 2
     = Some (snd (create_from_upload 600 (demo_form\<lparr>up_cv_filename := ''beto.pdf'', up_cv_original := ''cv'',
                                         up_cv_mime := ''application/pdf'', up_cv_size := 2048\<rparr>) demo_db))
   \<and> snd (snd (create_postulacion 600 (Inr (''beto.pdf'', 2048, ''application/pdf'')) None demo_form demo_db))
     = [(''POSTULACION_CREATED'', PDict [(''id'', PInt 2), (''estado'', PStr ''nueva'')])]"
proof -
  define r where "r = create_postulacion 600 (Inr (''beto.pdf'', 2048, ''application/pdf'')) None demo_form demo_db"
  define obj where "obj = snd (create_from_upload 600 (demo_form\<lparr>up_cv_filename := ''beto.pdf'', up_cv_original := ''cv'',
                                         up_cv_mime := ''application/pdf'', up_cv_size := 2048\<rparr>) demo_db)"
  have run: "r = (fst r, Inr obj, snd (snd r))"
    unfolding r_def obj_def by (simp add: create_postulacion_def split: prod.split)
  have pid: "post_id obj = 2" by (simp add: obj_def create_from_upload_def demo_db_def Let_def)
  from create_postulacion_success [OF table_ok_demo_db run [unfolded r_def]] pid
  show ?thesis by (simp add: r_def obj_def)
qed

text \<open>
  A successful \<open>PATCH\<close> changes only the addressed row, and in it never the id, the
  estado, the original puesto and unidad, the decision audit fields, the stored file name
  or the creation time (the schema has no such field); and it schedules no broadcast.
\<close>

theorem update_postulacion_frame:
  assumes run: "update_postulacion pid fs d = (d', Inr obj', ts)"
  shows "\<exists>obj. get d pid = Some obj \<and> get d' pid = Some obj' \<and> (\<forall>k. k \<noteq> pid \<longrightarrow> get d' k = get d k)
           \<and> post_id obj' = post_id obj \<and> estado obj' = estado obj
           \<and> puesto_original_id obj' = puesto_original_id obj \<and> unidad_original_id obj' = unidad_original_id obj
           \<and> decidido_motivo obj' = decidido_motivo obj \<and> decidido_por_user_id obj' = decidido_por_user_id obj
           \<and> decidido_en obj' = decidido_en obj \<and> cv_filename obj' = cv_filename obj
           \<and> created_at obj' = created_at obj \<and> ts = []"
proof -
  have u: "update pid fs d = Inr (d', Some obj')"
    using run by (auto simp add: update_postulacion_def split: sum.splits db_error.splits option.splits)
  have ts: "ts = []" using update_postulacion_tasks [of pid fs d] run by simp
  obtain obj where g: "get d pid = Some obj" and sf: "set_fields obj fs = Some obj'"
    and d': "d' = d\<lparr>postulaciones := AList.update pid obj' (postulaciones d)\<rparr>"
    using update_success [OF u] by blast
  show ?thesis using g set_fields_frame [OF sf] d' ts by (auto simp add: get_update_same get_update_other)
qed

theorem update_postulacion_frame_witness:
  "update_postulacion 1 [SetNombre (Some ''Ana Maria''), SetUnidadId (Some 9)] demo_db
     = (\<lparr>postulaciones = [(1, demo_row\<lparr>nombre := ''Ana Maria'', unidad_id := Some 9\<rparr>)], next_pk = 2\<rparr>,
        Inr (demo_row\<lparr>nombre := ''Ana Maria'', unidad_id := Some 9\<rparr>), [])
   \<and> estado (demo_row\<lparr>nombre := ''Ana Maria'', unidad_id := Some 9\<rparr>) = estado demo_row"
proof -
  have run: "update_postulacion 1 [SetNombre (Some ''Ana Maria''), SetUnidadId (Some 9)] demo_db
     = (\<lparr>postulaciones = [(1, demo_row\<lparr>nombre := ''Ana Maria'', unidad_id := Some 9\<rparr>)], next_pk = 2\<rparr>,
        Inr (demo_row\<lparr>nombre := ''Ana Maria'', unidad_id := Some 9\<rparr>), [])"
    by (simp add: update_postulacion_def update_def get_def demo_db_def)
  from update_postulacion_frame [OF run] run show ?thesis by auto
qed

text \<open>
  A \<open>PATCH\<close> of an existing row that sets \<open>nombre\<close>, \<open>apellido\<close> or \<open>correo\<close> to
  \<open>null\<close> (the schema accepts it: the fields are \<open>Optional\<close>) fails on the NOT NULL
  constraint at commit; the \<open>IntegrityError\<close> is no \<open>ValueError\<close>, so the answer is a
  500, the table is unchanged and nothing is broadcast.
\<close>

theorem update_not_null_is_500:
  "get d pid \<noteq> None \<Longrightarrow> SetNombre None \<in> set fs \<or> SetApellido None \<in> set fs \<or> SetCorreo None \<in> set fs \<Longrightarrow>
   update_postulacion pid fs d = (d, Inl (500, InternalServerError), [])"
  by (auto simp add: update_postulacion_def update_def set_fields_not_null)

theorem update_not_null_is_500_witness:
  "update_postulacion 1 [SetTelefono (Some ''555''), SetCorreo None] demo_db = (demo_db, Inl (500, InternalServerError), [])"
  by (rule update_not_null_is_500) (simp_all add: get_def demo_db_def)

text \<open>
  C23. \<open>DELETE\<close> removes the addressed row and no other; it answers 204 exactly when the
  row existed, and then schedules one \<open>POSTULACION_DELETED\<close> broadcast; otherwise it
  answers 404, changes nothing and schedules nothing.
\<close>

theorem delete_postulacion_behaviour:
  "delete_postulacion pid d = (d', resp, ts) \<Longrightarrow>
   get d' pid = None \<and> (\<forall>k. k \<noteq> pid \<longrightarrow> get d' k = get d k)
   \<and> (resp = Inr () \<longleftrightarrow> get d pid \<noteq> None) \<and> (resp \<noteq> Inr () \<longrightarrow> resp = Inl (404, Detail ''No encontrado'') \<and> d' = d)
   \<and> ts = (if get d pid = None then [] else [(''POSTULACION_DELETED'', PDict [(''id'', PInt pid)])])"
  by (auto simp add: delete_postulacion_def delete_def get_def delete_conv' split: option.splits)

theorem delete_postulacion_behaviour_witness:
  "delete_postulacion 1 demo_db = (\<lparr>postulaciones = [], next_pk = 2\<rparr>, Inr (), [(''POSTULACION_DELETED'', PDict [(''id'', PInt 1)])])
   \<and> get \<lparr>postulaciones = [], next_pk = 2\<rparr> 1 = None"
proof -
  have run: "delete_postulacion 1 demo_db = (\<lparr>postulaciones = [], next_pk = 2\<rparr>, Inr (), [(''POSTULACION_DELETED'', PDict [(''id'', PInt 1)])])"
    by (simp add: delete_postulacion_def delete_def get_def demo_db_def)
  from delete_postulacion_behaviour [OF run] run show ?thesis by simp
qed

text \<open>
  C24. \<open>counts_por_estado\<close>, a \<open>GROUP BY estado\<close> folded into a dict, equals a direct
  count: for each of the four known estados the number of rows whose estado, stripped
  and lower-cased, is that key, in the code's key order, then the number of all rows.
  Rows of any other estado count only in the total.
\<close>

theorem counts_por_estado_equiv:
  "counts_por_estado d =
     (let n = (\<lambda>k. length [p \<leftarrow> map snd (postulaciones d). py_lower (py_strip (estado p)) = k])
      in [(''nueva'', n ''nueva''), (''destacada'', n ''destacada''), (''posible'', n ''posible''),
          (''descartada'', n ''descartada''), (''total'', length (postulaciones d))])"
proof -
  have ok: "dict_ok [(''nueva'', 0::nat), (''destacada'', 0), (''posible'', 0), (''descartada'', 0)]"
    by (simp add: dict_ok_def)
  have tot: "sum_list (map snd (group_by_estado d)) = length (postulaciones d)"
    using group_sum_filter [where P = "\<lambda>_. True" and d = d] by simp
  have key: "sum_list (map snd (filter (\<lambda>r. py_lower (py_strip (fst r)) = k) (group_by_estado d)))
             = length [p \<leftarrow> map snd (postulaciones d). py_lower (py_strip (estado p)) = k]" for k
    using group_sum_filter [where P = "\<lambda>e. py_lower (py_strip e) = k" and d = d]
    by (simp add: filter_map comp_def)
  show ?thesis
    unfolding counts_por_estado_def foldl_count_step [OF ok] by (simp add: tot key)
qed

lemma create_postulacion_upload_Inr:
  "create_postulacion_upload cfg fs now stamp cv_name ctype chunks form d = (fs', d', Inr obj, ts) \<Longrightarrow>
   \<exists>stored sz mime. save_upload_file_cv cfg fs cv_name ctype chunks (up_nombre form) (up_apellido form) stamp
                       = Inr (fs', stored, sz, mime)
     \<and> create_postulacion now (Inr (stored, sz, mime)) cv_name form d = (d', Inr obj, ts)"
  by (auto simp add: create_postulacion_upload_def split: sum.splits prod.splits)

text \<open>
  C31. A successful public upload writes the CV to a path that did not exist, adds that
  path to the CV directory, and stores one new row, under a fresh key, whose
  \<open>cv_filename\<close> leads back to exactly that file through \<open>cv_disk_path\<close>; the table
  invariant holds afterwards and the creation is announced.
\<close>

theorem upload_creates_linked_row:
  assumes ok: "table_ok d"
    and run: "create_postulacion_upload cfg fs now stamp cv_name ctype chunks form d = (fs', d', Inr obj, ts)"
  shows "cv_disk_path cfg (cv_filename obj) \<notin> set fs \<and> fs' = cv_disk_path cfg (cv_filename obj) # fs
         \<and> get d (post_id obj) = None \<and> get d' (post_id obj) = Some obj \<and> table_ok d' \<and> estado obj = ''nueva''
         \<and> ts = [(''POSTULACION_CREATED'', PDict [(''id'', PInt (post_id obj)), (''estado'', PStr ''nueva'')])]"
proof -
  obtain stored sz mime where
    sv: "save_upload_file_cv cfg fs cv_name ctype chunks (up_nombre form) (up_apellido form) stamp = Inr (fs', stored, sz, mime)"
    and cr: "create_postulacion now (Inr (stored, sz, mime)) cv_name form d = (d', Inr obj, ts)"
    using create_postulacion_upload_Inr [OF run] by blast
  show ?thesis
    using save_upload_result [OF sv] create_postulacion_facts [OF ok cr] create_postulacion_Inr [OF cr] by simp
qed

theorem upload_creates_linked_row_witness:
  "create_postulacion_upload \<lparr>storage_dir = ''storage'', max_cv_mb = 10, allowed_exts = [''.pdf'']\<rparr> [] 600
      (2025, 1, 2, 3, 4, 5) (Some ''cv.pdf'') None [4096, 0] demo_form demo_db
   = ([''storage/cv/beto_paz_20250102_030405.pdf''], fst (snd (create_postulacion_upload
        \<lparr>storage_dir = ''storage'', max_cv_mb = 10, allowed_exts = [''.pdf'']\<rparr> [] 600
        (2025, 1, 2, 3, 4, 5) (Some ''cv.pdf'') None [4096, 0] demo_form demo_db)),
      Inr (snd (create_from_upload 600 (demo_form\<lparr>up_cv_filename := ''beto_paz_20250102_030405.pdf'',
             up_cv_original := ''cv.pdf'', up_cv_mime := ''application/octet-stream'', up_cv_size := 4096\<rparr>) demo_db)),
      [(''POSTULACION_CREATED'', PDict [(''id'', PInt 2), (''estado'', PStr ''nueva'')])])
   \<and> cv_disk_path \<lparr>storage_dir = ''storage'', max_cv_mb = 10, allowed_exts = [''.pdf'']\<rparr>
       (cv_filename (snd (create_from_upload 600 (demo_form\<lparr>up_cv_filename := ''beto_paz_20250102_030405.pdf'',
             up_cv_original := ''cv.pdf'', up_cv_mime := ''application/octet-stream'', up_cv_size := 4096\<rparr>) demo_db)))
     = ''storage/cv/beto_paz_20250102_030405.pdf''"
proof -
  have eval: "create_postulacion_upload \<lparr>storage_dir = ''storage'', max_cv_mb = 10, allowed_exts = [''.pdf'']\<rparr> [] 600
      (2025, 1, 2, 3, 4, 5) (Some ''cv.pdf'') None [4096, 0] demo_form demo_db
   = ([''storage/cv/beto_paz_20250102_030405.pdf''], fst (snd (create_postulacion_upload
        \<lparr>storage_dir = ''storage'', max_cv_mb = 10, allowed_exts = [''.pdf'']\<rparr> [] 600
        (2025, 1, 2, 3, 4, 5) (Some ''cv.pdf'') None [4096, 0] demo_form demo_db)),
      Inr (snd (create_from_upload 600 (demo_form\<lparr>up_cv_filename := ''beto_paz_20250102_030405.pdf'',
             up_cv_original := ''cv.pdf'', up_cv_mime := ''application/octet-stream'', up_cv_size := 4096\<rparr>) demo_db)),
      [(''POSTULACION_CREATED'', PDict [(''id'', PInt 2), (''estado'', PStr ''nueva'')])])"
    by code_simp
  show ?thesis using upload_creates_linked_row [OF table_ok_demo_db eval] eval by simp
qed

text \<open>
  When the upload fails (an extension outside \<open>CV_ALLOWED_EXTS\<close>: 400; a file over
  the size limit: 413), the handler answers that error and nothing else happens: no
  file is left in the CV directory, no row is stored, nothing is broadcast.
\<close>

theorem upload_error_no_effect:
  "create_postulacion_upload cfg fs now stamp cv_name ctype chunks form d = (fs', d', Inl err, ts) \<Longrightarrow>
   fs' = fs \<and> d' = d \<and> ts = [] \<and> fst err \<in> {400, 413}"
  by (auto simp add: create_postulacion_upload_def create_postulacion_def file_error_status_def
           split: sum.splits prod.splits file_error.splits)

theorem upload_error_no_effect_witness:
  "create_postulacion_upload \<lparr>storage_dir = ''storage'', max_cv_mb = 10, allowed_exts = [''.pdf'']\<rparr> [] 600
      (2025, 1, 2, 3, 4, 5) (Some ''cv.exe'') None [4096, 0] demo_form demo_db
   = ([], demo_db, Inl (400, UploadDetail (ExtensionNoPermitida ''.exe'')), [])"
proof -
  have eval: "create_postulacion_upload \<lparr>storage_dir = ''storage'', max_cv_mb = 10, allowed_exts = [''.pdf'']\<rparr> [] 600
      (2025, 1, 2, 3, 4, 5) (Some ''cv.exe'') None [4096, 0] demo_form demo_db
   = ([], demo_db, Inl (400, UploadDetail (ExtensionNoPermitida ''.exe'')), [])" by code_simp
  show ?thesis using upload_error_no_effect [OF eval] eval by simp
qed

end
