(* ===== verification/CvDownload.thy ===== *)
theory CvDownload
  imports PostulacionesRouter
begin

text \<open>
  The two CV handlers of \<open>src/Api/routers/postulaciones.py\<close>, \<open>view_cv_inline\<close> and
  \<open>download_cv\<close>: they look the row up, check that its stored file exists under the CV
  directory (\<open>cv_disk_path\<close> of \<open>Files\<close>; the file system is the list of existing paths),
  and answer the file with a \<open>Content-Disposition\<close> header carrying the original name
  percent-encoded by \<open>urllib.parse.quote(name, safe="")\<close> in the RFC 5987 form
  \<open>filename*=UTF-8''...\<close>. Strings are their UTF-8 bytes (a \<open>char\<close> is a byte), which
  is what \<open>quote\<close> encodes. \<open>unquote\<close> is the decoder a client applies
  (\<open>urllib.parse.unquote\<close>: \<open>%XX\<close> with two hex digits of either case is the byte, any
  other \<open>%\<close> stays).
\<close>

text \<open>\<open>quote\<close>: the bytes \<open>quote\<close> always leaves alone are the ASCII letters, the digits
  and \<open>_.-~\<close>; with \<open>safe=""\<close> every other byte becomes \<open>%XX\<close> in upper-case hex.\<close>

definition unreserved :: "char \<Rightarrow> bool" where
  "unreserved c \<longleftrightarrow>
     (let n = of_char c :: nat
      in (65 \<le> n \<and> n \<le> 90) \<or> (97 \<le> n \<and> n \<le> 122) \<or> (48 \<le> n \<and> n \<le> 57) \<or> n \<in> {95, 46, 45, 126})"

definition hex_digit :: "nat \<Rightarrow> char" where
  "hex_digit n = (if n < 10 then char_of (48 + n) else char_of (55 + n))"

definition quote_char :: "char \<Rightarrow> string" where
  "quote_char c =
     (if unreserved c then [c]
      else [CHR ''%'', hex_digit ((of_char c :: nat) div 16), hex_digit ((of_char c :: nat) mod 16)])"

definition quote :: "string \<Rightarrow> string" where
  "quote s = concat (map quote_char s)"

definition hex_val :: "char \<Rightarrow> nat option" where
  "hex_val c =
     (let n = of_char c :: nat
      in if 48 \<le> n \<and> n \<le> 57 then Some (n - 48)
         else if 65 \<le> n \<and> n \<le> 70 then Some (n - 55)
         else if 97 \<le> n \<and> n \<le> 102 then Some (n - 87) else None)"

fun unquote :: "string \<Rightarrow> string" where
  "unquote [] = []"
| "unquote [c] = [c]"
| "unquote [c, a] = [c, a]"
| "unquote (c # a # b # r) =
     (if c = CHR ''%'' then
        (case (hex_val a, hex_val b) of
          (Some x, Some y) \<Rightarrow> char_of (16 * x + y) # unquote r
        | _ \<Rightarrow> c # unquote (a # b # r))
      else c # unquote (a # b # r))"

text \<open>The response: the path served, its media type, and the two headers set.\<close>

record cv_response =
  cr_path :: string
  cr_media_type :: string
  cr_disposition :: string
  cr_cache_control :: string

definition rfc5987_filename :: "string \<Rightarrow> string \<Rightarrow> string" where
  "rfc5987_filename kind name = kind @ ''; filename*=UTF-8'' @ [CHR 0x27, CHR 0x27] @ quote name"

definition view_cv_inline :: "files_cfg \<Rightarrow> string list \<Rightarrow> int \<Rightarrow> db \<Rightarrow> cv_response response" where
  "view_cv_inline cfg fs pid d =
     (case get d pid of
       None \<Rightarrow> Inl (404, Detail ''No encontrado'')
     | Some obj \<Rightarrow>
         (let path = cv_disk_path cfg (cv_filename obj)
          in if path \<notin> set fs then Inl (404, Detail ''Archivo CV no encontrado en el servidor'')
             else Inr \<lparr>cr_path = path, cr_media_type = cv_mime obj,
                       cr_disposition = rfc5987_filename ''inline'' (if cv_original obj = [] then ''cv'' else cv_original obj),
                       cr_cache_control = ''no-store''\<rparr>))"

definition download_cv :: "files_cfg \<Rightarrow> string list \<Rightarrow> int \<Rightarrow> db \<Rightarrow> cv_response response" where
  "download_cv cfg fs pid d =
     (case get d pid of
       None \<Rightarrow> Inl (404, Detail ''No encontrado'')
     | Some obj \<Rightarrow>
         (let path = cv_disk_path cfg (cv_filename obj)
          in if path \<notin> set fs then Inl (404, Detail ''Archivo CV no encontrado en el servidor'')
             else Inr \<lparr>cr_path = path, cr_media_type = cv_mime obj,
                       cr_disposition = rfc5987_filename ''attachment'' (if cv_original obj = [] then ''cv'' else cv_original obj),
                       cr_cache_control = ''no-store''\<rparr>))"

lemma of_char_lt_256: "(of_char c :: nat) < 256"
  by (metis of_char_mod_256 mod_less_divisor zero_less_numeral)

lemma of_char_div_16: "(of_char c :: nat) div 16 < 16"
  using of_char_lt_256 [of c] by (simp add: div_less_iff_less_mult)

lemma hex_digit_unreserved: "n < 16 \<Longrightarrow> unreserved (hex_digit n)"
  by (auto simp add: hex_digit_def unreserved_def Let_def)

lemma hex_val_digit: "n < 16 \<Longrightarrow> hex_val (hex_digit n) = Some n"
  by (auto simp add: hex_digit_def hex_val_def Let_def)

lemma pct_reserved: "\<not> unreserved CHR ''%''"
  by (simp add: unreserved_def)

lemma quote_Nil [simp]: "quote [] = []"
  by (simp add: quote_def)

lemma quote_Cons [simp]: "quote (c # s) = quote_char c @ quote s"
  by (simp add: quote_def)

lemma quote_safe: "c \<in> set (quote s) \<Longrightarrow> unreserved c \<or> c = CHR ''%''"
proof (induction s)
  case Nil
  then show ?case by simp
next
  case (Cons x s)
  have "(of_char x :: nat) div 16 < 16" "(of_char x :: nat) mod 16 < 16"
    by (simp_all add: of_char_div_16)
  then show ?case using Cons by (auto simp add: quote_char_def hex_digit_unreserved split: if_splits)
qed

lemma unquote_plain: "c \<noteq> CHR ''%'' \<Longrightarrow> unquote (c # r) = c # unquote r"
  by (cases r rule: unquote.cases) auto

lemma unquote_quote: "unquote (quote s) = s"
proof (induction s)
  case Nil
  then show ?case by simp
next
  case (Cons c s)
  show ?case
  proof (cases "unreserved c")
    case True
    then have "c \<noteq> CHR ''%''" using pct_reserved by blast
    with True Cons show ?thesis by (simp add: quote_char_def unquote_plain)
  next
    case False
    let ?n = "of_char c :: nat"
    have lt: "?n div 16 < 16" "?n mod 16 < 16" by (simp_all add: of_char_div_16)
    have "char_of (16 * (?n div 16) + ?n mod 16) = c" by simp
    with False Cons lt show ?thesis by (simp add: quote_char_def hex_val_digit)
  qed
qed

lemma view_cv_inline_Inr:
  "view_cv_inline cfg fs pid d = Inr r \<Longrightarrow>
   \<exists>obj. get d pid = Some obj \<and> cv_disk_path cfg (cv_filename obj) \<in> set fs
     \<and> r = \<lparr>cr_path = cv_disk_path cfg (cv_filename obj), cr_media_type = cv_mime obj,
            cr_disposition = rfc5987_filename ''inline'' (if cv_original obj = [] then ''cv'' else cv_original obj),
            cr_cache_control = ''no-store''\<rparr>"
  by (auto simp add: view_cv_inline_def Let_def split: option.splits if_splits)

lemma download_cv_Inr:
  "download_cv cfg fs pid d = Inr r \<Longrightarrow>
   \<exists>obj. get d pid = Some obj \<and> cv_disk_path cfg (cv_filename obj) \<in> set fs
     \<and> r = \<lparr>cr_path = cv_disk_path cfg (cv_filename obj), cr_media_type = cv_mime obj,
            cr_disposition = rfc5987_filename ''attachment'' (if cv_original obj = [] then ''cv'' else cv_original obj),
            cr_cache_control = ''no-store''\<rparr>"
  by (auto simp add: download_cv_def Let_def split: option.splits if_splits)

lemma cv_handlers_Inr:
  assumes "view_cv_inline cfg fs pid d = Inr r \<or> download_cv cfg fs pid d = Inr r"
  shows "\<exists>obj kind q. get d pid = Some obj \<and> cr_path r = cv_disk_path cfg (cv_filename obj) \<and> cr_path r \<in> set fs
     \<and> cr_media_type r = cv_mime obj \<and> kind \<in> {''inline'', ''attachment''}
     \<and> cr_disposition r = kind @ ''; filename*=UTF-8'' @ [CHR 0x27, CHR 0x27] @ q
     \<and> unquote q = (if cv_original obj = [] then ''cv'' else cv_original obj)
     \<and> (\<forall>c \<in> set q. unreserved c \<or> c = CHR ''%'')"
proof -
  obtain obj kind where o: "get d pid = Some obj" "cv_disk_path cfg (cv_filename obj) \<in> set fs"
    and k: "kind \<in> {''inline'', ''attachment''}"
    and r: "r = \<lparr>cr_path = cv_disk_path cfg (cv_filename obj), cr_media_type = cv_mime obj,
            cr_disposition = rfc5987_filename kind (if cv_original obj = [] then ''cv'' else cv_original obj),
            cr_cache_control = ''no-store''\<rparr>"
    using assms view_cv_inline_Inr download_cv_Inr by blast
  let ?q = "quote (if cv_original obj = [] then ''cv'' else cv_original obj)"
  have "unquote ?q = (if cv_original obj = [] then ''cv'' else cv_original obj)" by (rule unquote_quote)
  moreover have "\<forall>c \<in> set ?q. unreserved c \<or> c = CHR ''%''" using quote_safe by blast
  ultimately show ?thesis using o k r by (simp only: rfc5987_filename_def cv_response.simps) blast
qed

text \<open>
  C13. The two CV handlers serve only an existing file of the addressed row, and the
  name they announce survives the header: the \<open>filename*\<close> value is made of ASCII
  letters, digits, \<open>_.-~\<close> and \<open>%\<close> only (no quote, semicolon, space or line break can
  reach the header), and decoding it gives back the original file name (\<open>"cv"\<close> when
  it is empty).
\<close>

theorem cv_header_roundtrip:
  "(view_cv_inline cfg fs pid d = Inr r \<or> download_cv cfg fs pid d = Inr r) \<Longrightarrow>
   \<exists>obj kind q. get d pid = Some obj \<and> cr_path r = cv_disk_path cfg (cv_filename obj) \<and> cr_path r \<in> set fs
     \<and> cr_media_type r = cv_mime obj \<and> kind \<in> {''inline'', ''attachment''}
     \<and> cr_disposition r = kind @ ''; filename*=UTF-8'' @ [CHR 0x27, CHR 0x27] @ q
     \<and> unquote q = (if cv_original obj = [] then ''cv'' else cv_original obj)
     \<and> (\<forall>c \<in> set q. unreserved c \<or> c = CHR ''%'')"
  by (rule cv_handlers_Inr)

theorem cv_header_roundtrip_witness:
  "download_cv \<lparr>storage_dir = ''storage'', max_cv_mb = 10, allowed_exts = [''.pdf'']\<rparr> [''storage/cv/ana.pdf''] 1 demo_db
     = Inr \<lparr>cr_path = ''storage/cv/ana.pdf'', cr_media_type = ''application/pdf'',
            cr_disposition = ''attachment; filename*=UTF-8'' @ [CHR 0x27, CHR 0x27] @ ''cv.pdf'', cr_cache_control = ''no-store''\<rparr>
   \<and> unquote ''cv.pdf'' = cv_original demo_row"
proof -
  have run: "download_cv \<lparr>storage_dir = ''storage'', max_cv_mb = 10, allowed_exts = [''.pdf'']\<rparr> [''storage/cv/ana.pdf''] 1 demo_db
     = Inr \<lparr>cr_path = ''storage/cv/ana.pdf'', cr_media_type = ''application/pdf'',
            cr_disposition = ''attachment; filename*=UTF-8'' @ [CHR 0x27, CHR 0x27] @ ''cv.pdf'', cr_cache_control = ''no-store''\<rparr>"
    by code_simp
  have orig: "cv_original demo_row = ''cv.pdf''" by (simp add: demo_row_def)
  from cv_header_roundtrip [OF disjI2 [OF run]] obtain obj kind q where
    g: "get demo_db 1 = Some obj" and k: "kind \<in> {''inline'', ''attachment''}"
    and disp: "''attachment; filename*=UTF-8'' @ [CHR 0x27, CHR 0x27] @ ''cv.pdf''
               = kind @ ''; filename*=UTF-8'' @ [CHR 0x27, CHR 0x27] @ q"
    and u: "unquote q = (if cv_original obj = [] then ''cv'' else cv_original obj)"
    by auto
  have obj: "obj = demo_row" using g by (simp add: demo_db_def get_def)
  have "q = ''cv.pdf''" using k disp by auto
  with u obj orig have "unquote ''cv.pdf'' = cv_original demo_row" by simp
  with run show ?thesis by (rule conjI)
qed

end
