(* ===== verification/EmailTemplates.thy ===== *)
theory EmailTemplates
  imports Files
begin

text \<open>
  The two e-mail templates of \<open>src/Api/utils/email_templates.py\<close>. A template returns
  the subject, the HTML body and the text body. Every value the client sent is put into
  the HTML through \<open>html.escape\<close>, written here as the chain of \<open>str.replace\<close> calls it
  performs. The literal parts are the source's bytes (UTF-8, so an accented letter is two
  \<open>char\<close>s), newlines and indentation included. \<open>_fmt_dt\<close> is \<open>fmt_dt\<close>: the time zone
  conversion is a parameter (the local time in \<open>TIMEZONE\<close>, or \<open>None\<close> when
  \<open>ZoneInfo\<close> refuses the name, and the time in UTC), the \<open>strftime\<close> is written out;
  the templates take its result \<open>when\<close>.
\<close>

record tpl_cfg =
  tpl_timezone :: string
  admin_dashboard_url :: string

definition py_rstrip_char :: "char \<Rightarrow> string \<Rightarrow> string" where
  "py_rstrip_char c s = rev (dropWhile (\<lambda>x. x = c) (rev s))"

definition load_tpl_cfg :: "string option \<Rightarrow> string option \<Rightarrow> tpl_cfg" where
  "load_tpl_cfg tz url =
     \<lparr>tpl_timezone = (case tz of None \<Rightarrow> ''UTC'' | Some s \<Rightarrow> s),
      admin_dashboard_url = py_rstrip_char CHR ''/'' (case url of None \<Rightarrow> [] | Some s \<Rightarrow> s)\<rparr>"

text \<open>\<open>_fmt_dt\<close>: the time in \<open>TIMEZONE\<close> when \<open>ZoneInfo(TIMEZONE)\<close> succeeds, else
  in UTC, formatted by \<open>strftime("%d/%m/%Y %H:%M:%S")\<close>. A time is (year, month, day,
  hour, minute, second).\<close>

definition strftime_dmy :: "nat \<times> nat \<times> nat \<times> nat \<times> nat \<times> nat \<Rightarrow> string" where
  "strftime_dmy t = (case t of (y, mo, d, h, mi, s) \<Rightarrow>
     zpad 2 d @ ''/'' @ zpad 2 mo @ ''/'' @ zpad 4 y @ '' '' @ zpad 2 h @ '':'' @ zpad 2 mi @ '':'' @ zpad 2 s)"

definition fmt_dt :: "(nat \<times> nat \<times> nat \<times> nat \<times> nat \<times> nat) option \<Rightarrow> nat \<times> nat \<times> nat \<times> nat \<times> nat \<times> nat \<Rightarrow> string" where
  "fmt_dt in_tz utc = strftime_dmy (case in_tz of Some t \<Rightarrow> t | None \<Rightarrow> utc)"

definition nl :: string where
  "nl = [CHR 0x0A]"

text \<open>\<open>str.replace(old, new)\<close> for a one-character \<open>old\<close>, and \<open>html.escape(s)\<close>
  (\<open>quote=True\<close>): \<open>&\<close> first, then \<open><\<close>, \<open>>\<close>, \<open>"\<close> and \<open>'\<close>.\<close>

definition py_replace1 :: "char \<Rightarrow> string \<Rightarrow> string \<Rightarrow> string" where
  "py_replace1 old new s = concat (map (\<lambda>x. if x = old then new else [x]) s)"

definition html_escape :: "string \<Rightarrow> string" where
  \<open>html_escape s =
     py_replace1 CHR 0x27 ''&#x27;'' (py_replace1 CHR 0x22 ''&quot;''
       (py_replace1 CHR ''>'' ''&gt;'' (py_replace1 CHR ''<'' ''&lt;'' (py_replace1 CHR ''&'' ''&amp;'' s))))\<close>

text \<open>\<open>f"{nombre} {apellido}".strip()\<close>.\<close>

definition full_name :: "string \<Rightarrow> string \<Rightarrow> string" where
  "full_name nombre apellido = py_strip (nombre @ '' '' @ apellido)"

definition candidate_confirmation :: "string \<Rightarrow> string \<Rightarrow> string \<Rightarrow> string \<times> string \<times> string" where
  \<open>candidate_confirmation nombre apellido when =
     (let full = full_name nombre apellido;
          subj =
            ''Confirmaci'' @ [CHR 0xC3, CHR 0xB3] @ ''n de env'' @ [CHR 0xC3, CHR 0xAD] @ ''o de CV'';
          html =
            nl @ ''    <div style="font-family:system-ui,Arial,sans-serif;line-height:1.5">'' @ nl @
            ''      <h2>'' @ [CHR 0xC2, CHR 0xA1] @ ''Gracias, '' @ html_escape full @ ''!</h2>'' @ nl @
            ''      <p>Recibimos tu CV correctamente el <b>'' @ html_escape when @ ''</b>.</p>'' @ nl @
            ''      <p>Nuestro equipo de RRHH revisar'' @ [CHR 0xC3, CHR 0xA1] @ '' tu postulaci'' @
            [CHR 0xC3, CHR 0xB3] @ ''n y se pondr'' @ [CHR 0xC3, CHR 0xA1] @
            '' en contacto si avanzamos con el proceso.</p>'' @ nl @
            ''      <p style="color:#666;font-size:12px">Este es un mensaje autom'' @
            [CHR 0xC3, CHR 0xA1] @ ''tico, por favor no responder.</p>'' @ nl @ ''    </div>'' @ nl @
            ''    '';
          text = ''Gracias, '' @ full @ ''! Recibimos tu CV el '' @ when @ ''.''
      in (subj, html, text))\<close>

text \<open>\<open>admin_new_cv\<close>: \<open>x or "\<dots>"\<close> puts an em dash for a missing value; the link to the
  panel is there only when \<open>ADMIN_DASHBOARD_URL\<close> is set.\<close>

definition em_dash :: string where
  "em_dash = [CHR 0xE2, CHR 0x80, CHR 0x94]"

definition or_dash :: "string option \<Rightarrow> string" where
  "or_dash x = (case x of Some s \<Rightarrow> if s = [] then em_dash else s | None \<Rightarrow> em_dash)"

definition admin_new_cv ::
  "tpl_cfg \<Rightarrow> int \<Rightarrow> string \<Rightarrow> string \<Rightarrow> string \<Rightarrow> string option \<Rightarrow> string option \<Rightarrow> string option \<Rightarrow> string
   \<Rightarrow> string \<times> string \<times> string" where
  \<open>admin_new_cv cfg aviso_id nombre apellido correo telefono unidad puesto when =
     (let full = full_name nombre apellido;
          subj = ''[RRHH] Nuevo CV #'' @ py_str_int aviso_id @ '' - '' @ full;
          url = admin_dashboard_url cfg;
          dash_link = (if url = [] then None else Some (url @ ''/postulaciones/'' @ py_str_int aviso_id));
          unidad_txt = or_dash unidad;
          puesto_txt = or_dash puesto;
          tel_txt = or_dash telefono;
          link_html = (case dash_link of None \<Rightarrow> [] | Some link \<Rightarrow>
            ''<p><a href="'' @ link @ ''" style="color:#5170FF">Abrir en panel</a></p>'');
          html =
            nl @ ''    <div style="font-family:system-ui,Arial,sans-serif;line-height:1.5">'' @ nl @
            ''      <h2>Nuevo CV recibido</h2>'' @ nl @ ''      '' @ nl @
            ''      <table style="border-collapse:collapse">'' @ nl @
            ''        <tr><td style="padding:4px 8px;color:#555">ID</td><td><b>'' @ py_str_int aviso_id @
            ''</b></td></tr>'' @ nl @
            ''        <tr><td style="padding:4px 8px;color:#555">Fecha</td><td>'' @ html_escape when @
            ''</td></tr>'' @ nl @ ''        <tr><td style="padding:4px 8px;color:#555">Nombre</td><td>'' @
            html_escape full @ ''</td></tr>'' @ nl @
            ''        <tr><td style="padding:4px 8px;color:#555">Correo</td><td>'' @ html_escape correo @
            ''</td></tr>'' @ nl @ ''        <tr><td style="padding:4px 8px;color:#555">Tel'' @
            [CHR 0xC3, CHR 0xA9] @ ''fono</td><td>'' @ html_escape tel_txt @ ''</td></tr>'' @ nl @
            ''        <tr><td style="padding:4px 8px;color:#555">Unidad de negocio</td><td>'' @
            html_escape unidad_txt @ ''</td></tr>'' @ nl @
            ''        <tr><td style="padding:4px 8px;color:#555">Puesto</td><td>'' @
            html_escape puesto_txt @ ''</td></tr>'' @ nl @ ''      </table>'' @ nl @ nl @ ''      '' @
            link_html @ nl @ nl @ ''      <p style="color:#666;font-size:12px">Mensaje autom'' @
            [CHR 0xC3, CHR 0xA1] @ ''tico '' @ [CHR 0xE2, CHR 0x80, CHR 0xA2] @ '' RRHH</p>'' @ nl @
            ''    </div>'' @ nl @ ''    '';
          text =
            ''Nuevo CV recibido (ID '' @ py_str_int aviso_id @ '') - '' @ full @ '' - '' @ correo @
            '' - '' @ tel_txt @ '' - Unidad: '' @ unidad_txt @ '' - Puesto: '' @ puesto_txt @ '' - '' @
            when
      in (subj, html, text))\<close>

text \<open>The reference for \<open>html.escape\<close>, one character at a time, and the decoding of
  the five entities it produces, as an HTML reader applies it.\<close>

definition esc_char :: "char \<Rightarrow> string" where
  \<open>esc_char c =
     (if c = CHR ''&'' then ''&amp;'' else if c = CHR ''<'' then ''&lt;'' else if c = CHR ''>'' then ''&gt;''
      else if c = CHR 0x22 then ''&quot;'' else if c = CHR 0x27 then ''&#x27;'' else [c])\<close>

fun html_unescape :: "string \<Rightarrow> string" where
  "html_unescape [] = []"
| \<open>html_unescape (c # s) =
     (if c = CHR ''&'' then
        (if take 4 s = ''amp;'' then CHR ''&'' # html_unescape (drop 4 s)
         else if take 3 s = ''lt;'' then CHR ''<'' # html_unescape (drop 3 s)
         else if take 3 s = ''gt;'' then CHR ''>'' # html_unescape (drop 3 s)
         else if take 5 s = ''quot;'' then CHR 0x22 # html_unescape (drop 5 s)
         else if take 5 s = ''#x27;'' then CHR 0x27 # html_unescape (drop 5 s)
         else c # html_unescape s)
      else c # html_unescape s)\<close>

lemma py_replace1_Nil [simp]: "py_replace1 old n [] = []"
  by (simp add: py_replace1_def)

lemma py_replace1_append [simp]: "py_replace1 old n (a @ b) = py_replace1 old n a @ py_replace1 old n b"
  by (simp add: py_replace1_def)

lemma py_replace1_Cons [simp]: "py_replace1 old n (x # s) = (if x = old then n else [x]) @ py_replace1 old n s"
  by (simp add: py_replace1_def)

lemma html_escape_Nil: "html_escape [] = []"
  by (simp add: html_escape_def)

lemma html_escape_Cons: "html_escape (c # s) = esc_char c @ html_escape s"
  by (simp add: html_escape_def esc_char_def)

text \<open>The chain of replacements is the character-wise escape: \<open>&\<close> goes first, and no
  later replacement meets a character an earlier one produced.\<close>

lemma html_escape_eq: "html_escape s = concat (map esc_char s)"
  by (induction s) (simp_all add: html_escape_Nil html_escape_Cons)

lemma unescape_esc_char: "html_unescape (esc_char c @ r) = c # html_unescape r"
  by (simp add: esc_char_def)

lemma html_unescape_escape: "html_unescape (html_escape s) = s"
  by (induction s) (simp_all add: html_escape_Nil html_escape_Cons unescape_esc_char)

lemma html_escape_plain: "(\<forall>c \<in> set s. esc_char c = [c]) \<Longrightarrow> html_escape s = s"
  by (induction s) (simp_all add: html_escape_Nil html_escape_Cons)

lemma esc_char_digit: "is_digit c \<Longrightarrow> esc_char c = [c]"
  by (auto simp add: esc_char_def is_digit_def)

lemma zpad_digits: "c \<in> set (zpad w n) \<Longrightarrow> is_digit c"
  using nat_digits_digits [of n] by (auto simp add: zpad_def Let_def is_digit_def)

text \<open>The date of a message is shown as it was formatted: \<open>html.escape\<close> leaves the
  digits, slashes, colons and the space of \<open>_fmt_dt\<close> unchanged.\<close>

lemma escape_fmt_dt: "html_escape (fmt_dt z u) = fmt_dt z u"
proof (rule html_escape_plain)
  obtain y mo d h mi s where t: "(case z of Some t \<Rightarrow> t | None \<Rightarrow> u) = (y, mo, d, h, mi, s)"
    by (cases "case z of Some t \<Rightarrow> t | None \<Rightarrow> u") auto
  have other: "esc_char CHR ''/'' = ''/''" "esc_char CHR '':'' = '':''" "esc_char CHR '' '' = '' ''"
    by (simp_all add: esc_char_def)
  show "\<forall>c \<in> set (fmt_dt z u). esc_char c = [c]"
    using other by (auto simp add: fmt_dt_def strftime_dmy_def t dest!: zpad_digits intro: esc_char_digit)
qed

lemma lt_not_in_escape: "CHR ''<'' \<notin> set (html_escape s)"
  by (induction s) (auto simp add: html_escape_Nil html_escape_Cons esc_char_def)

lemma count_escape_lt [simp]: "count_list (html_escape s) CHR ''<'' = 0"
  by (simp add: count_list_0_iff lt_not_in_escape)

lemma count_str_int_lt [simp]: "count_list (py_str_int i) CHR ''<'' = 0"
  using nat_digits_digits [of "nat i"] nat_digits_digits [of "nat (- i)"]
  by (auto simp add: count_list_0_iff py_str_int_def is_digit_def)

lemma candidate_no_tags:
  "count_list (fst (snd (candidate_confirmation nombre apellido when))) CHR ''<''
     = count_list (fst (snd (candidate_confirmation [] [] []))) CHR ''<''"
  by (simp only: candidate_confirmation_def Let_def prod.sel count_list_append count_escape_lt)

lemma admin_no_tags:
  "count_list (fst (snd (admin_new_cv cfg aviso_id nombre apellido correo telefono unidad puesto when))) CHR ''<''
     = count_list (fst (snd (admin_new_cv cfg 0 [] [] [] None None None []))) CHR ''<''"
proof (cases "admin_dashboard_url cfg = []")
  case True
  then show ?thesis
    by (simp only: admin_new_cv_def Let_def prod.sel count_list_append count_escape_lt count_str_int_lt
        simp_thms if_True option.case)
next
  case False
  then show ?thesis
    by (simp only: admin_new_cv_def Let_def prod.sel count_list_append count_escape_lt count_str_int_lt
        simp_thms if_False option.case)
qed

text \<open>
  C22. The e-mail templates escape every value the applicant sent: whatever the name,
  e-mail, phone, unit and position, the HTML body of the confirmation and of the
  administrators' notice has exactly the \<open><\<close> characters of the template (no markup
  comes from the data), and an escaped value reads back as the value itself.
\<close>

theorem templates_add_no_markup:
  "count_list (fst (snd (candidate_confirmation nombre apellido when))) CHR ''<''
     = count_list (fst (snd (candidate_confirmation [] [] []))) CHR ''<''
   \<and> count_list (fst (snd (admin_new_cv cfg aviso_id nombre apellido correo telefono unidad puesto when))) CHR ''<''
     = count_list (fst (snd (admin_new_cv cfg 0 [] [] [] None None None []))) CHR ''<''
   \<and> html_unescape (html_escape s) = s"
  using candidate_no_tags admin_no_tags html_unescape_escape by blast

end
