(* ===== verification/Mailer.thy ===== *)
theory Mailer
  imports EmailTemplates PostulacionesRouter Catalogo
begin

text \<open>
  Outbound e-mail: the settings and \<open>send_mail\<close> of \<open>src/Api/utils/mailer.py\<close>, and the
  step of \<open>create_postulacion\<close> (\<open>src/Api/routers/postulaciones.py\<close>) that, after the row
  is stored, looks up the unit and position names and sends the two messages inside
  \<open>try\<close> blocks. SMTP is I/O: what a connection attempt over one transport does is the
  parameter \<open>attempt\<close> (it delivers, raises an \<open>smtplib.SMTPException\<close>, or raises
  another exception, such as the \<open>OSError\<close> of a refused connection or a TLS failure).
  The message is \<open>_build_message\<close>'s: subject, recipients, \<open>Reply-To\<close>, text and HTML
  bodies; a header value with a line break makes \<open>EmailMessage\<close> raise \<open>ValueError\<close>
  (the \<open>default\<close> policy). The \<open>From\<close> header (\<open>formataddr\<close>) is not modelled; the TLS context is
  \<open>tls_context\<close>. The log lines \<open>print\<close>ed are not modelled beyond the outcome they report.
\<close>

record mail_cfg =
  mail_enabled :: bool
  smtp_host :: string
  smtp_port :: int
  smtp_username :: string
  smtp_password :: string
  smtp_security :: string
  mail_from_name :: string
  mail_from_email :: string
  mail_reply_to :: string

text \<open>The module settings, read from the environment \<open>env\<close> (\<open>os.getenv(k, default)\<close>).
  \<open>int(...)\<close> of a malformed \<open>SMTP_PORT\<close> raises at import.\<close>

definition getenv :: "(string \<Rightarrow> string option) \<Rightarrow> string \<Rightarrow> string \<Rightarrow> string" where
  "getenv env k dflt = (case env k of Some v \<Rightarrow> v | None \<Rightarrow> dflt)"

definition load_mail_cfg :: "(string \<Rightarrow> string option) \<Rightarrow> py_error + mail_cfg" where
  "load_mail_cfg env =
     (case py_int (PStr (getenv env ''SMTP_PORT'' ''587'')) of
       Inl e \<Rightarrow> Inl e
     | Inr port \<Rightarrow>
         (let user = getenv env ''SMTP_USERNAME'' '''';
              from_email = getenv env ''MAIL_FROM_EMAIL'' (if user \<noteq> [] then user else ''no-reply@example.com'')
          in Inr \<lparr>mail_enabled = (py_lower (getenv env ''MAIL_ENABLED'' ''true'') = ''true''),
                  smtp_host = getenv env ''SMTP_HOST'' ''smtp.office365.com'',
                  smtp_port = port,
                  smtp_username = user,
                  smtp_password = getenv env ''SMTP_PASSWORD'' '''',
                  smtp_security = py_strip (py_lower (getenv env ''SMTP_SECURITY'' ''starttls'')),
                  mail_from_name = getenv env ''MAIL_FROM_NAME'' ''Notificaciones'',
                  mail_from_email = from_email,
                  mail_reply_to = getenv env ''MAIL_REPLY_TO'' from_email\<rparr>))"

record email_message =
  msg_subject :: string
  msg_to :: string
  msg_reply_to :: "string option"
  msg_text :: string
  msg_html :: string

definition has_linebreak :: "string \<Rightarrow> bool" where
  "has_linebreak s \<longleftrightarrow> CHR 0x0A \<in> set s \<or> CHR 0x0D \<in> set s"

fun join_comma :: "string list \<Rightarrow> string" where
  "join_comma [] = []"
| "join_comma [x] = x"
| "join_comma (x # xs) = x @ '', '' @ join_comma xs"

definition build_message ::
  "mail_cfg \<Rightarrow> string \<Rightarrow> string list \<Rightarrow> string \<Rightarrow> string option \<Rightarrow> py_error + email_message" where
  "build_message cfg subject to html text =
     (let to_list = map py_strip (filter (\<lambda>t. t \<noteq> [] \<and> py_strip t \<noteq> []) to);
          to_hdr = join_comma to_list;
          reply = (if mail_reply_to cfg \<noteq> [] then Some (mail_reply_to cfg) else None)
      in if has_linebreak subject \<or> has_linebreak to_hdr
            \<or> (case reply of Some r \<Rightarrow> has_linebreak r | None \<Rightarrow> False)
         then Inl ValueError
         else Inr \<lparr>msg_subject = subject, msg_to = to_hdr, msg_reply_to = reply,
                   msg_text = (case text of Some t \<Rightarrow> if t = [] then ''Ver este correo en HTML.'' else t
                                            | None \<Rightarrow> ''Ver este correo en HTML.''),
                   msg_html = html\<rparr>)"

text \<open>\<open>send_mail\<close>: disabled or without credentials it only logs; otherwise it builds the
  message (outside its \<open>try\<close>: a \<open>ValueError\<close> there propagates), sends it over the
  configured transport, and on an \<open>SMTPException\<close> (only) retries over the other one.\<close>

text \<open>\<open>_tls_context\<close>: a client context (\<open>PROTOCOL_TLS_CLIENT\<close>: certificates required,
  host name checked) with minimum version TLS 1.2 and certifi's CA bundle; when
  \<open>certifi\<close> cannot be imported or its bundle loaded (\<open>certifi = None\<close>), the system's
  default context (also verifying) with the same minimum. A TLS version 1.x is the
  number 10 + x.\<close>

datatype ca_source = CertifiBundle string | SystemStore

record ssl_context =
  ctx_minimum_version :: nat
  ctx_cert_required :: bool
  ctx_check_hostname :: bool
  ctx_ca :: ca_source

definition tls_context :: "string option \<Rightarrow> ssl_context" where
  "tls_context certifi =
     (case certifi of
       Some bundle \<Rightarrow> \<lparr>ctx_minimum_version = 12, ctx_cert_required = True, ctx_check_hostname = True,
                        ctx_ca = CertifiBundle bundle\<rparr>
     | None \<Rightarrow> \<lparr>ctx_minimum_version = 12, ctx_cert_required = True, ctx_check_hostname = True,
                 ctx_ca = SystemStore\<rparr>)"

datatype transport = SslTransport | StarttlsTransport

datatype smtp_outcome = SmtpOk | SmtpError | OtherError

datatype mail_result =
    MailDisabledLog
  | MailNoCredentials
  | MailSent transport email_message
  | MailSentFallback transport email_message
  | MailFailed

definition send_mail ::
  "mail_cfg \<Rightarrow> (transport \<Rightarrow> smtp_outcome) \<Rightarrow> string \<Rightarrow> string list \<Rightarrow> string \<Rightarrow> string option
   \<Rightarrow> py_error + mail_result" where
  "send_mail cfg attempt subject to html text =
     (if \<not> mail_enabled cfg then Inr MailDisabledLog
      else if smtp_username cfg = [] \<or> smtp_password cfg = [] then Inr MailNoCredentials
      else (case build_message cfg subject to html text of
              Inl e \<Rightarrow> Inl e
            | Inr msg \<Rightarrow>
                (let primary = (if smtp_security cfg = ''ssl'' then SslTransport else StarttlsTransport);
                     other = (if smtp_security cfg = ''ssl'' then StarttlsTransport else SslTransport)
                 in case attempt primary of
                      SmtpOk \<Rightarrow> Inr (MailSent primary msg)
                    | SmtpError \<Rightarrow> (case attempt other of SmtpOk \<Rightarrow> Inr (MailSentFallback other msg) | _ \<Rightarrow> Inr MailFailed)
                    | OtherError \<Rightarrow> Inr MailFailed)))"

definition delivered :: "py_error + mail_result \<Rightarrow> bool" where
  "delivered r = (case r of Inr (MailSent _ _) \<Rightarrow> True | Inr (MailSentFallback _ _) \<Rightarrow> True | _ \<Rightarrow> False)"

text \<open>The mail step of \<open>create_postulacion\<close>. \<open>ADMIN_EMAILS\<close> is parsed once at import;
  the unit and position names are looked up when the ids are truthy; each \<open>send_mail\<close>
  runs inside a \<open>try\<close> whose \<open>except\<close> only logs, so its result is the step's only
  output and the stored row is never affected.\<close>

definition admin_emails_of :: "string \<Rightarrow> string list" where
  "admin_emails_of env = map py_strip (filter (\<lambda>e. py_strip e \<noteq> []) (py_split CHR '','' env))"

definition unidad_nombre_of :: "cdb \<Rightarrow> int option \<Rightarrow> string option" where
  "unidad_nombre_of c u =
     (case u of Some i \<Rightarrow> if i = 0 then None else map_option un_nombre (un_get c i) | None \<Rightarrow> None)"

definition puesto_nombre_of :: "cdb \<Rightarrow> int option \<Rightarrow> string option" where
  "puesto_nombre_of c p =
     (case p of Some i \<Rightarrow> if i = 0 then None else map_option pu_nombre (pu_get c i) | None \<Rightarrow> None)"

definition upload_mails ::
  "mail_cfg \<Rightarrow> tpl_cfg \<Rightarrow> (transport \<Rightarrow> smtp_outcome) \<Rightarrow> string list \<Rightarrow> cdb \<Rightarrow> int option \<Rightarrow> int option
   \<Rightarrow> string \<Rightarrow> postulacion \<Rightarrow> (py_error + mail_result) list" where
  "upload_mails cfg tcfg attempt admins c unidad puesto when obj =
     (let (subj_c, html_c, text_c) = candidate_confirmation (nombre obj) (apellido obj) when;
          r_c = send_mail cfg attempt subj_c [correo obj] html_c (Some text_c)
      in if admins = [] then [r_c]
         else (let (subj_a, html_a, text_a) =
                     admin_new_cv tcfg (post_id obj) (nombre obj) (apellido obj) (correo obj) (telefono obj)
                       (unidad_nombre_of c unidad) (puesto_nombre_of c puesto) when
               in [r_c, send_mail cfg attempt subj_a admins html_a (Some text_a)]))"

text \<open>Sample settings for the witnesses.\<close>

definition demo_mail_cfg :: mail_cfg where
  "demo_mail_cfg = \<lparr>mail_enabled = True, smtp_host = ''smtp.example.org'', smtp_port = 465,
     smtp_username = ''rrhh'', smtp_password = ''pw'', smtp_security = ''ssl'', mail_from_name = ''RRHH'',
     mail_from_email = ''rrhh@example.org'', mail_reply_to = ''rrhh@example.org''\<rparr>"

lemma tls_context_verifies:
  "12 \<le> ctx_minimum_version (tls_context c) \<and> ctx_cert_required (tls_context c) \<and> ctx_check_hostname (tls_context c)"
  by (simp add: tls_context_def split: option.split)

lemma send_mail_Inl:
  "send_mail cfg attempt s to h t = Inl e \<Longrightarrow>
   mail_enabled cfg \<and> smtp_username cfg \<noteq> [] \<and> smtp_password cfg \<noteq> [] \<and> build_message cfg s to h t = Inl e"
  by (auto simp add: send_mail_def Let_def split: if_splits sum.splits smtp_outcome.splits)

lemma build_message_Inl: "build_message cfg s to h t = Inl e \<Longrightarrow> e = ValueError"
  by (simp add: build_message_def Let_def split: if_splits)

lemma send_mail_delivery_iff:
  assumes "mail_enabled cfg" "smtp_username cfg \<noteq> []" "smtp_password cfg \<noteq> []"
    and "build_message cfg s to h t = Inr msg"
  shows "delivered (send_mail cfg attempt s to h t) \<longleftrightarrow>
     (let primary = (if smtp_security cfg = ''ssl'' then SslTransport else StarttlsTransport);
          other = (if smtp_security cfg = ''ssl'' then StarttlsTransport else SslTransport)
      in attempt primary = SmtpOk \<or> (attempt primary = SmtpError \<and> attempt other = SmtpOk))"
  using assms by (simp add: send_mail_def delivered_def Let_def split: smtp_outcome.split)

text \<open>
  C32. Delivery of an e-mail: when mail is enabled, the SMTP credentials are set and the
  message can be built, \<open>send_mail\<close> delivers it exactly when the configured transport
  succeeds, or fails with an \<open>SMTPException\<close> and the other transport succeeds. A
  failure of another kind on the configured transport (a refused connection, a TLS
  error) is never retried, even when the other transport would deliver.
\<close>

theorem send_mail_delivery:
  assumes "mail_enabled cfg" "smtp_username cfg \<noteq> []" "smtp_password cfg \<noteq> []"
    and "build_message cfg s to h t = Inr msg"
  shows "delivered (send_mail cfg attempt s to h t) \<longleftrightarrow>
     (let primary = (if smtp_security cfg = ''ssl'' then SslTransport else StarttlsTransport);
          other = (if smtp_security cfg = ''ssl'' then StarttlsTransport else SslTransport)
      in attempt primary = SmtpOk \<or> (attempt primary = SmtpError \<and> attempt other = SmtpOk))"
  using assms by (rule send_mail_delivery_iff)

lemma upload_mails_shape:
  "length (upload_mails cfg tcfg attempt admins c unidad puesto when obj) = (if admins = [] then 1 else 2)
   \<and> hd (upload_mails cfg tcfg attempt admins c unidad puesto when obj)
       = send_mail cfg attempt (fst (candidate_confirmation (nombre obj) (apellido obj) when)) [correo obj]
           (fst (snd (candidate_confirmation (nombre obj) (apellido obj) when)))
           (Some (snd (snd (candidate_confirmation (nombre obj) (apellido obj) when))))"
  by (simp add: upload_mails_def Let_def case_prod_beta)

theorem send_mail_delivery_witness:
  "\<not> delivered (send_mail demo_mail_cfg (\<lambda>tr. if tr = SslTransport then OtherError else SmtpOk)
        ''Aviso'' [''ana@x.org''] ''<p>hola</p>'' None)
   \<and> delivered (send_mail demo_mail_cfg (\<lambda>tr. if tr = SslTransport then SmtpError else SmtpOk)
        ''Aviso'' [''ana@x.org''] ''<p>hola</p>'' None)"
proof -
  have b: "build_message demo_mail_cfg ''Aviso'' [''ana@x.org''] ''<p>hola</p>'' None
      = Inr \<lparr>msg_subject = ''Aviso'', msg_to = ''ana@x.org'', msg_reply_to = Some ''rrhh@example.org'',
             msg_text = ''Ver este correo en HTML.'', msg_html = ''<p>hola</p>''\<rparr>"
    by code_simp
  have c: "mail_enabled demo_mail_cfg" "smtp_username demo_mail_cfg \<noteq> []" "smtp_password demo_mail_cfg \<noteq> []"
    "smtp_security demo_mail_cfg = ''ssl''"
    by (simp_all add: demo_mail_cfg_def)
  show ?thesis
    using send_mail_delivery [OF c(1-3) b, of "\<lambda>tr. if tr = SslTransport then OtherError else SmtpOk"]
      send_mail_delivery [OF c(1-3) b, of "\<lambda>tr. if tr = SslTransport then SmtpError else SmtpOk"] c(4)
    by simp
qed

end
