(* ===== verification/Frontend.thy ===== *)
theory Frontend
  imports Files
begin

text \<open>
  The routes of \<open>src/Api/main.py\<close> that serve the two single-page front ends: \<open>home\<close>,
  and \<open>serve_form\<close> and \<open>serve_admin\<close>, registered only when their directory exists at
  start-up. Each joins the path parameter \<open>{full_path:path}\<close> (any text after the
  prefix, slashes included, percent-decoded by the server) onto its directory with
  \<open>os.path.join\<close> (\<open>path_join\<close> of \<open>Files\<close>) and answers that file when
  \<open>os.path.isfile\<close> finds it, else the app's \<open>index.html\<close>. The file system is the list
  of existing regular files as normalised paths relative to the working directory
  (absolute ones start with a slash); \<open>isfile\<close> resolves \<open>.\<close> and \<open>..\<close> as the
  operating system does (\<open>resolve_path\<close>: the kernel's resolution when no symbolic link is
  involved). Any other path goes to the API routers (modelled in their own theories) or
  to the static \<open>assets\<close> mounts, which serve only files below their directory.
\<close>

text \<open>Path resolution: drop empty and \<open>.\<close> components, let \<open>..\<close> remove the
  component before it (at the root of an absolute path it is dropped; at the start of a
  relative path it stays).\<close>

fun norm_parts :: "bool \<Rightarrow> string list \<Rightarrow> string list \<Rightarrow> string list" where
  "norm_parts absolute acc [] = rev acc"
| "norm_parts absolute acc (c # cs) =
     (if c = [] \<or> c = ''.'' then norm_parts absolute acc cs
      else if c = ''..'' then
        (case acc of
          [] \<Rightarrow> if absolute then norm_parts absolute [] cs else norm_parts absolute [c] cs
        | a # acc' \<Rightarrow> if a = ''..'' then norm_parts absolute (c # acc) cs else norm_parts absolute acc' cs)
      else norm_parts absolute (c # acc) cs)"

fun join_slash :: "string list \<Rightarrow> string" where
  "join_slash [] = []"
| "join_slash [x] = x"
| "join_slash (x # xs) = x @ ''/'' @ join_slash xs"

definition resolve_path :: "string \<Rightarrow> string" where
  "resolve_path p =
     (if p = [] then ''.''
      else (let absolute = (hd p = CHR ''/'');
                parts = norm_parts absolute [] (py_split CHR ''/'' p);
                body = join_slash parts
            in if absolute then CHR ''/'' # body else if body = [] then ''.'' else body))"

definition isfile :: "string list \<Rightarrow> string \<Rightarrow> bool" where
  "isfile fs p \<longleftrightarrow> resolve_path p \<in> set fs"

datatype front_response = HomeOk | StaticAsset string | FileResp string | OtherRoute

text \<open>\<open>serve_form\<close> and \<open>serve_admin\<close> have the same body over their own directory.\<close>

definition serve_spa :: "string \<Rightarrow> string list \<Rightarrow> string \<Rightarrow> front_response" where
  "serve_spa dir fs full_path =
     (let filepath = path_join dir full_path
      in if isfile fs filepath then FileResp filepath else FileResp (dir @ ''/index.html''))"

definition serve_form :: "string list \<Rightarrow> string \<Rightarrow> front_response" where
  "serve_form fs full_path = serve_spa ''form'' fs full_path"

definition serve_admin :: "string list \<Rightarrow> string \<Rightarrow> front_response" where
  "serve_admin fs full_path = serve_spa ''admin'' fs full_path"

text \<open>A GET request to the app for a path after the leading slash; \<open>dirs\<close> are the
  directories that existed at start-up. Routes match in the order they were added: the
  \<open>assets\<close> mount of a front end (a \<open>StaticFiles\<close> app, not modelled further) before its
  catch-all route.\<close>

definition front_get :: "string list \<Rightarrow> string list \<Rightarrow> string \<Rightarrow> front_response" where
  "front_get dirs fs path =
     (if path = [] then HomeOk
      else if ''form'' \<in> set dirs \<and> take 12 path = ''form/assets/'' then StaticAsset (drop 12 path)
      else if ''form'' \<in> set dirs \<and> take 5 path = ''form/'' then serve_form fs (drop 5 path)
      else if ''admin'' \<in> set dirs \<and> take 13 path = ''admin/assets/'' then StaticAsset (drop 13 path)
      else if ''admin'' \<in> set dirs \<and> take 6 path = ''admin/'' then serve_admin fs (drop 6 path)
      else OtherRoute)"

lemma path_join_absolute: "f \<noteq> [] \<Longrightarrow> hd f = CHR ''/'' \<Longrightarrow> path_join dir f = f"
  by (simp add: path_join_def)

lemma front_get_admin_abs:
  assumes "''admin'' \<in> set dirs" "f \<noteq> []" "hd f = CHR ''/''"
  shows "front_get dirs fs (''admin/'' @ f) = serve_admin fs f"
proof -
  obtain g where f: "f = CHR ''/'' # g" using assms(2,3) by (cases f) auto
  show ?thesis using assms(1) by (simp add: front_get_def f)
qed

text \<open>
  C21. Path traversal in the administrator front end: when the \<open>admin\<close> directory
  exists, the unauthenticated route \<open>GET /admin/{full_path:path}\<close> serves every regular
  file of the server named by its absolute path (\<open>/admin//etc/passwd\<close>), because
  \<open>os.path.join("admin", full_path)\<close> returns an absolute \<open>full_path\<close> unchanged.
\<close>

theorem admin_route_serves_any_file:
  assumes "''admin'' \<in> set dirs" and "f \<in> set fs" and "resolve_path f = f" and "f \<noteq> []" and "hd f = CHR ''/''"
  shows "front_get dirs fs (''admin/'' @ f) = FileResp f"
  using assms front_get_admin_abs [OF assms(1) assms(4,5)]
  by (simp add: serve_admin_def serve_spa_def path_join_absolute isfile_def)

theorem admin_route_serves_any_file_witness:
  "front_get [''admin''] [''/etc/passwd'', ''admin/index.html''] ''admin//etc/passwd'' = FileResp ''/etc/passwd''
   \<and> front_get [''admin''] [''.env'', ''admin/index.html''] ''admin/../.env'' = FileResp ''admin/../.env''"
proof -
  have "resolve_path ''/etc/passwd'' = ''/etc/passwd''" by code_simp
  then have "front_get [''admin''] [''/etc/passwd'', ''admin/index.html''] (''admin/'' @ ''/etc/passwd'') = FileResp ''/etc/passwd''"
    by (intro admin_route_serves_any_file) simp_all
  moreover have "front_get [''admin''] [''.env'', ''admin/index.html''] ''admin/../.env'' = FileResp ''admin/../.env''"
    by code_simp
  ultimately show ?thesis by simp
qed

end
