(* ===== verification/ResponseModel.thy ===== *)
theory ResponseModel
  imports PostulacionesRouter
begin

text \<open>
  The response schema \<open>PostulacionOut\<close> of \<open>src/Api/schemas/postulaciones.py\<close>, the
  field constraints of \<open>PostulacionUpdate\<close>, and the way FastAPI applies them to the
  handlers of \<open>src/Api/routers/postulaciones.py\<close> declared with
  \<open>response_model=PostulacionOut\<close>. The handler's return value (an ORM row, read with
  \<open>from_attributes\<close>) is validated after the handler has run, and so after its commit;
  a failed validation is a \<open>ResponseValidationError\<close>, which the server answers with 500,
  and the background tasks attached to the response that is never built do not run.
  \<open>EmailStr\<close> is the library \<open>email-validator\<close>: the parameter \<open>ev\<close> maps a string to
  its normalised address, or to \<open>None\<close> when it is not an address. Strings are ASCII
  here, so a length constraint counts characters as pydantic does. The database is
  taken to store every value as given (what the server does with a value wider than
  its column depends on its mode and is outside the model).
\<close>

record postulacion_out =
  po_id :: int
  po_nombre :: string
  po_apellido :: string
  po_correo :: string
  po_telefono :: "string option"
  po_puesto_id :: "int option"
  po_unidad_id :: "int option"
  po_puesto_original_id :: "int option"
  po_unidad_original_id :: "int option"
  po_created_at :: int
  po_estado :: string
  po_nota :: "string option"
  po_cv_original :: string
  po_cv_mime :: string
  po_cv_size :: int
  po_dni :: "string option"
  po_fecha_nacimiento :: "int option"
  po_estado_civil :: "string option"
  po_hijos :: "bool option"
  po_domicilio_residencia :: "string option"
  po_localidad :: "string option"
  po_decidido_motivo :: "string option"
  po_decidido_por_user_id :: "int option"
  po_decidido_en :: "int option"

text \<open>The fields of \<open>PostulacionOut\<close> that fail validation, in declaration order:
  \<open>correo\<close> (\<open>EmailStr\<close>), \<open>estado\<close> (\<open>min_length=1, max_length=32\<close> on the raw value,
  then \<open>_normalize_estado\<close>, which strips it and rejects it empty), and the four
  optional strings with a \<open>max_length\<close>.\<close>

definition out_errors :: "(string \<Rightarrow> string option) \<Rightarrow> postulacion \<Rightarrow> string list" where
  "out_errors ev obj =
     (if ev (correo obj) = None then [''correo''] else [])
     @ (if length (estado obj) < 1 \<or> 32 < length (estado obj) \<or> py_strip (estado obj) = [] then [''estado''] else [])
     @ (if max_len_opt 20 (dni obj) then [] else [''dni''])
     @ (if max_len_opt 20 (estado_civil obj) then [] else [''estado_civil''])
     @ (if max_len_opt 200 (domicilio_residencia obj) then [] else [''domicilio_residencia''])
     @ (if max_len_opt 120 (localidad obj) then [] else [''localidad''])"

text \<open>\<open>PostulacionOut.model_validate(obj)\<close>: the validation errors, or the model with the
  normalised address and the stripped estado (\<open>cv_filename\<close> is no field of it).\<close>

definition postulacion_out :: "(string \<Rightarrow> string option) \<Rightarrow> postulacion \<Rightarrow> string list + postulacion_out" where
  "postulacion_out ev obj =
     (case out_errors ev obj of
       [] \<Rightarrow> Inr \<lparr>po_id = post_id obj, po_nombre = nombre obj, po_apellido = apellido obj,
               po_correo = the (ev (correo obj)), po_telefono = telefono obj,
               po_puesto_id = puesto_id obj, po_unidad_id = unidad_id obj,
               po_puesto_original_id = puesto_original_id obj, po_unidad_original_id = unidad_original_id obj,
               po_created_at = created_at obj, po_estado = py_strip (estado obj), po_nota = nota obj,
               po_cv_original = cv_original obj, po_cv_mime = cv_mime obj, po_cv_size = cv_size obj,
               po_dni = dni obj, po_fecha_nacimiento = fecha_nacimiento obj, po_estado_civil = estado_civil obj,
               po_hijos = hijos obj, po_domicilio_residencia = domicilio_residencia obj, po_localidad = localidad obj,
               po_decidido_motivo = decidido_motivo obj, po_decidido_por_user_id = decidido_por_user_id obj,
               po_decidido_en = decidido_en obj\<rparr>
     | errs \<Rightarrow> Inl errs)"

text \<open>FastAPI's \<open>serialize_response\<close>: an \<open>HTTPException\<close> of the handler passes through;
  a returned row is validated, and a failure is the 500 of the server.\<close>

definition out_response :: "(string \<Rightarrow> string option) \<Rightarrow> postulacion response \<Rightarrow> postulacion_out response" where
  "out_response ev r =
     (case r of
       Inl e \<Rightarrow> Inl e
     | Inr obj \<Rightarrow> (case postulacion_out ev obj of Inl _ \<Rightarrow> Inl (500, InternalServerError) | Inr po \<Rightarrow> Inr po))"

text \<open>A handler with background tasks: the tasks ride on the response object, so they run
  only when a response is built.\<close>

definition serialize_response ::
  "(string \<Rightarrow> string option) \<Rightarrow> 'd \<times> postulacion response \<times> task list \<Rightarrow> 'd \<times> postulacion_out response \<times> task list" where
  "serialize_response ev res =
     (case res of (d, r, ts) \<Rightarrow>
        (case out_response ev r of Inl e \<Rightarrow> (d, Inl e, []) | Inr po \<Rightarrow> (d, Inr po, ts)))"

definition get_postulacion_out :: "(string \<Rightarrow> string option) \<Rightarrow> int \<Rightarrow> db \<Rightarrow> postulacion_out response" where
  "get_postulacion_out ev pid d = out_response ev (get_postulacion pid d)"

definition create_postulacion_out ::
  "(string \<Rightarrow> string option) \<Rightarrow> files_cfg \<Rightarrow> string list \<Rightarrow> int \<Rightarrow> nat \<times> nat \<times> nat \<times> nat \<times> nat \<times> nat \<Rightarrow>
   string option \<Rightarrow> string option \<Rightarrow> nat list \<Rightarrow> upload_args \<Rightarrow> db \<Rightarrow>
   string list \<times> db \<times> postulacion_out response \<times> task list" where
  "create_postulacion_out ev cfg fs now stamp cv_name ctype chunks form d =
     (case create_postulacion_upload cfg fs now stamp cv_name ctype chunks form d of
       (fs', res) \<Rightarrow> (fs', serialize_response ev res))"

definition decidir_postulacion_out ::
  "(string \<Rightarrow> string option) \<Rightarrow> int \<Rightarrow> int \<Rightarrow> decision_in \<Rightarrow> pyval \<Rightarrow> db \<Rightarrow> db \<times> postulacion_out response \<times> task list" where
  "decidir_postulacion_out ev now pid payload jwt d = serialize_response ev (decidir_postulacion now pid payload jwt d)"

text \<open>The field constraints of \<open>PostulacionUpdate\<close>: \<open>nombre\<close> and \<open>apellido\<close> 2 to 60
  characters, \<open>correo\<close> an \<open>EmailStr\<close> (stored normalised), \<open>nota\<close> at most 255, and the
  four new optional strings as in \<open>PostulacionOut\<close>. \<open>None\<close> passes every constraint.\<close>

fun validate_field :: "(string \<Rightarrow> string option) \<Rightarrow> field_update \<Rightarrow> field_update option" where
  "validate_field ev (SetNombre v) =
     (if max_len_opt 60 v \<and> (case v of None \<Rightarrow> True | Some s \<Rightarrow> 2 \<le> length s) then Some (SetNombre v) else None)"
| "validate_field ev (SetApellido v) =
     (if max_len_opt 60 v \<and> (case v of None \<Rightarrow> True | Some s \<Rightarrow> 2 \<le> length s) then Some (SetApellido v) else None)"
| "validate_field ev (SetCorreo v) =
     (case v of None \<Rightarrow> Some (SetCorreo None) | Some s \<Rightarrow> map_option (\<lambda>n. SetCorreo (Some n)) (ev s))"
| "validate_field ev (SetNota v) = (if max_len_opt 255 v then Some (SetNota v) else None)"
| "validate_field ev (SetDni v) = (if max_len_opt 20 v then Some (SetDni v) else None)"
| "validate_field ev (SetEstadoCivil v) = (if max_len_opt 20 v then Some (SetEstadoCivil v) else None)"
| "validate_field ev (SetDomicilioResidencia v) = (if max_len_opt 200 v then Some (SetDomicilioResidencia v) else None)"
| "validate_field ev (SetLocalidad v) = (if max_len_opt 120 v then Some (SetLocalidad v) else None)"
| "validate_field ev f = Some f"

fun validate_update :: "(string \<Rightarrow> string option) \<Rightarrow> field_update list \<Rightarrow> field_update list option" where
  "validate_update ev [] = Some []"
| "validate_update ev (f # fs) =
     (case validate_field ev f of
       None \<Rightarrow> None
     | Some g \<Rightarrow> map_option (Cons g) (validate_update ev fs))"

text \<open>\<open>PATCH /postulaciones/{pid}\<close> as the client sees it: the body is validated (422),
  the handler runs, its row is validated against \<open>PostulacionOut\<close>.\<close>

definition update_postulacion_out ::
  "(string \<Rightarrow> string option) \<Rightarrow> int \<Rightarrow> field_update list \<Rightarrow> db \<Rightarrow> db \<times> postulacion_out response \<times> task list" where
  "update_postulacion_out ev pid raw d =
     (case validate_update ev raw of
       None \<Rightarrow> (d, Inl (422, Detail ''validation error''), [])
     | Some fs \<Rightarrow> serialize_response ev (update_postulacion pid fs d))"

text \<open>Every row of the table passes \<open>PostulacionOut\<close>.\<close>

definition rows_out_ok :: "(string \<Rightarrow> string option) \<Rightarrow> db \<Rightarrow> bool" where
  "rows_out_ok ev d \<longleftrightarrow> list_all (\<lambda>(k, p). out_errors ev p = []) (postulaciones d)"

text \<open>A sample address check for the witnesses: an address is a string with an \<open>@\<close>.\<close>

definition ev_demo :: "string \<Rightarrow> string option" where
  "ev_demo s = (if CHR ''@'' \<in> set s then Some s else None)"

lemma out_errors_Nil_iff:
  "out_errors ev obj = [] \<longleftrightarrow> ev (correo obj) \<noteq> None
     \<and> estado obj \<noteq> [] \<and> length (estado obj) \<le> 32 \<and> py_strip (estado obj) \<noteq> []
     \<and> max_len_opt 20 (dni obj) \<and> max_len_opt 20 (estado_civil obj)
     \<and> max_len_opt 200 (domicilio_residencia obj) \<and> max_len_opt 120 (localidad obj)"
  by (auto simp add: out_errors_def not_less)

lemma out_errors_bad_email: "ev (correo obj) = None \<Longrightarrow> out_errors ev obj \<noteq> []"
  by (simp add: out_errors_def)

lemma estado_ok_out: "estado_ok e \<Longrightarrow> e \<noteq> [] \<and> length e \<le> 32 \<and> py_strip e \<noteq> [] \<and> py_strip e = e"
  by (simp add: estado_ok_def)

lemma postulacion_out_Inl: "out_errors ev obj \<noteq> [] \<Longrightarrow> \<exists>errs. postulacion_out ev obj = Inl errs"
  by (cases "out_errors ev obj") (auto simp add: postulacion_out_def)

lemma postulacion_out_Inr:
  "out_errors ev obj = [] \<Longrightarrow> \<exists>po. postulacion_out ev obj = Inr po \<and> po_id po = post_id obj
     \<and> po_estado po = py_strip (estado obj) \<and> Some (po_correo po) = ev (correo obj)"
proof -
  assume e: "out_errors ev obj = []"
  then obtain n where "ev (correo obj) = Some n" by (auto simp add: out_errors_Nil_iff)
  with e show ?thesis by (simp add: postulacion_out_def)
qed

lemma out_response_bad: "out_errors ev obj \<noteq> [] \<Longrightarrow> out_response ev (Inr obj) = Inl (500, InternalServerError)"
  using postulacion_out_Inl by (force simp add: out_response_def)

lemma serialize_response_bad:
  "out_errors ev obj \<noteq> [] \<Longrightarrow> serialize_response ev (d, Inr obj, ts) = (d, Inl (500, InternalServerError), [])"
  by (simp add: serialize_response_def out_response_bad)

lemma rows_out_ok_iff:
  "rows_out_ok ev d \<longleftrightarrow> (\<forall>k p. (k, p) \<in> set (postulaciones d) \<longrightarrow> out_errors ev p = [])"
  by (auto simp add: rows_out_ok_def list_all_iff)

lemma rows_out_ok_replace:
  "rows_out_ok ev d \<Longrightarrow> out_errors ev obj' = [] \<Longrightarrow>
   rows_out_ok ev (d\<lparr>postulaciones := AList.update i obj' (postulaciones d)\<rparr>)"
  using set_update_subset by (fastforce simp add: rows_out_ok_iff)

lemma rows_out_ok_delete: "rows_out_ok ev d \<Longrightarrow> rows_out_ok ev (fst (delete i d))"
  by (auto simp add: delete_def rows_out_ok_iff set_delete split: option.split)

lemma rows_out_ok_get: "rows_out_ok ev d \<Longrightarrow> get d i = Some obj \<Longrightarrow> out_errors ev obj = []"
  by (auto simp add: rows_out_ok_iff get_def dest: map_of_SomeD)

lemma set_field_out:
  assumes norm: "\<forall>s n. ev s = Some n \<longrightarrow> ev n = Some n"
    and v: "validate_field ev f = Some g" and o: "out_errors ev obj = []" and s: "set_field obj g = Some obj'"
  shows "out_errors ev obj' = []"
proof (cases f)
  case (SetCorreo v)
  then show ?thesis using v o s norm by (cases v) (auto simp add: out_errors_Nil_iff)
qed (use v o s in \<open>auto simp add: out_errors_Nil_iff split: if_splits\<close>)

lemma set_fields_out:
  assumes norm: "\<forall>s n. ev s = Some n \<longrightarrow> ev n = Some n"
  shows "validate_update ev fs = Some gs \<Longrightarrow> out_errors ev obj = [] \<Longrightarrow> set_fields obj gs = Some obj' \<Longrightarrow>
         out_errors ev obj' = []"
proof (induction fs arbitrary: gs obj)
  case Nil
  then show ?case by auto
next
  case (Cons f fs)
  from Cons.prems(1) obtain g gs' where vf: "validate_field ev f = Some g" and vs: "validate_update ev fs = Some gs'"
    and gs: "gs = g # gs'" by (auto split: option.splits)
  from Cons.prems(3) gs obtain obj1 where s1: "set_field obj g = Some obj1" and s2: "set_fields obj1 gs' = Some obj'"
    by (auto split: option.splits)
  have "out_errors ev obj1 = []" by (rule set_field_out [OF norm vf Cons.prems(2) s1])
  then show ?case using Cons.IH [OF vs _ s2] by blast
qed

lemma get_out_ok: "rows_out_ok ev d \<Longrightarrow> get_postulacion_out ev i d \<noteq> Inl (500, InternalServerError)"
proof (cases "get d i")
  case None
  then show ?thesis by (simp add: get_postulacion_out_def get_postulacion_def out_response_def)
next
  case (Some obj)
  assume out: "rows_out_ok ev d"
  have "out_errors ev obj = []" by (rule rows_out_ok_get [OF out Some])
  then obtain po where "postulacion_out ev obj = Inr po" using postulacion_out_Inr by blast
  with Some show ?thesis by (simp add: get_postulacion_out_def get_postulacion_def out_response_def)
qed

lemma fst_serialize_response [simp]: "fst (serialize_response ev res) = fst res"
  by (simp add: serialize_response_def split: prod.split sum.split)

lemma decidir_db_cases:
  "fst (decidir_postulacion now pid payload jwt d) = d
   \<or> (\<exists>rid obj. decide now pid (di_estado payload) (di_motivo payload) rid None None d
         = Inr (fst (decidir_postulacion now pid payload jwt d), obj))"
  by (auto simp add: decidir_postulacion_def split: sum.split decide_error.split)

lemma decide_rows_out_ok:
  assumes ok: "table_ok d" and out: "rows_out_ok ev d" and dec: "decide now i e m r u p d = Inr (d', obj')"
  shows "rows_out_ok ev d'"
proof -
  obtain obj where g: "get d i = Some obj"
    and d': "d' = d\<lparr>postulaciones := AList.update i obj' (postulaciones d)\<rparr>"
    and o': "obj' = obj\<lparr>estado := py_strip e, decidido_motivo := Some (py_strip m),
                        decidido_por_user_id := Some r, decidido_en := Some now,
                        unidad_id := (case u of None \<Rightarrow> unidad_id obj | Some x \<Rightarrow> Some x),
                        puesto_id := (case p of None \<Rightarrow> puesto_id obj | Some x \<Rightarrow> Some x)\<rparr>"
    and e: "estado_ok (py_strip e)"
    using decide_success [OF dec] by blast
  have "out_errors ev obj = []" by (rule rows_out_ok_get [OF out g])
  then have "out_errors ev obj' = []" using estado_ok_out [OF e] by (simp add: o' out_errors_Nil_iff)
  then show ?thesis using d' rows_out_ok_replace [OF out] by simp
qed

lemma update_rows_out_ok:
  assumes norm: "\<forall>s n. ev s = Some n \<longrightarrow> ev n = Some n"
    and out: "rows_out_ok ev d" and v: "validate_update ev raw = Some fs" and u: "update i fs d = Inr (d', r)"
  shows "rows_out_ok ev d'"
proof (cases r)
  case None
  with u show ?thesis using out by (auto dest: update_none)
next
  case (Some obj')
  with u obtain obj where g: "get d i = Some obj" and sf: "set_fields obj fs = Some obj'"
    and d': "d' = d\<lparr>postulaciones := AList.update i obj' (postulaciones d)\<rparr>"
    by (auto dest: update_success)
  have "out_errors ev obj' = []" by (rule set_fields_out [OF norm v rows_out_ok_get [OF out g] sf])
  then show ?thesis using d' rows_out_ok_replace [OF out] by simp
qed

lemma update_out_db_cases:
  "fst (update_postulacion_out ev pid raw d) = d
   \<or> (\<exists>fs r. validate_update ev raw = Some fs \<and> update pid fs d = Inr (fst (update_postulacion_out ev pid raw d), r))"
  by (auto simp add: update_postulacion_out_def update_postulacion_def
           split: option.split sum.split db_error.split prod.split)

lemma fst_delete_postulacion: "fst (delete_postulacion pid d) = fst (delete pid d)"
  by (simp add: delete_postulacion_def split: prod.split)

text \<open>
  C26. The administrators' writes keep every row serialisable: when every row passes
  \<open>PostulacionOut\<close> and the table invariant holds, a decision, a validated \<open>PATCH\<close> or a
  delete keeps both, and \<open>GET /postulaciones/{pid}\<close> then never answers 500 (it needs
  that normalising an address yields an address that normalises to itself). Only the
  public creation can store a row the response model rejects.
\<close>

theorem admin_edits_keep_rows_out:
  assumes norm: "\<forall>s n. ev s = Some n \<longrightarrow> ev n = Some n"
    and ok: "table_ok d" and out: "rows_out_ok ev d"
    and step: "d' = fst (decidir_postulacion_out ev now pid payload jwt d) \<or> d' = fst (update_postulacion_out ev pid raw d)
               \<or> d' = fst (delete_postulacion pid d)"
  shows "table_ok d' \<and> rows_out_ok ev d' \<and> (\<forall>i. get_postulacion_out ev i d' \<noteq> Inl (500, InternalServerError))"
proof -
  have "table_ok d' \<and> rows_out_ok ev d'"
    using step
  proof (elim disjE)
    assume d': "d' = fst (decidir_postulacion_out ev now pid payload jwt d)"
    then show ?thesis
      using decidir_db_cases [of now pid payload jwt d] ok out decide_table_ok decide_rows_out_ok
      by (auto simp add: decidir_postulacion_out_def)
  next
    assume d': "d' = fst (update_postulacion_out ev pid raw d)"
    then show ?thesis
      using update_out_db_cases [of ev pid raw d] ok out update_table_ok update_rows_out_ok [OF norm out]
      by auto
  next
    assume "d' = fst (delete_postulacion pid d)"
    then show ?thesis using ok out delete_table_ok rows_out_ok_delete by (simp add: fst_delete_postulacion)
  qed
  then show ?thesis using get_out_ok by blast
qed

lemma create_postulacion_upload_saved:
  "save_upload_file_cv cfg fs cv_name ctype chunks (up_nombre form) (up_apellido form) stamp = Inr (fs', saved) \<Longrightarrow>
   create_postulacion_upload cfg fs now stamp cv_name ctype chunks form d
     = (fs', create_postulacion now (Inr saved) cv_name form d)"
  by (simp add: create_postulacion_upload_def split: prod.split)

lemma create_postulacion_row:
  "\<exists>obj ts. create_postulacion now (Inr saved) cv_name form d
       = (d\<lparr>postulaciones := postulaciones d @ [(next_pk d, obj)], next_pk := next_pk d + 1\<rparr>, Inr obj, ts)
     \<and> correo obj = up_correo form"
  by (simp add: create_postulacion_def create_from_upload_def Let_def split: prod.split)

text \<open>
  C12. A public application whose \<open>correo\<close> is no e-mail address is stored and then
  answered with 500: \<open>create_postulacion\<close> takes \<open>correo\<close> as a plain form string, so
  the upload is saved and the row committed, but the response model requires an
  \<open>EmailStr\<close>; the applicant gets an error, the creation is never broadcast, and every
  later \<open>GET /postulaciones/{pid}\<close> of the row answers 500 as well.
\<close>

theorem create_invalid_email_committed:
  assumes ok: "table_ok d"
    and save: "save_upload_file_cv cfg fs cv_name ctype chunks (up_nombre form) (up_apellido form) stamp = Inr (fs', saved)"
    and bad: "ev (up_correo form) = None"
  shows "\<exists>obj. create_postulacion_out ev cfg fs now stamp cv_name ctype chunks form d
            = (fs', d\<lparr>postulaciones := postulaciones d @ [(next_pk d, obj)], next_pk := next_pk d + 1\<rparr>,
               Inl (500, InternalServerError), [])
          \<and> post_id obj = next_pk d \<and> correo obj = up_correo form
          \<and> get_postulacion_out ev (next_pk d)
               (d\<lparr>postulaciones := postulaciones d @ [(next_pk d, obj)], next_pk := next_pk d + 1\<rparr>)
             = Inl (500, InternalServerError)"
proof -
  obtain obj ts where cp: "create_postulacion now (Inr saved) cv_name form d
       = (d\<lparr>postulaciones := postulaciones d @ [(next_pk d, obj)], next_pk := next_pk d + 1\<rparr>, Inr obj, ts)"
    and c: "correo obj = up_correo form"
    using create_postulacion_row by blast
  obtain stored sz mime where sv: "saved = (stored, sz, mime)" by (cases saved)
  have facts: "get (d\<lparr>postulaciones := postulaciones d @ [(next_pk d, obj)], next_pk := next_pk d + 1\<rparr>) (post_id obj) = Some obj"
    and pid: "post_id obj = next_pk d"
    using create_postulacion_facts [OF ok cp [unfolded sv]] create_postulacion_Inr [OF cp [unfolded sv]] by auto
  have e: "out_errors ev obj \<noteq> []" using bad c by (simp add: out_errors_bad_email)
  have "create_postulacion_out ev cfg fs now stamp cv_name ctype chunks form d
          = (fs', d\<lparr>postulaciones := postulaciones d @ [(next_pk d, obj)], next_pk := next_pk d + 1\<rparr>,
             Inl (500, InternalServerError), [])"
    by (simp add: create_postulacion_out_def create_postulacion_upload_saved [OF save] cp serialize_response_bad [OF e])
  moreover have "get_postulacion_out ev (next_pk d)
               (d\<lparr>postulaciones := postulaciones d @ [(next_pk d, obj)], next_pk := next_pk d + 1\<rparr>)
             = Inl (500, InternalServerError)"
    using facts pid out_response_bad [OF e] by (simp add: get_postulacion_out_def get_postulacion_def)
  ultimately show ?thesis using pid c by blast
qed


theorem create_invalid_email_committed_witness:
  "\<exists>obj. create_postulacion_out ev_demo \<lparr>storage_dir = ''storage'', max_cv_mb = 10, allowed_exts = [''.pdf'']\<rparr> [] 600
            (2025, 1, 2, 3, 4, 5) (Some ''cv.pdf'') None [4096, 0] (demo_form\<lparr>up_correo := ''beto''\<rparr>) demo_db
          = ([''storage/cv/beto_paz_20250102_030405.pdf''],
             demo_db\<lparr>postulaciones := postulaciones demo_db @ [(2, obj)], next_pk := 3\<rparr>, Inl (500, InternalServerError), [])
        \<and> correo obj = ''beto''
        \<and> get_postulacion_out ev_demo 2 (demo_db\<lparr>postulaciones := postulaciones demo_db @ [(2, obj)], next_pk := 3\<rparr>)
           = Inl (500, InternalServerError)"
proof -
  have save: "save_upload_file_cv \<lparr>storage_dir = ''storage'', max_cv_mb = 10, allowed_exts = [''.pdf'']\<rparr> []
      (Some ''cv.pdf'') None [4096, 0] (up_nombre (demo_form\<lparr>up_correo := ''beto''\<rparr>))
      (up_apellido (demo_form\<lparr>up_correo := ''beto''\<rparr>)) (2025, 1, 2, 3, 4, 5)
      = Inr ([''storage/cv/beto_paz_20250102_030405.pdf''], (''beto_paz_20250102_030405.pdf'', 4096, ''application/octet-stream''))"
    by code_simp
  have bad: "ev_demo (up_correo (demo_form\<lparr>up_correo := ''beto''\<rparr>)) = None" by (simp add: ev_demo_def)
  have pk: "next_pk demo_db = 2" by (simp add: demo_db_def)
  show ?thesis
    using create_invalid_email_committed [where ev = ev_demo and form = "demo_form\<lparr>up_correo := ''beto''\<rparr>"
        and d = demo_db and now = 600, OF table_ok_demo_db save bad]
    by (simp add: pk) blast
qed

theorem admin_edits_keep_rows_out_witness:
  "table_ok (fst (update_postulacion_out ev_demo 1 [SetCorreo (Some ''ana@y.org''), SetDni (Some ''30111222'')] demo_db))
   \<and> rows_out_ok ev_demo (fst (update_postulacion_out ev_demo 1 [SetCorreo (Some ''ana@y.org''), SetDni (Some ''30111222'')] demo_db))
   \<and> get_postulacion_out ev_demo 1 (fst (update_postulacion_out ev_demo 1 [SetCorreo (Some ''ana@y.org''), SetDni (Some ''30111222'')] demo_db))
       \<noteq> Inl (500, InternalServerError)"
proof -
  have norm: "\<forall>s n. ev_demo s = Some n \<longrightarrow> ev_demo n = Some n" by (simp add: ev_demo_def)
  have out: "rows_out_ok ev_demo demo_db" by code_simp
  show ?thesis
    using admin_edits_keep_rows_out [where now = 0 and payload = "\<lparr>di_estado = ''x'', di_motivo = ''xyz'', di_unidad_id = None, di_puesto_id = None\<rparr>"
        and jwt = PNone and pid = 1 and raw = "[SetCorreo (Some ''ana@y.org''), SetDni (Some ''30111222'')]"
        and d' = "fst (update_postulacion_out ev_demo 1 [SetCorreo (Some ''ana@y.org''), SetDni (Some ''30111222'')] demo_db)",
        OF norm table_ok_demo_db out]
    by blast
qed

end
