(* ===== verification/AppWiring.thy ===== *)
theory AppWiring
  imports Catalogo
begin

text \<open>
  The application object of \<open>src/Api/main.py\<close> as the layers a request passes through,
  and the per-request database session of \<open>src/Api/config/database.py\<close>.

  \<^item> Middleware. \<open>app.add_middleware\<close> inserts at the front of the user middleware
    list, and Starlette wraps the routes so that the first of that list is the outermost:
    \<open>ServerErrorMiddleware\<close>, then the user middlewares, then \<open>ExceptionMiddleware\<close>
    (which turns an \<open>HTTPException\<close> into its response), then the routes. main.py adds
    \<open>CORSMiddleware\<close> first and \<open>ErrorHandler\<close> second, so \<open>ErrorHandler\<close> is outside
    \<open>CORSMiddleware\<close>. The module \<open>middlewares/error_handler.py\<close> is not in the repository:
    \<open>ErrorHandler\<close> is the parameter \<open>eh\<close>, the outcome it makes of an exception that
    reaches it. The routes are the parameter \<open>app\<close>.
  \<^item> CORS. \<open>CORSMiddleware\<close> is Starlette's; its simple-request and preflight answers are
    written out here for the settings main.py passes. \<open>allow_origin_regex=".*"\<close> is
    matched with \<open>re.fullmatch\<close>, which accepts exactly the strings without a line feed.
    Header names are lower case, as Starlette stores them.
  \<^item> Sessions. \<open>get_db\<close> opens a \<open>SessionLocal\<close> (\<open>autocommit=False\<close>), yields it to the
    handler and closes it in \<open>finally\<close>; closing rolls back what was not committed. A
    handler's use of the session is a list of steps: stage a change, commit (the database
    checks its constraints, the parameter \<open>check\<close>), or raise.
\<close>

record http_response =
  status :: nat
  resp_headers :: "(string \<times> string) list"

record request =
  req_method :: string
  req_origin :: "string option"
  acr_method :: "string option"
  acr_headers :: "string option"

datatype app_exc = HttpExc nat | OtherExc string

datatype outcome = Resp http_response | Raise app_exc

record cors_cfg =
  origin_allowed :: "string \<Rightarrow> bool"
  allow_credentials :: bool
  allow_methods :: "string list"
  allow_all_headers :: bool
  expose_headers :: "string list"

datatype middleware = CORS cors_cfg | ErrorHandler

text \<open>Starlette's \<open>ALL_METHODS\<close>, what \<open>allow_methods=["*"]\<close> stands for.\<close>

definition all_methods :: "string list" where
  "all_methods = [''DELETE'', ''GET'', ''HEAD'', ''OPTIONS'', ''PATCH'', ''POST'', ''PUT'']"

fun join_comma_sp :: "string list \<Rightarrow> string" where
  "join_comma_sp [] = []"
| "join_comma_sp [x] = x"
| "join_comma_sp (x # xs) = x @ '', '' @ join_comma_sp xs"

text \<open>main.py's \<open>CORSMiddleware\<close> settings.\<close>

definition app_cors :: cors_cfg where
  "app_cors = \<lparr>origin_allowed = (\<lambda>org. CHR 0x0A \<notin> set org), allow_credentials = True,
     allow_methods = all_methods, allow_all_headers = True,
     expose_headers = [''Content-Disposition'', ''Content-Type'', ''Cache-Control'']\<rparr>"

definition set_headers :: "(string \<times> string) list \<Rightarrow> (string \<times> string) list \<Rightarrow> (string \<times> string) list" where
  "set_headers new hs = foldl (\<lambda>acc (k, v). AList.update k v acc) hs new"

text \<open>\<open>simple_headers\<close> (no \<open>"*"\<close> origin, so no wildcard) and the explicit origin with
  \<open>Vary: Origin\<close> that \<open>simple_response\<close> adds for an allowed origin.\<close>

definition cors_simple :: "cors_cfg \<Rightarrow> string \<Rightarrow> http_response \<Rightarrow> http_response" where
  "cors_simple c org r =
     (let hs = set_headers
                 ((if allow_credentials c then [(''access-control-allow-credentials'', ''true'')] else [])
                  @ (if expose_headers c = [] then [] else [(''access-control-expose-headers'', join_comma_sp (expose_headers c))]))
                 (resp_headers r)
      in r\<lparr>resp_headers := (if origin_allowed c org then set_headers [(''access-control-allow-origin'', org), (''vary'', ''Origin'')] hs
                            else hs)\<rparr>)"

text \<open>\<open>preflight_response\<close>: 400 \<open>Disallowed CORS ...\<close> when the origin or the requested
  method is refused, else 200, with the allowed methods, \<open>max-age\<close> 600, the credentials
  flag, the origin when allowed, and the requested headers echoed back.\<close>

definition cors_preflight :: "cors_cfg \<Rightarrow> string \<Rightarrow> string \<Rightarrow> string option \<Rightarrow> http_response" where
  "cors_preflight c org m rh =
     (let hs = [(''access-control-allow-methods'', join_comma_sp (allow_methods c)), (''access-control-max-age'', ''600'')]
               @ (if allow_credentials c then [(''access-control-allow-credentials'', ''true'')] else [])
               @ [(''vary'', ''Origin'')];
          hs = (if origin_allowed c org then set_headers [(''access-control-allow-origin'', org)] hs else hs);
          hs = (case rh of Some h \<Rightarrow> if allow_all_headers c then set_headers [(''access-control-allow-headers'', h)] hs else hs
                | None \<Rightarrow> hs);
          failures = (if origin_allowed c org then [] else [''origin'']) @ (if m \<in> set (allow_methods c) then [] else [''method''])
      in \<lparr>status = (if failures = [] then 200 else 400), resp_headers = hs\<rparr>)"

definition cors_mw :: "cors_cfg \<Rightarrow> (request \<Rightarrow> outcome) \<Rightarrow> request \<Rightarrow> outcome" where
  "cors_mw c h req =
     (case req_origin req of
       None \<Rightarrow> h req
     | Some org \<Rightarrow>
         if req_method req = ''OPTIONS'' \<and> acr_method req \<noteq> None
         then Resp (cors_preflight c org (the (acr_method req)) (acr_headers req))
         else (case h req of Resp r \<Rightarrow> Resp (cors_simple c org r) | Raise e \<Rightarrow> Raise e))"

text \<open>\<open>ErrorHandler\<close>: the outcome it makes of an exception raised inside it.\<close>

definition error_handler_mw :: "(app_exc \<Rightarrow> outcome) \<Rightarrow> (request \<Rightarrow> outcome) \<Rightarrow> request \<Rightarrow> outcome" where
  "error_handler_mw eh h req = (case h req of Raise e \<Rightarrow> eh e | r \<Rightarrow> r)"

definition exception_mw :: "(request \<Rightarrow> outcome) \<Rightarrow> request \<Rightarrow> outcome" where
  "exception_mw h req = (case h req of Raise (HttpExc s) \<Rightarrow> Resp \<lparr>status = s, resp_headers = []\<rparr> | r \<Rightarrow> r)"

definition server_error_mw :: "(request \<Rightarrow> outcome) \<Rightarrow> request \<Rightarrow> outcome" where
  "server_error_mw h req = (case h req of Raise e \<Rightarrow> Resp \<lparr>status = 500, resp_headers = []\<rparr> | r \<Rightarrow> r)"

fun run_mw :: "(app_exc \<Rightarrow> outcome) \<Rightarrow> middleware \<Rightarrow> (request \<Rightarrow> outcome) \<Rightarrow> request \<Rightarrow> outcome" where
  "run_mw eh (CORS c) h = cors_mw c h"
| "run_mw eh ErrorHandler h = error_handler_mw eh h"

definition add_middleware :: "middleware \<Rightarrow> middleware list \<Rightarrow> middleware list" where
  "add_middleware m ms = m # ms"

text \<open>\<open>build_middleware_stack\<close>: the first user middleware is the outermost.\<close>

definition build_stack :: "(app_exc \<Rightarrow> outcome) \<Rightarrow> middleware list \<Rightarrow> (request \<Rightarrow> outcome) \<Rightarrow> request \<Rightarrow> outcome" where
  "build_stack eh ms app = server_error_mw (foldr (run_mw eh) ms (exception_mw app))"

definition app_middleware :: "middleware list" where
  "app_middleware = add_middleware ErrorHandler (add_middleware (CORS app_cors) [])"

definition main_app :: "(app_exc \<Rightarrow> outcome) \<Rightarrow> (request \<Rightarrow> outcome) \<Rightarrow> request \<Rightarrow> outcome" where
  "main_app eh app = build_stack eh app_middleware app"

text \<open>A handler's use of its session: stage a change on the session's objects, commit
  (the database checks its constraints; a failed commit raises \<open>IntegrityError\<close> and
  leaves the transaction rolled back), or raise. The result is the session and whether
  the handler raised.\<close>

datatype 'd sess_step = Stage "'d \<Rightarrow> 'd" | Commit | Fail

record 'd session =
  sess_committed :: 'd
  sess_work :: 'd

fun run_session :: "('d \<Rightarrow> bool) \<Rightarrow> 'd session \<Rightarrow> 'd sess_step list \<Rightarrow> 'd session \<times> bool" where
  "run_session check s [] = (s, False)"
| "run_session check s (Stage f # st) = run_session check (s\<lparr>sess_work := f (sess_work s)\<rparr>) st"
| "run_session check s (Commit # st) =
     (if check (sess_work s) then run_session check (s\<lparr>sess_committed := sess_work s\<rparr>) st
      else (s\<lparr>sess_work := sess_committed s\<rparr>, True))"
| "run_session check s (Fail # st) = (s, True)"

text \<open>\<open>SessionLocal()\<close> with \<open>autocommit=False\<close>: a new transaction over the stored
  state; \<open>db.close()\<close> ends it, keeping only what was committed.\<close>

definition session_local :: "'d \<Rightarrow> 'd session" where
  "session_local d = \<lparr>sess_committed = d, sess_work = d\<rparr>"

definition session_close :: "'d session \<Rightarrow> 'd" where
  "session_close s = sess_committed s"

text \<open>A request through the dependency \<open>get_db\<close>: open, run the handler, close in
  \<open>finally\<close> whether or not it raised. The result is the stored state after the request
  and whether the handler raised.\<close>

definition get_db :: "('d \<Rightarrow> bool) \<Rightarrow> 'd sess_step list \<Rightarrow> 'd \<Rightarrow> 'd \<times> bool" where
  "get_db check steps d = (case run_session check (session_local d) steps of (s, raised) \<Rightarrow> (session_close s, raised))"

text \<open>What a browser script on the page of origin \<open>o\<close> may read of a credentialed answer.\<close>

definition cors_readable :: "string \<Rightarrow> http_response \<Rightarrow> bool" where
  "cors_readable org r \<longleftrightarrow> map_of (resp_headers r) ''access-control-allow-origin'' = Some org
     \<and> map_of (resp_headers r) ''access-control-allow-credentials'' = Some ''true''"

text \<open>Sample routes and error handler for the witnesses.\<close>

definition demo_eh :: "app_exc \<Rightarrow> outcome" where
  "demo_eh e = Resp \<lparr>status = 500, resp_headers = [(''content-type'', ''application/json'')]\<rparr>"

definition demo_routes :: "request \<Rightarrow> outcome" where
  "demo_routes req = (if req_method req = ''GET'' then Resp \<lparr>status = 200, resp_headers = []\<rparr>
                      else if req_method req = ''DELETE'' then Raise (HttpExc 404) else Raise (OtherExc ''boom''))"

definition demo_req :: "string \<Rightarrow> string option \<Rightarrow> request" where
  "demo_req m a = \<lparr>req_method = m, req_origin = Some ''https://evil.example'', acr_method = a, acr_headers = Some ''authorization''\<rparr>"

lemma run_session_committed:
  "check (sess_committed s) \<Longrightarrow> check (sess_committed (fst (run_session check s steps)))"
  by (induction check s steps rule: run_session.induct) auto

lemma run_session_no_commit:
  "Commit \<notin> set steps \<Longrightarrow> sess_committed (fst (run_session check s steps)) = sess_committed s"
  by (induction check s steps rule: run_session.induct) auto

lemma fst_get_db: "fst (get_db check steps d) = sess_committed (fst (run_session check (session_local d) steps))"
  by (simp add: get_db_def session_close_def case_prod_beta)

lemma get_db_constraints: "check d \<Longrightarrow> check (fst (get_db check steps d))"
  using run_session_committed [of check "session_local d" steps]
  by (simp add: fst_get_db session_local_def)

lemma get_db_no_commit: "Commit \<notin> set steps \<Longrightarrow> fst (get_db check steps d) = d"
  using run_session_no_commit [of steps check "session_local d"]
  by (simp add: fst_get_db session_local_def)

lemma get_db_cat_commit:
  "get_db cat_constraints [Stage f, Commit] d
     = (case cat_commit (f d) of Inl _ \<Rightarrow> (d, True) | Inr d' \<Rightarrow> (d', False))"
  by (simp add: get_db_def session_local_def session_close_def cat_commit_def)

lemma map_of_set_headers: "map_of (set_headers new hs) = map_of hs ++ map_of (rev new)"
proof (induction new arbitrary: hs)
  case Nil
  then show ?case by (simp add: set_headers_def)
next
  case (Cons x new)
  obtain a b where x: "x = (a, b)" by (cases x)
  have "set_headers (x # new) hs = set_headers new (AList.update a b hs)" by (simp add: set_headers_def x)
  then show ?case using Cons.IH [of "AList.update a b hs"]
    by (simp add: x map_of_append update_conv' fun_eq_iff map_add_def split: option.split)
qed

lemma cors_simple_readable:
  "origin_allowed c org \<Longrightarrow> allow_credentials c \<Longrightarrow> cors_readable org (cors_simple c org r) \<and> status (cors_simple c org r) = status r"
  by (simp add: cors_simple_def cors_readable_def Let_def map_of_set_headers)

lemma main_app_unfold:
  "main_app eh app req =
     server_error_mw (error_handler_mw eh (cors_mw app_cors (exception_mw app))) req"
  by (simp add: main_app_def build_stack_def app_middleware_def add_middleware_def)

lemma app_cors_simps [simp]:
  "origin_allowed app_cors org \<longleftrightarrow> CHR 0x0A \<notin> set org" "allow_credentials app_cors"
  "allow_methods app_cors = all_methods" "allow_all_headers app_cors"
  by (simp_all add: app_cors_def)

lemma preflight_readable:
  "CHR 0x0A \<notin> set org \<Longrightarrow> m \<in> set all_methods \<Longrightarrow>
   status (cors_preflight app_cors org m rh) = 200 \<and> cors_readable org (cors_preflight app_cors org m rh)"
  by (simp add: cors_preflight_def cors_readable_def Let_def map_of_set_headers split: option.split)

text \<open>
  C40. CORS admits every origin with credentials. For any \<open>Origin\<close> without a line
  feed, a preflight for any method is answered 200 with that origin allowed, and every
  answer of a route or \<open>HTTPException\<close> carries \<open>Access-Control-Allow-Origin\<close> equal to
  the requesting origin and \<open>Access-Control-Allow-Credentials: true\<close>, so a script on
  any site can read the API's answers; main.py's comment asks for explicit origins, not
  \<open>"*"\<close>. An exception no route handles is answered by \<open>ErrorHandler\<close> outside the
  CORS layer, so its answer gets no CORS header at all (the comment's "CORS first"
  puts it innermost).
\<close>

theorem cors_any_origin:
  assumes nl: "CHR 0x0A \<notin> set org" and req: "req_origin req = Some org"
  shows "(req_method req = ''OPTIONS'' \<and> acr_method req = Some m \<and> m \<in> set all_methods \<longrightarrow>
            (\<exists>r. main_app eh app req = Resp r \<and> status r = 200 \<and> cors_readable org r))
       \<and> (\<not> (req_method req = ''OPTIONS'' \<and> acr_method req \<noteq> None) \<longrightarrow>
            (\<forall>r. app req = Resp r \<longrightarrow> (\<exists>r'. main_app eh app req = Resp r' \<and> status r' = status r \<and> cors_readable org r'))
          \<and> (\<forall>s. app req = Raise (HttpExc s) \<longrightarrow> (\<exists>r'. main_app eh app req = Resp r' \<and> status r' = s \<and> cors_readable org r'))
          \<and> (\<forall>x. app req = Raise (OtherExc x) \<longrightarrow>
                main_app eh app req = (case eh (OtherExc x) of Resp r \<Rightarrow> Resp r
                                        | Raise _ \<Rightarrow> Resp \<lparr>status = 500, resp_headers = []\<rparr>)))"
proof (intro conjI impI allI)
  assume "req_method req = ''OPTIONS'' \<and> acr_method req = Some m \<and> m \<in> set all_methods"
  then show "\<exists>r. main_app eh app req = Resp r \<and> status r = 200 \<and> cors_readable org r"
    using preflight_readable [OF nl, of m "acr_headers req"] req
    by (simp add: main_app_unfold cors_mw_def error_handler_mw_def server_error_mw_def)
next
  fix r assume simple: "\<not> (req_method req = ''OPTIONS'' \<and> acr_method req \<noteq> None)" and a: "app req = Resp r"
  show "\<exists>r'. main_app eh app req = Resp r' \<and> status r' = status r \<and> cors_readable org r'"
    using cors_simple_readable [of app_cors org r] nl req simple a
    by (auto simp add: main_app_unfold cors_mw_def error_handler_mw_def server_error_mw_def exception_mw_def)
next
  fix s assume simple: "\<not> (req_method req = ''OPTIONS'' \<and> acr_method req \<noteq> None)" and a: "app req = Raise (HttpExc s)"
  show "\<exists>r'. main_app eh app req = Resp r' \<and> status r' = s \<and> cors_readable org r'"
    using cors_simple_readable [of app_cors org "\<lparr>status = s, resp_headers = []\<rparr>"] nl req simple a
    by (auto simp add: main_app_unfold cors_mw_def error_handler_mw_def server_error_mw_def exception_mw_def)
next
  fix x assume simple: "\<not> (req_method req = ''OPTIONS'' \<and> acr_method req \<noteq> None)" and a: "app req = Raise (OtherExc x)"
  show "main_app eh app req = (case eh (OtherExc x) of Resp r \<Rightarrow> Resp r
                                        | Raise _ \<Rightarrow> Resp \<lparr>status = 500, resp_headers = []\<rparr>)"
    using req simple a
    by (auto simp add: main_app_unfold cors_mw_def error_handler_mw_def server_error_mw_def exception_mw_def
             split: outcome.split)
qed

theorem cors_any_origin_witness:
  "(\<exists>r. main_app demo_eh demo_routes (demo_req ''GET'' None) = Resp r \<and> status r = 200 \<and> cors_readable ''https://evil.example'' r)
   \<and> (\<exists>r. main_app demo_eh demo_routes (demo_req ''DELETE'' None) = Resp r \<and> status r = 404 \<and> cors_readable ''https://evil.example'' r)
   \<and> main_app demo_eh demo_routes (demo_req ''POST'' None) = Resp \<lparr>status = 500, resp_headers = [(''content-type'', ''application/json'')]\<rparr>
   \<and> (\<exists>r. main_app demo_eh demo_routes (demo_req ''OPTIONS'' (Some ''DELETE'')) = Resp r \<and> status r = 200
          \<and> cors_readable ''https://evil.example'' r)"
proof -
  have nl: "CHR 0x0A \<notin> set ''https://evil.example''" by simp
  have o: "req_origin (demo_req m a) = Some ''https://evil.example''" for m a by (simp add: demo_req_def)
  note w = cors_any_origin [OF nl o, where eh = demo_eh and app = demo_routes]
  have "(\<exists>r. main_app demo_eh demo_routes (demo_req ''GET'' None) = Resp r \<and> status r = 200 \<and> cors_readable ''https://evil.example'' r)"
    using w [of "''GET''" None "''GET''"] by (simp add: demo_req_def demo_routes_def)
  moreover have "(\<exists>r. main_app demo_eh demo_routes (demo_req ''DELETE'' None) = Resp r \<and> status r = 404 \<and> cors_readable ''https://evil.example'' r)"
    using w [of "''DELETE''" None "''GET''"] by (simp add: demo_req_def demo_routes_def)
  moreover have "main_app demo_eh demo_routes (demo_req ''POST'' None) = Resp \<lparr>status = 500, resp_headers = [(''content-type'', ''application/json'')]\<rparr>"
    using w [of "''POST''" None "''GET''"] by (simp add: demo_req_def demo_routes_def demo_eh_def)
  moreover have "(\<exists>r. main_app demo_eh demo_routes (demo_req ''OPTIONS'' (Some ''DELETE'')) = Resp r \<and> status r = 200
          \<and> cors_readable ''https://evil.example'' r)"
    using w [of "''OPTIONS''" "Some ''DELETE''" "''DELETE''"] by (simp add: demo_req_def all_methods_def)
  ultimately show ?thesis by blast
qed

end
