(* ===== verification/UserSchemas.thy ===== *)
theory UserSchemas
  imports Usuarios
begin

text \<open>
  The pydantic schemas of \<open>src/Api/schemas/usuarios.py\<close> as FastAPI applies them to the
  handlers of \<open>src/Api/routers/usuarios.py\<close>: the request bodies \<open>UsuarioCreate\<close>,
  \<open>UsuarioUpdate\<close> and \<open>UserLogin\<close> (a body that fails is answered 422 before the
  handler runs, after the \<open>JWTBearer\<close> dependency), and the response model
  \<open>UsuarioOut\<close>, also the \<open>user\<close> field of \<open>AuthResponse\<close> (a returned user that
  fails it is a 500). \<open>EmailStr\<close> is the parameter \<open>ev\<close>, as in \<open>ResponseModel\<close>: the
  normalised address, or \<open>None\<close>. Strings are ASCII, so lengths count characters.
\<close>

datatype req_error = Unprocessable | Rejected user_detail | ResponseInvalid

type_synonym 'a rresponse = "req_error + 'a"

text \<open>\<open>UsuarioCreate\<close>: \<open>UsuarioBase\<close> (\<open>apellido\<close> and \<open>nombre\<close> 2 to 50 characters,
  \<open>correo\<close> an \<open>EmailStr\<close>, \<open>role\<close> defaulting to \<open>user\<close>) and a password of 8 to 128.\<close>

definition validate_usuario_create ::
  "(string \<Rightarrow> string option) \<Rightarrow> string \<Rightarrow> string \<Rightarrow> string \<Rightarrow> string option \<Rightarrow> string \<Rightarrow> usuario_create option" where
  "validate_usuario_create ev ap no co ro pw =
     (case ev co of
       None \<Rightarrow> None
     | Some c \<Rightarrow>
         if len_between 2 50 ap \<and> len_between 2 50 no \<and> len_between 8 128 pw
         then Some \<lparr>uc_apellido = ap, uc_nombre = no, uc_correo = c,
                    uc_role = (case ro of None \<Rightarrow> ''user'' | Some r \<Rightarrow> r), uc_password = pw\<rparr>
         else None)"

text \<open>\<open>UsuarioUpdate\<close>: every field optional; a password of 6 to 128 characters.\<close>

fun validate_u_field :: "(string \<Rightarrow> string option) \<Rightarrow> usuario_update \<Rightarrow> usuario_update option" where
  "validate_u_field ev (UApellido v) =
     (case v of None \<Rightarrow> Some (UApellido None) | Some s \<Rightarrow> if len_between 2 50 s then Some (UApellido v) else None)"
| "validate_u_field ev (UNombre v) =
     (case v of None \<Rightarrow> Some (UNombre None) | Some s \<Rightarrow> if len_between 2 50 s then Some (UNombre v) else None)"
| "validate_u_field ev (UCorreo v) =
     (case v of None \<Rightarrow> Some (UCorreo None) | Some s \<Rightarrow> map_option (\<lambda>c. UCorreo (Some c)) (ev s))"
| "validate_u_field ev (URole v) = Some (URole v)"
| "validate_u_field ev (UPassword v) =
     (case v of None \<Rightarrow> Some (UPassword None) | Some s \<Rightarrow> if len_between 6 128 s then Some (UPassword v) else None)"

fun validate_usuario_update :: "(string \<Rightarrow> string option) \<Rightarrow> usuario_update list \<Rightarrow> usuario_update list option" where
  "validate_usuario_update ev [] = Some []"
| "validate_usuario_update ev (f # fs) =
     (case validate_u_field ev f of
       None \<Rightarrow> None
     | Some g \<Rightarrow> map_option (Cons g) (validate_usuario_update ev fs))"

text \<open>\<open>UserLogin\<close>: an \<open>EmailStr\<close> and a password of 8 to 128 characters.\<close>

definition validate_user_login :: "(string \<Rightarrow> string option) \<Rightarrow> string \<Rightarrow> string \<Rightarrow> (string \<times> string) option" where
  "validate_user_login ev email pw =
     (case ev email of None \<Rightarrow> None | Some e \<Rightarrow> if len_between 8 128 pw then Some (e, pw) else None)"

text \<open>\<open>UsuarioOut\<close> of a stored user: the constraints of \<open>UsuarioBase\<close> again.\<close>

definition usuario_out_ok :: "(string \<Rightarrow> string option) \<Rightarrow> usuario \<Rightarrow> bool" where
  "usuario_out_ok ev u \<longleftrightarrow> len_between 2 50 (u_apellido u) \<and> len_between 2 50 (u_nombre u) \<and> ev (u_correo u) \<noteq> None"

definition out_user :: "(string \<Rightarrow> string option) \<Rightarrow> usuario uresponse \<Rightarrow> usuario rresponse" where
  "out_user ev r =
     (case r of Inl e \<Rightarrow> Inl (Rejected e) | Inr u \<Rightarrow> if usuario_out_ok ev u then Inr u else Inl ResponseInvalid)"

text \<open>The handlers as the client calls them: the token first, then the body, then the
  handler and its response model.\<close>

definition create_usuario_req ::
  "(string \<Rightarrow> string option) \<Rightarrow> jwt_cfg \<Rightarrow> int \<Rightarrow> auth_header \<Rightarrow> string \<Rightarrow> string \<Rightarrow> string \<Rightarrow> string option \<Rightarrow> string \<Rightarrow>
   udb \<Rightarrow> udb \<times> usuario rresponse" where
  "create_usuario_req ev cfg now h ap no co ro pw d =
     (case jwt_bearer cfg now h of
       Inl e \<Rightarrow> (d, Inl (Rejected (AuthDetail e)))
     | Inr _ \<Rightarrow>
         (case validate_usuario_create ev ap no co ro pw of
           None \<Rightarrow> (d, Inl Unprocessable)
         | Some payload \<Rightarrow> (case create_usuario cfg now h payload d of (d', r) \<Rightarrow> (d', out_user ev r))))"

definition update_usuario_req ::
  "(string \<Rightarrow> string option) \<Rightarrow> jwt_cfg \<Rightarrow> int \<Rightarrow> auth_header \<Rightarrow> int \<Rightarrow> usuario_update list \<Rightarrow> udb \<Rightarrow>
   udb \<times> usuario rresponse" where
  "update_usuario_req ev cfg now h user_id raw d =
     (case jwt_bearer cfg now h of
       Inl e \<Rightarrow> (d, Inl (Rejected (AuthDetail e)))
     | Inr _ \<Rightarrow>
         (case validate_usuario_update ev raw of
           None \<Rightarrow> (d, Inl Unprocessable)
         | Some payload \<Rightarrow> (case update_usuario cfg now h user_id payload d of (d', r) \<Rightarrow> (d', out_user ev r))))"

definition login_req ::
  "(string \<Rightarrow> string option) \<Rightarrow> jwt_cfg \<Rightarrow> int \<Rightarrow> string \<Rightarrow> string \<Rightarrow> udb \<Rightarrow> (token \<times> usuario \<times> int) rresponse" where
  "login_req ev cfg now email pw d =
     (case validate_user_login ev email pw of
       None \<Rightarrow> Inl Unprocessable
     | Some (e, p) \<Rightarrow>
         (case login cfg now e p d of
           Inl err \<Rightarrow> Inl (Rejected err)
         | Inr (tok, u, n) \<Rightarrow> if usuario_out_ok ev u then Inr (tok, u, n) else Inl ResponseInvalid))"

lemma get_by_email_mem: "get_by_email d e = Some x \<Longrightarrow> \<exists>k. (k, x) \<in> set (usuarios d)"
  by (auto simp add: get_by_email_def find_Some_iff case_prod_beta dest!: nth_mem) (metis prod.collapse)

lemma hash_password_inj: "hash_password a = hash_password b \<Longrightarrow> a = b"
  by (simp add: hash_password_def)

lemma users_ok_key: "users_ok d \<Longrightarrow> (k, x) \<in> set (usuarios d) \<Longrightarrow> u_get d (u_id x) = Some x"
  by (auto simp add: users_ok_iff u_get_def dict_ok_def)

lemma update_password_req_Inr:
  assumes run: "update_usuario_req ev cfg now h uid [UPassword (Some p)] d = (d', Inr u)"
  shows "len_between 6 128 p \<and> u_update uid [UPassword (Some (hash_password p))] d = Inr (d', Some u)"
proof -
  have v: "len_between 6 128 p" and ne: "p \<noteq> []"
    using run by (auto simp add: update_usuario_req_def len_between_def split: sum.splits if_splits)
  have hu: "map hash_update [UPassword (Some p)] = [UPassword (Some (hash_password p))]"
    using ne by (simp add: hash_update_def)
  have "u_update uid [UPassword (Some (hash_password p))] d = Inr (d', Some u)"
    using run v hu
    by (auto simp add: update_usuario_req_def update_usuario_def out_user_def
             split: sum.splits u_db_error.splits option.splits prod.splits if_splits)
  with v show ?thesis by blast
qed

lemma u_update_Some:
  "u_update i fs d = Inr (d', Some u) \<Longrightarrow> d' = d\<lparr>usuarios := AList.update i u (usuarios d)\<rparr>
     \<and> (\<exists>old. u_get d i = Some old \<and> u_set_fields old fs = Some u)"
  by (auto simp add: u_update_def split: option.splits if_splits)

lemma login_req_Inr:
  "login_req ev cfg t e pw d = Inr (tok, usr, n) \<Longrightarrow>
   \<exists>e' pw'. len_between 8 128 pw' \<and> get_by_email d e' = Some usr \<and> u_password usr = hash_password pw'"
  by (auto simp add: login_req_def validate_user_login_def split: option.splits sum.splits prod.splits if_splits
           dest!: login_Inr)

text \<open>
  C20. A password change locks the user out. \<open>UsuarioUpdate\<close> accepts a password of 6
  or 7 characters, but \<open>UserLogin\<close> requires at least 8: after a successful
  \<open>PATCH /usuarios/{id}\<close> that sets such a password, the user is stored with its hash,
  and no login request, with any e-mail and any password, yields that user again
  (the right password is refused with 422, every other one fails the hash check).
\<close>

theorem short_password_locks_out:
  assumes ok: "users_ok d"
    and upd: "update_usuario_req ev cfg now h uid [UPassword (Some p)] d = (d', Inr u)"
    and short: "length p < 8"
  shows "6 \<le> length p \<and> u_get d' uid = Some u \<and> u_password u = hash_password p
         \<and> (\<forall>t e pw tok usr n. login_req ev cfg t e pw d' = Inr (tok, usr, n) \<longrightarrow> u_id usr \<noteq> uid)"
proof -
  obtain v: "len_between 6 128 p" and uu: "u_update uid [UPassword (Some (hash_password p))] d = Inr (d', Some u)"
    using update_password_req_Inr [OF upd] by blast
  obtain old where d': "d' = d\<lparr>usuarios := AList.update uid u (usuarios d)\<rparr>"
    and sf: "u_set_fields old [UPassword (Some (hash_password p))] = Some u"
    using u_update_Some [OF uu] by blast
  have pw: "u_password u = hash_password p" using sf by auto
  have ok': "users_ok d'" by (rule u_update_ok [OF ok uu])
  have g: "u_get d' uid = Some u" using d' by (simp add: u_get_def)
  have "u_id usr \<noteq> uid" if l: "login_req ev cfg t e pw d' = Inr (tok, usr, n)" for t e pw tok usr n
  proof
    assume id: "u_id usr = uid"
    obtain e' pw' where len: "len_between 8 128 pw'" and ge: "get_by_email d' e' = Some usr"
      and hp: "u_password usr = hash_password pw'"
      using login_req_Inr [OF l] by blast
    obtain k where "(k, usr) \<in> set (usuarios d')" using get_by_email_mem [OF ge] by blast
    then have "u_get d' uid = Some usr" using users_ok_key [OF ok'] id by blast
    with g have "usr = u" by simp
    with hp pw have "pw' = p" by (simp add: hash_password_inj)
    with len short show False by (simp add: len_between_def)
  qed
  with v g pw show ?thesis by (simp add: len_between_def)
qed

theorem short_password_locks_out_witness:
  "update_usuario_req (\<lambda>s. if CHR ''@'' \<in> set s then Some s else None) demo_jwt 100
      (Some (''Bearer'', Some (create_token demo_jwt 0 ''beto@x.org'' [(''uid'', PInt 2), (''role'', PStr ''user'')])))
      2 [UPassword (Some ''abc123'')] demo_users
     = (demo_users\<lparr>usuarios := AList.update 2 (snd (usuarios demo_users ! 1)\<lparr>u_password := hash_password ''abc123''\<rparr>) (usuarios demo_users)\<rparr>,
        Inr (snd (usuarios demo_users ! 1)\<lparr>u_password := hash_password ''abc123''\<rparr>))
   \<and> u_get (demo_users\<lparr>usuarios := AList.update 2 (snd (usuarios demo_users ! 1)\<lparr>u_password := hash_password ''abc123''\<rparr>) (usuarios demo_users)\<rparr>) 2
       = Some (snd (usuarios demo_users ! 1)\<lparr>u_password := hash_password ''abc123''\<rparr>)
   \<and> login_req (\<lambda>s. if CHR ''@'' \<in> set s then Some s else None) demo_jwt 200 ''beto@x.org'' ''abc123''
       (demo_users\<lparr>usuarios := AList.update 2 (snd (usuarios demo_users ! 1)\<lparr>u_password := hash_password ''abc123''\<rparr>) (usuarios demo_users)\<rparr>)
     = Inl Unprocessable"
proof -
  have run: "update_usuario_req (\<lambda>s. if CHR ''@'' \<in> set s then Some s else None) demo_jwt 100
      (Some (''Bearer'', Some (create_token demo_jwt 0 ''beto@x.org'' [(''uid'', PInt 2), (''role'', PStr ''user'')])))
      2 [UPassword (Some ''abc123'')] demo_users
     = (demo_users\<lparr>usuarios := AList.update 2 (snd (usuarios demo_users ! 1)\<lparr>u_password := hash_password ''abc123''\<rparr>) (usuarios demo_users)\<rparr>,
        Inr (snd (usuarios demo_users ! 1)\<lparr>u_password := hash_password ''abc123''\<rparr>))"
    by code_simp
  have lg: "login_req (\<lambda>s. if CHR ''@'' \<in> set s then Some s else None) demo_jwt 200 ''beto@x.org'' ''abc123''
       (demo_users\<lparr>usuarios := AList.update 2 (snd (usuarios demo_users ! 1)\<lparr>u_password := hash_password ''abc123''\<rparr>) (usuarios demo_users)\<rparr>)
     = Inl Unprocessable"
    by code_simp
  have "length ''abc123'' < 8" by simp
  with short_password_locks_out [OF users_ok_demo run] lg run show ?thesis by blast
qed

end
