(* ===== verification/CatSchemas.thy ===== *)
theory CatSchemas
  imports Catalogo
begin

text \<open>
  The pydantic schemas of \<open>src/Api/schemas/puestos.py\<close> and
  \<open>src/Api/schemas/unidades_negocio.py\<close> as FastAPI applies them to the handlers of the
  two catalogue routers: the request bodies (\<open>PuestoCreate\<close>, \<open>PuestoUpdate\<close>,
  \<open>UnidadNegocioCreate\<close>, \<open>UnidadNegocioUpdate\<close>; a body that fails is a 422, after the
  guard of the route) and the response models (\<open>PuestoOut\<close>, \<open>UnidadNegocioOutFull\<close> with
  its embedded \<open>PuestoOut\<close> list; a returned value that fails is a 500). The handlers
  are \<open>Catalogo\<close>'s; \<open>Catalogo\<close> takes the validated bodies, this theory adds the
  validation around them.
\<close>

datatype cat_req_error = CUnprocessable | CRejected cat_detail | CResponseInvalid

type_synonym 'a creq = "cat_req_error + 'a"

text \<open>A body whose fields are validated one by one: all pass, or the request is a 422.\<close>

fun validate_each :: "('a \<Rightarrow> 'a option) \<Rightarrow> 'a list \<Rightarrow> 'a list option" where
  "validate_each v [] = Some []"
| "validate_each v (f # fs) = (case v f of None \<Rightarrow> None | Some g \<Rightarrow> map_option (Cons g) (validate_each v fs))"

text \<open>\<open>PuestoBase\<close> and \<open>PuestoCreate\<close>: \<open>nombre\<close> 1 to 80 characters, \<open>descripcion\<close> at
  most 255, \<open>activo\<close> defaulting to true, a required \<open>unidad_id\<close>.\<close>

definition validate_puesto_create :: "string \<Rightarrow> string option \<Rightarrow> bool option \<Rightarrow> int \<Rightarrow> puesto_create option" where
  "validate_puesto_create n desc act uid =
     (if len_between 1 80 n \<and> max_len_opt 255 desc
      then Some \<lparr>puc_nombre = n, puc_descripcion = desc, puc_activo = (case act of None \<Rightarrow> True | Some b \<Rightarrow> b),
                 puc_unidad_id = uid\<rparr>
      else None)"

fun validate_pu_field :: "puesto_update \<Rightarrow> puesto_update option" where
  "validate_pu_field (PuNombre v) =
     (case v of None \<Rightarrow> Some (PuNombre None) | Some s \<Rightarrow> if len_between 1 80 s then Some (PuNombre v) else None)"
| "validate_pu_field (PuDescripcion v) = (if max_len_opt 255 v then Some (PuDescripcion v) else None)"
| "validate_pu_field f = Some f"

text \<open>\<open>UnidadNegocioBase\<close> and \<open>UnidadNegocioCreate\<close>: \<open>nombre\<close> 2 to 80 characters,
  \<open>descripcion\<close> at most 255, \<open>activo\<close> defaulting to true.\<close>

definition validate_unidad_create :: "string \<Rightarrow> string option \<Rightarrow> bool option \<Rightarrow> unidad_create option" where
  "validate_unidad_create n desc act =
     (if len_between 2 80 n \<and> max_len_opt 255 desc
      then Some \<lparr>unc_nombre = n, unc_descripcion = desc, unc_activo = (case act of None \<Rightarrow> True | Some b \<Rightarrow> b)\<rparr>
      else None)"

fun validate_un_field :: "unidad_update \<Rightarrow> unidad_update option" where
  "validate_un_field (UnNombre v) =
     (case v of None \<Rightarrow> Some (UnNombre None) | Some s \<Rightarrow> if len_between 2 80 s then Some (UnNombre v) else None)"
| "validate_un_field (UnDescripcion v) = (if max_len_opt 255 v then Some (UnDescripcion v) else None)"
| "validate_un_field f = Some f"

text \<open>The response models: \<open>PuestoOut\<close> (\<open>PuestoBase\<close> with \<open>id\<close> and \<open>unidad_id\<close>),
  \<open>UnidadNegocioOut\<close> and \<open>UnidadNegocioOutFull\<close> (with its positions).\<close>

definition puesto_out_ok :: "puesto \<Rightarrow> bool" where
  "puesto_out_ok p \<longleftrightarrow> len_between 1 80 (pu_nombre p) \<and> max_len_opt 255 (pu_descripcion p)"

definition unidad_out_ok :: "unidad \<Rightarrow> bool" where
  "unidad_out_ok u \<longleftrightarrow> len_between 2 80 (un_nombre u) \<and> max_len_opt 255 (un_descripcion u)"

definition unidad_full_ok :: "unidad \<times> puesto list \<Rightarrow> bool" where
  "unidad_full_ok r \<longleftrightarrow> unidad_out_ok (fst r) \<and> list_all puesto_out_ok (snd r)"

definition out_checked :: "('a \<Rightarrow> bool) \<Rightarrow> 'a cresponse \<Rightarrow> 'a creq" where
  "out_checked ok r = (case r of Inl e \<Rightarrow> Inl (CRejected e) | Inr x \<Rightarrow> if ok x then Inr x else Inl CResponseInvalid)"

text \<open>The handlers as the client calls them.\<close>

definition list_puestos_out :: "string option \<Rightarrow> bool \<Rightarrow> cdb \<Rightarrow> puesto list creq" where
  "list_puestos_out api_key inc d = out_checked (list_all puesto_out_ok) (list_puestos api_key inc d)"

definition create_puesto_req ::
  "jwt_cfg \<Rightarrow> int \<Rightarrow> auth_header \<Rightarrow> string \<Rightarrow> string option \<Rightarrow> bool option \<Rightarrow> int \<Rightarrow> cdb \<Rightarrow> cdb \<times> puesto creq" where
  "create_puesto_req cfg now h n desc act uid d =
     (case admin_required cfg now h of
       Inl e \<Rightarrow> (d, Inl (CRejected (CAuth e)))
     | Inr _ \<Rightarrow>
         (case validate_puesto_create n desc act uid of
           None \<Rightarrow> (d, Inl CUnprocessable)
         | Some payload \<Rightarrow> (case create_puesto cfg now h payload d of (d', r) \<Rightarrow> (d', out_checked puesto_out_ok r))))"

definition update_puesto_req ::
  "jwt_cfg \<Rightarrow> int \<Rightarrow> auth_header \<Rightarrow> int \<Rightarrow> puesto_update list \<Rightarrow> cdb \<Rightarrow> cdb \<times> puesto creq" where
  "update_puesto_req cfg now h pid raw d =
     (case admin_required cfg now h of
       Inl e \<Rightarrow> (d, Inl (CRejected (CAuth e)))
     | Inr _ \<Rightarrow>
         (case validate_each validate_pu_field raw of
           None \<Rightarrow> (d, Inl CUnprocessable)
         | Some payload \<Rightarrow> (case update_puesto cfg now h pid payload d of (d', r) \<Rightarrow> (d', out_checked puesto_out_ok r))))"

definition list_unidades_out :: "string option \<Rightarrow> bool \<Rightarrow> cdb \<Rightarrow> (unidad \<times> puesto list) list creq" where
  "list_unidades_out api_key inc d = out_checked (list_all unidad_full_ok) (list_unidades api_key inc d)"

definition get_unidad_out :: "string option \<Rightarrow> int \<Rightarrow> cdb \<Rightarrow> (unidad \<times> puesto list) creq" where
  "get_unidad_out api_key uid d = out_checked unidad_full_ok (get_unidad api_key uid d)"

definition create_unidad_req ::
  "jwt_cfg \<Rightarrow> int \<Rightarrow> auth_header \<Rightarrow> string \<Rightarrow> string option \<Rightarrow> bool option \<Rightarrow> cdb \<Rightarrow> cdb \<times> (unidad \<times> puesto list) creq" where
  "create_unidad_req cfg now h n desc act d =
     (case admin_required cfg now h of
       Inl e \<Rightarrow> (d, Inl (CRejected (CAuth e)))
     | Inr _ \<Rightarrow>
         (case validate_unidad_create n desc act of
           None \<Rightarrow> (d, Inl CUnprocessable)
         | Some payload \<Rightarrow> (case create_unidad cfg now h payload d of (d', r) \<Rightarrow> (d', out_checked unidad_full_ok r))))"

definition update_unidad_req ::
  "jwt_cfg \<Rightarrow> int \<Rightarrow> auth_header \<Rightarrow> int \<Rightarrow> unidad_update list \<Rightarrow> cdb \<Rightarrow> cdb \<times> (unidad \<times> puesto list) creq" where
  "update_unidad_req cfg now h uid raw d =
     (case admin_required cfg now h of
       Inl e \<Rightarrow> (d, Inl (CRejected (CAuth e)))
     | Inr _ \<Rightarrow>
         (case validate_each validate_un_field raw of
           None \<Rightarrow> (d, Inl CUnprocessable)
         | Some payload \<Rightarrow> (case update_unidad cfg now h uid payload d of (d', r) \<Rightarrow> (d', out_checked unidad_full_ok r))))"

text \<open>Every stored row passes its response model.\<close>

definition cat_out_ok :: "cdb \<Rightarrow> bool" where
  "cat_out_ok d \<longleftrightarrow> list_all (unidad_out_ok \<circ> snd) (unidades d) \<and> list_all (puesto_out_ok \<circ> snd) (puestos d)"

lemma list_all_snd_update:
  "list_all (P \<circ> snd) d \<Longrightarrow> P v \<Longrightarrow> list_all (P \<circ> snd) (AList.update k v d)"
  using set_update_subset [of k v d] by (auto simp add: list_all_iff)

lemma list_all_snd_delete: "list_all (P \<circ> snd) d \<Longrightarrow> list_all (P \<circ> snd) (AList.delete k d)"
  by (auto simp add: list_all_iff set_delete)

lemma pu_set_fields_out:
  "validate_each validate_pu_field fs = Some gs \<Longrightarrow> puesto_out_ok p \<Longrightarrow> pu_set_fields p gs = Some p' \<Longrightarrow>
   puesto_out_ok p'"
proof (induction fs arbitrary: gs p)
  case Nil
  then show ?case by auto
next
  case (Cons f fs)
  from Cons.prems(1) obtain g gs' where vf: "validate_pu_field f = Some g"
    and vs: "validate_each validate_pu_field fs = Some gs'" and gs: "gs = g # gs'"
    by (auto split: option.splits)
  from Cons.prems(3) gs obtain p1 where s1: "pu_set_field p g = Some p1" and s2: "pu_set_fields p1 gs' = Some p'"
    by (auto split: option.splits)
  have "puesto_out_ok p1"
    using vf Cons.prems(2) s1 by (cases f) (auto simp add: puesto_out_ok_def split: option.splits if_splits)
  then show ?case using Cons.IH [OF vs _ s2] by blast
qed

lemma un_set_fields_out:
  "validate_each validate_un_field fs = Some gs \<Longrightarrow> unidad_out_ok u \<Longrightarrow> un_set_fields u gs = Some u' \<Longrightarrow>
   unidad_out_ok u'"
proof (induction fs arbitrary: gs u)
  case Nil
  then show ?case by auto
next
  case (Cons f fs)
  from Cons.prems(1) obtain g gs' where vf: "validate_un_field f = Some g"
    and vs: "validate_each validate_un_field fs = Some gs'" and gs: "gs = g # gs'"
    by (auto split: option.splits)
  from Cons.prems(3) gs obtain u1 where s1: "un_set_field u g = Some u1" and s2: "un_set_fields u1 gs' = Some u'"
    by (auto split: option.splits)
  have "unidad_out_ok u1"
    using vf Cons.prems(2) s1 by (cases f) (auto simp add: unidad_out_ok_def split: option.splits if_splits)
  then show ?case using Cons.IH [OF vs _ s2] by blast
qed

lemma pu_get_out: "cat_out_ok d \<Longrightarrow> pu_get d i = Some p \<Longrightarrow> puesto_out_ok p"
  by (auto simp add: cat_out_ok_def pu_get_def list_all_iff dest!: map_of_SomeD)

lemma un_get_out: "cat_out_ok d \<Longrightarrow> un_get d i = Some u \<Longrightarrow> unidad_out_ok u"
  by (auto simp add: cat_out_ok_def un_get_def list_all_iff dest!: map_of_SomeD)

lemma create_puesto_req_out:
  "cat_out_ok d \<Longrightarrow> cat_out_ok (fst (create_puesto_req cfg now h n desc act uid d))"
  by (auto simp add: create_puesto_req_def create_puesto_def pu_create_def validate_puesto_create_def
        cat_out_ok_def puesto_out_ok_def cat_commit_def Let_def split: sum.split option.split prod.split)

lemma update_puesto_req_out:
  assumes ok: "cat_out_ok d"
  shows "cat_out_ok (fst (update_puesto_req cfg now h pid raw d))"
proof -
  have "cat_out_ok d'" if v: "validate_each validate_pu_field raw = Some gs" and u: "pu_update pid gs d = Inr (d', r)" for gs d' r
  proof (cases r)
    case None
    then show ?thesis using u ok by (auto simp add: pu_update_def cat_commit_def split: option.splits sum.splits if_splits)
  next
    case (Some p')
    with u obtain p where g: "pu_get d pid = Some p" and s: "pu_set_fields p gs = Some p'"
      and d': "d' = d\<lparr>puestos := AList.update pid p' (puestos d)\<rparr>"
      by (auto simp add: pu_update_def cat_commit_def split: option.splits sum.splits if_splits)
    have "puesto_out_ok p'" by (rule pu_set_fields_out [OF v pu_get_out [OF ok g] s])
    then show ?thesis using ok d' by (simp add: cat_out_ok_def list_all_snd_update)
  qed
  then show ?thesis using ok
    by (auto simp add: update_puesto_req_def update_puesto_def split: sum.split option.split prod.split)
qed

lemma create_unidad_req_out:
  "cat_out_ok d \<Longrightarrow> cat_out_ok (fst (create_unidad_req cfg now h n desc act d))"
  by (auto simp add: create_unidad_req_def create_unidad_def un_create_def validate_unidad_create_def
        cat_out_ok_def unidad_out_ok_def cat_commit_def Let_def split: sum.split option.split prod.split)

lemma update_unidad_req_out:
  assumes ok: "cat_out_ok d"
  shows "cat_out_ok (fst (update_unidad_req cfg now h uid raw d))"
proof -
  have "cat_out_ok d'" if v: "validate_each validate_un_field raw = Some gs" and u: "un_update uid gs d = Inr (d', r)" for gs d' r
  proof (cases r)
    case None
    then show ?thesis using u ok by (auto simp add: un_update_def cat_commit_def split: option.splits sum.splits if_splits)
  next
    case (Some u')
    with u obtain x where g: "un_get d uid = Some x" and s: "un_set_fields x gs = Some u'"
      and d': "d' = d\<lparr>unidades := AList.update uid u' (unidades d)\<rparr>"
      by (auto simp add: un_update_def cat_commit_def split: option.splits sum.splits if_splits)
    have "unidad_out_ok u'" by (rule un_set_fields_out [OF v un_get_out [OF ok g] s])
    then show ?thesis using ok d' by (simp add: cat_out_ok_def list_all_snd_update)
  qed
  then show ?thesis using ok
    by (auto simp add: update_unidad_req_def update_unidad_def split: sum.split option.split prod.split)
qed

lemma delete_handlers_out:
  "cat_out_ok d \<Longrightarrow> cat_out_ok (fst (delete_puesto cfg now h pid d)) \<and> cat_out_ok (fst (delete_unidad cfg now h uid d))"
  by (auto simp add: delete_puesto_def delete_unidad_def pu_delete_def un_delete_def cat_out_ok_def
        list_all_snd_delete Let_def split: sum.split option.split prod.split)
    (auto simp add: list_all_iff)

lemma puestos_of_out: "cat_out_ok d \<Longrightarrow> list_all puesto_out_ok (puestos_of d i)"
  by (auto simp add: cat_out_ok_def puestos_of_def list_all_iff)

lemma public_reads_out:
  assumes ok: "cat_out_ok d"
  shows "list_puestos_out k inc d \<noteq> Inl CResponseInvalid \<and> list_unidades_out k inc d \<noteq> Inl CResponseInvalid
   \<and> get_unidad_out k uid d \<noteq> Inl CResponseInvalid"
proof -
  have po: "list_all puesto_out_ok (puestos_of d i)" for i by (rule puestos_of_out [OF ok])
  have pl: "list_all puesto_out_ok (pu_list inc d)"
    using ok by (auto simp add: pu_list_def cat_out_ok_def list_all_iff)
  have ul: "list_all unidad_full_ok (un_list_full inc d)"
    using ok po by (auto simp add: un_list_full_def un_list_def unidad_full_ok_def cat_out_ok_def list_all_iff)
  have ug: "unidad_full_ok r" if "un_get_full d uid = Some r" for r
    using that po un_get_out [OF ok] by (auto simp add: un_get_full_def unidad_full_ok_def)
  show ?thesis
    using pl ul ug
    by (auto simp add: list_puestos_out_def list_unidades_out_def get_unidad_out_def out_checked_def
          list_puestos_def list_unidades_def get_unidad_def split: sum.split option.split)
qed

text \<open>The catalogue's response models never fail: starting from a table whose rows pass
  them, every write through a validated body keeps it so, and then the public reads
  answer without a response validation error.\<close>

lemma catalogue_responses_valid:
  assumes ok: "cat_out_ok d"
  shows "cat_out_ok (fst (create_puesto_req cfg now h n desc act uid d))
    \<and> cat_out_ok (fst (update_puesto_req cfg now h pid praw d))
    \<and> cat_out_ok (fst (create_unidad_req cfg now h n desc act d))
    \<and> cat_out_ok (fst (update_unidad_req cfg now h uid uraw d))
    \<and> cat_out_ok (fst (delete_puesto cfg now h pid d)) \<and> cat_out_ok (fst (delete_unidad cfg now h uid d))
    \<and> list_puestos_out k inc d \<noteq> Inl CResponseInvalid \<and> list_unidades_out k inc d \<noteq> Inl CResponseInvalid
    \<and> get_unidad_out k uid d \<noteq> Inl CResponseInvalid"
  by (simp add: create_puesto_req_out [OF ok] update_puesto_req_out [OF ok] create_unidad_req_out [OF ok]
    update_unidad_req_out [OF ok] delete_handlers_out [OF ok] public_reads_out [OF ok])

end
