(* ===== verification/Spec2Isabelle.thy ===== *)
theory Spec2Isabelle
  imports Usuarios Catalogo Listado CvDownload Mailer Frontend ResponseModel AppWiring UserSchemas CatSchemas
begin

text \<open>
  \<^bold>\<open>A verification library for DonEmilioCVs: its real-time notification hub, the application service that feeds it, and the REST layer around them.\<close>

  \<^bold>\<open>The program.\<close> The repository is a FastAPI backend for a recruiting site. Its one
  component with shared mutable state is the notification hub: the \<open>ConnectionManager\<close>
  of \<open>src/Api/utils/websocket_manager.py\<close>, a process-wide singleton driven by the
  WebSocket route \<open>websocket_endpoint\<close> of \<open>src/Api/routers/websockets.py\<close> and by the
  REST handlers of \<open>src/Api/routers/postulaciones.py\<close>, which broadcast domain events
  (\<open>POSTULACION_CREATED\<close>, \<open>POSTULACION_UPDATED\<close>, \<open>POSTULACION_DELETED\<close>). The hub
  keeps a connection registry (\<open>active_connections\<close>: WebSocket to claimed identity)
  and a presence index (\<open>viewers\<close>: cv id to user id to display name); clients send
  \<open>ENTER_VIEW\<close> and \<open>EXIT_VIEW\<close> frames, and every change of a viewer list is
  broadcast to all connections as \<open>VIEWERS_UPDATE\<close>. The application service
  \<open>PostulacionesService\<close> keeps the table of job applications (created by a public
  upload, decided and edited by administrators); its router answers the REST calls and
  schedules the domain broadcasts as background tasks. The rest of the repository is
  CRUD over users, positions and units, file storage, e-mail and authentication;
  the users router issues the tokens the administrator guard checks.

  \<^bold>\<open>Theories.\<close>
  \<^item> \<open>Prelude\<close>: Python dicts as association lists. A dict keeps insertion order, and
    \<^const>\<open>AList.update\<close> overwrites a present key in place and appends a new one, as
    \<open>d[k] = v\<close> does; \<^const>\<open>AList.delete\<close> is \<open>del d[k]\<close>. \<open>dict_ok\<close> (distinct keys)
    and the lemmas on both operations, collected in \<open>dict_simps\<close>.
  \<^item> \<open>PyValue\<close>: the values \<open>json.loads\<close> produces (\<open>pyval\<close>, JSON numbers as
    integers) and the builtins the hub applies to client data, with their exceptions as
    \<open>Inl\<close> of \<open>py_error\<close>: \<open>dict.get\<close>, \<open>int()\<close> (including its parse of decimal
    strings) and truthiness.
  \<^item> \<open>ConnectionManager\<close>: the record \<open>manager\<close> and one definition per method, in the
    order of the class: \<open>connect\<close>, \<open>disconnect\<close> (its loop is \<open>purge_viewer\<close>),
    \<open>broadcast\<close>, \<open>handle_message\<close> (its two mutations are \<open>add_viewer\<close> and
    \<open>remove_viewer\<close>), \<open>broadcast_viewers\<close>. A send is a pair of a connection and the
    JSON value written to it; which sends fail is the parameter \<open>alive\<close>, since the
    code catches and drops every send error. The invariant \<open>hub_inv\<close> and its
    preservation by each state-changing method; the behaviour of each method on every
    branch (C3, C4, C5, C11, \<open>enter_view_keeps_order\<close>); the abstract presence map \<open>presence\<close> with
    \<open>enter_abs\<close>, \<open>exit_abs\<close>, \<open>drop_abs\<close>, and the refinement of each mutation
    (C9, \<open>disconnect_refinement\<close>).
  \<^item> \<open>WsEndpoint\<close>: the route. \<open>endpoint_step\<close> is one turn of a connection's receive
    loop or one of its two exception handlers; \<open>hub_step\<close> and \<open>hub_run\<close> drive the
    hub by events of any connection (the flows interleave at events, which is where the
    code awaits); \<open>hub_sys\<close>, \<open>allowed\<close>, \<open>sys_next\<close> and the inductive
    \<open>reachable\<close> give the connection lifecycle of spec 4.4 (a handle opens once, only an
    Active connection has events, closing is final). Invariant of all reachable states
    (C1), no stale presence (C2), malformed input (C6, C7, and the spec's examples in
    \<open>malformed_frames_ignored\<close>), absent handles (\<open>disconnect_unknown_handle\<close>), the
    \<open>VIEWERS_UPDATE\<close>s a disconnect sends (C8), and two behaviours the spec does not
    describe (C14, C15). The spec's hub is the abstract state \<open>hub_abs\<close> (registry and
    presence map) with \<open>abs_step\<close>, which decodes a frame once into \<open>inbound\<close>
    (\<open>decode_frame\<close>, spec 9) and applies \<open>enter_abs\<close>, \<open>exit_abs\<close> or
    \<open>drop_abs\<close>; every run of the hub, in any interleaving, refines it (C10).
  \<^item> \<open>Postulaciones\<close>: the application table (\<open>models/postulaciones.py\<close>) as a dict from
    primary key to the record \<open>postulacion\<close>, with the next autoincrement key, and one
    definition per method of \<open>PostulacionesService\<close> (\<open>services/postulaciones.py\<close>):
    \<open>get\<close>, \<open>create_from_upload\<close>, \<open>decide\<close> (its \<open>ValueError\<close>s are \<open>decide_error\<close>),
    \<open>update\<close> (the \<open>setattr\<close> loop is \<open>set_fields\<close>; a \<open>None\<close> in a NOT NULL column is
    the \<open>IntegrityError\<close> of the commit), \<open>delete\<close>, \<open>resumen_por_estado\<close>,
    \<open>count_nuevas\<close>, \<open>list_by_estado\<close>. The table invariant \<open>table_ok\<close> and its
    preservation by every writing method.
  \<^item> \<open>Files\<close>: the CV upload pipeline of \<open>utils/files.py\<close>, one definition per function
    (\<open>validate_ext\<close>, \<open>slugify\<close>, \<open>build_cv_filename\<close>, \<open>unique_path\<close>,
    \<open>save_upload_file_cv\<close>, \<open>cv_disk_path\<close>) over a directory listing, with
    \<open>posixpath.basename\<close>, \<open>join\<close> and \<open>splitext\<close> written out. The \<open>while\<close> loop of
    \<open>unique_path\<close> is the \<open>function\<close> \<open>unique_from\<close>; its termination is proved by the
    number of taken candidates still ahead, finite because \<open>str\<close> of an int is injective
    (\<open>PyValue.py_int_str_roundtrip\<close>). Lemmas: the loop returns a free path within
    \<open>len(existing) + 1\<close> tries (C27); checking the size after each chunk is checking
    the total (C28); \<open>slugify\<close> returns an idempotent slug (C29); a saved file is new,
    stays inside the CV directory and is found again from its stored name (C30).
  \<^item> \<open>PostulacionesRouter\<close>: the handlers of \<open>routers/postulaciones.py\<close> that read or write
    one row, each returning the new table, the response (\<open>Inl (status, detail)\<close> for an
    \<open>HTTPException\<close> or a 500) and the background tasks it scheduled; \<open>run_tasks\<close> runs
    those tasks on the hub as \<open>Domain\<close> events, which is how the two halves of the
    program meet. \<open>validate_decision_in\<close> is the pydantic schema of the decision body,
    \<open>counts_por_estado\<close> the counting endpoint with its loop body \<open>count_step\<close>. Lemmas:
    the invariant across all handlers (C17), each handler on every branch (C18, C19,
    \<open>create_postulacion_success\<close>, C23, \<open>update_postulacion_frame\<close>, \<open>update_not_null_is_500\<close>),
    the equivalence of the counting fold with a direct count (C24), and the public
    upload composed with the file pipeline (\<open>create_postulacion_upload\<close>): the new row
    points at the new file (C31), a rejected upload changes nothing
    (\<open>upload_error_no_effect\<close>).
  \<^item> \<open>Auth\<close>: the guards. \<open>create_token\<close> and \<open>validate_token\<close> of
    \<open>utils/jwt_manager.py\<close> (PyJWT as a payload signed by a key: \<open>jwt_decode\<close> checks the
    key and the \<open>exp\<close> claim), \<open>jwt_bearer\<close> (\<open>JWTBearer\<close> over FastAPI's
    \<open>HTTPBearer\<close>, written out as \<open>http_bearer\<close>), \<open>admin_required\<close> of
    \<open>utils/authz.py\<close>, and the guards of \<open>utils/api_key.py\<close>. Lemmas: a token
    validates to its payload exactly until it expires (C33); what \<open>admin_required\<close>
    (C34) and the Basic/API-key guard (\<open>api_key_guard_accepts\<close>) accept, exactly.
  \<^item> \<open>Usuarios\<close>: the users table (\<open>models/usuarios.py\<close>, UNIQUE \<open>correo\<close>), the
    schemas, \<open>UsuariosService\<close> (\<open>u_get\<close>, \<open>get_by_email\<close>, \<open>u_create\<close>,
    \<open>u_update\<close>, \<open>u_delete\<close>) and every handler of \<open>routers/usuarios.py\<close>. Lemmas:
    the table invariant \<open>users_ok\<close> across the writing handlers (C36); a user can make
    themselves an administrator with their own token (C37, see the findings); the token
    of \<open>login\<close> carries the user's id and grants administrator access exactly when the
    stored role is \<open>Admin\<close> (C38).
  \<^item> \<open>UserSchemas\<close>: the request bodies \<open>UsuarioCreate\<close>, \<open>UsuarioUpdate\<close> and
    \<open>UserLogin\<close> and the response model \<open>UsuarioOut\<close> of \<open>schemas/usuarios.py\<close>, and the
    users handlers as a client calls them (\<open>create_usuario_req\<close>,
    \<open>update_usuario_req\<close>, \<open>login_req\<close>: token, then body, then handler and response
    model). Lemma: a password of 6 or 7 characters, which \<open>PATCH\<close> accepts and
    \<open>UserLogin\<close> refuses, locks its user out (C20).
  \<^item> \<open>Catalogo\<close>: business units and positions (\<open>models\<close>, \<open>schemas\<close>, \<open>services\<close> and
    \<open>routers\<close> of \<open>unidades_negocio\<close> and \<open>puestos\<close>) in one state \<open>cdb\<close>, since a
    position's unit is a foreign key with \<open>ON DELETE CASCADE\<close>; \<open>cat_commit\<close> is the
    database's check of its constraints at the commit. Lemmas: the invariant \<open>cat_ok\<close>
    across every write handler (\<open>catalogue_handlers_preserve_cat_ok\<close>), the cascade of a
    unit's deletion (\<open>un_delete_cascade\<close>), a new unit has no positions
    (\<open>create_unidad_no_puestos\<close>), every write without an administrator token is refused
    with 401 or 403 and changes nothing (C39),
    and the public unit list with its embedded positions, inactive ones included
    (\<open>list_unidades_embeds_inactive\<close>).
  \<^item> \<open>CatSchemas\<close>: the catalogue's request bodies (\<open>PuestoCreate\<close>, \<open>PuestoUpdate\<close>,
    \<open>UnidadNegocioCreate\<close>, \<open>UnidadNegocioUpdate\<close>) and response models (\<open>PuestoOut\<close>,
    \<open>UnidadNegocioOutFull\<close>) around \<open>Catalogo\<close>'s handlers. Lemma: every write keeps
    every row valid for the response models, so the public reads never fail on them
    (\<open>catalogue_responses_valid\<close>).
  \<^item> \<open>Listado\<close>: the general listing, \<open>PostulacionesService.list\<close> (\<open>post_list\<close>) and
    its handler \<open>list_postulaciones\<close>. The search is SQL \<open>ILIKE '%q%'\<close>: \<open>like_match\<close>
    is the \<open>LIKE\<close> matcher (\<open>%\<close>, \<open>_\<close>, backslash escape), a \<open>fun\<close> over pattern and
    subject. Lemmas: without metacharacters the search is a case-insensitive substring
    test (C16), while \<open>q = "_"\<close> matches every row with a non-empty field
    (\<open>search_underscore_matches_all\<close>); paging at offsets \<open>0, limit, ...\<close> lists every
    match exactly once (C35).
  \<^item> \<open>CvDownload\<close>: \<open>view_cv_inline\<close> and \<open>download_cv\<close> with \<open>quote(name, safe="")\<close>
    in the RFC 5987 header; the header value is made of safe bytes only and decodes to
    the original name (C13).
  \<^item> \<open>EmailTemplates\<close>: the two templates of \<open>utils/email_templates.py\<close> with their
    literal text, and \<open>html.escape\<close> as its chain of replacements, equal to the
    character-wise escape (\<open>html_escape_eq\<close>). The applicant's data adds no markup to
    either body, and an escaped value decodes to itself (C22). \<open>fmt_dt\<close> is
    \<open>_fmt_dt\<close> (the conversion to \<open>TIMEZONE\<close> or UTC is a parameter); its text passes
    \<open>html.escape\<close> unchanged (\<open>escape_fmt_dt\<close>).
  \<^item> \<open>Mailer\<close>: \<open>utils/mailer.py\<close> (settings, \<open>_build_message\<close>, \<open>send_mail\<close> with its
    cross fallback) over an abstract SMTP attempt per transport, and the mail step of
    \<open>create_postulacion\<close> (\<open>upload_mails\<close>). A message is delivered exactly when the
    configured transport works, or fails with an \<open>SMTPException\<close> and the other works
    (C32). \<open>tls_context\<close> is \<open>_tls_context\<close>: both of its branches require a verified
    certificate, check the host name and refuse TLS below 1.2 (\<open>tls_context_verifies\<close>).
  \<^item> \<open>Frontend\<close>: the front-end routes of \<open>main.py\<close>; the catch-all
    \<open>GET /admin/{full_path:path}\<close> serves any file of the server named by its absolute
    path (C21, see the findings).
  \<^item> \<open>ResponseModel\<close>: \<open>PostulacionOut\<close> (\<open>postulacion_out\<close>, whose failing fields are
    \<open>out_errors\<close>), the field constraints of \<open>PostulacionUpdate\<close> (\<open>validate_field\<close>,
    \<open>validate_update\<close>), and FastAPI's validation of a handler's result against its
    \<open>response_model\<close> (\<open>out_response\<close>, \<open>serialize_response\<close>: a failure is a 500 after
    the commit, and the background tasks are dropped) around the get, create, decide and
    \<open>PATCH\<close> handlers. \<open>EmailStr\<close> is a parameter \<open>ev\<close> (the library
    \<open>email-validator\<close>: the normalised address, or \<open>None\<close>). Lemmas: a public
    application with an invalid address is stored and answered 500, and every later read
    of it fails too (C12); the administrators' writes keep every row valid for the
    response model, so reads never fail on such a table (C26).
  \<^item> \<open>AppWiring\<close>: \<open>main.py\<close>'s application as Starlette builds it: \<open>add_middleware\<close>
    puts the last one added outermost, so the stack is \<open>ServerErrorMiddleware\<close>,
    \<open>ErrorHandler\<close>, \<open>CORSMiddleware\<close> (\<open>cors_mw\<close> with main.py's settings
    \<open>app_cors\<close>), \<open>ExceptionMiddleware\<close>, the routes (\<open>main_app\<close>). The routes and the
    missing module's \<open>ErrorHandler\<close> are parameters. Lemma: every origin gets
    credentialed access, and an unhandled exception's answer bypasses CORS (C40). Also
    \<open>get_db\<close> of \<open>config/database.py\<close> over a session with \<open>autocommit=False\<close>
    (\<open>run_session\<close>): nothing uncommitted survives a request
    (\<open>get_db_no_commit\<close>), the stored state always satisfies the database's constraints
    (\<open>get_db_constraints\<close>), and one staged change with its commit is \<open>Catalogo\<close>'s
    \<open>cat_commit\<close> (\<open>get_db_cat_commit\<close>).
  \<^item> This theory: the spec's end-to-end scenario as one run (\<open>ana_beto_scenario\<close>), and the two properties that span
    the REST layer and the hub: a decision reaches every live client (C25), an edit
    reaches none (\<open>edit_silent\<close>).

  \<^bold>\<open>Modelling choices.\<close> WebSocket handles are \<open>nat\<close>s compared by identity; ids are
  Python ints, so \<open>int\<close>. An event is one turn of a flow's receive loop or one of
  its exception handlers, and it runs atomically. This is exact for the hub's
  mutations, which contain no \<open>await\<close>, and for a \<open>broadcast\<close>'s recipients, which
  it takes from a copy of the registry when it starts
  (\<open>list(self.active_connections.keys())\<close>). It is coarser than the code for the
  sends: each \<open>send_text\<close> of a broadcast, and each \<open>broadcast_viewers\<close> of the
  disconnect handler's loop over the affected cvs (websockets.py:26-27), is an
  \<open>await\<close> at which other flows can run, while the model makes all of them within
  the one event, every \<open>broadcast_viewers\<close> reading the viewer lists as the disconnect
  left them. A registration or a presence change by another connection between two
  of those sends is therefore not modelled. A REST handler runs atomically on the table (one request at a time),
  and its background tasks run on the hub after it. Timestamps are integers and the
  current time is a parameter. Strings are byte lists: a Python \<open>str\<close> is modelled by
  its UTF-8 encoding, which is what \<open>quote\<close> and the e-mail bodies carry. Three
  consequences are exact only on ASCII text: case folding (\<open>py_lower\<close>, and
  \<open>ILIKE\<close> in \<open>like_match\<close>) and \<open>py_strip\<close> treat ASCII letters and ASCII
  whitespace only; pydantic's \<open>min_length\<close>/\<open>max_length\<close> count characters where
  the model counts bytes, so on non-ASCII input the model's constraints are stricter;
  \<open>slugify\<close>'s \<open>unicodedata.normalize("NFKD", ...)\<close> is not modelled, \<open>ascii_fold\<close>
  only drops the non-ASCII bytes, so an accented letter is dropped instead of being
  replaced by its base letter. No loop needs fuel: every loop but one runs over a
  finite list, and that one, \<open>unique_path\<close>, is a total function whose termination is
  proved.

  \<^bold>\<open>Not modelled.\<close> \<open>json.dumps\<close>/\<open>json.loads\<close> themselves (a frame is its decoded
  \<open>pyval\<close>, or \<open>None\<close> when it is no JSON), the transport (\<open>accept\<close>,
  \<open>send_text\<close> beyond success or failure), floating-point JSON numbers. Of the REST
  layer: the time zone conversions themselves (in \<open>_fmt_dt\<close> and in the file name's
  time stamp the converted time is a parameter), concurrent requests (one request at a
  time: two simultaneous uploads of the same name can pick the same path, see the
  findings); the application handlers take the
  payload \<open>admin_required\<close> returned (\<open>Auth\<close> states what it accepts); the autoincrement value a failed insert
  consumes; the applications' foreign keys into units and positions; the bcrypt salt
  and bcrypt's truncation of a password to its first 72 bytes (the hash is an injective
  marker-prefixed string, so two passwords that agree on 72 bytes are told apart in
  the model and not by bcrypt); of PyJWT's default checks, those beyond the key and
  \<open>exp\<close>: \<open>jwt.decode\<close> also refuses a token with an \<open>aud\<close> claim (no audience is
  passed) or an \<open>nbf\<close> or \<open>iat\<close> in the future, which no token of \<open>create_token\<close>
  has, but a token signed with the key by other means may; the commit's check of
  \<open>UNIQUE(correo)\<close> in \<open>u_create\<close> (its one caller, \<open>create_usuario\<close>, checks
  \<open>get_by_email\<close> first, and requests run one at a time); the database collation:
  \<open>GROUP BY\<close> and comparisons are byte-exact, as under PostgreSQL's default
  deterministic collations, and a \<open>LIKE\<close> pattern that ends with a lone backslash is
  matched as a literal backslash where PostgreSQL raises (the search's pattern
  \<open>%q%\<close> never ends with one); \<open>formataddr\<close> and the \<open>From\<close> header; the SMTP dialogue
  (I/O, abstracted to the outcome of an attempt); \<open>middlewares/error_handler.py\<close>, which
  main.py imports but the repository does not contain (a parameter); the dispatch of
  \<open>include_router\<close> among the routers (each router's handlers are modelled in their
  theories) and \<open>create_all\<close>; the engine's pool settings; what the database server
  does with a value wider than its column (it depends on the server's mode); the
  email-validator library (a parameter); the module imports, which are no behaviour.

  \<^bold>\<open>Possible extensions\<close>: a finer interleaving model in which a broadcast is
  one step per send, so that registrations and disconnects can happen between its sends;
  the applications' foreign keys into the catalogue (deleting a unit or position that
  an application references).
\<close>

text \<open>
  The spec's scenario (spec 8) as one run: Ana (id 1) and Beto (id 2) connect, Ana enters cv
  42; both receive a \<open>VIEWERS_UPDATE\<close> listing Ana; Ana disconnects; Beto receives the
  empty list. A domain event broadcast with no connection sends nothing and changes
  nothing. The payload keys are the code's, \<open>cvId\<close> and \<open>nombre\<close>.
\<close>

theorem ana_beto_scenario:
  "hub_run (\<lambda>_. True) init_manager
     [Open 1 (Some 1) (Some ''Ana''), Open 2 (Some 2) (Some ''Beto''),
      Frame 1 (Receive (Some (enter_msg 42))), Frame 1 Disconnected]
   = (\<lparr>active_connections = [(2, \<lparr>ui_id = 2, ui_nombre = ''Beto''\<rparr>)], viewers = [(42, [])]\<rparr>,
      [(1, PDict [(''type'', PStr ''VIEWERS_UPDATE''), (''payload'', PDict [(''cvId'', PInt 42),
              (''viewers'', PList [PDict [(''id'', PInt 1), (''nombre'', PStr ''Ana'')]])])]),
       (2, PDict [(''type'', PStr ''VIEWERS_UPDATE''), (''payload'', PDict [(''cvId'', PInt 42),
              (''viewers'', PList [PDict [(''id'', PInt 1), (''nombre'', PStr ''Ana'')]])])]),
       (2, PDict [(''type'', PStr ''VIEWERS_UPDATE''), (''payload'', PDict [(''cvId'', PInt 42),
              (''viewers'', PList [])])])])
   \<and> hub_run (\<lambda>_. True) init_manager
       [Domain ''POSTULACION_CREATED'' (PDict [(''id'', PInt 7), (''estado'', PStr ''nueva'')])]
     = (init_manager, [])"
  by (simp add: init_manager_def connect_def endpoint_user_def handle_message_def py_get_int_def add_viewer_def
      viewers_of_def broadcast_viewers_def broadcast_def disconnect_def Let_def)

text \<open>
  C25. A successful decision reaches every client: the background task it schedules,
  run on the hub after the response, leaves the hub state unchanged and sends one
  \<open>POSTULACION_UPDATED\<close> message, carrying the row's id and its new estado, to each
  connection registered at that moment whose send succeeds.
\<close>

theorem decision_announced:
  assumes "table_ok d" and "decidir_postulacion now pid payload jwt d = (d', Inr obj, ts)"
  shows "run_tasks alive s ts =
           (s, [(c, PDict [(''type'', PStr ''POSTULACION_UPDATED''),
                           (''payload'', PDict [(''id'', PInt pid), (''estado'', PStr (estado obj))])]).
                c \<leftarrow> map fst (active_connections s), alive c])"
  using decidir_Inr_task [OF assms] by (simp add: run_tasks_def broadcast_def Let_def)

theorem decision_announced_witness:
  "run_tasks (\<lambda>c. c \<noteq> 1) demo_hub
     (snd (snd (decidir_postulacion 500 1 \<lparr>di_estado = ''destacada'', di_motivo = ''buen perfil'', di_unidad_id = None,
        di_puesto_id = None\<rparr> (PDict [(''uid'', PInt 7)]) demo_db)))
   = (demo_hub, [(2, PDict [(''type'', PStr ''POSTULACION_UPDATED''),
                           (''payload'', PDict [(''id'', PInt 1), (''estado'', PStr ''destacada'')])])])"
proof -
  define r where "r = decidir_postulacion 500 1 \<lparr>di_estado = ''destacada'', di_motivo = ''buen perfil'', di_unidad_id = None,
        di_puesto_id = None\<rparr> (PDict [(''uid'', PInt 7)]) demo_db"
  have res: "r = (fst r, Inr (demo_row\<lparr>estado := ''destacada'', decidido_motivo := Some ''buen perfil'',
                     decidido_por_user_id := Some 7, decidido_en := Some 500\<rparr>), snd (snd r))"
    by (simp add: r_def decidir_postulacion_def reviewer_id_def decide_def get_def demo_db_def demo_row_def
        py_strip_def py_isspace_def Let_def)
  show ?thesis
    using decision_announced [OF table_ok_demo_db res [unfolded r_def], where alive = "\<lambda>c. c \<noteq> 1" and s = demo_hub]
    by (simp add: demo_hub_def)
qed

text \<open>
  An edit through \<open>PATCH\<close> reaches no client: even when it changes the table, the
  handler schedules no task, so no connection hears of it. The code means to broadcast
  \<open>POSTULACION_UPDATED\<close> after the edit, but that call sits after the \<open>return\<close>.
\<close>

theorem edit_silent:
  "update_postulacion pid fs d = (d', Inr obj', ts) \<Longrightarrow> d' \<noteq> d \<Longrightarrow>
   get d' pid = Some obj' \<and> run_tasks alive s ts = (s, [])"
  using update_postulacion_tasks [of pid fs d]
  by (auto simp add: update_postulacion_def update_def get_def update_conv' run_tasks_def
           split: option.splits sum.splits db_error.splits)

theorem edit_silent_witness:
  "update_postulacion 1 [SetNota (Some ''llamar'')] demo_db
     = (\<lparr>postulaciones = [(1, demo_row\<lparr>nota := Some ''llamar''\<rparr>)], next_pk = 2\<rparr>, Inr (demo_row\<lparr>nota := Some ''llamar''\<rparr>), [])
   \<and> run_tasks (\<lambda>_. True) demo_hub [] = (demo_hub, [])"
proof -
  have run: "update_postulacion 1 [SetNota (Some ''llamar'')] demo_db
     = (\<lparr>postulaciones = [(1, demo_row\<lparr>nota := Some ''llamar''\<rparr>)], next_pk = 2\<rparr>, Inr (demo_row\<lparr>nota := Some ''llamar''\<rparr>), [])"
    by (simp add: update_postulacion_def update_def get_def demo_db_def)
  have "\<lparr>postulaciones = [(1, demo_row\<lparr>nota := Some ''llamar''\<rparr>)], next_pk = 2\<rparr> \<noteq> demo_db"
    by (simp add: demo_db_def demo_row_def)
  from edit_silent [OF run this, where alive = "\<lambda>_. True" and s = demo_hub] run show ?thesis by simp
qed

end
